(* ===== verification/Nrf_Prelude.thy ===== *)
theory Nrf_Prelude
  imports Main "HOL-Library.Word" "HOL-Library.Sublist"
begin

text \<open>
  Shared vocabulary of the development: the C integer types at the widths of the 64-bit
  Raspberry Pi 5 target (\<open>unsigned long\<close> is 64 bits wide), the error numbers the driver
  returns, the outcome type that makes undefined behaviour a value, little- and big-endian
  byte encodings, C strings, the driver's bounded wait loops, and reachability with the
  locale in which invariants are lifted from one step to every reachable state.
\<close>

unbundle bit_operations_syntax

subsection \<open>Machine integers and error numbers\<close>

type_synonym u8 = "8 word"
type_synonym u16 = "16 word"
type_synonym u32 = "32 word"
type_synonym u64 = "64 word"
type_synonym ulong = "64 word"

text \<open>The \<open>errno\<close> values of the Linux ABI that the driver returns negated.\<close>

abbreviation EIO :: int where "EIO \<equiv> 5"
abbreviation ENOEXEC :: int where "ENOEXEC \<equiv> 8"
abbreviation ENOMEM :: int where "ENOMEM \<equiv> 12"
abbreviation EFAULT :: int where "EFAULT \<equiv> 14"
abbreviation ENODEV :: int where "ENODEV \<equiv> 19"
abbreviation EINVAL :: int where "EINVAL \<equiv> 22"
abbreviation ENODATA :: int where "ENODATA \<equiv> 61"
abbreviation EOPNOTSUPP :: int where "EOPNOTSUPP \<equiv> 95"
abbreviation ENETDOWN :: int where "ENETDOWN \<equiv> 100"
abbreviation ETIMEDOUT :: int where "ETIMEDOUT \<equiv> 110"

subsection \<open>Undefined behaviour as a value\<close>

datatype ub = OutOfBounds | NullDeref | InvalidFree | Uninitialised | UseAfterFree | AtomicSleep

datatype 'a outcome = Ret 'a | UB ub

fun defined :: "'a outcome \<Rightarrow> bool" where
  "defined (Ret _) = True"
| "defined (UB _) = False"

fun and_then :: "'a outcome \<Rightarrow> ('a \<Rightarrow> 'b outcome) \<Rightarrow> 'b outcome" where
  "and_then (Ret a) f = f a"
| "and_then (UB u) f = UB u"

lemma and_then_eq_Ret: "and_then r f = Ret b \<longleftrightarrow> (\<exists>a. r = Ret a \<and> f a = Ret b)"
  by (cases r) auto

lemma defined_and_then: "defined (and_then r f) \<longleftrightarrow> (\<exists>a. r = Ret a \<and> defined (f a))"
  by (cases r) auto

lemma defined_iff: "defined r \<longleftrightarrow> (\<exists>a. r = Ret a)"
  by (cases r) auto

subsection \<open>Byte order\<close>

definition le16 :: "u16 \<Rightarrow> u8 list" where
  "le16 x = [ucast x, ucast (drop_bit 8 x)]"

definition le32 :: "u32 \<Rightarrow> u8 list" where
  "le32 x = [ucast x, ucast (drop_bit 8 x), ucast (drop_bit 16 x), ucast (drop_bit 24 x)]"

definition be32 :: "u32 \<Rightarrow> u8 list" where
  "be32 x = rev (le32 x)"

fun get_le16 :: "u8 list \<Rightarrow> u16" where
  "get_le16 (a # b # _) = ucast a OR push_bit 8 (ucast b)"
| "get_le16 _ = 0"

fun get_le32 :: "u8 list \<Rightarrow> u32" where
  "get_le32 (a # b # c # d # _) =
     ucast a OR push_bit 8 (ucast b) OR push_bit 16 (ucast c) OR push_bit 24 (ucast d)"
| "get_le32 _ = 0"

lemma length_le [simp]: "length (le16 x) = 2" "length (le32 y) = 4" "length (be32 y) = 4"
  by (simp_all add: le16_def le32_def be32_def)

lemma get_le16_le16 [simp]: "get_le16 (le16 x @ r) = x"
  by (rule bit_word_eqI) (auto simp: le16_def bit_simps)

lemma get_le32_le32 [simp]: "get_le32 (le32 x @ r) = x"
proof (rule bit_word_eqI)
  fix n
  assume "n < LENGTH(32)"
  then consider "n < 8" | "8 \<le> n" "n < 16" | "16 \<le> n" "n < 24" | "24 \<le> n" "n < 32"
    by fastforce
  then show "bit (get_le32 (le32 x @ r)) n = bit x n"
    by cases (auto simp: le32_def bit_simps)
qed

lemma unat_u8_less [simp]: "unat (c :: u8) < 256"
  using unsigned_less [of c] by simp

text \<open>\<open>memcpy\<close> of a whole source to the beginning of an array of the given capacity.\<close>

definition copy_to :: "nat \<Rightarrow> u8 list \<Rightarrow> u8 list outcome" where
  "copy_to capacity bytes = (if length bytes \<le> capacity then Ret bytes else UB OutOfBounds)"

subsection \<open>C strings\<close>

text \<open>
  A character buffer is a \<^typ>\<open>string\<close>; the C string in it ends at the first NUL.
  \<open>strstr\<close> returns the suffix of the haystack that starts at the first match.
\<close>

definition cstr :: "string \<Rightarrow> string" where
  "cstr buf = takeWhile (\<lambda>c. c \<noteq> CHR 0x00) buf"

fun strstr :: "string \<Rightarrow> string \<Rightarrow> string option" where
  "strstr [] needle = (if needle = [] then Some [] else None)"
| "strstr (c # cs) needle =
     (if prefix needle (c # cs) then Some (c # cs) else strstr cs needle)"

lemma strstr_SomeD:
  "strstr hay needle = Some r \<Longrightarrow> prefix needle r \<and> suffix r hay"
  by (induction hay) (auto split: if_splits intro: suffix_ConsI)

lemma strstr_None_iff: "strstr hay needle = None \<longleftrightarrow> \<not> sublist needle hay"
  by (induction hay) (auto simp: sublist_Cons_right)

lemma strstr_prefix: "prefix needle hay \<Longrightarrow> strstr hay needle = Some hay"
  by (cases hay) auto

lemma strstr_skip:
  "c \<notin> set pre \<Longrightarrow> strstr (pre @ c # rest) [c] = Some (c # rest)"
  by (induction pre) auto

subsection \<open>Bounded wait loops\<close>

text \<open>
  \<open>while (!flag && count-- > 0) msleep(d);\<close> is the driver's way to wait for an event that
  another thread records. Every evaluation of the flag is one instant; \<open>flag t\<close> is its
  value at instant \<open>t\<close>. The result is the instant at which the loop was left.
\<close>

fun poll :: "(nat \<Rightarrow> bool) \<Rightarrow> nat \<Rightarrow> nat \<Rightarrow> nat" where
  "poll flag t 0 = t"
| "poll flag t (Suc count) = (if flag t then t else poll flag (Suc t) count)"

lemma poll_bounds: "t \<le> poll flag t count \<and> poll flag t count \<le> t + count"
proof (induction count arbitrary: t)
  case (Suc count)
  from Suc.IH [of "Suc t"] show ?case by auto
qed simp

lemma poll_stops_early: "poll flag t count < t + count \<Longrightarrow> flag (poll flag t count)"
  by (induction count arbitrary: t) auto

lemma poll_not_before:
  "t \<le> i \<Longrightarrow> i < poll flag t count \<Longrightarrow> \<not> flag i"
proof (induction count arbitrary: t)
  case (Suc count)
  from Suc.IH [of "Suc t"] Suc.prems show ?case
    by (cases "i = t") (auto split: if_splits)
qed simp

lemma poll_timeout:
  "(\<forall>i. t \<le> i \<and> i < t + count \<longrightarrow> \<not> flag i) \<Longrightarrow> poll flag t count = t + count"
  using poll_bounds [of t flag count] poll_stops_early [of flag t count]
  by (metis le_neq_implies_less)

lemma poll_found:
  assumes "t \<le> i" and "i \<le> t + count" and "flag i" and "\<And>j. t \<le> j \<Longrightarrow> j < i \<Longrightarrow> \<not> flag j"
  shows "poll flag t count = i"
proof (rule ccontr)
  assume ne: "poll flag t count \<noteq> i"
  show False
  proof (cases "poll flag t count < i")
    case True
    with assms(2) poll_stops_early [of flag t count] have "flag (poll flag t count)"
      by linarith
    with True assms(4) poll_bounds [of t flag count] show False by blast
  next
    case False
    with ne have "i < poll flag t count" by simp
    with assms(1,3) poll_not_before show False by blast
  qed
qed

subsection \<open>Reachable states\<close>

inductive reach :: "('s \<Rightarrow> bool) \<Rightarrow> ('s \<Rightarrow> 's \<Rightarrow> bool) \<Rightarrow> 's \<Rightarrow> bool"
  for init :: "'s \<Rightarrow> bool" and step :: "'s \<Rightarrow> 's \<Rightarrow> bool" where
  reach_init: "init s \<Longrightarrow> reach init step s"
| reach_step: "reach init step s \<Longrightarrow> step s t \<Longrightarrow> reach init step t"

locale invariant_system =
  fixes init :: "'s \<Rightarrow> bool" and step :: "'s \<Rightarrow> 's \<Rightarrow> bool" and invar :: "'s \<Rightarrow> bool"
  assumes invar_init: "init s \<Longrightarrow> invar s"
    and invar_step: "invar s \<Longrightarrow> step s t \<Longrightarrow> invar t"
begin

lemma reach_invar: "reach init step s \<Longrightarrow> invar s"
  by (induction rule: reach.induct) (auto intro: invar_init invar_step)

end

end
