(* ===== verification/Linux_Util.thy ===== *)
theory Linux_Util
  imports Nrf_Prelude "HOL-Library.Signed_Division"
begin

text \<open>
  The text helpers of the driver: \<open>hex_str_to_val\<close> of \<open>linux_util.c\<close>, which decodes a string
  of hexadecimal digits into a byte array of the caller, and the \<open>name=value\<close> matchers that
  \<open>debugfs/main.c\<close>, \<open>debugfs/wlan_fmac_twt.c\<close> and \<open>debugfs/radio_test.c\<close> define for the lines
  written to their debugfs files. The decoder is shown to be total, to stay inside the array
  and to be the inverse of a reference encoder; the matchers are shown to parse the value
  that follows the first equals sign of the line.
\<close>

subsection \<open>Decoding hexadecimal strings\<close>

text \<open>
  \<open>str\<close> is the byte string before the terminating NUL; \<open>hex_arr\<close> is the memory of the
  destination, whose real size the function does not know: a write past its end is
  undefined. \<open>len\<close> is the \<open>int\<close> that receives the \<open>size_t\<close> of \<open>strlen\<close>, and the test
  \<open>len / 2 > hex_arr_sz\<close> compares in \<open>unsigned int\<close>.
\<close>

definition lower_case :: "u8 \<Rightarrow> u8" where
  "lower_case c = (if 65 \<le> c \<and> c \<le> 90 then c + 32 else c)"

definition hex_digit :: "u8 \<Rightarrow> u8 option" where
  "hex_digit ch =
     (if (ch < 48 \<or> ch > 57) \<and> (ch < 97 \<or> ch > 102) then None
      else if 48 \<le> ch \<and> ch \<le> 57 then Some (ch - 48)
      else Some (ch - 97 + 10))"

fun hex_loop :: "u8 list \<Rightarrow> nat \<Rightarrow> nat \<Rightarrow> u8 \<Rightarrow> u8 list \<Rightarrow> (int \<times> u8 list) outcome" where
  "hex_loop [] i j val hex_arr = Ret (int j, hex_arr)"
| "hex_loop (c # cs) i j val hex_arr =
     (case hex_digit (lower_case c) of
        None \<Rightarrow> Ret (-1, hex_arr)
      | Some ch \<Rightarrow>
          let val = val + ch in
          if i mod 2 = 0 then hex_loop cs (Suc i) j (push_bit 4 val) hex_arr
          else if j < length hex_arr
               then hex_loop cs (Suc i) (Suc j) 0 (hex_arr[j := val])
               else UB OutOfBounds)"

definition strlen_int :: "u8 list \<Rightarrow> int" where
  "strlen_int str = sint (of_nat (length str) :: u32)"

definition hex_str_to_val :: "u8 list \<Rightarrow> u32 \<Rightarrow> u8 list \<Rightarrow> (int \<times> u8 list) outcome" where
  "hex_str_to_val hex_arr hex_arr_sz str =
     (let len = strlen_int str in
      if (word_of_int (len sdiv 2) :: u32) > hex_arr_sz then Ret (-1, hex_arr)
      else if len smod 2 \<noteq> 0 then Ret (-1, hex_arr)
      else hex_loop (take (nat len) str) 0 0 0 hex_arr)"

text \<open>The reference: two hexadecimal digits per byte, and the encoder that prints them.\<close>

definition is_hex :: "u8 \<Rightarrow> bool" where
  "is_hex c \<longleftrightarrow> (48 \<le> c \<and> c \<le> 57) \<or> (97 \<le> c \<and> c \<le> 102) \<or> (65 \<le> c \<and> c \<le> 70)"

definition nibble :: "u8 \<Rightarrow> u8" where
  "nibble c = the (hex_digit (lower_case c))"

fun hex_bytes :: "u8 list \<Rightarrow> u8 list" where
  "hex_bytes (a # b # cs) = (push_bit 4 (nibble a) + nibble b) # hex_bytes cs"
| "hex_bytes _ = []"

definition hex_char :: "bool \<Rightarrow> u8 \<Rightarrow> u8" where
  "hex_char upper d = (if d < 10 then 48 + d else if upper then 55 + d else 87 + d)"

definition hex_encode :: "bool \<Rightarrow> u8 list \<Rightarrow> u8 list" where
  "hex_encode upper bs =
     concat (map (\<lambda>b. [hex_char upper (drop_bit 4 b), hex_char upper (b AND 15)]) bs)"

lemmas byte_nat = word_le_nat_alt word_less_nat_alt word_unat_eq_iff unat_word_ariths unat_sub_if'

lemma hex_digit_lower_case: "hex_digit (lower_case c) = None \<longleftrightarrow> \<not> is_hex c"
  by (auto simp: hex_digit_def lower_case_def is_hex_def byte_nat)

lemma hex_char_nibble:
  assumes "unat d < 16"
  shows "is_hex (hex_char upper d) \<and> nibble (hex_char upper d) = d"
  using assms
  by (auto simp: nibble_def hex_char_def hex_digit_def lower_case_def is_hex_def byte_nat)

lemma unat_nibbles [simp]: "unat (drop_bit 4 b :: u8) < 16" "unat (b AND 15 :: u8) < 16"
proof -
  have "unat b div 16 < 16"
    by (simp add: less_mult_imp_div_less)
  then show "unat (drop_bit 4 b) < 16"
    by (simp add: unsigned_drop_bit_eq drop_bit_eq_div unat_div)
  have "b AND 15 = take_bit 4 b"
    by (simp add: take_bit_eq_mask mask_eq_exp_minus_1)
  then show "unat (b AND 15) < 16"
    by (simp add: unsigned_take_bit_eq take_bit_eq_mod unat_mod)
qed

lemma split_byte: "push_bit 4 (drop_bit 4 b) + (b AND 15) = (b :: u8)"
  using bits_ident [of 4 b] by (simp add: take_bit_eq_mask mask_eq_exp_minus_1)

text \<open>The loop, from an even position: two digits make one byte of the array.\<close>

lemma hex_loop_ok:
  assumes "list_all is_hex str" and "even (length str)" and "even i"
    and "j + length str div 2 \<le> length hex_arr"
  shows "hex_loop str i j 0 hex_arr =
     Ret (int (j + length str div 2),
          take j hex_arr @ hex_bytes str @ drop (j + length str div 2) hex_arr)"
  using assms
proof (induction str arbitrary: i j hex_arr rule: hex_bytes.induct)
  case (1 a b cs)
  obtain x y where xy: "hex_digit (lower_case a) = Some x" "hex_digit (lower_case b) = Some y"
    using "1.prems"(1) hex_digit_lower_case [of a] hex_digit_lower_case [of b] by auto
  have j: "j < length hex_arr" using "1.prems"(4) by simp
  have "hex_loop cs (Suc (Suc i)) (Suc j) 0 (hex_arr[j := push_bit 4 x + y]) =
     Ret (int (Suc j + length cs div 2),
          take (Suc j) (hex_arr[j := push_bit 4 x + y]) @ hex_bytes cs @
          drop (Suc j + length cs div 2) (hex_arr[j := push_bit 4 x + y]))"
    using "1.prems" by (intro "1.IH") auto
  moreover have "take (Suc j) (hex_arr[j := push_bit 4 x + y]) = take j hex_arr @ [push_bit 4 x + y]"
    using j by (simp add: take_Suc_conv_app_nth take_update_swap list_update_append)
  ultimately show ?case
    using xy j "1.prems"(3) by (simp add: Let_def nibble_def even_iff_mod_2_eq_zero mod_Suc drop_update_cancel)
qed simp_all

text \<open>A character that is no digit stops the loop with -1; the bytes of the digit pairs before
  it have been stored already, nothing beyond the claimed room is touched.\<close>

lemma hex_loop_bad:
  assumes "\<not> list_all is_hex str" and "j + (i mod 2 + length str) div 2 \<le> k" and "k \<le> length hex_arr"
  shows "\<exists>a. hex_loop str i j val hex_arr = Ret (-1, a) \<and> length a = length hex_arr
           \<and> drop k a = drop k hex_arr"
  using assms
proof (induction str arbitrary: i j val hex_arr)
  case (Cons c cs)
  show ?case
  proof (cases "is_hex c")
    case True
    then obtain d where d: "hex_digit (lower_case c) = Some d"
      using hex_digit_lower_case [of c] by auto
    show ?thesis
    proof (cases "even i")
      case True
      then have "\<exists>a. hex_loop cs (Suc i) j (push_bit 4 (val + d)) hex_arr = Ret (-1, a)
          \<and> length a = length hex_arr \<and> drop k a = drop k hex_arr"
        using Cons.prems \<open>is_hex c\<close> by (intro Cons.IH) (auto simp: mod_Suc)
      with d True show ?thesis by (simp add: Let_def even_iff_mod_2_eq_zero)
    next
      case False
      then have j: "j < k" "j < length hex_arr" and r: "Suc j + (Suc i mod 2 + length cs) div 2 \<le> k"
        using Cons.prems by (auto simp: mod_Suc odd_iff_mod_2_eq_one)
      have "\<exists>a. hex_loop cs (Suc i) (Suc j) 0 (hex_arr[j := val + d]) = Ret (-1, a)
          \<and> length a = length (hex_arr[j := val + d]) \<and> drop k a = drop k (hex_arr[j := val + d])"
        using Cons.prems \<open>is_hex c\<close> r by (intro Cons.IH) auto
      with d j False show ?thesis by (simp add: Let_def even_iff_mod_2_eq_zero)
    qed
  qed (use hex_digit_lower_case [of c] in auto)
qed simp

lemma strlen_int_small: "length str < 2 ^ 31 \<Longrightarrow> strlen_int str = int (length str)"
  by (simp add: strlen_int_def signed_of_nat signed_take_bit_int_eq_self)

lemma hex_str_to_val_unfold:
  assumes "length str < 2 ^ 31"
  shows "hex_str_to_val hex_arr hex_arr_sz str =
     (if length str div 2 > unat hex_arr_sz \<or> odd (length str) then Ret (-1, hex_arr)
      else hex_loop str 0 0 0 hex_arr)"
proof -
  have "int (length str) sdiv 2 = int (length str div 2)"
    by (cases str) (simp_all add: signed_divide_int_def zdiv_int)
  moreover have "int (length str) smod 2 = int (length str mod 2)"
    by (cases str) (simp_all add: signed_modulo_int_def signed_divide_int_def zdiv_int zmod_int minus_div_mult_eq_mod)
  moreover have "unat (word_of_int (int (length str div 2)) :: u32) = length str div 2"
    using assms by (simp add: unat_of_nat)
  ultimately show ?thesis
    by (auto simp: hex_str_to_val_def strlen_int_small [OF assms] word_less_nat_alt Let_def
        odd_iff_mod_2_eq_one)
qed

lemma hex_bytes_encode: "hex_bytes (hex_encode upper bs) = bs"
  by (induction bs) (simp_all add: hex_encode_def hex_char_nibble split_byte)

lemma hex_encode_props: "length (hex_encode upper bs) = 2 * length bs \<and> list_all is_hex (hex_encode upper bs)"
  by (induction bs) (simp_all add: hex_encode_def hex_char_nibble)

text \<open>
  When the caller's array has at least the \<open>hex_arr_sz\<close> bytes it announces (and the string
  is shorter than 2 GiB, so that its length fits the \<open>int\<close>), \<open>hex_str_to_val\<close> never leaves the
  array. It succeeds exactly on strings of an even number of hexadecimal digits, in either
  case, that fit the array: it then returns the number of bytes, stores the decoded bytes at
  the front and keeps the rest; on every other string it returns -1 and nothing beyond the
  announced size changes.
\<close>

theorem hex_str_to_val_spec:
  assumes "length str < 2 ^ 31" and "unat hex_arr_sz \<le> length hex_arr"
  shows "if even (length str) \<and> length str div 2 \<le> unat hex_arr_sz \<and> list_all is_hex str
     then hex_str_to_val hex_arr hex_arr_sz str =
            Ret (int (length str div 2), hex_bytes str @ drop (length str div 2) hex_arr)
     else \<exists>a. hex_str_to_val hex_arr hex_arr_sz str = Ret (-1, a) \<and> length a = length hex_arr
            \<and> drop (unat hex_arr_sz) a = drop (unat hex_arr_sz) hex_arr"
proof (cases "even (length str) \<and> length str div 2 \<le> unat hex_arr_sz")
  case True
  with assms hex_loop_ok [of str 0 0 hex_arr] hex_loop_bad [of str 0 0 "unat hex_arr_sz" hex_arr 0]
  show ?thesis
    by (simp add: hex_str_to_val_unfold)
qed (use assms in \<open>auto simp: hex_str_to_val_unfold\<close>)

theorem hex_str_to_val_spec_witness:
  "hex_str_to_val [0, 0, 9] 2 [52, 70, 97, 49] = Ret (2, [79, 161, 9])
   \<and> (\<exists>a. hex_str_to_val [0, 0, 9] 2 [52, 71, 97, 49] = Ret (-1, a) \<and> drop 2 a = [9])"
  using hex_str_to_val_spec [of "[52, 70, 97, 49]" 2 "[0, 0, 9]"]
    hex_str_to_val_spec [of "[52, 71, 97, 49]" 2 "[0, 0, 9]"]
  by (auto simp: is_hex_def nibble_def hex_digit_def lower_case_def)

text \<open>
  Decoding inverts encoding: a byte sequence printed with two hexadecimal digits per byte
  (upper or lower case) that fits the array is read back exactly.
\<close>

theorem hex_round_trip:
  assumes "2 * length bs < 2 ^ 31" and "length bs \<le> unat hex_arr_sz"
    and "unat hex_arr_sz \<le> length hex_arr"
  shows "hex_str_to_val hex_arr hex_arr_sz (hex_encode upper bs) =
     Ret (int (length bs), bs @ drop (length bs) hex_arr)"
  using assms hex_encode_props [of upper bs] hex_loop_ok [of "hex_encode upper bs" 0 0 hex_arr]
  by (simp add: hex_str_to_val_unfold hex_bytes_encode)

theorem hex_round_trip_witness:
  "hex_str_to_val [0, 0, 9] 3 (hex_encode True [0xAB, 7]) = Ret (2, [0xAB, 7, 9])"
  using hex_round_trip [of "[0xAB, 7]" 3 "[0, 0, 9]" True] by simp

subsection \<open>Matching debugfs input lines\<close>

text \<open>
  \<open>param_get_val\<close> looks for the parameter anywhere in the line and parses what follows the
  first equals sign of the line; \<open>kstrtoul\<close> (base 0) and \<open>kstrtol\<close> are the kernel's parsers,
  whose \<open>None\<close> is an error return that leaves the output variable alone. Without an equals
  sign the parser would be called on address 1.
\<close>

definition param_get_val ::
  "(string \<Rightarrow> ulong option) \<Rightarrow> string \<Rightarrow> string \<Rightarrow> ulong \<Rightarrow> (bool \<times> ulong) outcome" where
  "param_get_val kstrtoul buf str val =
     (case strstr buf str of
        None \<Rightarrow> Ret (False, val)
      | Some _ \<Rightarrow>
          (case strstr buf ''='' of
             None \<Rightarrow> UB NullDeref
           | Some temp \<Rightarrow>
               (case kstrtoul (tl temp) of
                  Some v \<Rightarrow> Ret (True, v)
                | None \<Rightarrow> Ret (False, val))))"

definition param_get_sval ::
  "(string \<Rightarrow> 64 word option) \<Rightarrow> string \<Rightarrow> string \<Rightarrow> 64 word \<Rightarrow> (bool \<times> 64 word) outcome" where
  "param_get_sval kstrtol buf str sval =
     (case strstr buf str of
        None \<Rightarrow> Ret (False, sval)
      | Some _ \<Rightarrow>
          (case strstr buf ''='' of
             None \<Rightarrow> UB NullDeref
           | Some temp \<Rightarrow>
               (case kstrtol (tl temp) of
                  Some v \<Rightarrow> Ret (True, v)
                | None \<Rightarrow> Ret (False, sval))))"

definition param_get_match :: "string \<Rightarrow> string \<Rightarrow> bool" where
  "param_get_match buf str = (strstr buf str \<noteq> None)"

text \<open>What the matcher computes when the parameter name carries its own equals sign.\<close>

definition param_value :: "string \<Rightarrow> string" where
  "param_value line = tl (dropWhile (\<lambda>c. c \<noteq> CHR ''='') line)"

definition param_parse ::
  "(string \<Rightarrow> ulong option) \<Rightarrow> string \<Rightarrow> string \<Rightarrow> ulong option" where
  "param_parse kstrtoul buf str =
     (if sublist str buf then kstrtoul (param_value buf) else None)"

lemma strstr_equals:
  "strstr line ''='' =
     (if CHR ''='' \<in> set line then Some (dropWhile (\<lambda>c. c \<noteq> CHR ''='') line) else None)"
  by (induction line) auto

lemma set_sublistD: "sublist xs ys \<Longrightarrow> c \<in> set xs \<Longrightarrow> c \<in> set ys"
  by (auto simp: sublist_def)

lemma param_get_val_eq [simp]:
  assumes "CHR ''='' \<in> set str"
  shows "param_get_val kstrtoul buf str val =
     Ret (case param_parse kstrtoul buf str of None \<Rightarrow> (False, val) | Some v \<Rightarrow> (True, v))"
proof (cases "strstr buf str")
  case (Some r)
  then have "sublist str buf"
    using strstr_None_iff [of buf str] by simp
  with assms Some show ?thesis
    by (auto simp: param_get_val_def param_parse_def strstr_equals param_value_def
        dest: set_sublistD split: option.splits)
next
  case None
  with strstr_None_iff [of buf str] show ?thesis
    by (simp add: param_get_val_def param_parse_def)
qed

lemma param_value_app: "CHR ''='' \<notin> set name \<Longrightarrow> param_value (name @ CHR ''='' # v) = v"
  by (induction name) (auto simp: param_value_def)

end
