(* ===== verification/Spi_If.thy ===== *)
theory Spi_If
  imports Nrf_Prelude
begin

text \<open>
  The SPI transport, \<open>spi/src/spi_if.c\<close> and \<open>spi/src/device.c\<close>: framing of register and memory
  accesses, the word loops for the high-latency region below 0x0C0000, the status-register
  polls of the wake-up sequence and the clock selection. \<open>spi_sync\<close> of the kernel is the
  parameter \<open>bus\<close>: from everything that happened on the device before and the message, it
  gives the error code and the bytes clocked in.
\<close>

subsection \<open>Messages and state\<close>

record spi_transfer =
  tx_buf :: "u8 list option"
  rx_buf :: bool
  len :: u32

datatype pin = Iovdd | Bucken

text \<open>What the driver does to the device: SPI messages, clock setups, pauses, GPIO accesses.\<close>

datatype spi_event =
  Sync "spi_transfer list" | Setup u32 | Msleep nat | GpioOut pin bool | GpioSet pin bool

record spdev_config =
  addrmask :: u32
  spi_slave_latency :: u8

record spi_if =
  config :: "spdev_config option"
  max_speed_hz :: u32
  of_speed :: "u8 list option"
  trace :: "spi_event list"

type_synonym bus = "spi_event list \<Rightarrow> spi_transfer list \<Rightarrow> int \<times> u8 list"

definition tx :: "u8 list \<Rightarrow> u32 \<Rightarrow> spi_transfer" where
  "tx buf n = \<lparr>tx_buf = Some buf, rx_buf = False, len = n\<rparr>"

definition rx :: "u32 \<Rightarrow> spi_transfer" where
  "rx n = \<lparr>tx_buf = None, rx_buf = True, len = n\<rparr>"

definition log :: "spi_event \<Rightarrow> spi_if \<Rightarrow> spi_if" where
  "log e s = s\<lparr>trace := trace s @ [e]\<rparr>"

definition spi_sync :: "bus \<Rightarrow> spi_transfer list \<Rightarrow> spi_if \<Rightarrow> int \<times> u8 list \<times> spi_if" where
  "spi_sync bus m s = (case bus (trace s) m of (err, bytes) \<Rightarrow> (err, bytes, log (Sync m) s))"

text \<open>
  The bytes clocked into a receive buffer of \<open>n\<close> bytes at offset \<open>off\<close> of the caller's memory: a
  successful message clocks in exactly \<open>n\<close> bytes, a failed one possibly fewer. A buffer that
  ends before \<open>off + n\<close> is overrun.
\<close>

definition deliver :: "int \<Rightarrow> u8 list \<Rightarrow> nat \<Rightarrow> nat \<Rightarrow> u8 list \<Rightarrow> u8 list outcome" where
  "deliver err bytes n off dest =
     (let r = (if err = 0 then take n (bytes @ replicate n 0) else take n bytes) in
      if off + n \<le> length dest then Ret (take off dest @ r @ drop (off + length r) dest)
      else UB OutOfBounds)"

definition with_config :: "spi_if \<Rightarrow> (spdev_config \<Rightarrow> 'a outcome) \<Rightarrow> 'a outcome" where
  "with_config s f = (case config s of None \<Rightarrow> UB NullDeref | Some c \<Rightarrow> f c)"

definition spdev_defconfig :: spdev_config where
  "spdev_defconfig = \<lparr>addrmask = 0x000000, spi_slave_latency = 3\<rparr>"

subsection \<open>Clock selection\<close>

text \<open>
  \<open>of_speed\<close> holds the cells of the device-tree property \<open>spi-max-frequency\<close>, if it is present;
  the code reads them through an \<open>unsigned int\<close> pointer on a little-endian machine.
\<close>

definition SPI_SPEED_FROM_DTS :: u32 where "SPI_SPEED_FROM_DTS = 0"
definition RPU_SPI_WAKEUP_FREQ_MHZ :: u32 where "RPU_SPI_WAKEUP_FREQ_MHZ = 8 * 1000 * 1000"

definition set_spi_speed :: "u32 \<Rightarrow> spi_if \<Rightarrow> spi_if" where
  "set_spi_speed speed s =
     (if speed = SPI_SPEED_FROM_DTS then
        (case of_speed s of
           None \<Rightarrow> s
         | Some cells \<Rightarrow> log (Setup (get_le32 cells)) (s\<lparr>max_speed_hz := get_le32 cells\<rparr>))
      else log (Setup speed) (s\<lparr>max_speed_hz := speed\<rparr>))"

definition spdev_init :: "spdev_config \<Rightarrow> spi_if \<Rightarrow> int \<times> spi_if" where
  "spdev_init dev_config s =
     (0, set_spi_speed SPI_SPEED_FROM_DTS (s\<lparr>config := Some (dev_config\<lparr>spi_slave_latency := 3\<rparr>)\<rparr>))"

subsection \<open>Frames\<close>

definition addr_bytes :: "ulong \<Rightarrow> u8 \<Rightarrow> u8 list" where
  "addr_bytes addr msb = [ucast (drop_bit 16 addr) OR msb, ucast (drop_bit 8 addr), ucast addr]"

definition spdev_read_reg32_hl ::
  "bus \<Rightarrow> ulong \<Rightarrow> u8 list \<Rightarrow> nat \<Rightarrow> u32 \<Rightarrow> u32 \<Rightarrow> spi_if \<Rightarrow> (int \<times> u8 list \<times> spi_if) outcome" where
  "spdev_read_reg32_hl bus addr dest off n discard_bytes s =
     with_config s (\<lambda>_.
       let hdr = 0x0b # addr_bytes addr 0 @ [0];
           (err, bytes, s') = spi_sync bus [tx hdr (5 + discard_bytes), rx n] s
       in (case deliver err bytes (unat n) off dest of UB u \<Rightarrow> UB u | Ret d \<Rightarrow> Ret (err, d, s')))"

definition spdev_cp_to ::
  "bus \<Rightarrow> ulong \<Rightarrow> u8 list \<Rightarrow> int \<Rightarrow> spi_if \<Rightarrow> (int \<times> spi_if) outcome" where
  "spdev_cp_to bus addr src count s =
     with_config s (\<lambda>_.
       let hdr = 0x02 # addr_bytes addr 0x80;
           (err, _, s') = spi_sync bus [tx hdr 4, tx src (word_of_int count)] s
       in Ret (err, s'))"

fun cp_from_loop ::
  "bus \<Rightarrow> ulong \<Rightarrow> u8 list \<Rightarrow> nat \<Rightarrow> nat \<Rightarrow> spi_if \<Rightarrow> (u8 list \<times> spi_if) outcome" where
  "cp_from_loop bus addr dest offset count s =
     (if count = 0 then Ret (dest, s)
      else with_config s (\<lambda>c.
        (case spdev_read_reg32_hl bus (addr + of_nat offset) dest offset 4
                (4 * ucast (spi_slave_latency c)) s of
           UB u \<Rightarrow> UB u
         | Ret (_, d, s') \<Rightarrow> cp_from_loop bus addr d (offset + 4) (count - 4) s')))"

definition spdev_cp_from ::
  "bus \<Rightarrow> u8 list \<Rightarrow> ulong \<Rightarrow> int \<Rightarrow> spi_if \<Rightarrow> (int \<times> u8 list \<times> spi_if) outcome" where
  "spdev_cp_from bus dest addr count s =
     with_config s (\<lambda>_.
       if addr < 0x0C0000 then
         (case cp_from_loop bus addr dest 0 (nat count) s of
            UB u \<Rightarrow> UB u
          | Ret (d, s') \<Rightarrow> Ret (0, d, s'))
       else
         let hdr = 0x0b # addr_bytes addr 0x80 @ [0];
             n = word_of_int count :: u32;
             (err, bytes, s') = spi_sync bus [tx hdr 5, rx n] s
         in (case deliver err bytes (unat n) 0 dest of UB u \<Rightarrow> UB u | Ret d \<Rightarrow> Ret (err, d, s')))"

definition spdev_write :: "bus \<Rightarrow> ulong \<Rightarrow> u32 \<Rightarrow> spi_if \<Rightarrow> (int \<times> spi_if) outcome" where
  "spdev_write bus addr val s =
     with_config s (\<lambda>c.
       let addr = addr OR ucast (addrmask c);
           hdr = 0x02 # addr_bytes addr 0x80 @ le32 val;
           (err, _, s') = spi_sync bus [tx hdr 8] s
       in Ret (err, s'))"

definition spdev_read ::
  "bus \<Rightarrow> ulong \<Rightarrow> u8 list \<Rightarrow> int \<Rightarrow> spi_if \<Rightarrow> (int \<times> u8 list \<times> spi_if) outcome" where
  "spdev_read bus addr data n s =
     with_config s (\<lambda>c.
       let addr = addr OR ucast (addrmask c);
           hdr = 0x0b # addr_bytes addr 0 @ [0];
           n = word_of_int n :: u32;
           (err, bytes, s') = spi_sync bus [tx hdr (5 + 0), rx n] s
       in (case deliver err bytes (unat n) 0 data of UB u \<Rightarrow> UB u | Ret d \<Rightarrow> Ret (err, d, s')))"

definition spdev_hl_readw ::
  "bus \<Rightarrow> ulong \<Rightarrow> u8 list \<Rightarrow> nat \<Rightarrow> spi_if \<Rightarrow> (int \<times> u8 list \<times> spi_if) outcome" where
  "spdev_hl_readw bus addr data off s =
     with_config s (\<lambda>c.
       spdev_read_reg32_hl bus addr data off 4 (4 * ucast (spi_slave_latency c)) s)"

fun hl_read_loop ::
  "bus \<Rightarrow> ulong \<Rightarrow> u8 list \<Rightarrow> nat \<Rightarrow> nat \<Rightarrow> spi_if \<Rightarrow> (u8 list \<times> spi_if) outcome" where
  "hl_read_loop bus addr data count 0 s = Ret (data, s)"
| "hl_read_loop bus addr data count (Suc left) s =
     (case spdev_hl_readw bus (addr + of_nat (4 * count)) data (4 * count) s of
        UB u \<Rightarrow> UB u
      | Ret (_, d, s') \<Rightarrow> hl_read_loop bus addr d (Suc count) left s')"

definition spdev_hl_read ::
  "bus \<Rightarrow> ulong \<Rightarrow> u8 list \<Rightarrow> int \<Rightarrow> spi_if \<Rightarrow> (int \<times> u8 list \<times> spi_if) outcome" where
  "spdev_hl_read bus addr data n s =
     (case hl_read_loop bus addr data 0 (nat n div 4) s of
        UB u \<Rightarrow> UB u
      | Ret (d, s') \<Rightarrow> Ret (0, d, s'))"

subsection \<open>Status registers and the wake-up polls\<close>

definition RPU_WAKEUP_NOW :: u8 where "RPU_WAKEUP_NOW = 1"
definition RPU_AWAKE_BIT :: u8 where "RPU_AWAKE_BIT = 2"

text \<open>Byte \<open>i\<close> of the six bytes a successful status read clocks in.\<close>

definition sr_byte :: "u8 list \<Rightarrow> nat \<Rightarrow> u8" where
  "sr_byte sr i = take 6 (sr @ replicate 6 0) ! i"

definition spdev_read_reg :: "bus \<Rightarrow> u32 \<Rightarrow> u8 \<Rightarrow> spi_if \<Rightarrow> (int \<times> u8 \<times> spi_if) outcome" where
  "spdev_read_reg bus reg_addr reg_value s =
     with_config s (\<lambda>_.
       let tx_buffer = [ucast reg_addr, 0, 0, 0, 0, 0];
           (err, sr, s') = spi_sync bus [\<lparr>tx_buf = Some tx_buffer, rx_buf = True, len = 6\<rparr>] s
       in Ret (err, if err = 0 then sr_byte sr 1 else reg_value, s'))"

definition spdev_write_reg :: "bus \<Rightarrow> u32 \<Rightarrow> u8 \<Rightarrow> spi_if \<Rightarrow> (int \<times> spi_if) outcome" where
  "spdev_write_reg bus reg_addr reg_value s =
     with_config s (\<lambda>_.
       let (err, _, s') = spi_sync bus [tx [ucast reg_addr, reg_value] 2] s
       in Ret (err, s'))"

fun awake_poll :: "bus \<Rightarrow> nat \<Rightarrow> u8 \<Rightarrow> spi_if \<Rightarrow> (u8 \<times> spi_if) outcome" where
  "awake_poll bus 0 val s = Ret (val, s)"
| "awake_poll bus (Suc left) val s =
     (case spdev_read_reg bus 0x1F val s of
        UB u \<Rightarrow> UB u
      | Ret (ret, val, s') \<Rightarrow>
          if ret = 0 \<and> val AND RPU_AWAKE_BIT \<noteq> 0 then Ret (val, s')
          else awake_poll bus left val (log (Msleep 10) s'))"

definition spdev_wait_while_rpu_awake :: "bus \<Rightarrow> spi_if \<Rightarrow> (u8 \<times> spi_if) outcome" where
  "spdev_wait_while_rpu_awake bus s = awake_poll bus 10 0 s"

fun wake_write_poll :: "bus \<Rightarrow> nat \<Rightarrow> int \<Rightarrow> u8 \<Rightarrow> spi_if \<Rightarrow> (int \<times> spi_if) outcome" where
  "wake_write_poll bus 0 ret val s = Ret (ret, s)"
| "wake_write_poll bus (Suc left) ret val s =
     (case spdev_read_reg bus 0x2F val s of
        UB u \<Rightarrow> UB u
      | Ret (ret, val, s') \<Rightarrow>
          if ret = 0 \<and> val AND RPU_WAKEUP_NOW \<noteq> 0
          then Ret (ret, set_spi_speed SPI_SPEED_FROM_DTS s')
          else wake_write_poll bus left ret val (log (Msleep 10) s'))"

definition spdev_wait_while_rpu_wake_write :: "bus \<Rightarrow> spi_if \<Rightarrow> (int \<times> spi_if) outcome" where
  "spdev_wait_while_rpu_wake_write bus s = wake_write_poll bus 10 0 0 s"

definition spdev_cmd_wakeup_rpu :: "bus \<Rightarrow> u32 \<Rightarrow> spi_if \<Rightarrow> (int \<times> spi_if) outcome" where
  "spdev_cmd_wakeup_rpu bus data s =
     with_config s (\<lambda>_. spdev_write_reg bus 0x3F (ucast data) (set_spi_speed RPU_SPI_WAKEUP_FREQ_MHZ s))"

definition spdev_cmd_sleep_rpu :: "bus \<Rightarrow> spi_if \<Rightarrow> (int \<times> spi_if) outcome" where
  "spdev_cmd_sleep_rpu bus s =
     with_config s (\<lambda>_.
       let (err, _, s') = spi_sync bus [tx [0x3f, 0x0] 2] s
       in Ret (err, s'))"

text \<open>\<open>spdev_RDSR1\<close>, \<open>spdev_RDSR2\<close> read into a local; \<open>spdev_WRSR2\<close> writes register 0x3F.\<close>

definition spdev_RDSR1 :: "bus \<Rightarrow> spi_if \<Rightarrow> (int \<times> spi_if) outcome" where
  "spdev_RDSR1 bus s =
     (case spdev_read_reg bus 0x1F 0 s of UB u \<Rightarrow> UB u | Ret (r, _, s') \<Rightarrow> Ret (r, s'))"

definition spdev_RDSR2 :: "bus \<Rightarrow> spi_if \<Rightarrow> (int \<times> spi_if) outcome" where
  "spdev_RDSR2 bus s =
     (case spdev_read_reg bus 0x2F 0 s of UB u \<Rightarrow> UB u | Ret (r, _, s') \<Rightarrow> Ret (r, s'))"

definition spdev_WRSR2 :: "bus \<Rightarrow> u8 \<Rightarrow> spi_if \<Rightarrow> (int \<times> spi_if) outcome" where
  "spdev_WRSR2 bus wrsr2 s = spdev_write_reg bus 0x3F wrsr2 s"

subsection \<open>The device as a memory\<close>

text \<open>
  What the transport relies on: the device answers a FASTREAD frame with the bytes of its
  23-bit address space, after the delay its region needs (three words below 0x0C0000), and
  acknowledges page-program frames, which store the bytes that follow the address. The
  memory after a history of messages is computed by replaying the page programs in it.
\<close>

declare cp_from_loop.simps [simp del]

definition wire :: "spi_transfer list \<Rightarrow> u8 list" where
  "wire m = concat (map (\<lambda>t. case tx_buf t of None \<Rightarrow> [] | Some b \<Rightarrow> take (unat (len t)) b) m)"

definition frame_addr :: "u8 list \<Rightarrow> ulong" where
  "frame_addr w = push_bit 16 (ucast (w ! 1 AND 0x7F)) OR push_bit 8 (ucast (w ! 2)) OR ucast (w ! 3)"

definition mem_put :: "(ulong \<Rightarrow> u8) \<Rightarrow> ulong \<Rightarrow> u8 list \<Rightarrow> ulong \<Rightarrow> u8" where
  "mem_put mem a bs = (\<lambda>x. if unat (x - a) < length bs then bs ! unat (x - a) else mem x)"

definition mem_bytes :: "(ulong \<Rightarrow> u8) \<Rightarrow> ulong \<Rightarrow> nat \<Rightarrow> u8 list" where
  "mem_bytes mem a n = map (\<lambda>i. mem (a + of_nat i)) [0..<n]"

definition slave_step :: "(ulong \<Rightarrow> u8) \<Rightarrow> spi_event \<Rightarrow> ulong \<Rightarrow> u8" where
  "slave_step mem e =
     (case e of
        Sync m \<Rightarrow> if prefix [0x02] (wire m) \<and> 4 \<le> length (wire m)
                  then mem_put mem (frame_addr (wire m)) (drop 4 (wire m)) else mem
      | _ \<Rightarrow> mem)"

definition slave_mem :: "(ulong \<Rightarrow> u8) \<Rightarrow> spi_event list \<Rightarrow> ulong \<Rightarrow> u8" where
  "slave_mem base evs = foldl slave_step base evs"

definition memory_slave :: "bus \<Rightarrow> (ulong \<Rightarrow> u8) \<Rightarrow> bool" where
  "memory_slave bus base \<longleftrightarrow>
     (\<forall>evs hdr skip n. length hdr = 5 \<and> hd hdr = 0x0b \<and>
         skip = (if frame_addr hdr < 0x0C0000 then 12 else 0) \<longrightarrow>
         bus evs [tx hdr (5 + skip), rx n] =
           (0, mem_bytes (slave_mem base evs) (frame_addr hdr) (unat n))) \<and>
     (\<forall>evs m. prefix [0x02] (wire m) \<longrightarrow> fst (bus evs m) = 0)"

text \<open>A device that meets this contract, used to show that it can be met.\<close>

definition ideal_bus :: "(ulong \<Rightarrow> u8) \<Rightarrow> bus" where
  "ideal_bus base evs m =
     (0, case m of
           [h, p] \<Rightarrow> (case tx_buf h of
               Some hdr \<Rightarrow> mem_bytes (slave_mem base evs) (frame_addr hdr) (unat (len p))
             | None \<Rightarrow> [])
         | _ \<Rightarrow> [])"

lemma ideal_bus_memory_slave: "memory_slave (ideal_bus base) base"
  by (simp add: memory_slave_def ideal_bus_def tx_def rx_def)

lemma frame_addr_bytes:
  assumes "m = 0 \<or> m = 0x80"
  shows "frame_addr (c # addr_bytes a m @ r) = take_bit 23 a"
proof (rule bit_word_eqI)
  fix n :: nat
  have m: "\<not> bit m k" if "k < 7" for k
    using assms that bit_exp_iff [of 7 k, where 'a = u8] by auto
  have seven: "bit (0x7F :: u8) k \<longleftrightarrow> k < 7" "bit (0x7F :: int) k \<longleftrightarrow> k < 7" for k
    using bit_mask_iff [of 7 k, where 'a = u8] bit_mask_iff [of 7 k, where 'a = int]
    by (auto simp: mask_eq_exp_minus_1)
  consider "n < 8" | "8 \<le> n" "n < 16" | "16 \<le> n" "n < 24" | "24 \<le> n" by linarith
  then show "bit (frame_addr (c # addr_bytes a m @ r)) n = bit (take_bit 23 a) n"
    by cases (auto simp: frame_addr_def addr_bytes_def bit_simps seven m)
qed

lemma take_bit_addr: "unat a < 2 ^ 23 \<Longrightarrow> take_bit 23 (a :: ulong) = a"
  by (simp add: word_unat_eq_iff unsigned_take_bit_eq take_bit_nat_eq_self)

lemma length_addr_bytes [simp]: "length (addr_bytes a m) = 3"
  by (simp add: addr_bytes_def)

lemma length_mem_bytes [simp]: "length (mem_bytes mem a n) = n"
  by (simp add: mem_bytes_def)

lemma mem_bytes_put:
  assumes "length bs < 2 ^ 64"
  shows "mem_bytes (mem_put mem a bs) a (length bs) = bs"
  using assms by (intro nth_equalityI) (auto simp: mem_bytes_def mem_put_def unat_of_nat)

lemma mem_bytes_append: "mem_bytes mem a (m + n) = mem_bytes mem a m @ mem_bytes mem (a + of_nat m) n"
proof (rule nth_equalityI)
  fix i assume "i < length (mem_bytes mem a (m + n))"
  then show "mem_bytes mem a (m + n) ! i = (mem_bytes mem a m @ mem_bytes mem (a + of_nat m) n) ! i"
    by (auto simp: mem_bytes_def nth_append simp flip: of_nat_add)
qed simp

lemma slave_mem_snoc [simp]: "slave_mem base (evs @ [e]) = slave_step (slave_mem base evs) e"
  by (simp add: slave_mem_def)

lemma deliver_ok:
  assumes "length bytes = n" and "off + n \<le> length dest"
  shows "deliver 0 bytes n off dest = Ret (take off dest @ bytes @ drop (off + n) dest)"
  using assms by (simp add: deliver_def)

text \<open>A word of the high-latency region, the loops over them, and the direct frames.\<close>

definition round4 :: "nat \<Rightarrow> nat" where
  "round4 n = 4 * ((n + 3) div 4)"

lemma round4_ge: "n \<le> round4 n"
  unfolding round4_def by linarith

lemma round4_step: "0 < n \<Longrightarrow> round4 n = 4 + round4 (n - 4)"
proof (cases "n < 4")
  case True
  assume "0 < n"
  with True consider "n = 1" | "n = 2" | "n = 3" by linarith
  then show ?thesis by cases (simp_all add: round4_def)
next
  case False
  then have "(n + 3) div 4 = (n - 4 + 3 + 4) div 4" by simp
  also have "\<dots> = (n - 4 + 3) div 4 + 1" by (rule div_add_self2) simp
  finally show ?thesis by (simp add: round4_def)
qed

definition same_device :: "(ulong \<Rightarrow> u8) \<Rightarrow> spi_if \<Rightarrow> spi_if \<Rightarrow> bool" where
  "same_device base s t \<longleftrightarrow>
     config t = config s \<and> slave_mem base (trace t) = slave_mem base (trace s)"

lemma same_device_trans: "same_device base s t \<Longrightarrow> same_device base t u \<Longrightarrow> same_device base s u"
  by (simp add: same_device_def)

lemma memory_slave_read:
  assumes "memory_slave bus base" and "m = 0 \<or> m = 0x80" and "unat a < 2 ^ 23"
    and "skip = (if a < 0x0C0000 then 12 else 0)"
  shows "spi_sync bus [tx (0x0b # addr_bytes a m @ [0]) (5 + skip), rx n] s =
     (0, mem_bytes (slave_mem base (trace s)) a (unat n),
      log (Sync [tx (0x0b # addr_bytes a m @ [0]) (5 + skip), rx n]) s)"
proof -
  let ?h = "0x0b # addr_bytes a m @ [0]"
  have a: "frame_addr ?h = a"
    using assms(2,3) by (simp add: frame_addr_bytes take_bit_addr)
  have "length ?h = 5 \<and> hd ?h = 0x0b \<and> skip = (if frame_addr ?h < 0x0C0000 then 12 else 0) \<longrightarrow>
      bus (trace s) [tx ?h (5 + skip), rx n] =
        (0, mem_bytes (slave_mem base (trace s)) (frame_addr ?h) (unat n))"
    using assms(1) unfolding memory_slave_def by blast
  with a assms(4) show ?thesis
    by (simp add: spi_sync_def)
qed

lemma fast_read_same_device: "same_device base s (log (Sync [tx (0x0b # r) k, rx n]) s)"
  by (auto simp: same_device_def log_def slave_step_def wire_def tx_def rx_def take_Cons')

lemma hl_word_ok:
  assumes "memory_slave bus base" and "config s = Some c"
    and "a < 0x0C0000" and "off + 4 \<le> length dest"
  shows "\<exists>s'. spdev_read_reg32_hl bus a dest off 4 12 s =
      Ret (0, take off dest @ mem_bytes (slave_mem base (trace s)) a 4 @ drop (off + 4) dest, s')
    \<and> same_device base s s'"
proof -
  have "unat a < 2 ^ 23" using assms(3) by (simp add: word_less_nat_alt)
  note rd = memory_slave_read [OF assms(1) _ this, of 0 12 4 s]
  then show ?thesis
    using assms fast_read_same_device
    by (simp add: spdev_read_reg32_hl_def with_config_def deliver_ok)
qed

lemma cp_from_loop_ok:
  assumes "memory_slave bus base" and "config s = Some c" and "spi_slave_latency c = 3"
    and "unat addr + off + round4 n \<le> 0x0C0000" and "off + round4 n \<le> length dest"
  shows "\<exists>s'. cp_from_loop bus addr dest off n s =
      Ret (take off dest @ mem_bytes (slave_mem base (trace s)) (addr + of_nat off) (round4 n)
             @ drop (off + round4 n) dest, s')
    \<and> same_device base s s'"
  using assms(2-)
proof (induction n arbitrary: off dest s rule: less_induct)
  case (less n)
  show ?case
  proof (cases "n = 0")
    case True
    then show ?thesis
      by (simp add: cp_from_loop.simps round4_def mem_bytes_def same_device_def)
  next
    case False
    define w where "w = mem_bytes (slave_mem base (trace s)) (addr + of_nat off) 4"
    have r: "round4 n = 4 + round4 (n - 4)"
      using False by (simp add: round4_step)
    have "unat (addr + of_nat off) = unat addr + off"
      using less.prems(3) r by (simp add: unat_word_ariths unat_of_nat)
    then have "addr + of_nat off < 0x0C0000"
      using less.prems(3) r by (simp add: word_less_nat_alt)
    then obtain s1 where s1: "spdev_read_reg32_hl bus (addr + of_nat off) dest off 4 12 s =
        Ret (0, take off dest @ w @ drop (off + 4) dest, s1)" "same_device base s s1"
      using hl_word_ok [OF assms(1) less.prems(1), of "addr + of_nat off" off dest] less.prems(4) r
      by (auto simp: w_def)
    let ?d = "take off dest @ w @ drop (off + 4) dest"
    have len: "length w = 4" "length ?d = length dest"
      using less.prems(4) r by (simp_all add: w_def)
    obtain s2 where s2: "cp_from_loop bus addr ?d (off + 4) (n - 4) s1 =
        Ret (take (off + 4) ?d @ mem_bytes (slave_mem base (trace s1)) (addr + of_nat (off + 4))
               (round4 (n - 4)) @ drop (off + 4 + round4 (n - 4)) ?d, s2)" "same_device base s1 s2"
      using less.IH [of "n - 4" s1 "off + 4" ?d] False less.prems s1(2) r len
      by (auto simp: same_device_def)
    have "mem_bytes (slave_mem base (trace s)) (addr + of_nat off) (round4 n) =
        w @ mem_bytes (slave_mem base (trace s1)) (addr + of_nat (off + 4)) (round4 (n - 4))"
      using s1(2) unfolding r w_def mem_bytes_append by (simp add: same_device_def add.assoc)
    moreover have "cp_from_loop bus addr dest off n s = cp_from_loop bus addr ?d (off + 4) (n - 4) s1"
      using s1 False less.prems(1,2) by (subst cp_from_loop.simps) (simp add: with_config_def)
    moreover have "take (off + 4) ?d = take off dest @ w"
      "drop (off + 4 + round4 (n - 4)) ?d = drop (off + round4 n) dest"
      using len less.prems(4) r by (simp_all add: ac_simps)
    ultimately show ?thesis
      using s2(1) same_device_trans [OF s1(2) s2(2)] by auto
  qed
qed

definition spi_ready :: "spi_if \<Rightarrow> bool" where
  "spi_ready s \<longleftrightarrow> config s = Some spdev_defconfig"

lemma spi_ready_init: "spi_ready (snd (spdev_init spdev_defconfig s))"
  by (simp add: spi_ready_def spdev_init_def set_spi_speed_def log_def spdev_defconfig_def
      split: option.splits)

lemma spi_readyD: "spi_ready s \<Longrightarrow> config s = Some spdev_defconfig"
  by (simp add: spi_ready_def)

lemma defconfig_simps [simp]:
  "spi_slave_latency spdev_defconfig = 3" "addrmask spdev_defconfig = 0"
  by (simp_all add: spdev_defconfig_def)

lemma pp_frame:
  assumes "m = [tx (0x02 # addr_bytes a 0x80) 4, tx src n] \<or> m = [tx (0x02 # addr_bytes a 0x80 @ src) (4 + n)]"
    and "unat n = length src" and "length src < 2 ^ 31" and "unat a < 2 ^ 23"
  shows "wire m = 0x02 # addr_bytes a 0x80 @ src \<and> frame_addr (wire m) = a
     \<and> slave_step mem (Sync m) = mem_put mem a src"
proof -
  have "unat (4 + n) = 4 + length src"
    using assms(2,3) by (simp add: unat_word_ariths)
  with assms(1,2) have w: "wire m = 0x02 # addr_bytes a 0x80 @ src"
    by (auto simp: wire_def tx_def)
  moreover have "frame_addr (0x02 # addr_bytes a 0x80 @ src) = a"
    using assms(4) by (simp add: frame_addr_bytes take_bit_addr)
  moreover have "drop 4 (0x02 # addr_bytes a 0x80 @ src) = src"
    by (simp add: addr_bytes_def)
  ultimately show ?thesis
    by (simp add: slave_step_def)
qed

lemma pp_ok:
  assumes "memory_slave bus base" and "wire m = 0x02 # r"
  shows "fst (bus evs m) = 0"
  using assms by (auto simp: memory_slave_def)

lemma spdev_cp_to_ok:
  assumes "memory_slave bus base" and "spi_ready s" and "unat addr < 2 ^ 23"
    and "length src < 2 ^ 31"
  shows "\<exists>s'. spdev_cp_to bus addr src (int (length src)) s = Ret (0, s') \<and> config s' = config s
     \<and> slave_mem base (trace s') = mem_put (slave_mem base (trace s)) addr src"
proof -
  let ?m = "[tx (0x02 # addr_bytes addr 0x80) 4, tx src (word_of_int (int (length src)))]"
  have "unat (word_of_int (int (length src)) :: u32) = length src"
    using assms(4) by (simp add: unat_of_nat)
  note f = pp_frame [OF disjI1 [OF refl] this assms(4,3)]
  have "fst (bus (trace s) ?m) = 0"
    using pp_ok [OF assms(1)] f by blast
  then show ?thesis
    using f spi_readyD [OF assms(2)]
    by (auto simp: spdev_cp_to_def with_config_def spi_sync_def log_def Let_def
        split: prod.splits)
qed

lemma spdev_write_ok:
  assumes "memory_slave bus base" and "spi_ready s" and "unat addr < 2 ^ 23"
  shows "\<exists>s'. spdev_write bus addr val s = Ret (0, s') \<and> config s' = config s
     \<and> slave_mem base (trace s') = mem_put (slave_mem base (trace s)) addr (le32 val)"
proof -
  let ?m = "[tx (0x02 # addr_bytes addr 0x80 @ le32 val) (4 + 4)]"
  have "unat (4 :: u32) = length (le32 val)" by simp
  note f = pp_frame [OF disjI2 [OF refl] this _ assms(3), where mem = "slave_mem base (trace s)"]
  have "fst (bus (trace s) ?m) = 0"
    using pp_ok [OF assms(1)] f by simp
  then show ?thesis
    using f spi_readyD [OF assms(2)]
    by (auto simp: spdev_write_def with_config_def spi_sync_def log_def Let_def
        split: prod.splits)
qed

lemma spdev_cp_from_ok:
  assumes "memory_slave bus base" and "spi_ready s" and "n < 2 ^ 31"
    and "unat addr + round4 n \<le> 0x0C0000 \<and> k = round4 n
       \<or> 0x0C0000 \<le> addr \<and> unat addr < 2 ^ 23 \<and> k = n"
    and "k \<le> length dest"
  shows "\<exists>s'. spdev_cp_from bus dest addr (int n) s =
      Ret (0, mem_bytes (slave_mem base (trace s)) addr k @ drop k dest, s') \<and> same_device base s s'"
  using assms(4)
proof (elim disjE conjE)
  assume low: "unat addr + round4 n \<le> 0x0C0000" "k = round4 n"
  show ?thesis
  proof (cases "addr < 0x0C0000")
    case True
    obtain s' where "cp_from_loop bus addr dest 0 n s =
        Ret (mem_bytes (slave_mem base (trace s)) addr k @ drop k dest, s')" "same_device base s s'"
      using cp_from_loop_ok [OF assms(1) spi_readyD [OF assms(2)], where addr = addr and off = 0 and n = n and dest = dest] low assms(5)
      by auto
    with True show ?thesis
      using spi_readyD [OF assms(2)] by (simp add: spdev_cp_from_def with_config_def)
  next
    case False
    with low have a: "unat addr = 0x0C0000" and "round4 n = 0"
      by (auto simp: word_less_nat_alt)
    then have n: "n = 0" by (auto simp: round4_def)
    note rd = memory_slave_read [OF assms(1), where m = "0x80" and a = addr and skip = 0 and n = 0 and s = s]
    show ?thesis
      using rd a n False low(2) spi_readyD [OF assms(2)] fast_read_same_device
      by (simp add: spdev_cp_from_def with_config_def deliver_def round4_def mem_bytes_def)
  qed
next
  assume high: "0x0C0000 \<le> addr" "unat addr < 2 ^ 23" "k = n"
  have n: "unat (word_of_nat n :: u32) = n"
    using assms(3) by (simp add: unat_of_nat)
  note rd = memory_slave_read [OF assms(1) _ high(2), where m = "0x80" and skip = 0 and n = "word_of_nat n" and s = s]
  have "\<not> addr < 0x0C0000" using high(1) by simp
  then show ?thesis
    using rd high(2,3) n assms(5) spi_readyD [OF assms(2)] fast_read_same_device
    by (simp add: spdev_cp_from_def with_config_def deliver_ok)
qed

lemma spi_copy_round_trip:
  assumes "memory_slave bus base" and "spi_ready s" and "length src < 2 ^ 31"
    and "unat addr + round4 (length src) \<le> 0x0C0000 \<or> 0x0C0000 \<le> addr \<and> unat addr < 2 ^ 23"
    and "round4 (length src) \<le> length dest"
  shows "\<exists>s1 s2 d. spdev_cp_to bus addr src (int (length src)) s = Ret (0, s1)
     \<and> spdev_cp_from bus dest addr (int (length src)) s1 = Ret (0, d, s2)
     \<and> take (length src) d = src \<and> drop (round4 (length src)) d = drop (round4 (length src)) dest"
proof -
  have "unat addr < 2 ^ 23" using assms(4) by auto
  then obtain s1 where s1: "spdev_cp_to bus addr src (int (length src)) s = Ret (0, s1)"
      "config s1 = config s"
      "slave_mem base (trace s1) = mem_put (slave_mem base (trace s)) addr src"
    using spdev_cp_to_ok [OF assms(1,2) _ assms(3)] by blast
  have ready: "spi_ready s1" using assms(2) s1(2) by (simp add: spi_ready_def)
  let ?n = "length src"
  define k where "k = (if unat addr + round4 ?n \<le> 0x0C0000 then round4 ?n else ?n)"
  have kn: "?n \<le> k" "k \<le> round4 ?n" using round4_ge [of ?n] by (simp_all add: k_def)
  have "unat addr + round4 ?n \<le> 0x0C0000 \<and> k = round4 ?n \<or> 0x0C0000 \<le> addr \<and> unat addr < 2 ^ 23 \<and> k = ?n"
    using assms(4) by (auto simp: k_def)
  then obtain s2 where s2: "spdev_cp_from bus dest addr (int ?n) s1 =
      Ret (0, mem_bytes (slave_mem base (trace s1)) addr k @ drop k dest, s2)"
    using spdev_cp_from_ok [OF assms(1) ready assms(3), where addr = addr and k = k and dest = dest]
      kn(2) assms(5) by auto
  have "mem_bytes (slave_mem base (trace s1)) addr k =
      src @ mem_bytes (slave_mem base (trace s1)) (addr + of_nat ?n) (k - ?n)"
    using mem_bytes_append [of _ addr ?n "k - ?n"] kn(1) mem_bytes_put [of src _ addr] assms(3)
    by (simp add: s1(3))
  then show ?thesis
    using s1(1) s2 kn by (auto simp: drop_append)
qed

lemma spdev_read_ok:
  assumes "memory_slave bus base" and "spi_ready s" and "0x0C0000 \<le> addr" and "unat addr < 2 ^ 23"
    and "4 \<le> length dest"
  shows "\<exists>s'. spdev_read bus addr dest 4 s =
      Ret (0, mem_bytes (slave_mem base (trace s)) addr 4 @ drop 4 dest, s') \<and> same_device base s s'"
proof -
  have "\<not> addr < 0x0C0000" using assms(3) by simp
  then show ?thesis
    using memory_slave_read [OF assms(1) _ assms(4), where m = 0 and skip = 0 and n = 4 and s = s]
      assms(5) spi_readyD [OF assms(2)] fast_read_same_device
    by (simp add: spdev_read_def with_config_def deliver_ok)
qed

lemma spdev_hl_read_word:
  assumes "memory_slave bus base" and "spi_ready s" and "addr < 0x0C0000" and "4 \<le> length dest"
  shows "\<exists>s'. spdev_hl_read bus addr dest 4 s =
      Ret (0, mem_bytes (slave_mem base (trace s)) addr 4 @ drop 4 dest, s') \<and> same_device base s s'"
  using hl_word_ok [OF assms(1) spi_readyD [OF assms(2)] assms(3), where off = 0 and dest = dest] assms(4)
    spi_readyD [OF assms(2)]
  by (auto simp: spdev_hl_read_def spdev_hl_readw_def with_config_def)

lemma spi_register_round_trip:
  assumes "memory_slave bus base" and "spi_ready s" and "unat addr < 2 ^ 23" and "length dest = 4"
  shows "\<exists>s1 s2. spdev_write bus addr val s = Ret (0, s1)
     \<and> (if addr < 0x0C0000 then spdev_hl_read bus addr dest 4 s1 else spdev_read bus addr dest 4 s1)
         = Ret (0, le32 val, s2)"
proof -
  obtain s1 where s1: "spdev_write bus addr val s = Ret (0, s1)" "config s1 = config s"
      "slave_mem base (trace s1) = mem_put (slave_mem base (trace s)) addr (le32 val)"
    using spdev_write_ok [OF assms(1-3)] by blast
  have "spi_ready s1" using assms(2) s1(2) by (simp add: spi_ready_def)
  moreover have "mem_bytes (slave_mem base (trace s1)) addr 4 = le32 val"
    using mem_bytes_put [of "le32 val" _ addr] by (simp add: s1(3))
  ultimately show ?thesis
    using s1(1) spdev_hl_read_word [OF assms(1), of s1 addr dest] spdev_read_ok [OF assms(1), of s1 addr dest]
      assms(3,4) by (auto simp: not_less)
qed

text \<open>
  Reading a word of the high-latency region transmits 17 bytes from a 5-byte header array:
  the message's first transfer is 12 bytes longer than the buffer it points to, whatever the
  address.
\<close>

theorem hl_read_overruns_header:
  assumes "spi_ready s" and "off + 4 \<le> length dest"
  shows "\<exists>err d m. spdev_hl_readw bus addr dest off s = Ret (err, d, log (Sync m) s)
     \<and> tx_buf (hd m) = Some (0x0b # addr_bytes addr 0 @ [0])
     \<and> unat (len (hd m)) = length (0x0b # addr_bytes addr 0 @ [0]) + 12"
  using assms spi_readyD [OF assms(1)]
  by (auto simp: spdev_hl_readw_def spdev_read_reg32_hl_def with_config_def spi_sync_def deliver_def
      tx_def Let_def split: prod.splits)

theorem hl_read_overruns_header_witness:
  "\<exists>err d m. spdev_hl_readw (\<lambda>_ _. (0, [])) 8 [0, 0, 0, 0] 0
        (snd (spdev_init spdev_defconfig \<lparr>config = None, max_speed_hz = 0, of_speed = None, trace = []\<rparr>))
      = Ret (err, d, log (Sync m)
         (snd (spdev_init spdev_defconfig \<lparr>config = None, max_speed_hz = 0, of_speed = None, trace = []\<rparr>)))
    \<and> unat (len (hd m)) = 17"
  using hl_read_overruns_header [OF spi_ready_init, where off = 0 and dest = "[0, 0, 0, 0]"
      and bus = "\<lambda>_ _. (0, [])" and addr = 8]
  by fastforce

subsection \<open>The wake-up polls as instances of the bounded wait\<close>

definition status_read :: "u8 \<Rightarrow> spi_transfer list" where
  "status_read reg = [\<lparr>tx_buf = Some [reg, 0, 0, 0, 0, 0], rx_buf = True, len = 6\<rparr>]"

definition poll_events :: "u8 \<Rightarrow> nat \<Rightarrow> spi_event list" where
  "poll_events reg n = concat (replicate n [Sync (status_read reg), Msleep 10])"

text \<open>Whether the status read after the history \<open>evs\<close> succeeds and shows a bit of \<open>mask\<close>.\<close>

definition status_shows :: "bus \<Rightarrow> u8 \<Rightarrow> u8 \<Rightarrow> spi_event list \<Rightarrow> bool" where
  "status_shows bus reg msk evs =
     (case bus evs (status_read reg) of
        (err, sr) \<Rightarrow> err = 0 \<and> sr_byte sr 1 AND msk \<noteq> 0)"

text \<open>The number of polls, out of \<open>n\<close>, that precede the first one that shows the awake bit.\<close>

definition awake_at :: "bus \<Rightarrow> spi_event list \<Rightarrow> nat \<Rightarrow> nat \<Rightarrow> nat" where
  "awake_at bus evs i n =
     poll (\<lambda>j. status_shows bus 0x1F RPU_AWAKE_BIT (evs @ poll_events 0x1F j)) i n"

lemma poll_events_snoc: "poll_events reg n @ [Sync (status_read reg), Msleep 10] = poll_events reg (Suc n)"
  by (induction n) (simp_all add: poll_events_def)

lemma spdev_read_reg_unfold:
  "spdev_read_reg bus reg val s =
     (if config s = None then UB NullDeref
      else case bus (trace s) (status_read (ucast reg)) of
        (err, sr) \<Rightarrow> Ret (err, if err = 0 then sr_byte sr 1 else val,
                          log (Sync (status_read (ucast reg))) s))"
  by (simp add: spdev_read_reg_def with_config_def spi_sync_def status_read_def Let_def
      split: option.splits prod.splits)

lemma log_trace [simp]: "trace (log e s) = trace s @ [e]" "config (log e s) = config s"
  by (simp_all add: log_def)

text \<open>The registers are named by bytes, so the narrowing of the register address is exact.\<close>

lemma awake_poll_spec:
  assumes "config s \<noteq> None" and "val AND RPU_AWAKE_BIT = 0" and "trace s = evs @ poll_events 0x1F i"
    and "k = awake_at bus evs i n"
  shows "\<exists>v s'. awake_poll bus n val s = Ret (v, s')
     \<and> (v AND RPU_AWAKE_BIT \<noteq> 0 \<longleftrightarrow> k < i + n)
     \<and> trace s' = evs @ poll_events 0x1F k @ (if k < i + n then [Sync (status_read 0x1F)] else [])"
  using assms(1-3) unfolding assms(4) awake_at_def
proof (induction n arbitrary: i val s)
  case (Suc n)
  obtain err sr where b: "bus (trace s) (status_read 0x1F) = (err, sr)" by fastforce
  let ?v = "if err = 0 then sr_byte sr 1 else val"
  let ?s = "log (Sync (status_read 0x1F)) s"
  have rd: "spdev_read_reg bus 0x1F val s = Ret (err, ?v, ?s)"
    using Suc.prems(1) b by (simp add: spdev_read_reg_unfold)
  show ?case
  proof (cases "status_shows bus 0x1F RPU_AWAKE_BIT (trace s)")
    case True
    then have "err = 0 \<and> ?v AND RPU_AWAKE_BIT \<noteq> 0" using b by (simp add: status_shows_def)
    then show ?thesis using rd True Suc.prems(3) by auto
  next
    case False
    then have no: "?v AND RPU_AWAKE_BIT = 0" using b Suc.prems(2) by (auto simp: status_shows_def)
    have "trace (log (Msleep 10) ?s) = evs @ poll_events 0x1F (Suc i)"
      using Suc.prems(3) poll_events_snoc [of "0x1F" i] by simp
    from Suc.IH [OF _ no this] show ?thesis
      using rd no False Suc.prems(1,3) by simp
  qed
qed simp

text \<open>
  C40. \<open>spdev_wait_while_rpu_awake\<close> reads status register 0x1F at most ten times, 10 ms apart, and
  stops at the first successful read that shows the awake bit; its result carries the awake
  bit exactly when such a read occurred, so the caller can tell a wake-up from a time-out.
\<close>

theorem wait_while_rpu_awake_spec:
  assumes "config s \<noteq> None"
    and "k = awake_at bus (trace s) 0 10"
  shows "k \<le> 10 \<and> (\<exists>v s'. spdev_wait_while_rpu_awake bus s = Ret (v, s')
     \<and> (v AND RPU_AWAKE_BIT \<noteq> 0 \<longleftrightarrow> k < 10)
     \<and> trace s' = trace s @ poll_events 0x1F k @ (if k < 10 then [Sync (status_read 0x1F)] else []))"
  using poll_bounds [of 0 _ 10] awake_poll_spec [OF assms(1), of 0 "trace s" 0 k bus 10] assms(2)
  by (simp add: spdev_wait_while_rpu_awake_def poll_events_def awake_at_def)

theorem wait_while_rpu_awake_spec_witness:
  "\<exists>v s'. spdev_wait_while_rpu_awake (\<lambda>evs _. (0, [0, if length evs < 3 then 0 else 2]))
        \<lparr>config = Some spdev_defconfig, max_speed_hz = 0, of_speed = None, trace = []\<rparr> = Ret (v, s')
     \<and> v AND RPU_AWAKE_BIT \<noteq> 0 \<and> length (trace s') = 5"
  using wait_while_rpu_awake_spec [of "\<lparr>config = Some spdev_defconfig, max_speed_hz = 0,
      of_speed = None, trace = []\<rparr>" _ "\<lambda>evs _. (0, [0, if length evs < 3 then 0 else 2])"]
  by (fastforce simp: awake_at_def status_shows_def sr_byte_def RPU_AWAKE_BIT_def poll_events_def
      eval_nat_numeral)

lemma wake_write_timeout:
  assumes "config s \<noteq> None" and "0 < n \<or> ret = 0"
    and "\<And>evs. fst (bus evs (status_read 0x2F)) = 0 \<and> \<not> status_shows bus 0x2F RPU_WAKEUP_NOW evs"
  shows "\<exists>s'. wake_write_poll bus n ret val s = Ret (0, s') \<and> max_speed_hz s' = max_speed_hz s"
  using assms(1,2)
proof (induction n arbitrary: ret val s)
  case (Suc n)
  obtain err sr where b: "bus (trace s) (status_read 0x2F) = (err, sr)" by fastforce
  then have "err = 0" "sr_byte sr 1 AND RPU_WAKEUP_NOW = 0"
    using assms(3) [of "trace s"] by (auto simp: status_shows_def)
  with b Suc.prems(1) Suc.IH [of "log (Msleep 10) (log (Sync (status_read 0x2F)) s)" 0] show ?case
    by (simp add: spdev_read_reg_unfold log_def)
qed simp

text \<open>
  \<open>spdev_wait_while_rpu_wake_write\<close> does not report a time-out: when the wake-up bit never
  appears but the status reads themselves succeed, it still returns 0, and the clock stays at
  whatever speed the wake-up write selected.
\<close>

theorem wake_write_silent_timeout:
  assumes "config s \<noteq> None"
    and "\<And>evs. fst (bus evs (status_read 0x2F)) = 0 \<and> \<not> status_shows bus 0x2F RPU_WAKEUP_NOW evs"
  shows "\<exists>s'. spdev_wait_while_rpu_wake_write bus s = Ret (0, s') \<and> max_speed_hz s' = max_speed_hz s"
  using wake_write_timeout [OF assms(1) _ assms(2), of 10] by (simp add: spdev_wait_while_rpu_wake_write_def)

theorem wake_write_silent_timeout_witness:
  "\<exists>s'. spdev_wait_while_rpu_wake_write (\<lambda>_ _. (0, []))
       \<lparr>config = Some spdev_defconfig, max_speed_hz = 8000000, of_speed = None, trace = []\<rparr> = Ret (0, s')
     \<and> max_speed_hz s' = 8000000"
  using wake_write_silent_timeout [of "\<lparr>config = Some spdev_defconfig, max_speed_hz = 8000000,
      of_speed = None, trace = []\<rparr>" "\<lambda>_ _. (0, [])"]
  by (simp add: status_shows_def sr_byte_def)

text \<open>
  The device-tree frequency is stored big-endian but read as a little-endian integer: with
  the shipped overlay's \<open>spi-max-frequency = <112000000>\<close> the bus is set up for 16559110 Hz.
\<close>

theorem spi_speed_byte_swapped:
  assumes "of_speed s = Some (be32 112000000)"
  shows "max_speed_hz (set_spi_speed SPI_SPEED_FROM_DTS s) = 16559110"
proof -
  have "get_le32 (be32 112000000) = (16559110 :: u32)"
    by (simp add: be32_def le32_def drop_bit_eq_div push_bit_eq_mult)
  with assms show ?thesis by (simp add: set_spi_speed_def log_def)
qed

theorem spi_speed_byte_swapped_witness:
  "max_speed_hz (set_spi_speed SPI_SPEED_FROM_DTS
     \<lparr>config = None, max_speed_hz = 0, of_speed = Some (be32 112000000), trace = []\<rparr>) = 16559110"
  using spi_speed_byte_swapped [of "\<lparr>config = None, max_speed_hz = 0,
      of_speed = Some (be32 112000000), trace = []\<rparr>"] by simp

end
