(* ===== verification/Rpu_Hw.thy ===== *)
theory Rpu_Hw
  imports Spi_If
begin

text \<open>
  Power and clock control of the RPU, \<open>spi/src/rpu_hw_if.c\<close>: the two supply GPIOs, the power-on
  sequence, the wake-up handshake and \<open>rpu_enable\<close>, which strings them together. The GPIO
  library of the kernel is a record of its answers.
\<close>

datatype gptr = Null | ErrPtr int | Desc

text \<open>Answers of the device-property and GPIO libraries for the two supply lines.\<close>

record gpio_env =
  present :: "pin \<Rightarrow> bool"
  gpiod_get :: "pin \<Rightarrow> gptr"
  direction_output :: "pin \<Rightarrow> int"

record rpu_hw =
  iovdd :: gptr
  bucken :: gptr
  spi :: spi_if

definition IS_ERR :: "gptr \<Rightarrow> bool" where
  "IS_ERR p = (case p of ErrPtr _ \<Rightarrow> True | _ \<Rightarrow> False)"

definition hw_log :: "spi_event \<Rightarrow> rpu_hw \<Rightarrow> rpu_hw" where
  "hw_log e h = h\<lparr>spi := log e (spi h)\<rparr>"

text \<open>Setting a line through an error pointer is refused by the GPIO library.\<close>

definition gpiod_set_value :: "pin \<Rightarrow> bool \<Rightarrow> gptr \<Rightarrow> rpu_hw \<Rightarrow> rpu_hw" where
  "gpiod_set_value p v ptr h = (if IS_ERR ptr then h else hw_log (GpioSet p v) h)"

definition rpu_gpio_config :: "gpio_env \<Rightarrow> rpu_hw \<Rightarrow> int \<times> rpu_hw" where
  "rpu_gpio_config env h =
     (if \<not> present env Iovdd then (-ENODEV, h) else
      let h = h\<lparr>iovdd := gpiod_get env Iovdd\<rparr> in
      if IS_ERR (iovdd h) then (-ENODEV, h) else
      let h = hw_log (GpioOut Iovdd False) h in
      if direction_output env Iovdd < 0 then (direction_output env Iovdd, h) else
      if \<not> present env Bucken then (-ENODEV, h) else
      let h = h\<lparr>bucken := gpiod_get env Bucken\<rparr> in
      if IS_ERR (bucken h) then (-ENODEV, h) else
      let h = hw_log (GpioOut Bucken False) h in
      if direction_output env Bucken < 0 then (direction_output env Bucken, h) else
      (0, h))"

definition rpu_pwron :: "rpu_hw \<Rightarrow> int \<times> rpu_hw" where
  "rpu_pwron h =
     (if bucken h = Null then (-1, h) else
      let h = gpiod_set_value Bucken False (bucken h) h in
      if iovdd h = Null then (-1, h) else
      let h = gpiod_set_value Iovdd False (iovdd h) h;
          h = hw_log (Msleep 1) h;
          h = gpiod_set_value Bucken True (bucken h) h;
          h = hw_log (Msleep 1) h;
          h = gpiod_set_value Iovdd True (iovdd h) h;
          h = hw_log (Msleep 1) h
      in (0, h))"

definition rpu_spi_init :: "rpu_hw \<Rightarrow> int \<times> rpu_hw" where
  "rpu_spi_init h = (0, h\<lparr>spi := snd (spdev_init spdev_defconfig (spi h))\<rparr>)"

definition rpu_sleep :: "bus \<Rightarrow> rpu_hw \<Rightarrow> (int \<times> rpu_hw) outcome" where
  "rpu_sleep bus h =
     and_then (spdev_cmd_sleep_rpu bus (spi h)) (\<lambda>(r, s). Ret (r, h\<lparr>spi := s\<rparr>))"

definition rpu_wrsr2 :: "bus \<Rightarrow> u8 \<Rightarrow> rpu_hw \<Rightarrow> (int \<times> rpu_hw) outcome" where
  "rpu_wrsr2 bus data h =
     and_then (spdev_cmd_wakeup_rpu bus (ucast data) (spi h)) (\<lambda>(_, s). Ret (0, h\<lparr>spi := s\<rparr>))"

definition rpu_rdsr2 :: "bus \<Rightarrow> rpu_hw \<Rightarrow> (int \<times> rpu_hw) outcome" where
  "rpu_rdsr2 bus h =
     and_then (spdev_wait_while_rpu_wake_write bus (spi h)) (\<lambda>(r, s). Ret (r, h\<lparr>spi := s\<rparr>))"

definition rpu_rdsr1 :: "bus \<Rightarrow> rpu_hw \<Rightarrow> (int \<times> rpu_hw) outcome" where
  "rpu_rdsr1 bus h =
     and_then (spdev_wait_while_rpu_awake bus (spi h)) (\<lambda>(v, s). Ret (int (unat v), h\<lparr>spi := s\<rparr>))"

definition rpu_sleep_status :: "bus \<Rightarrow> rpu_hw \<Rightarrow> (int \<times> rpu_hw) outcome" where
  "rpu_sleep_status bus h = rpu_rdsr1 bus h"

definition rpu_wakeup :: "bus \<Rightarrow> rpu_hw \<Rightarrow> (int \<times> rpu_hw) outcome" where
  "rpu_wakeup bus h =
     and_then (rpu_wrsr2 bus 1 h) (\<lambda>(_, h).
     and_then (rpu_rdsr2 bus h) (\<lambda>(_, h).
     and_then (rpu_rdsr1 bus h) (\<lambda>(_, h). Ret (0, h))))"

definition rpu_clks_on :: "bus \<Rightarrow> rpu_hw \<Rightarrow> int \<times> rpu_hw" where
  "rpu_clks_on bus h =
     (let tx_buffer = [0x02, 0x84, 0x8C, 0x20, 0x00, 0x01, 0x00, 0x00];
          (err, _, s) = spi_sync bus [tx tx_buffer 8] (spi h)
      in (err, h\<lparr>spi := s\<rparr>))"

definition rpu_enable :: "gpio_env \<Rightarrow> bus \<Rightarrow> rpu_hw \<Rightarrow> (int \<times> rpu_hw) outcome" where
  "rpu_enable env bus h =
     (let (_, h) = rpu_gpio_config env h;
          (_, h) = rpu_pwron h;
          (_, h) = rpu_spi_init h
      in and_then (rpu_wakeup bus h) (\<lambda>(_, h).
         let (_, h) = rpu_clks_on bus h in Ret (0, h)))"

definition rpu_disable :: "rpu_hw \<Rightarrow> int \<times> rpu_hw" where
  "rpu_disable h =
     (if bucken h = Null then (-1, h) else
      let h = gpiod_set_value Bucken False (bucken h) h in
      if iovdd h = Null then (-1, h) else
      (0, gpiod_set_value Iovdd False (iovdd h) h))"

subsection \<open>The power-up sequence\<close>

definition power_up :: "spi_event list" where
  "power_up = [GpioOut Iovdd False, GpioOut Bucken False,
     GpioSet Bucken False, GpioSet Iovdd False, Msleep 1,
     GpioSet Bucken True, Msleep 1, GpioSet Iovdd True, Msleep 1]"

definition is_spi :: "spi_event \<Rightarrow> bool" where
  "is_spi e = (case e of Sync _ \<Rightarrow> True | Setup _ \<Rightarrow> True | Msleep _ \<Rightarrow> True | _ \<Rightarrow> False)"

text \<open>Every transport operation only appends SPI events to the trace and keeps the setup.\<close>

definition spi_extends :: "spi_if \<Rightarrow> spi_if \<Rightarrow> bool" where
  "spi_extends s t \<longleftrightarrow> config t = config s \<and> (\<exists>evs. list_all is_spi evs \<and> trace t = trace s @ evs)"

lemma spi_extends_refl [simp]: "spi_extends s s"
  by (auto simp: spi_extends_def intro: exI [of _ "[]"])

lemma spi_extends_trans: "spi_extends s t \<Longrightarrow> spi_extends t u \<Longrightarrow> spi_extends s u"
  by (auto simp: spi_extends_def)

lemma spi_extends_log: "is_spi e \<Longrightarrow> spi_extends s (log e s)"
  by (auto simp: spi_extends_def)

lemma spi_extends_speed: "spi_extends s (set_spi_speed v s)"
  by (auto simp: set_spi_speed_def spi_extends_def log_def is_spi_def split: option.splits)

lemma spi_extends_sync: "spi_sync bus m s = (e, b, t) \<Longrightarrow> spi_extends s t"
  by (auto simp: spi_sync_def spi_extends_def is_spi_def split: prod.splits)

definition runs_spi :: "spi_if \<Rightarrow> ('a \<times> spi_if) outcome \<Rightarrow> bool" where
  "runs_spi s r \<longleftrightarrow> (\<exists>v t. r = Ret (v, t) \<and> spi_extends s t)"

lemma runs_spi_trans: "spi_extends s t \<Longrightarrow> runs_spi t r \<Longrightarrow> runs_spi s r"
  by (auto simp: runs_spi_def intro: spi_extends_trans)

lemma runs_spi_Ret: "spi_extends s t \<Longrightarrow> runs_spi s (Ret (v, t))"
  by (simp add: runs_spi_def)

lemma runs_spiD: "runs_spi s r \<Longrightarrow> \<exists>v t. r = Ret (v, t) \<and> spi_extends s t"
  by (simp add: runs_spi_def)

lemma status_read_extends:
  "spi_extends s (log (Sync m) s)" "spi_extends s (log (Msleep n) (log (Sync m) s))"
  by (auto simp: spi_extends_def is_spi_def)

lemma awake_poll_extends: "config s \<noteq> None \<Longrightarrow> runs_spi s (awake_poll bus n val s)"
proof (induction n arbitrary: val s)
  case (Suc n)
  have "runs_spi s (awake_poll bus n v (log (Msleep 10) (log (Sync (status_read 0x1F)) s)))" for v
    using Suc.prems by (intro runs_spi_trans [OF status_read_extends(2) Suc.IH]) simp
  then show ?case
    using Suc.prems by (auto simp: spdev_read_reg_unfold intro: runs_spi_Ret status_read_extends
        split: prod.splits)
qed (simp add: runs_spi_def)

lemma wake_write_poll_extends: "config s \<noteq> None \<Longrightarrow> runs_spi s (wake_write_poll bus n ret val s)"
proof (induction n arbitrary: ret val s)
  case (Suc n)
  have "runs_spi s (wake_write_poll bus n r v (log (Msleep 10) (log (Sync (status_read 0x2F)) s)))" for r v
    using Suc.prems by (intro runs_spi_trans [OF status_read_extends(2) Suc.IH]) simp
  then show ?case
    using Suc.prems by (auto simp: spdev_read_reg_unfold split: prod.splits
        intro!: runs_spi_Ret intro: spi_extends_trans status_read_extends spi_extends_speed)
qed (simp add: runs_spi_def)

lemma wakeup_cmd_extends: "config s \<noteq> None \<Longrightarrow> runs_spi s (spdev_cmd_wakeup_rpu bus d s)"
  using spi_extends_speed [of s RPU_SPI_WAKEUP_FREQ_MHZ]
  by (auto simp: spdev_cmd_wakeup_rpu_def spdev_write_reg_def with_config_def spi_sync_def
      spi_extends_def is_spi_def runs_spi_def split: option.splits prod.splits)

lemma rpu_wakeup_extends:
  assumes "config (spi h) \<noteq> None"
  shows "\<exists>s. rpu_wakeup bus h = Ret (0, h\<lparr>spi := s\<rparr>) \<and> spi_extends (spi h) s"
proof -
  obtain r1 s1 where 1: "spdev_cmd_wakeup_rpu bus (ucast (1 :: u8)) (spi h) = Ret (r1, s1)"
      "spi_extends (spi h) s1"
    using runs_spiD [OF wakeup_cmd_extends] assms by blast
  then have c1: "config s1 \<noteq> None" using assms by (simp add: spi_extends_def)
  then obtain r2 s2 where 2: "spdev_wait_while_rpu_wake_write bus s1 = Ret (r2, s2)" "spi_extends s1 s2"
    using runs_spiD [OF wake_write_poll_extends] by (metis spdev_wait_while_rpu_wake_write_def)
  then have "config s2 \<noteq> None" using c1 by (simp add: spi_extends_def)
  then obtain v s3 where 3: "spdev_wait_while_rpu_awake bus s2 = Ret (v, s3)" "spi_extends s2 s3"
    using runs_spiD [OF awake_poll_extends] by (metis spdev_wait_while_rpu_awake_def)
  show ?thesis
    using 1 2 3 by (auto simp: rpu_wakeup_def rpu_wrsr2_def rpu_rdsr2_def rpu_rdsr1_def
        intro: spi_extends_trans)
qed

lemma rpu_enable_tail:
  "\<exists>s. rpu_enable env bus h = Ret (0, (snd (rpu_pwron (snd (rpu_gpio_config env h))))\<lparr>spi := s\<rparr>)
     \<and> spi_ready s
     \<and> (\<exists>evs. list_all is_spi evs \<and>
          trace s = trace (spi (snd (rpu_pwron (snd (rpu_gpio_config env h))))) @ evs @
            [Sync [tx [0x02, 0x84, 0x8C, 0x20, 0x00, 0x01, 0x00, 0x00] 8]])"
proof -
  let ?h = "snd (rpu_pwron (snd (rpu_gpio_config env h)))"
  let ?s = "snd (spdev_init spdev_defconfig (spi ?h))"
  have r: "spi_ready ?s" by (rule spi_ready_init)
  then have "config (spi (?h\<lparr>spi := ?s\<rparr>)) \<noteq> None" by (simp add: spi_ready_def)
  then obtain s where s: "rpu_wakeup bus (?h\<lparr>spi := ?s\<rparr>) = Ret (0, ?h\<lparr>spi := s\<rparr>)"
      "spi_extends ?s s"
    using rpu_wakeup_extends [of "?h\<lparr>spi := ?s\<rparr>" bus] by auto
  have "\<exists>evs. list_all is_spi evs \<and> trace ?s = trace (spi ?h) @ evs"
    using spi_extends_speed [of "(spi ?h)\<lparr>config := Some (spdev_defconfig\<lparr>spi_slave_latency := 3\<rparr>)\<rparr>"]
    by (auto simp: spdev_init_def spi_extends_def)
  then obtain evs evs' where "list_all is_spi (evs @ evs')" "trace s = trace (spi ?h) @ evs @ evs'"
    using s(2) by (auto simp: spi_extends_def)
  moreover have "spi_ready s" using r s(2) by (simp add: spi_ready_def spi_extends_def)
  ultimately show ?thesis
    using s(1)
    by (auto simp: rpu_enable_def rpu_spi_init_def rpu_clks_on_def spi_sync_def Let_def
        spi_ready_def split: prod.splits)
qed

lemma gpio_config_ok:
  assumes "\<And>p. present env p" and "\<And>p. gpiod_get env p = Desc" and "\<And>p. 0 \<le> direction_output env p"
  shows "rpu_gpio_config env h =
     (0, h\<lparr>iovdd := Desc, bucken := Desc,
           spi := log (GpioOut Bucken False) (log (GpioOut Iovdd False) (spi h))\<rparr>)"
proof -
  have "\<not> direction_output env p < 0" for p using assms(3) [of p] by simp
  then show ?thesis
    by (simp add: rpu_gpio_config_def assms(1,2) IS_ERR_def hw_log_def Let_def)
qed

lemma pwron_trace:
  assumes "bucken h = Desc" and "iovdd h = Desc"
  shows "trace (spi (snd (rpu_pwron h))) = trace (spi h) @ drop 2 power_up"
  using assms
  by (simp add: rpu_pwron_def gpiod_set_value_def IS_ERR_def hw_log_def Let_def power_up_def numeral_2_eq_2)



text \<open>
  \<open>rpu_enable\<close> never reports a failure: it returns 0 for every answer of the GPIO library
  and every behaviour of the bus, and when the \<open>iovdd-gpio\<close> property is missing it goes on to
  address the device although neither supply line was ever driven.
\<close>

theorem rpu_enable_never_fails:
  "(\<exists>h'. rpu_enable env bus h = Ret (0, h')) \<and>
   (\<not> present env Iovdd \<and> bucken h = Null \<and> trace (spi h) = [] \<longrightarrow>
      (\<exists>h'. rpu_enable env bus h = Ret (0, h') \<and> list_all is_spi (trace (spi h'))
         \<and> trace (spi h') \<noteq> []))"
proof -
  have "trace (spi (snd (rpu_pwron (snd (rpu_gpio_config env h))))) = trace (spi h)"
    if "\<not> present env Iovdd" "bucken h = Null"
    using that by (simp add: rpu_gpio_config_def rpu_pwron_def)
  then show ?thesis
    using rpu_enable_tail [of env bus h] by (auto simp: is_spi_def)
qed

theorem rpu_enable_never_fails_witness:
  "\<exists>h'. rpu_enable \<lparr>present = \<lambda>_. False, gpiod_get = \<lambda>_. ErrPtr 2, direction_output = \<lambda>_. 0\<rparr> (\<lambda>_ _. (- EIO, []))
        \<lparr>iovdd = Null, bucken = Null,
         spi = \<lparr>config = None, max_speed_hz = 0, of_speed = None, trace = []\<rparr>\<rparr> = Ret (0, h')
     \<and> list_all is_spi (trace (spi h')) \<and> trace (spi h') \<noteq> []"
  using rpu_enable_never_fails [of "\<lparr>present = \<lambda>_. False, gpiod_get = \<lambda>_. ErrPtr 2, direction_output = \<lambda>_. 0\<rparr>"
      "\<lambda>_ _. (- EIO, [])" "\<lparr>iovdd = Null, bucken = Null,
         spi = \<lparr>config = None, max_speed_hz = 0, of_speed = None, trace = []\<rparr>\<rparr>"]
  by simp

text \<open>
  The literal frame of \<open>rpu_clks_on\<close> is the register write \<open>0x048C20 := 0x100\<close> of the transport.
\<close>

theorem rpu_clks_on_is_write:
  assumes "spi_ready (spi h)"
  shows "spdev_write bus 0x048C20 0x100 (spi h) =
     (case rpu_clks_on bus h of (err, h') \<Rightarrow> Ret (err, spi h'))"
proof -
  have "0x02 # addr_bytes 0x048C20 0x80 @ le32 0x100 = [0x02, 0x84, 0x8C, 0x20, 0x00, 0x01, 0x00, 0x00]"
    by (simp add: addr_bytes_def le32_def drop_bit_eq_div)
  then show ?thesis
    using spi_readyD [OF assms]
    by (simp add: spdev_write_def rpu_clks_on_def with_config_def spi_sync_def Let_def split: prod.splits)
qed

theorem rpu_clks_on_is_write_witness:
  "spdev_write (\<lambda>_ _. (0, [])) 0x048C20 0x100
       (snd (spdev_init spdev_defconfig \<lparr>config = None, max_speed_hz = 0, of_speed = None, trace = []\<rparr>)) =
     (case rpu_clks_on (\<lambda>_ _. (0, [])) \<lparr>iovdd = Desc, bucken = Desc,
         spi = snd (spdev_init spdev_defconfig \<lparr>config = None, max_speed_hz = 0, of_speed = None, trace = []\<rparr>)\<rparr>
      of (err, h') \<Rightarrow> Ret (err, spi h'))"
  using rpu_clks_on_is_write [of "\<lparr>iovdd = Desc, bucken = Desc,
      spi = snd (spdev_init spdev_defconfig \<lparr>config = None, max_speed_hz = 0, of_speed = None, trace = []\<rparr>)\<rparr>"]
    spi_ready_init by simp

end
