(* ===== verification/Shim_Llist.thy ===== *)
theory Shim_Llist
  imports Nrf_Prelude
begin

text \<open>
  The linked lists of the OS shim (\<open>shim.c\<close>, \<open>shim_llist_*\<close>) over an explicit heap of
  \<open>struct list_head\<close> links. A node and a list both start with their \<open>list_head\<close>, so a pointer to
  the object is the pointer to its links. The link surgery of the kernel's \<open>list.h\<close>
  (\<open>list_add_tail\<close>, \<open>list_del_init\<close>) is written out as the pointer assignments it performs.
  Every operation is shown to implement the corresponding operation on the sequence of nodes
  and to leave all other lists alone; the contract is a locale whose clients need not know
  about pointers.
\<close>

type_synonym addr = nat

abbreviation NULL :: addr where "NULL \<equiv> 0"

record lheap =
  nxt :: "addr \<Rightarrow> addr"
  prv :: "addr \<Rightarrow> addr"
  data :: "addr \<Rightarrow> addr"
  llen :: "addr \<Rightarrow> u32"

subsection \<open>Kernel list primitives\<close>

definition INIT_LIST_HEAD :: "addr \<Rightarrow> lheap \<Rightarrow> lheap" where
  "INIT_LIST_HEAD p h = h\<lparr>nxt := (nxt h)(p := p), prv := (prv h)(p := p)\<rparr>"

definition list_add_tail :: "addr \<Rightarrow> addr \<Rightarrow> lheap \<Rightarrow> lheap" where
  "list_add_tail new head h =
     (let prev = prv h head;
          h = h\<lparr>prv := (prv h)(head := new)\<rparr>;
          h = h\<lparr>nxt := (nxt h)(new := head)\<rparr>;
          h = h\<lparr>prv := (prv h)(new := prev)\<rparr>
      in h\<lparr>nxt := (nxt h)(prev := new)\<rparr>)"

definition list_del_init :: "addr \<Rightarrow> lheap \<Rightarrow> lheap" where
  "list_del_init entry h =
     (let prev = prv h entry; nex = nxt h entry;
          h = h\<lparr>prv := (prv h)(nex := prev)\<rparr>;
          h = h\<lparr>nxt := (nxt h)(prev := nex)\<rparr>
      in INIT_LIST_HEAD entry h)"

subsection \<open>The shim's operations\<close>

text \<open>Allocation gets the address from the allocator, \<open>NULL\<close> on failure; the memory is zeroed.\<close>

definition zeroed :: "addr \<Rightarrow> lheap \<Rightarrow> lheap" where
  "zeroed p h = h\<lparr>nxt := (nxt h)(p := NULL), prv := (prv h)(p := NULL),
                  data := (data h)(p := NULL), llen := (llen h)(p := 0)\<rparr>"

definition shim_llist_node_alloc :: "addr \<Rightarrow> lheap \<Rightarrow> addr \<times> lheap" where
  "shim_llist_node_alloc p h = (if p = NULL then (NULL, h) else (p, INIT_LIST_HEAD p (zeroed p h)))"

definition shim_llist_node_data_get :: "addr \<Rightarrow> lheap \<Rightarrow> addr" where
  "shim_llist_node_data_get n h = data h n"

definition shim_llist_node_data_set :: "addr \<Rightarrow> addr \<Rightarrow> lheap \<Rightarrow> lheap" where
  "shim_llist_node_data_set n d h = h\<lparr>data := (data h)(n := d)\<rparr>"

definition shim_llist_alloc :: "addr \<Rightarrow> lheap \<Rightarrow> addr \<times> lheap" where
  "shim_llist_alloc p h = (if p = NULL then (NULL, h) else (p, zeroed p h))"

definition shim_llist_init :: "addr \<Rightarrow> lheap \<Rightarrow> lheap" where
  "shim_llist_init l h = INIT_LIST_HEAD l h"

definition shim_llist_add_node_tail :: "addr \<Rightarrow> addr \<Rightarrow> lheap \<Rightarrow> lheap" where
  "shim_llist_add_node_tail l n h =
     (if l = NULL \<or> n = NULL then h
      else let h = list_add_tail n l h in h\<lparr>llen := (llen h)(l := llen h l + 1)\<rparr>)"

definition shim_llist_get_node_head :: "addr \<Rightarrow> lheap \<Rightarrow> addr" where
  "shim_llist_get_node_head l h =
     (if l = NULL then NULL else if llen h l = 0 then NULL else nxt h l)"

definition shim_llist_get_node_nxt :: "addr \<Rightarrow> addr \<Rightarrow> lheap \<Rightarrow> addr" where
  "shim_llist_get_node_nxt l n h =
     (if l = NULL \<or> n = NULL then NULL
      else if nxt h n = n then NULL
      else if nxt h n = l then NULL
      else nxt h n)"

text \<open>
  \<open>list_for_each_entry\<close> follows the links until it is back at the list head; on a corrupt list
  it may never be, which is the value \<open>None\<close>.
\<close>

partial_function (option) find_node :: "lheap \<Rightarrow> addr \<Rightarrow> addr \<Rightarrow> addr \<Rightarrow> bool option" where
  "find_node h l n iter =
     (if iter = l then Some False
      else if iter = n then Some True
      else find_node h l n (nxt h iter))"

definition shim_llist_del_node :: "addr \<Rightarrow> addr \<Rightarrow> lheap \<Rightarrow> lheap option" where
  "shim_llist_del_node l n h =
     (if l = NULL \<or> n = NULL then Some h
      else case find_node h l n (nxt h l) of
        None \<Rightarrow> None
      | Some False \<Rightarrow> Some h
      | Some True \<Rightarrow>
          let h = list_del_init n h in
          Some (if llen h l \<noteq> 0 then h\<lparr>llen := (llen h)(l := llen h l - 1)\<rparr> else h))"

definition shim_llist_len :: "addr \<Rightarrow> lheap \<Rightarrow> u32" where
  "shim_llist_len l h = (if l = NULL then 0 else llen h l)"

declare find_node.simps [code]

subsection \<open>Circular lists\<close>

text \<open>\<open>path f a xs b\<close>: following \<open>f\<close> from \<open>a\<close> meets exactly the addresses \<open>xs\<close> and then \<open>b\<close>.\<close>

fun path :: "(addr \<Rightarrow> addr) \<Rightarrow> addr \<Rightarrow> addr list \<Rightarrow> addr \<Rightarrow> bool" where
  "path f a [] b \<longleftrightarrow> f a = b"
| "path f a (x # xs) b \<longleftrightarrow> f a = x \<and> path f x xs b"

definition is_llist :: "lheap \<Rightarrow> addr \<Rightarrow> addr list \<Rightarrow> bool" where
  "is_llist h l ns \<longleftrightarrow>
     distinct (l # ns) \<and> NULL \<notin> set (l # ns) \<and>
     path (nxt h) l ns l \<and> path (prv h) l (rev ns) l \<and>
     llen h l = of_nat (length ns) \<and> length ns < 2 ^ 32"

lemma path_append: "path f a (xs @ y # ys) b \<longleftrightarrow> path f a xs y \<and> path f y ys b"
  by (induction xs arbitrary: a) auto

lemma path_cong:
  "path f a xs b \<Longrightarrow> (\<And>x. x \<in> set (a # xs) \<Longrightarrow> g x = f x) \<Longrightarrow> path g a xs b"
  by (induction xs arbitrary: a) auto

lemma path_upd [simp]: "u \<notin> set (a # xs) \<Longrightarrow> path (f(u := v)) a xs b = path f a xs b"
  by (induction xs arbitrary: a) auto

lemma path_redirect:
  "distinct (a # xs) \<Longrightarrow> path f a xs b \<Longrightarrow> path (f(last (a # xs) := c)) a xs c"
  by (induction xs arbitrary: a) (auto split: if_splits)

lemma path_first: "path f a xs b \<Longrightarrow> f a = hd (xs @ [b])"
  by (cases xs) auto

lemma path_from:
  "path f a xs b \<Longrightarrow> g c = f a \<Longrightarrow> (\<And>x. x \<in> set xs \<Longrightarrow> g x = f x) \<Longrightarrow> path g c xs b"
  by (cases xs) (auto intro: path_cong)

lemma path_remove:
  assumes "distinct (a # xs @ n # ys)" and "path f a (xs @ n # ys) b"
  shows "path (f(last (a # xs) := f n)) a (xs @ ys) b"
proof -
  have *: "path f a xs n" "path f n ys b" using assms(2) by (simp_all add: path_append)
  have r: "path (f(last (a # xs) := f n)) a xs (f n)"
    using path_redirect [OF _ *(1)] assms(1) by simp
  show ?thesis
  proof (cases ys)
    case Nil
    then show ?thesis using r *(2) by simp
  next
    case (Cons y zs)
    have "last (a # xs) \<notin> set (y # zs)"
      using assms(1) Cons last_in_set [of "a # xs"] by auto
    then show ?thesis using r *(2) Cons by (simp add: path_append)
  qed
qed

lemma is_llist_first:
  assumes "is_llist h l ns"
  shows "nxt h l = hd (ns @ [l])" and "prv h l = last (l # ns)"
proof -
  show "nxt h l = hd (ns @ [l])"
    using assms by (auto simp: is_llist_def dest: path_first)
  have "prv h l = hd (rev ns @ [l])"
    using assms by (auto simp: is_llist_def dest: path_first)
  then show "prv h l = last (l # ns)"
    by (simp add: hd_append hd_rev)
qed

subsection \<open>The operations on the sequence of nodes\<close>

text \<open>An operation that keeps the links of a list keeps the list.\<close>

lemma is_llist_frame:
  assumes "is_llist h m ms"
    and "\<And>x. x \<in> set (m # ms) \<Longrightarrow> nxt h' x = nxt h x \<and> prv h' x = prv h x" and "llen h' m = llen h m"
  shows "is_llist h' m ms"
  using assms by (auto simp: is_llist_def intro: path_cong)

lemma is_llist_init:
  "l \<noteq> NULL \<Longrightarrow> llen h l = 0 \<Longrightarrow> is_llist (shim_llist_init l h) l []"
  by (simp add: is_llist_def shim_llist_init_def INIT_LIST_HEAD_def)

lemma add_node_tail_ok:
  assumes l: "is_llist h l ns" and n: "n \<notin> set (l # ns)" "n \<noteq> NULL" and len: "length ns + 1 < 2 ^ 32"
  shows "is_llist (shim_llist_add_node_tail l n h) l (ns @ [n])"
proof -
  let ?p = "last (l # ns)"
  let ?h = "shim_llist_add_node_tail l n h"
  have d: "distinct (l # ns)" "NULL \<notin> set (l # ns)"
    and path: "path (nxt h) l ns l" "path (prv h) l (rev ns) l"
    using l by (auto simp: is_llist_def)
  have p: "prv h l = ?p" by (rule is_llist_first [OF l])
  have pn: "?p \<noteq> n" "?p \<in> set (l # ns)" using n(1) last_in_set [of "l # ns"] by auto
  have h: "nxt ?h = (nxt h)(n := l, ?p := n)" "prv ?h = (prv h)(l := n, n := ?p)"
    "llen ?h = (llen h)(l := llen h l + 1)"
    using d(2) n by (simp_all add: shim_llist_add_node_tail_def list_add_tail_def Let_def p)
  have "path ((nxt h)(n := l, ?p := n)) l ns n"
    by (intro path_redirect d) (use path(1) n(1) in simp)
  moreover have "path (prv ?h) n (rev ns) l"
    by (rule path_from [OF path(2)]) (use n(1) d(1) p in \<open>auto simp: h\<close>)
  ultimately show ?thesis
    using d n len pn l by (auto simp: is_llist_def path_append h)
qed

lemma find_node_path:
  assumes "path (nxt h) a ns l" and "distinct (l # ns)"
  shows "find_node h l n (nxt h a) = Some (n \<in> set ns)"
  using assms
proof (induction ns arbitrary: a)
  case Nil
  then show ?case by (subst find_node.simps) simp
next
  case (Cons x xs)
  then have "find_node h l n (nxt h x) = Some (n \<in> set xs)" by simp
  with Cons.prems show ?case by (subst find_node.simps) auto
qed

lemma list_del_init_ok:
  assumes l: "is_llist h l (as @ n # bs)"
  shows "path (nxt (list_del_init n h)) l (as @ bs) l"
    and "path (prv (list_del_init n h)) l (rev (as @ bs)) l"
proof -
  have d: "distinct (l # as @ n # bs)" "distinct (l # rev bs @ n # rev as)"
    and path: "path (nxt h) l (as @ n # bs) l" "path (prv h) l (rev bs @ n # rev as) l"
    using l by (auto simp: is_llist_def)
  have "path (nxt h) n bs l" "path (prv h) n (rev as) l"
    using path by (simp_all add: path_append)
  then have nx: "nxt h n = hd (bs @ [l])" "prv h n = hd (rev as @ [l])"
    by (auto dest: path_first)
  have ends: "hd (rev as @ [l]) = last (l # as)" "hd (bs @ [l]) = last (l # rev bs)"
    by (simp_all add: hd_append hd_rev last_rev)
  have n: "n \<noteq> last (l # as)" "n \<noteq> last (l # rev bs)" "n \<notin> set (l # as @ bs)"
    using d last_in_set [of "l # as"] last_in_set [of "l # rev bs"] by auto
  have h: "nxt (list_del_init n h) = (nxt h)(last (l # as) := nxt h n, n := n)"
    "prv (list_del_init n h) = (prv h)(last (l # rev bs) := prv h n, n := n)"
    using n(1,2)
    by (auto simp: list_del_init_def INIT_LIST_HEAD_def Let_def nx ends fun_eq_iff)
  show "path (nxt (list_del_init n h)) l (as @ bs) l"
    using path_remove [OF d(1) path(1)] n(3) by (simp add: h)
  show "path (prv (list_del_init n h)) l (rev (as @ bs)) l"
    using path_remove [OF d(2) path(2)] n(3) by (simp add: h)
qed

lemma del_node_ok:
  assumes l: "is_llist h l ns" and n: "n \<noteq> l"
  shows "\<exists>h'. shim_llist_del_node l n h = Some h' \<and> is_llist h' l (remove1 n ns)"
proof (cases "n \<in> set ns")
  case True
  then obtain as bs where ns: "ns = as @ n # bs" "n \<notin> set as"
    by (meson split_list_first)
  let ?h = "list_del_init n h"
  have f: "find_node h l n (nxt h l) = Some True"
    using find_node_path [of h l ns l n] l True by (auto simp: is_llist_def)
  have nz: "l \<noteq> NULL" "n \<noteq> NULL"
    using l True unfolding is_llist_def by (metis list.set_intros(1), metis list.set_intros(2))
  have len: "llen ?h = llen h" by (simp add: list_del_init_def INIT_LIST_HEAD_def Let_def)
  have "unat (of_nat (length ns) :: u32) = length ns"
    using l by (simp add: is_llist_def unat_of_nat)
  then have "llen h l \<noteq> 0"
    using l True by (auto simp: is_llist_def)
  then show ?thesis
    using f nz len list_del_init_ok [of h l as n bs] l ns
    by (auto simp: shim_llist_del_node_def is_llist_def remove1_append Let_def)
next
  case False
  have "find_node h l n (nxt h l) = Some False"
    using find_node_path [of h l ns l n] l False by (auto simp: is_llist_def)
  with l False show ?thesis
    by (auto simp: shim_llist_del_node_def remove1_idem)
qed

text \<open>Reading operations.\<close>

lemma get_node_head_ok:
  assumes "is_llist h l ns"
  shows "shim_llist_get_node_head l h = (if ns = [] then NULL else hd ns)"
proof -
  have "unat (of_nat (length ns) :: u32) = length ns"
    using assms by (simp add: is_llist_def unat_of_nat)
  then have "llen h l = 0 \<longleftrightarrow> ns = []"
    using assms by (auto simp: is_llist_def)
  with assms is_llist_first(1) [OF assms] show ?thesis
    by (auto simp: shim_llist_get_node_head_def is_llist_def)
qed

lemma get_node_nxt_ok:
  assumes "is_llist h l (as @ n # bs)"
  shows "shim_llist_get_node_nxt l n h = (if bs = [] then NULL else hd bs)"
proof -
  have "nxt h n = hd (bs @ [l])"
    using assms by (auto simp: is_llist_def path_append dest: path_first)
  moreover have "hd (bs @ [l]) = l \<longleftrightarrow> bs = []" "hd (bs @ [l]) \<noteq> n" "l \<noteq> NULL" "n \<noteq> NULL"
    using assms by (cases bs; auto simp: is_llist_def)+
  ultimately show ?thesis
    by (simp add: shim_llist_get_node_nxt_def hd_append)
qed

lemma llist_len_ok: "is_llist h l ns \<Longrightarrow> unat (shim_llist_len l h) = length ns"
  by (simp add: is_llist_def shim_llist_len_def unat_of_nat)

text \<open>Other lists: no operation on \<open>l\<close> changes a list that shares no node with it.\<close>

lemma add_node_tail_frame:
  assumes "is_llist h l ns" and "is_llist h m ms" and "set (m # ms) \<inter> set (l # n # ns) = {}"
  shows "is_llist (shim_llist_add_node_tail l n h) m ms"
proof (rule is_llist_frame [OF assms(2)])
  have p: "prv h l \<in> set (l # ns)"
    using is_llist_first(2) [OF assms(1)] last_in_set [of "l # ns"] by simp
  show "nxt (shim_llist_add_node_tail l n h) x = nxt h x \<and> prv (shim_llist_add_node_tail l n h) x = prv h x"
    if "x \<in> set (m # ms)" for x
  proof -
    have "x \<noteq> l" "x \<noteq> n" "x \<noteq> prv h l" using that assms(3) p by auto
    then show ?thesis by (simp add: shim_llist_add_node_tail_def list_add_tail_def Let_def)
  qed
  show "llen (shim_llist_add_node_tail l n h) m = llen h m"
    using assms(3) by (auto simp: shim_llist_add_node_tail_def list_add_tail_def Let_def)
qed

lemma del_node_frame:
  assumes "is_llist h l ns" and "n \<in> set ns" and "is_llist h m ms"
    and "set (m # ms) \<inter> set (l # ns) = {}" and "shim_llist_del_node l n h = Some h'"
  shows "is_llist h' m ms"
proof (rule is_llist_frame [OF assms(3)])
  obtain as bs where ns: "ns = as @ n # bs" using assms(2) by (meson split_list)
  have "path (nxt h) n bs l" "path (prv h) n (rev as) l"
    using assms(1) ns by (auto simp: is_llist_def path_append)
  then have "nxt h n = hd (bs @ [l])" "prv h n = hd (rev as @ [l])"
    by (auto dest: path_first)
  then have inn: "nxt h n \<in> set (l # ns)" "prv h n \<in> set (l # ns)"
    using hd_in_set [of "bs @ [l]"] hd_in_set [of "rev as @ [l]"] ns by auto
  show "nxt h' x = nxt h x \<and> prv h' x = prv h x" if "x \<in> set (m # ms)" for x
  proof -
    have "x \<noteq> n" "x \<noteq> nxt h n" "x \<noteq> prv h n" using that assms(2,4) inn by auto
    then show ?thesis
      using assms(5)
      by (auto simp: shim_llist_del_node_def list_del_init_def INIT_LIST_HEAD_def Let_def
          split: option.splits bool.splits if_splits)
  qed
  show "llen h' m = llen h m"
    using assms(4,5)
    by (auto simp: shim_llist_del_node_def list_del_init_def INIT_LIST_HEAD_def Let_def
        split: option.splits bool.splits if_splits)
qed

lemma data_unchanged:
  "data (shim_llist_add_node_tail l n h) = data h"
  "shim_llist_del_node l n h = Some h' \<Longrightarrow> data h' = data h"
  by (auto simp: shim_llist_add_node_tail_def list_add_tail_def shim_llist_del_node_def
      list_del_init_def INIT_LIST_HEAD_def Let_def split: option.splits bool.splits if_splits)

subsection \<open>The list contract of the OS abstraction layer\<close>

text \<open>
  The users of the OS layer (the transmit and pending queues of the driver core) see lists
  only through these operations. Their view: a list is the sequence of its nodes. A client
  that repeatedly takes the head node off is \<open>drain\<close>; one that follows the next pointers
  from a node is \<open>walk\<close>.
\<close>

fun drain :: "('h \<Rightarrow> addr) \<Rightarrow> (addr \<Rightarrow> 'h \<Rightarrow> 'h option) \<Rightarrow> nat \<Rightarrow> 'h \<Rightarrow> (addr list \<times> 'h) option" where
  "drain hd_op del_op 0 h = Some ([], h)"
| "drain hd_op del_op (Suc k) h =
     (let n = hd_op h in
      if n = NULL then Some ([], h)
      else case del_op n h of
        None \<Rightarrow> None
      | Some h' \<Rightarrow> (case drain hd_op del_op k h' of
            None \<Rightarrow> None
          | Some (ns, h'') \<Rightarrow> Some (n # ns, h'')))"

fun walk :: "(addr \<Rightarrow> addr) \<Rightarrow> nat \<Rightarrow> addr \<Rightarrow> addr list" where
  "walk nxt_op 0 n = []"
| "walk nxt_op (Suc k) n = (if n = NULL then [] else n # walk nxt_op k (nxt_op n))"

lemma walk_NULL [simp]: "walk f k NULL = []"
  by (cases k) simp_all

locale os_llist =
  fixes lst :: "'h \<Rightarrow> addr \<Rightarrow> addr list \<Rightarrow> bool"
    and add_tail :: "addr \<Rightarrow> addr \<Rightarrow> 'h \<Rightarrow> 'h"
    and get_head :: "addr \<Rightarrow> 'h \<Rightarrow> addr"
    and get_nxt :: "addr \<Rightarrow> addr \<Rightarrow> 'h \<Rightarrow> addr"
    and del_node :: "addr \<Rightarrow> addr \<Rightarrow> 'h \<Rightarrow> 'h option"
    and list_len :: "addr \<Rightarrow> 'h \<Rightarrow> u32"
  assumes lst_nodes: "lst h l ns \<Longrightarrow> distinct (l # ns) \<and> NULL \<notin> set (l # ns)"
    and add_law: "lst h l ns \<Longrightarrow> n \<notin> set (l # ns) \<Longrightarrow> n \<noteq> NULL \<Longrightarrow> length ns + 1 < 2 ^ 32 \<Longrightarrow>
        lst (add_tail l n h) l (ns @ [n])"
    and del_law: "lst h l ns \<Longrightarrow> n \<noteq> l \<Longrightarrow> \<exists>h'. del_node l n h = Some h' \<and> lst h' l (remove1 n ns)"
    and head_law: "lst h l ns \<Longrightarrow> get_head l h = (if ns = [] then NULL else hd ns)"
    and nxt_law: "lst h l (as @ n # bs) \<Longrightarrow> get_nxt l n h = (if bs = [] then NULL else hd bs)"
    and len_law: "lst h l ns \<Longrightarrow> unat (list_len l h) = length ns"
begin

lemma add_many:
  "lst h l ns \<Longrightarrow> distinct (l # ns @ ms) \<Longrightarrow> NULL \<notin> set ms \<Longrightarrow> length ns + length ms < 2 ^ 32 \<Longrightarrow>
     lst (fold (add_tail l) ms h) l (ns @ ms)"
proof (induction ms arbitrary: h ns)
  case (Cons m ms)
  then have "lst (add_tail l m h) l (ns @ [m])" by (intro add_law) auto
  then show ?case using Cons.IH [of "add_tail l m h" "ns @ [m]"] Cons.prems by simp
qed simp

lemma drain_all:
  "lst h l ns \<Longrightarrow> length ns \<le> k \<Longrightarrow> \<exists>h'. drain (get_head l) (del_node l) k h = Some (ns, h') \<and> lst h' l []"
proof (induction k arbitrary: h ns)
  case (Suc k)
  show ?case
  proof (cases ns)
    case Nil
    then show ?thesis using Suc.prems head_law [of h l ns] by simp
  next
    case (Cons n ms)
    have "n \<noteq> NULL" "n \<noteq> l" using lst_nodes [OF Suc.prems(1)] Cons by auto
    moreover obtain h' where "del_node l n h = Some h'" "lst h' l ms"
      using del_law [OF Suc.prems(1) \<open>n \<noteq> l\<close>] Cons by auto
    moreover have "get_head l h = n" using head_law [OF Suc.prems(1)] Cons by simp
    ultimately show ?thesis
      using Suc.IH [of h' ms] Suc.prems(2) Cons by auto
  qed
qed simp

lemma walk_suffix:
  "lst h l (as @ ns) \<Longrightarrow> length ns \<le> k \<Longrightarrow> walk (\<lambda>n. get_nxt l n h) k (if ns = [] then NULL else hd ns) = ns"
proof (induction ns arbitrary: as k)
  case (Cons n ns)
  then obtain k' where k: "k = Suc k'" "length ns \<le> k'" by (cases k) auto
  have "n \<noteq> NULL" using lst_nodes [OF Cons.prems(1)] by auto
  moreover have "get_nxt l n h = (if ns = [] then NULL else hd ns)"
    using nxt_law [of h l as n ns] Cons.prems(1) by simp
  ultimately show ?case using Cons.IH [of "as @ [n]" k'] Cons.prems(1) k by simp
qed simp

lemma fifo:
  assumes "lst h l []" and "distinct (l # ms)" and "NULL \<notin> set ms" and "length ms < 2 ^ 32"
  shows "\<exists>h'. drain (get_head l) (del_node l) (length ms) (fold (add_tail l) ms h) = Some (ms, h') \<and> lst h' l []"
  using add_many [of h l "[]" ms] drain_all [of _ l ms "length ms"] assms by auto

end

interpretation shim_list: os_llist is_llist shim_llist_add_node_tail shim_llist_get_node_head
  shim_llist_get_node_nxt shim_llist_del_node shim_llist_len
proof
  show "is_llist h l ns \<Longrightarrow> distinct (l # ns) \<and> NULL \<notin> set (l # ns)" for h l ns
    by (simp add: is_llist_def)
qed (fact add_node_tail_ok del_node_ok get_node_head_ok get_node_nxt_ok llist_len_ok)+

text \<open>
  C6. The pointer lists of the shim implement sequences of nodes: appending, deleting (also a
  node that is not in the list, which changes nothing), and reading the head, the successor
  and the length of a well-formed circular list all act as on the sequence, and deletion
  terminates.
\<close>

theorem shim_llist_refines_sequence:
  assumes "is_llist h l ns"
  shows "(n \<notin> set (l # ns) \<and> n \<noteq> NULL \<and> length ns + 1 < 2 ^ 32 \<longrightarrow>
            is_llist (shim_llist_add_node_tail l n h) l (ns @ [n]))
     \<and> (n \<noteq> l \<longrightarrow> (\<exists>h'. shim_llist_del_node l n h = Some h' \<and> is_llist h' l (remove1 n ns)))
     \<and> shim_llist_get_node_head l h = (if ns = [] then NULL else hd ns)
     \<and> walk (\<lambda>n. shim_llist_get_node_nxt l n h) (length ns) (shim_llist_get_node_head l h) = ns
     \<and> unat (shim_llist_len l h) = length ns"
  using assms add_node_tail_ok [OF assms, of n] del_node_ok [OF assms, of n] get_node_head_ok [OF assms]
    shim_list.walk_suffix [of h l "[]" ns "length ns"] llist_len_ok [OF assms]
  by auto

definition empty_heap :: lheap where
  "empty_heap = \<lparr>nxt = \<lambda>_. NULL, prv = \<lambda>_. NULL, data = \<lambda>_. NULL, llen = \<lambda>_. 0\<rparr>"

lemma empty_list: "is_llist (shim_llist_init 5 empty_heap) 5 []"
  by (rule is_llist_init) (simp_all add: empty_heap_def)

theorem shim_llist_refines_sequence_witness:
  "is_llist (shim_llist_add_node_tail 5 7 (shim_llist_init 5 empty_heap)) 5 [7]
   \<and> shim_llist_get_node_head 5 (shim_llist_init 5 empty_heap) = NULL"
  using shim_llist_refines_sequence [OF empty_list, of 7] by simp

text \<open>
  The shim's lists are first-in first-out queues: nodes appended one by one to an empty list
  and then taken from the head until it is empty come back in the order they were added.
\<close>

theorem shim_llist_fifo:
  assumes "is_llist h l []" and "distinct (l # ms)" and "NULL \<notin> set ms" and "length ms < 2 ^ 32"
  shows "\<exists>h'. drain (shim_llist_get_node_head l) (shim_llist_del_node l) (length ms)
       (fold (shim_llist_add_node_tail l) ms h) = Some (ms, h') \<and> is_llist h' l []"
  by (rule shim_list.fifo [OF assms])

theorem shim_llist_fifo_witness:
  "\<exists>h'. drain (shim_llist_get_node_head 5) (shim_llist_del_node 5) (length [9, 7, 8 :: addr])
       (fold (shim_llist_add_node_tail 5) [9, 7, 8] (shim_llist_init 5 empty_heap)) = Some ([9, 7, 8], h')
     \<and> is_llist h' 5 []"
  by (rule shim_llist_fifo [OF empty_list]) simp_all

text \<open>
  Lists do not interfere: appending to or deleting from one list leaves every other list
  with different nodes unchanged, and no list operation changes the data of any node.
\<close>

theorem shim_llist_separation:
  assumes "is_llist h l ns" and "is_llist h m ms" and "set (m # ms) \<inter> set (l # n # ns) = {}"
  shows "is_llist (shim_llist_add_node_tail l n h) m ms
     \<and> data (shim_llist_add_node_tail l n h) = data h
     \<and> (\<forall>h'. n \<in> set ns \<longrightarrow> shim_llist_del_node l n h = Some h' \<longrightarrow> is_llist h' m ms \<and> data h' = data h)"
  using assms add_node_tail_frame [OF assms] del_node_frame [OF assms(1) _ assms(2)] data_unchanged
  by auto

theorem shim_llist_separation_witness:
  "is_llist (shim_llist_add_node_tail 5 7 (shim_llist_init 6 (shim_llist_init 5 empty_heap))) 6 []"
proof -
  have "is_llist (shim_llist_init 6 (shim_llist_init 5 empty_heap)) 5 []"
    "is_llist (shim_llist_init 6 (shim_llist_init 5 empty_heap)) 6 []"
    by (simp_all add: is_llist_def shim_llist_init_def INIT_LIST_HEAD_def empty_heap_def)
  from shim_llist_separation [OF this, of 7] show ?thesis by simp
qed

end
