(* ===== verification/Shim_Bus.thy ===== *)
theory Shim_Bus
  imports Rpu_Hw
begin

text \<open>
  The rest of the OS shim (\<open>shim.c\<close>): the SPI accessors that pick the access method by address
  and round transfer sizes to words, assertions and microsecond time, and the bus glue that
  registers the driver, probes and removes the device and requests its interrupt. Kernel
  services appear as arguments that give their results; allocations and releases are
  recorded in a ledger.
\<close>

subsection \<open>SPI accessors\<close>

text \<open>\<open>val\<close> is an uninitialised local: its four bytes are an argument.\<close>

definition shim_spi_read_reg32 ::
  "bus \<Rightarrow> u8 list \<Rightarrow> ulong \<Rightarrow> spi_if \<Rightarrow> (u32 \<times> spi_if) outcome" where
  "shim_spi_read_reg32 bus val addr s =
     and_then (if addr < 0x0C0000 then spdev_hl_read bus addr val 4 s else spdev_read bus addr val 4 s)
       (\<lambda>(_, val, s). Ret (get_le32 val, s))"

definition shim_spi_write_reg32 :: "bus \<Rightarrow> ulong \<Rightarrow> u32 \<Rightarrow> spi_if \<Rightarrow> spi_if outcome" where
  "shim_spi_write_reg32 bus addr val s =
     and_then (spdev_write bus addr val s) (\<lambda>(_, s). Ret s)"

definition word_count :: "ulong \<Rightarrow> ulong" where
  "word_count count = (if count mod 4 \<noteq> 0 then (count + 4) AND 0xFFFFFFFC else count)"

text \<open>\<open>cp_from\<close> and \<open>cp_to\<close> take the count as an \<open>int\<close>.\<close>

definition shim_spi_cpy_from ::
  "bus \<Rightarrow> u8 list \<Rightarrow> ulong \<Rightarrow> ulong \<Rightarrow> spi_if \<Rightarrow> (u8 list \<times> spi_if) outcome" where
  "shim_spi_cpy_from bus dest addr count s =
     and_then (spdev_cp_from bus dest addr (sint (ucast (word_count count) :: u32)) s)
       (\<lambda>(_, dest, s). Ret (dest, s))"

definition shim_spi_cpy_to :: "bus \<Rightarrow> ulong \<Rightarrow> u8 list \<Rightarrow> ulong \<Rightarrow> spi_if \<Rightarrow> spi_if outcome" where
  "shim_spi_cpy_to bus addr src count s =
     and_then (spdev_cp_to bus addr src (sint (ucast (word_count count) :: u32)) s) (\<lambda>(_, s). Ret s)"

lemma sint_ucast_small:
  assumes "unat (w :: ulong) < 2 ^ 31"
  shows "sint (ucast w :: u32) = int (unat w)"
proof -
  have "unat (ucast w :: u32) = unat w"
    using assms by (simp add: unsigned_ucast_eq take_bit_nat_eq_self)
  then have u: "uint (ucast w :: u32) = int (unat w)"
    by (metis int_nat_eq nat_uint_eq of_nat_unat uint_nat)
  then have "sint (ucast w :: u32) = signed_take_bit 31 (int (unat w))"
    by (simp add: sint_uint)
  also have "\<dots> = int (unat w)"
    using of_nat_less_iff [of "unat w" "2 ^ 31", where 'a = int] assms
    by (intro signed_take_bit_int_eq_self) (simp_all del: of_nat_unat)
  finally show ?thesis .
qed

lemma round4_mask:
  assumes "n mod 4 \<noteq> 0" and "n < 2 ^ 31"
  shows "unat ((of_nat n + 4 :: ulong) AND 0xFFFFFFFC) = round4 n"
proof -
  have n: "unat (of_nat n + 4 :: ulong) = n + 4"
    using assms(2) by (simp add: unat_word_ariths unat_of_nat)
  have mask: "(0xFFFFFFFC :: ulong) = push_bit 2 (mask 30)"
    by (simp add: push_bit_eq_mult mask_eq_exp_minus_1)
  have "(of_nat n + 4 :: ulong) AND 0xFFFFFFFC = push_bit 2 (take_bit 30 (drop_bit 2 (of_nat n + 4)))"
  proof (rule bit_word_eqI)
    fix k
    have "Suc (Suc (k - 2)) = k" if "2 \<le> k" using that by simp
    then show "bit ((of_nat n + 4 :: ulong) AND 0xFFFFFFFC) k =
        bit (push_bit 2 (take_bit 30 (drop_bit 2 (of_nat n + 4 :: ulong)))) k"
      unfolding mask by (auto simp: bit_simps)
  qed
  moreover have "unat (drop_bit 2 (of_nat n + 4) :: ulong) = (n + 4) div 4"
    using unat_drop_bit_eq [of 2 "of_nat n + 4 :: ulong"] n by (simp add: drop_bit_eq_div unat_div)
  moreover have "(n + 4) div 4 < 2 ^ 30" using assms(2) by (simp add: less_mult_imp_div_less)
  ultimately have "unat ((of_nat n + 4 :: ulong) AND 0xFFFFFFFC) = 4 * ((n + 4) div 4)"
    by (simp add: push_bit_eq_mult unat_word_ariths unsigned_take_bit_eq take_bit_nat_eq_self)
  moreover have "(n + 4) div 4 = (n + 3) div 4"
    using assms(1) by presburger
  ultimately show ?thesis by (simp add: round4_def)
qed

lemma word_count_round4:
  assumes "n < 2 ^ 31 - 4"
  shows "unat (word_count (of_nat n)) = round4 n"
    and "sint (ucast (word_count (of_nat n)) :: u32) = int (round4 n)"
proof -
  have r: "round4 n \<le> n + 3" by (simp add: round4_def)
  have u: "unat (of_nat n :: ulong) = n" using assms by (simp add: unat_of_nat)
  show *: "unat (word_count (of_nat n)) = round4 n"
  proof (cases "n mod 4 = 0")
    case True
    then have "(of_nat n :: ulong) mod 4 = 0" by (simp add: word_unat_eq_iff unat_mod u)
    moreover have "round4 n = n" using True by (auto simp: round4_def mod_eq_0_iff_dvd elim!: dvdE)
    ultimately show ?thesis using u by (simp add: word_count_def)
  next
    case False
    then have "(of_nat n :: ulong) mod 4 \<noteq> 0" by (simp add: word_unat_eq_iff unat_mod u)
    then show ?thesis using round4_mask [OF False] assms by (simp add: word_count_def)
  qed
  have "sint (ucast (word_count (of_nat n)) :: u32) = int (unat (word_count (of_nat n)))"
    using * r assms by (intro sint_ucast_small) simp
  then show "sint (ucast (word_count (of_nat n)) :: u32) = int (round4 n)" using * by simp
qed

lemma round4_idem [simp]: "round4 (round4 n) = round4 n"
  by (simp add: round4_def)

lemma round4_le: "round4 n \<le> n + 3"
  by (simp add: round4_def)

text \<open>
  C4. Through the OS layer, bytes copied to a device that behaves as a memory are read back
  unchanged, in both address regions and for sizes that are not a multiple of four: both
  directions then transfer the next multiple of four, so both buffers need that room.
\<close>

theorem shim_copy_round_trip:
  assumes "memory_slave bus base" and "spi_ready s" and "n < 2 ^ 31 - 4"
    and "unat addr + round4 n \<le> 0x0C0000 \<or> 0x0C0000 \<le> addr \<and> unat addr < 2 ^ 23"
    and "length src = round4 n" and "round4 n \<le> length dest"
  shows "\<exists>s1 s2 d. shim_spi_cpy_to bus addr src (of_nat n) s = Ret s1
     \<and> shim_spi_cpy_from bus dest addr (of_nat n) s1 = Ret (d, s2)
     \<and> take n d = take n src \<and> drop (round4 n) d = drop (round4 n) dest"
proof -
  have "length src < 2 ^ 31" using assms(3,5) round4_le [of n] by simp
  then obtain s1 s2 d where "spdev_cp_to bus addr src (int (round4 n)) s = Ret (0, s1)"
      "spdev_cp_from bus dest addr (int (round4 n)) s1 = Ret (0, d, s2)"
      "take (round4 n) d = src" "drop (round4 n) d = drop (round4 n) dest"
    using spi_copy_round_trip [OF assms(1,2), of src addr dest] assms(4-6) by auto
  moreover from this(3) have "take n d = take n src"
    using round4_ge [of n] by (metis min.absorb1 take_take)
  ultimately show ?thesis
    using word_count_round4(2) [OF assms(3)]
    by (simp add: shim_spi_cpy_to_def shim_spi_cpy_from_def)
qed

definition fresh_spi :: "spi_if" where
  "fresh_spi = snd (spdev_init spdev_defconfig
     \<lparr>config = None, max_speed_hz = 0, of_speed = None, trace = []\<rparr>)"

lemma fresh_spi_ready: "spi_ready fresh_spi"
  by (simp add: fresh_spi_def spi_ready_init)

theorem shim_copy_round_trip_witness:
  "\<exists>s1 s2 d. shim_spi_cpy_to (ideal_bus (\<lambda>_. 0)) 0x1000 [1, 2, 3, 4, 5, 0, 0, 0] 5 fresh_spi = Ret s1
     \<and> shim_spi_cpy_from (ideal_bus (\<lambda>_. 0)) (replicate 9 7) 0x1000 5 s1 = Ret (d, s2)
     \<and> take 5 d = [1, 2, 3, 4, 5] \<and> drop 8 d = [7]"
  using shim_copy_round_trip [OF ideal_bus_memory_slave [of "\<lambda>_. 0"] fresh_spi_ready,
      of 5 "0x1000" "[1, 2, 3, 4, 5, 0, 0, 0]" "replicate 9 7"]
  by (simp add: round4_def)

text \<open>
  C12. A register written by \<open>shim_spi_write_reg32\<close> is read back by \<open>shim_spi_read_reg32\<close>, which
  picks the high-latency access below 0x0C0000 and the direct one above.
\<close>

theorem shim_register_round_trip:
  assumes "memory_slave bus base" and "spi_ready s" and "unat addr < 2 ^ 23" and "length junk = 4"
  shows "\<exists>s1 s2. shim_spi_write_reg32 bus addr val s = Ret s1
     \<and> shim_spi_read_reg32 bus junk addr s1 = Ret (val, s2)"
proof -
  have "get_le32 (le32 val) = val" using get_le32_le32 [of val "[]"] by simp
  then show ?thesis
    using spi_register_round_trip [OF assms, of val]
    by (auto simp: shim_spi_write_reg32_def shim_spi_read_reg32_def)
qed

theorem shim_register_round_trip_witness:
  "\<exists>s1 s2. shim_spi_write_reg32 (ideal_bus (\<lambda>_. 0)) 0x0C4000 0xDEADBEEF fresh_spi = Ret s1
     \<and> shim_spi_read_reg32 (ideal_bus (\<lambda>_. 0)) [9, 9, 9, 9] 0x0C4000 s1 = Ret (0xDEADBEEF, s2)"
  using shim_register_round_trip [OF ideal_bus_memory_slave [of "\<lambda>_. 0"] fresh_spi_ready,
      of "0x0C4000" "[9, 9, 9, 9]" "0xDEADBEEF"] by simp

text \<open>
  Copying from the device into a buffer of exactly the requested size overruns it whenever
  that size is not a multiple of four.
\<close>

theorem shim_cpy_from_overruns:
  assumes "spi_ready s" and "0x0C0000 \<le> addr" and "n < 2 ^ 31 - 4" and "n mod 4 \<noteq> 0"
    and "length dest = n"
  shows "shim_spi_cpy_from bus dest addr (of_nat n) s = UB OutOfBounds"
proof -
  have "n < round4 n" using assms(4) by (simp add: round4_def) presburger
  moreover have "unat (word_of_nat (round4 n) :: u32) = round4 n"
    using assms(3) round4_le [of n] by (simp add: unat_of_nat)
  moreover have "\<not> addr < 0x0C0000" using assms(2) by simp
  ultimately show ?thesis
    using word_count_round4(2) [OF assms(3)] assms(5) spi_readyD [OF assms(1)]
    by (simp add: shim_spi_cpy_from_def spdev_cp_from_def with_config_def deliver_def Let_def
        split: prod.splits)
qed

theorem shim_cpy_from_overruns_witness:
  "shim_spi_cpy_from (ideal_bus (\<lambda>_. 0)) [0, 0, 0, 0, 0] 0x0C0000 5 fresh_spi = UB OutOfBounds"
  using shim_cpy_from_overruns [OF fresh_spi_ready, of "0x0C0000" 5 "[0, 0, 0, 0, 0]"] by simp

subsection \<open>Assertions and time\<close>

datatype assert_op =
  ASSERT_EQUAL_TO | ASSERT_NOT_EQUAL_TO | ASSERT_LESS_THAN | ASSERT_LESS_THAN_EQUAL_TO
| ASSERT_GREATER_THAN | ASSERT_GREATER_THAN_EQUAL_TO | ASSERT_OTHER

datatype report = Quiet | Warned | InvalidOp

definition WARN :: "bool \<Rightarrow> report" where
  "WARN c = (if c then Warned else Quiet)"

definition shim_assert :: "int \<Rightarrow> int \<Rightarrow> assert_op \<Rightarrow> report" where
  "shim_assert test_val val op =
     (case op of
        ASSERT_EQUAL_TO \<Rightarrow> WARN (test_val \<noteq> val)
      | ASSERT_NOT_EQUAL_TO \<Rightarrow> WARN (test_val = val)
      | ASSERT_LESS_THAN \<Rightarrow> WARN (test_val \<ge> val)
      | ASSERT_LESS_THAN_EQUAL_TO \<Rightarrow> WARN (test_val > val)
      | ASSERT_GREATER_THAN \<Rightarrow> WARN (test_val \<le> val)
      | ASSERT_GREATER_THAN_EQUAL_TO \<Rightarrow> WARN (test_val < val)
      | ASSERT_OTHER \<Rightarrow> InvalidOp)"

text \<open>\<open>ktime\<close> is the kernel's nanosecond clock reading.\<close>

definition shim_time_get_curr_us :: "u64 \<Rightarrow> ulong" where
  "shim_time_get_curr_us ktime = ktime div 1000"

definition shim_time_elapsed_us :: "u64 \<Rightarrow> ulong \<Rightarrow> u32" where
  "shim_time_elapsed_us ktime start_time_us = ucast (ktime div 1000 - start_time_us)"

lemma elapsed_exact:
  assumes "t0 \<le> t1" and "unat t1 div 1000 - unat t0 div 1000 < 2 ^ 32"
  shows "unat (shim_time_elapsed_us t1 (shim_time_get_curr_us t0)) = unat t1 div 1000 - unat t0 div 1000"
proof -
  have "unat t0 div 1000 \<le> unat t1 div 1000"
    using assms(1) by (simp add: word_le_nat_alt div_le_mono)
  then have "unat (t1 div 1000 - t0 div 1000) = unat t1 div 1000 - unat t0 div 1000"
    by (simp add: unat_sub_if' unat_div)
  with assms(2) show ?thesis
    by (simp add: shim_time_elapsed_us_def shim_time_get_curr_us_def unsigned_ucast_eq take_bit_nat_eq_self)
qed

subsection \<open>Driver registration and device life cycle\<close>

datatype kobj = KPriv | KDrv | KDevId | KDevCtx | KWq | KIrq

datatype kevent = KAlloc kobj | KFree kobj

text \<open>\<open>spi_dev\<close> and \<open>rpu_ctx\<close> are handles; \<open>drvdata\<close> is the driver data of the SPI device.\<close>

record spi_dev_ctx =
  lnx_rpu_ctx :: "nat option"
  osal_ctx :: nat

record spi_priv =
  spi_drv :: bool
  spi_dev_id :: bool
  spi_dev :: "nat option"
  spdev :: bool
  wq :: bool
  intr_callbk :: "nat option"
  host_irq :: gptr
  irq_enabled :: bool
  dev_added :: bool
  dev_init :: bool

record spi_bus =
  priv :: "spi_priv option"
  drvdata :: "nat \<Rightarrow> spi_dev_ctx option"
  drv_reg_scheduled :: bool
  ledger :: "kevent list"
  hw :: rpu_hw

definition zero_priv :: spi_priv where
  "zero_priv = \<lparr>spi_drv = False, spi_dev_id = False, spi_dev = None, spdev = False, wq = False,
     intr_callbk = None, host_irq = Null, irq_enabled = False, dev_added = False, dev_init = False\<rparr>"

definition book :: "kevent \<Rightarrow> spi_bus \<Rightarrow> spi_bus" where
  "book e b = b\<lparr>ledger := ledger b @ [e]\<rparr>"

definition with_priv :: "spi_bus \<Rightarrow> (spi_priv \<Rightarrow> 'a outcome) \<Rightarrow> 'a outcome" where
  "with_priv b f = (case priv b of None \<Rightarrow> UB NullDeref | Some p \<Rightarrow> f p)"

text \<open>
  \<open>alloc\<close> says which of the three allocations succeed. The result is whether the returned
  pointer is non-NULL.
\<close>

definition shim_bus_spi_init :: "(kobj \<Rightarrow> bool) \<Rightarrow> spi_bus \<Rightarrow> bool \<times> spi_bus" where
  "shim_bus_spi_init alloc b =
     (if \<not> alloc KPriv then (False, b) else
      let b = book (KAlloc KPriv) (b\<lparr>priv := Some zero_priv\<rparr>) in
      if \<not> alloc KDrv then (True, b) else
      let b = book (KAlloc KDrv) b in
      if \<not> alloc KDevId then (False, book (KFree KPriv) (book (KFree KDrv) (b\<lparr>priv := None\<rparr>))) else
      let b = book (KAlloc KDevId) b in
      (True, b\<lparr>priv := Some (zero_priv\<lparr>spi_drv := True, spi_dev_id := True, dev_init := True\<rparr>),
               drv_reg_scheduled := True\<rparr>))"

definition shim_bus_spi_reg_drv :: "bool \<Rightarrow> spi_bus \<Rightarrow> spi_bus outcome" where
  "shim_bus_spi_reg_drv register_fails b =
     with_priv b (\<lambda>p.
       if register_fails
       then Ret (book (KFree KPriv) (book (KFree KDrv) (book (KFree KDevId) (b\<lparr>priv := None\<rparr>))))
       else Ret b)"

definition shim_bus_spi_dev_init :: "spi_bus \<Rightarrow> spi_bus outcome" where
  "shim_bus_spi_dev_init b = with_priv b (\<lambda>p. Ret (b\<lparr>priv := Some (p\<lparr>dev_init := True\<rparr>)\<rparr>))"

text \<open>\<open>device.c\<close> never sets the \<open>deinit\<close> member of the device it returns.\<close>

definition shim_bus_spi_dev_deinit :: "spi_bus \<Rightarrow> spi_bus outcome" where
  "shim_bus_spi_dev_deinit b = with_priv b (\<lambda>p. UB NullDeref)"

definition shim_bus_spi_dev_add ::
  "gpio_env \<Rightarrow> bus \<Rightarrow> bool \<Rightarrow> nat \<Rightarrow> spi_bus \<Rightarrow> (bool \<times> spi_bus) outcome" where
  "shim_bus_spi_dev_add env sbus alloc_ok osal_spi_dev_ctx b =
     (if \<not> alloc_ok then Ret (False, b) else
      let b = book (KAlloc KDevCtx) b in
      with_priv b (\<lambda>p.
        case spi_dev p of
          None \<Rightarrow> UB NullDeref
        | Some d \<Rightarrow>
            and_then (rpu_enable env sbus (hw b)) (\<lambda>(_, h).
              Ret (True, b\<lparr>hw := h,
                drvdata := (drvdata b)(d \<mapsto> \<lparr>lnx_rpu_ctx = None, osal_ctx = osal_spi_dev_ctx\<rparr>),
                priv := Some (p\<lparr>spdev := True, dev_added := True\<rparr>)\<rparr>))))"

definition shim_bus_spi_dev_rem :: "nat \<Rightarrow> spi_bus \<Rightarrow> spi_bus outcome" where
  "shim_bus_spi_dev_rem d b =
     (case drvdata b d of
        None \<Rightarrow> UB NullDeref
      | Some _ \<Rightarrow>
          with_priv b (\<lambda>p.
            let b = b\<lparr>hw := snd (rpu_disable (hw b))\<rparr>;
                b = (if wq p then book (KFree KWq) b else b)
            in (case spi_dev p of
                  None \<Rightarrow> UB NullDeref
                | Some e \<Rightarrow> Ret (book (KFree KDevCtx) (b\<lparr>drvdata := (drvdata b)(e := None)\<rparr>)))))"

text \<open>
  \<open>dev_add\<close> and \<open>dev_initialise\<close> stand for \<open>nrf_wifi_fmac_dev_add_lnx\<close> and
  \<open>nrf_wifi_fmac_dev_init_lnx\<close>, which run between the two updates of \<open>spi_dev\<close>.
\<close>

definition shim_bus_spi_probe ::
  "(spi_bus \<Rightarrow> nat option \<times> spi_bus) \<Rightarrow> (nat \<Rightarrow> spi_bus \<Rightarrow> bool \<times> spi_bus) \<Rightarrow> nat \<Rightarrow> spi_bus \<Rightarrow>
   (int \<times> spi_bus) outcome" where
  "shim_bus_spi_probe dev_add dev_initialise d b =
     with_priv b (\<lambda>p.
       if spi_dev p \<noteq> None then Ret (-1, b) else
       let (ctx, b) = dev_add (b\<lparr>priv := Some (p\<lparr>spi_dev := Some d\<rparr>)\<rparr>) in
       (case ctx of
          None \<Rightarrow> Ret (-1, b)
        | Some c \<Rightarrow>
            (case drvdata b d of
               None \<Rightarrow> UB NullDeref
             | Some x \<Rightarrow>
                 let (ok, b) = dev_initialise c (b\<lparr>drvdata := (drvdata b)(d \<mapsto> x\<lparr>lnx_rpu_ctx := Some c\<rparr>)\<rparr>) in
                 if \<not> ok then Ret (-1, b)
                 else with_priv b (\<lambda>p. Ret (0, b\<lparr>priv := Some (p\<lparr>spi_dev := None\<rparr>)\<rparr>)))))"

datatype rm_call = DevDeinit "nat option" | DevRem "nat option"

definition shim_bus_spi_remove :: "nat \<Rightarrow> spi_bus \<Rightarrow> rm_call list outcome" where
  "shim_bus_spi_remove d b =
     (case drvdata b d of
        None \<Rightarrow> UB NullDeref
      | Some x \<Rightarrow>
          with_priv b (\<lambda>p. Ret ((if dev_init p then [DevDeinit (lnx_rpu_ctx x)] else []) @
                                (if dev_added p then [DevRem (lnx_rpu_ctx x)] else []))))"

text \<open>Answers of the workqueue, GPIO and interrupt services for \<open>intr_reg\<close>.\<close>

record irq_env =
  alloc_wq :: bool
  irq_gpio :: gptr
  irq_dir :: int
  irq_number :: int
  request_irq :: int

definition shim_bus_spi_intr_reg :: "irq_env \<Rightarrow> nat \<Rightarrow> spi_bus \<Rightarrow> (bool \<times> spi_bus) outcome" where
  "shim_bus_spi_intr_reg e callbk b =
     with_priv b (\<lambda>p.
       if \<not> alloc_wq e then Ret (False, b\<lparr>priv := Some (p\<lparr>wq := False\<rparr>)\<rparr>) else
       let p = p\<lparr>wq := True, intr_callbk := Some callbk\<rparr>;
           b = book (KAlloc KWq) (b\<lparr>priv := Some p\<rparr>) in
       (case spi_dev p of
          None \<Rightarrow> UB NullDeref
        | Some _ \<Rightarrow>
            if IS_ERR (irq_gpio e) then Ret (False, b) else
            if irq_dir e < 0 then Ret (False, b) else
            let p = p\<lparr>host_irq := irq_gpio e\<rparr> in
            if irq_number e \<noteq> 0 then
              (if request_irq e < 0
               then Ret (False, b\<lparr>priv := Some (p\<lparr>irq_enabled := False\<rparr>)\<rparr>)
               else Ret (True, book (KAlloc KIrq) (b\<lparr>priv := Some (p\<lparr>irq_enabled := True\<rparr>)\<rparr>)))
            else Ret (True, b\<lparr>priv := Some p\<rparr>)))"

definition shim_bus_spi_intr_unreg :: "spi_bus \<Rightarrow> spi_bus outcome" where
  "shim_bus_spi_intr_unreg b =
     with_priv b (\<lambda>p. Ret (book (KFree KIrq) (b\<lparr>priv := Some (p\<lparr>irq_enabled := False\<rparr>)\<rparr>)))"

definition shim_bus_spi_deinit :: "spi_bus \<Rightarrow> spi_bus outcome" where
  "shim_bus_spi_deinit b =
     with_priv b (\<lambda>p. Ret (book (KFree KPriv) (book (KFree KDevId) (book (KFree KDrv) (b\<lparr>priv := None\<rparr>)))))"

lemma with_priv_Some [simp]: "priv b = Some p \<Longrightarrow> with_priv b f = f p"
  by (simp add: with_priv_def)

text \<open>
  A probe that cannot add the device (\<open>nrf_wifi_fmac_dev_add_lnx\<close> fails) returns -1 and leaves
  the half-probed device recorded, so that every later probe of any device is refused.
\<close>

theorem probe_failure_is_sticky:
  assumes "priv b = Some p" and "spi_dev p = None"
    and "dev_add (b\<lparr>priv := Some (p\<lparr>spi_dev := Some d\<rparr>)\<rparr>) = (None, b')"
    and "priv b' = Some p'" and "spi_dev p' = Some d"
  shows "shim_bus_spi_probe dev_add dev_initialise d b = Ret (-1, b')
     \<and> (\<forall>add ini e. shim_bus_spi_probe add ini e b' = Ret (-1, b'))"
  using assms by (simp add: shim_bus_spi_probe_def)

definition registered_bus :: spi_bus where
  "registered_bus = \<lparr>priv = Some (zero_priv\<lparr>spi_drv := True, spi_dev_id := True, dev_init := True\<rparr>),
     drvdata = (\<lambda>_. None), drv_reg_scheduled = True, ledger = [],
     hw = \<lparr>iovdd = Desc, bucken = Desc, spi = fresh_spi\<rparr>\<rparr>"

theorem probe_failure_is_sticky_witness:
  "\<exists>b'. shim_bus_spi_probe (\<lambda>b. (None, b)) (\<lambda>c b. (True, b)) 3 registered_bus = Ret (-1, b')
     \<and> shim_bus_spi_probe (\<lambda>b. (Some 1, b)) (\<lambda>c b. (True, b)) 4 b' = Ret (-1, b')"
  using probe_failure_is_sticky [of registered_bus _ "\<lambda>b. (None, b)" 3 _ _ "\<lambda>c b. (True, b)"]
  by (simp add: registered_bus_def zero_priv_def)

text \<open>
  A successful probe clears the recorded device, and \<open>shim_bus_spi_dev_rem\<close> then passes that
  NULL pointer to \<open>spi_set_drvdata\<close>: removing a device that was probed successfully always
  dereferences NULL.
\<close>

theorem remove_after_probe_derefs_null:
  assumes "shim_bus_spi_probe dev_add dev_initialise d b = Ret (0, b')"
  shows "shim_bus_spi_dev_rem e b' = UB NullDeref"
  using assms
  by (auto simp: shim_bus_spi_probe_def shim_bus_spi_dev_rem_def with_priv_def Let_def
      split: option.splits if_splits prod.splits)

definition add_dev :: "spi_bus \<Rightarrow> nat option \<times> spi_bus" where
  "add_dev b =
     (case shim_bus_spi_dev_add \<lparr>present = \<lambda>_. True, gpiod_get = \<lambda>_. Desc, direction_output = \<lambda>_. 0\<rparr>
             (\<lambda>_ _. (0, [])) True 9 b of
        Ret (True, b') \<Rightarrow> (Some 1, b') | Ret (False, b') \<Rightarrow> (None, b') | UB _ \<Rightarrow> (None, b))"

theorem remove_after_probe_derefs_null_witness:
  "\<exists>b'. shim_bus_spi_probe add_dev (\<lambda>c b. (True, b)) 3 registered_bus = Ret (0, b')
     \<and> shim_bus_spi_dev_rem 3 b' = UB NullDeref"
proof -
  obtain h where "rpu_enable \<lparr>present = \<lambda>_. True, gpiod_get = \<lambda>_. Desc, direction_output = \<lambda>_. 0\<rparr>
      (\<lambda>_ _. (0, [])) (hw registered_bus) = Ret (0, h)"
    using rpu_enable_tail by blast
  then have "\<exists>b'. shim_bus_spi_probe add_dev (\<lambda>c b. (True, b)) 3 registered_bus = Ret (0, b')"
    by (simp add: shim_bus_spi_probe_def add_dev_def shim_bus_spi_dev_add_def registered_bus_def
        book_def zero_priv_def)
  then show ?thesis using remove_after_probe_derefs_null by blast
qed

text \<open>
  \<open>shim_bus_spi_init\<close> returns NULL exactly when the first or the third allocation fails; when
  only the second fails it returns a private structure without a driver, and no driver
  registration is ever scheduled. Whatever it returns NULL for, it has freed.
\<close>

theorem shim_bus_spi_init_spec:
  assumes "priv b = None" and "\<not> drv_reg_scheduled b"
  shows "\<exists>r b'. shim_bus_spi_init alloc b = (r, b')
     \<and> (r \<longleftrightarrow> alloc KPriv \<and> (\<not> alloc KDrv \<or> alloc KDevId))
     \<and> (r \<longleftrightarrow> priv b' \<noteq> None)
     \<and> (drv_reg_scheduled b' \<longleftrightarrow> alloc KPriv \<and> alloc KDrv \<and> alloc KDevId)
     \<and> (\<not> r \<longrightarrow> (\<forall>k. count_list (ledger b') (KAlloc k) + count_list (ledger b) (KFree k)
                    = count_list (ledger b') (KFree k) + count_list (ledger b) (KAlloc k)))"
  using assms by (auto simp: shim_bus_spi_init_def book_def Let_def)

theorem shim_bus_spi_init_spec_witness:
  "\<exists>r b'. shim_bus_spi_init (\<lambda>k. k \<noteq> KDrv)
       (registered_bus\<lparr>priv := None, drv_reg_scheduled := False\<rparr>) = (r, b')
     \<and> r \<and> priv b' \<noteq> None \<and> \<not> drv_reg_scheduled b'"
  using shim_bus_spi_init_spec [of "registered_bus\<lparr>priv := None, drv_reg_scheduled := False\<rparr>"
      "\<lambda>k. k \<noteq> KDrv"]
  by auto

end
