(* ===== verification/Radiotap.thy ===== *)
theory Radiotap
  imports Nrf_Prelude
begin

text \<open>
  Monitor mode (\<open>netdev.c\<close>, \<open>main.c\<close>): the conversion of injected frames, which arrive with a
  radiotap header, into raw transmit frames of the firmware, and the radiotap header that is
  put in front of sniffed frames. The kernel's radiotap iterator, the constants of the
  firmware interface and the layout of its raw transmit header are parameters; the radiotap
  field numbers and channel flags are those of the standard.
\<close>

subsection \<open>Parameters and data\<close>

record raw_tx_pkt_header =
  magic_num :: u32
  data_rate :: u8
  packet_length :: u16
  tx_mode :: u8
  queue :: u8
  raw_tx_flag :: u8

record rawtx_consts =
  NRF_WIFI_MAGIC_NUM_RAWTX :: u32
  RAWTX_MODE_LEGACY :: u8
  RAWTX_MODE_HT :: u8
  RAWTX_MODE_VHT :: u8
  FMAC_AC_BE :: u8
  RPU_TPUT_MODE_LEGACY :: u8
  raw_tx_encode :: "raw_tx_pkt_header \<Rightarrow> u8 list"
  raw_tx_size :: nat

record sk_buff =
  skb_data :: "u8 list"
  skb_headroom :: nat

text \<open>A field of a radiotap header: its index, the bytes its argument points at, its size.\<close>

type_synonym rt_field = "nat \<times> (nat \<Rightarrow> u8) option \<times> nat"

text \<open>The iterator on a buffer: \<open>None\<close> when its initialisation fails, else the fields it visits.\<close>

type_synonym rt_iter = "u8 list \<Rightarrow> rt_field list option"

abbreviation IEEE80211_RADIOTAP_FLAGS :: nat where "IEEE80211_RADIOTAP_FLAGS \<equiv> 1"
abbreviation IEEE80211_RADIOTAP_RATE :: nat where "IEEE80211_RADIOTAP_RATE \<equiv> 2"
abbreviation IEEE80211_RADIOTAP_CHANNEL :: nat where "IEEE80211_RADIOTAP_CHANNEL \<equiv> 3"
abbreviation IEEE80211_RADIOTAP_DBM_ANTSIGNAL :: nat where "IEEE80211_RADIOTAP_DBM_ANTSIGNAL \<equiv> 5"
abbreviation IEEE80211_RADIOTAP_MCS :: nat where "IEEE80211_RADIOTAP_MCS \<equiv> 19"
abbreviation IEEE80211_RADIOTAP_VHT :: nat where "IEEE80211_RADIOTAP_VHT \<equiv> 21"
abbreviation RADIOTAP_MCS_HAVE_MCS :: u8 where "RADIOTAP_MCS_HAVE_MCS \<equiv> 2"
abbreviation IEEE80211_CHAN_CCK :: u16 where "IEEE80211_CHAN_CCK \<equiv> 0x20"
abbreviation IEEE80211_CHAN_OFDM :: u16 where "IEEE80211_CHAN_OFDM \<equiv> 0x40"
abbreviation IEEE80211_CHAN_2GHZ :: u16 where "IEEE80211_CHAN_2GHZ \<equiv> 0x80"
abbreviation IEEE80211_CHAN_5GHZ :: u16 where "IEEE80211_CHAN_5GHZ \<equiv> 0x100"

definition skb_pull :: "nat \<Rightarrow> sk_buff \<Rightarrow> sk_buff" where
  "skb_pull n skb = skb\<lparr>skb_data := drop n (skb_data skb), skb_headroom := skb_headroom skb + n\<rparr>"

text \<open>\<open>skb_cow_head\<close> makes room for the header, or fails; \<open>skb_push\<close> then takes it.\<close>

definition skb_cow_head :: "bool \<Rightarrow> nat \<Rightarrow> sk_buff \<Rightarrow> sk_buff option" where
  "skb_cow_head fails n skb =
     (if fails then None else Some (skb\<lparr>skb_headroom := max n (skb_headroom skb)\<rparr>))"

definition skb_push :: "u8 list \<Rightarrow> sk_buff \<Rightarrow> sk_buff" where
  "skb_push bs skb = skb\<lparr>skb_data := bs @ skb_data skb, skb_headroom := skb_headroom skb - length bs\<rparr>"

subsection \<open>Injection\<close>

definition nrf_wifi_map_radiotap_rate :: "u8 \<Rightarrow> u8" where
  "nrf_wifi_map_radiotap_rate rt_rate =
     (if rt_rate = 11 then 55
      else if rt_rate AND 1 = 0 then rt_rate div 2
      else 0)"

definition tx_meta_field :: "rawtx_consts \<Rightarrow> rt_field \<Rightarrow> raw_tx_pkt_header \<Rightarrow> raw_tx_pkt_header" where
  "tx_meta_field K f raw_hdr =
     (case f of (index, arg, sz) \<Rightarrow>
       if index = IEEE80211_RADIOTAP_RATE then
         (case arg of
            Some a \<Rightarrow>
              let mapped_rate = nrf_wifi_map_radiotap_rate (a 0) in
              if mapped_rate \<noteq> 0
              then raw_hdr\<lparr>tx_mode := RAWTX_MODE_LEGACY K, data_rate := mapped_rate\<rparr> else raw_hdr
          | None \<Rightarrow> raw_hdr)
       else if index = IEEE80211_RADIOTAP_MCS then
         (case arg of
            Some a \<Rightarrow>
              if a 0 AND RADIOTAP_MCS_HAVE_MCS \<noteq> 0
              then raw_hdr\<lparr>tx_mode := RAWTX_MODE_HT K, data_rate := min (a 2) 7\<rparr> else raw_hdr
          | None \<Rightarrow> raw_hdr)
       else if index = IEEE80211_RADIOTAP_VHT then
         (case arg of
            Some a \<Rightarrow>
              if 5 \<le> sz
              then raw_hdr\<lparr>tx_mode := RAWTX_MODE_VHT K,
                           data_rate := min ((drop_bit 4 (a 4)) AND 0x0f) 9\<rparr> else raw_hdr
          | None \<Rightarrow> raw_hdr)
       else raw_hdr)"

definition nrf_wifi_parse_radiotap_tx_meta ::
  "rawtx_consts \<Rightarrow> rt_iter \<Rightarrow> sk_buff \<Rightarrow> raw_tx_pkt_header \<Rightarrow> raw_tx_pkt_header" where
  "nrf_wifi_parse_radiotap_tx_meta K iter skb raw_hdr =
     (case iter (skb_data skb) of
        None \<Rightarrow> raw_hdr
      | Some fs \<Rightarrow> fold (tx_meta_field K) fs raw_hdr)"

definition zero_raw_hdr :: raw_tx_pkt_header where
  "zero_raw_hdr = \<lparr>magic_num = 0, data_rate = 0, packet_length = 0, tx_mode = 0, queue = 0, raw_tx_flag = 0\<rparr>"

definition strip_radiotap ::
  "rawtx_consts \<Rightarrow> rt_iter \<Rightarrow> sk_buff \<Rightarrow> raw_tx_pkt_header \<times> sk_buff" where
  "strip_radiotap K iter skb =
     (if 8 \<le> length (skb_data skb) \<and> skb_data skb ! 0 = 0 then
        let rtap_len = unat (get_le16 (drop 2 (skb_data skb))) in
        if 8 \<le> rtap_len \<and> rtap_len \<le> length (skb_data skb)
        then (nrf_wifi_parse_radiotap_tx_meta K iter skb zero_raw_hdr, skb_pull rtap_len skb)
        else (zero_raw_hdr, skb)
      else (zero_raw_hdr, skb))"

definition finish_raw_hdr :: "rawtx_consts \<Rightarrow> nat \<Rightarrow> raw_tx_pkt_header \<Rightarrow> raw_tx_pkt_header" where
  "finish_raw_hdr K n raw_hdr =
     (let raw_hdr = raw_hdr\<lparr>magic_num := NRF_WIFI_MAGIC_NUM_RAWTX K\<rparr>;
          raw_hdr = (if tx_mode raw_hdr = 0 \<and> data_rate raw_hdr = 0
                     then raw_hdr\<lparr>tx_mode := RAWTX_MODE_LEGACY K, data_rate := 0\<rparr> else raw_hdr)
      in raw_hdr\<lparr>packet_length := of_nat n, queue := FMAC_AC_BE K, raw_tx_flag := 1\<rparr>)"

definition nrf_wifi_prepare_monitor_tx_skb ::
  "rawtx_consts \<Rightarrow> rt_iter \<Rightarrow> bool \<Rightarrow> sk_buff option \<Rightarrow> int \<times> sk_buff option" where
  "nrf_wifi_prepare_monitor_tx_skb K iter cow_fails skb_opt =
     (case skb_opt of
        None \<Rightarrow> (-EINVAL, None)
      | Some skb \<Rightarrow>
          if raw_tx_size K \<le> length (skb_data skb) \<and>
             get_le32 (skb_data skb) = NRF_WIFI_MAGIC_NUM_RAWTX K
          then (0, Some skb) else
          let (raw_hdr, skb) = strip_radiotap K iter skb in
          if length (skb_data skb) > 0xFFFF then (-EINVAL, Some skb) else
          (case skb_cow_head cow_fails (raw_tx_size K) skb of
             None \<Rightarrow> (-ENOMEM, Some skb)
           | Some skb \<Rightarrow>
               (0, Some (skb_push (raw_tx_encode K
                           (finish_raw_hdr K (length (skb_data skb)) raw_hdr)) skb))))"

subsection \<open>Sniffed frames\<close>

record raw_rx_pkt_header =
  frequency :: u16
  rx_signal :: u16
  rate_flags :: u8
  rate :: u8

record nrf_wifi_radiotap_rx_hdr =
  it_version :: u8
  it_pad :: u8
  it_len :: u16
  it_present :: u32
  rt_flags :: u8
  rt_rate :: u8
  chan_freq :: u16
  chan_flags :: u16
  signal :: u8

definition nrf_wifi_raw_legacy_rate_to_rtap :: "u8 \<Rightarrow> u8" where
  "nrf_wifi_raw_legacy_rate_to_rtap fw_rate =
     (if fw_rate = 55 then 11 else if fw_rate \<le> 54 then fw_rate * 2 else 0)"

definition rx_chan_flags :: "rawtx_consts \<Rightarrow> raw_rx_pkt_header \<Rightarrow> u16" where
  "rx_chan_flags K r =
     (if 2400 \<le> frequency r \<and> frequency r \<le> 2500
      then IEEE80211_CHAN_2GHZ OR
           (if rate_flags r = RPU_TPUT_MODE_LEGACY K \<and> rate r \<le> 22
            then IEEE80211_CHAN_CCK else IEEE80211_CHAN_OFDM)
      else IEEE80211_CHAN_5GHZ OR IEEE80211_CHAN_OFDM)"

definition nrf_wifi_fill_radiotap_rx :: "rawtx_consts \<Rightarrow> raw_rx_pkt_header \<Rightarrow> nrf_wifi_radiotap_rx_hdr" where
  "nrf_wifi_fill_radiotap_rx K r =
     \<lparr>it_version = 0, it_pad = 0, it_len = 15,
      it_present = push_bit IEEE80211_RADIOTAP_FLAGS 1 OR push_bit IEEE80211_RADIOTAP_RATE 1 OR
                   push_bit IEEE80211_RADIOTAP_CHANNEL 1 OR push_bit IEEE80211_RADIOTAP_DBM_ANTSIGNAL 1,
      rt_flags = 0,
      rt_rate = (if rate_flags r = RPU_TPUT_MODE_LEGACY K
                 then nrf_wifi_raw_legacy_rate_to_rtap (rate r) else 0),
      chan_freq = frequency r, chan_flags = rx_chan_flags K r,
      signal = ucast (rx_signal r)\<rparr>"

text \<open>The packed little-endian structure, as it is copied in front of the frame.\<close>

definition rtap_bytes :: "nrf_wifi_radiotap_rx_hdr \<Rightarrow> u8 list" where
  "rtap_bytes h = [it_version h, it_pad h] @ le16 (it_len h) @ le32 (it_present h) @
     [rt_flags h, rt_rate h] @ le16 (chan_freq h) @ le16 (chan_flags h) @ [signal h]"

datatype rx_result = Delivered sk_buff | Freed | Kept

definition nrf_wifi_rx_sniffer_frm_callbk_fn ::
  "rawtx_consts \<Rightarrow> bool \<Rightarrow> bool \<Rightarrow> bool \<Rightarrow> sk_buff option \<Rightarrow> raw_rx_pkt_header option \<Rightarrow> bool \<Rightarrow> rx_result" where
  "nrf_wifi_rx_sniffer_frm_callbk_fn K has_vif has_netdev cow_fails frm raw_rx_hdr pkt_free =
     (let drop = (if pkt_free \<and> frm \<noteq> None then Freed else Kept) in
      case frm of
        None \<Rightarrow> drop
      | Some skb \<Rightarrow>
          if \<not> has_vif \<or> \<not> has_netdev then drop else
          (case raw_rx_hdr of
             None \<Rightarrow> Delivered skb
           | Some r \<Rightarrow>
               (case skb_cow_head cow_fails 15 skb of
                  None \<Rightarrow> drop
                | Some skb \<Rightarrow> Delivered (skb_push (rtap_bytes (nrf_wifi_fill_radiotap_rx K r)) skb))))"

subsection \<open>Properties\<close>

text \<open>
  What the firmware interface promises about the raw transmit header: a fixed size of at least
  four bytes, the little-endian magic number first.
\<close>

definition rawtx_layout :: "rawtx_consts \<Rightarrow> bool" where
  "rawtx_layout K \<longleftrightarrow> 4 \<le> raw_tx_size K \<and>
     (\<forall>h. length (raw_tx_encode K h) = raw_tx_size K \<and> take 4 (raw_tx_encode K h) = le32 (magic_num h))"

definition sample_rawtx :: rawtx_consts where
  "sample_rawtx = \<lparr>NRF_WIFI_MAGIC_NUM_RAWTX = 0x12345678, RAWTX_MODE_LEGACY = 1, RAWTX_MODE_HT = 2,
     RAWTX_MODE_VHT = 3, FMAC_AC_BE = 1, RPU_TPUT_MODE_LEGACY = 0,
     raw_tx_encode = (\<lambda>h. le32 (magic_num h) @ [data_rate h] @ le16 (packet_length h) @
        [tx_mode h, queue h, raw_tx_flag h]),
     raw_tx_size = 10\<rparr>"

lemma sample_rawtx_layout: "rawtx_layout sample_rawtx"
  by (simp add: rawtx_layout_def sample_rawtx_def)

lemma legacy_rate_facts:
  "(0 < r \<and> r \<le> 55 \<longrightarrow> nrf_wifi_map_radiotap_rate (nrf_wifi_raw_legacy_rate_to_rtap r) = r)
   \<and> (nrf_wifi_raw_legacy_rate_to_rtap r = 0 \<longleftrightarrow> r = 0 \<or> 55 < r)"
proof -
  have "nrf_wifi_map_radiotap_rate (r * 2) = r" "r * 2 = 0 \<longleftrightarrow> r = 0" if "r \<le> 54"
  proof -
    have u: "unat (r * 2) = 2 * unat r"
      using that by (simp add: unat_word_ariths word_le_nat_alt)
    have "r * 2 AND 1 = 0"
      by (simp add: and_one_eq word_unat_eq_iff unat_mod u)
    moreover have "r * 2 \<noteq> 11"
      using u by (auto dest!: arg_cong [where f = unat]) presburger
    moreover have "r * 2 div 2 = r"
      by (simp add: word_unat_eq_iff unat_div u)
    ultimately show "nrf_wifi_map_radiotap_rate (r * 2) = r"
      by (simp add: nrf_wifi_map_radiotap_rate_def)
    show "r * 2 = 0 \<longleftrightarrow> r = 0" using u by (auto simp: word_unat_eq_iff)
  qed
  note small = this
  have "unat r = 55 \<or> unat r \<le> 54 \<or> 55 < unat r" by linarith
  then consider "r = 55" | "r \<le> 54" | "55 < r"
    by (auto simp: word_less_nat_alt word_le_nat_alt word_unat_eq_iff)
  then show ?thesis
  proof cases
    case 1
    then show ?thesis
      by (simp add: nrf_wifi_raw_legacy_rate_to_rtap_def nrf_wifi_map_radiotap_rate_def)
  next
    case 2
    then have "r \<noteq> 55" "\<not> 55 < r" by (auto simp: word_less_nat_alt word_le_nat_alt)
    with 2 small show ?thesis
      by (simp add: nrf_wifi_raw_legacy_rate_to_rtap_def)
  next
    case 3
    then have "\<not> r \<le> 54" "r \<noteq> 55" "\<not> r \<le> 55" by (auto simp: word_less_nat_alt word_le_nat_alt)
    with 3 show ?thesis
      by (simp add: nrf_wifi_raw_legacy_rate_to_rtap_def)
  qed
qed

lemma legacy_rate_inverse:
  "0 < r \<Longrightarrow> r \<le> 55 \<Longrightarrow> nrf_wifi_map_radiotap_rate (nrf_wifi_raw_legacy_rate_to_rtap r) = r"
  using legacy_rate_facts by blast

text \<open>
  The two rate conversions are inverse to each other on the legacy rates: every firmware
  rate from 1 to 55 (units of 1 Mb/s, 55 for 5.5) survives the way into a radiotap header and
  back, and only rates above 55 have no radiotap form.
\<close>

theorem legacy_rate_round_trip:
  "(0 < r \<and> r \<le> 55 \<longrightarrow> nrf_wifi_map_radiotap_rate (nrf_wifi_raw_legacy_rate_to_rtap r) = r)
   \<and> (nrf_wifi_raw_legacy_rate_to_rtap r = 0 \<longleftrightarrow> r = 0 \<or> 55 < r)"
  by (rule legacy_rate_facts)

theorem legacy_rate_round_trip_witness:
  "nrf_wifi_map_radiotap_rate (nrf_wifi_raw_legacy_rate_to_rtap 54) = 54"
  using legacy_rate_round_trip [of 54] by simp

text \<open>The magic number makes preparation recognise its own output.\<close>

lemma get_le32_take: "length bs \<ge> 4 \<Longrightarrow> get_le32 (take 4 bs @ r) = get_le32 bs"
  by (cases bs rule: get_le32.cases) (simp_all add: numeral_eq_Suc)

lemma raw_frame_magic:
  assumes "rawtx_layout K" and "magic_num h = m"
  shows "get_le32 (raw_tx_encode K h @ r) = m"
proof -
  have *: "4 \<le> length (raw_tx_encode K h)" "take 4 (raw_tx_encode K h) = le32 m"
    using assms by (auto simp: rawtx_layout_def)
  have "get_le32 (raw_tx_encode K h @ r) = get_le32 (take 4 (raw_tx_encode K h @ r) @ [])"
    by (subst get_le32_take) (use *(1) in simp_all)
  also have "\<dots> = get_le32 (le32 m @ [])" using * by simp
  finally show ?thesis by (simp only: get_le32_le32)
qed

lemma finish_raw_hdr_magic: "magic_num (finish_raw_hdr K n h) = NRF_WIFI_MAGIC_NUM_RAWTX K"
  by (simp add: finish_raw_hdr_def Let_def)

text \<open>
  Preparing an injected frame is idempotent: once \<open>nrf_wifi_prepare_monitor_tx_skb\<close> has
  succeeded, running it again on the result succeeds and changes nothing, so a frame is never
  wrapped twice.
\<close>

theorem prepare_monitor_tx_idempotent:
  assumes "rawtx_layout K" and "nrf_wifi_prepare_monitor_tx_skb K iter c (Some skb) = (0, Some skb')"
  shows "nrf_wifi_prepare_monitor_tx_skb K iter' c' (Some skb') = (0, Some skb')"
proof (cases "raw_tx_size K \<le> length (skb_data skb) \<and> get_le32 (skb_data skb) = NRF_WIFI_MAGIC_NUM_RAWTX K")
  case True
  then show ?thesis using assms(2) by (simp add: nrf_wifi_prepare_monitor_tx_skb_def)
next
  case False
  then have "\<exists>n h skb1. skb' = skb_push (raw_tx_encode K (finish_raw_hdr K n h)) skb1"
    using assms(2)
    by (auto simp: nrf_wifi_prepare_monitor_tx_skb_def split: prod.splits option.splits if_splits)
  then obtain h skb1 where h: "magic_num h = NRF_WIFI_MAGIC_NUM_RAWTX K"
      "skb' = skb_push (raw_tx_encode K h) skb1"
    using finish_raw_hdr_magic by blast
  have "raw_tx_size K \<le> length (skb_data skb')" "get_le32 (skb_data skb') = NRF_WIFI_MAGIC_NUM_RAWTX K"
    using assms(1) h raw_frame_magic [OF assms(1) h(1)] by (simp_all add: skb_push_def rawtx_layout_def)
  then show ?thesis by (simp add: nrf_wifi_prepare_monitor_tx_skb_def)
qed

theorem prepare_monitor_tx_idempotent_witness:
  "\<exists>skb'. nrf_wifi_prepare_monitor_tx_skb sample_rawtx (\<lambda>_. None) False
        (Some \<lparr>skb_data = [8, 1, 2, 3], skb_headroom = 0\<rparr>) = (0, Some skb')
     \<and> nrf_wifi_prepare_monitor_tx_skb sample_rawtx (\<lambda>_. None) False (Some skb') = (0, Some skb')"
proof -
  obtain skb' where p: "nrf_wifi_prepare_monitor_tx_skb sample_rawtx (\<lambda>_. None) False
        (Some \<lparr>skb_data = [8, 1, 2, 3], skb_headroom = 0\<rparr>) = (0, Some skb')"
    by (simp add: nrf_wifi_prepare_monitor_tx_skb_def strip_radiotap_def skb_cow_head_def sample_rawtx_def
        skb_push_def zero_raw_hdr_def Let_def)
  from prepare_monitor_tx_idempotent [OF sample_rawtx_layout this] p show ?thesis by blast
qed

text \<open>Every rate the parser stores lies in the range of its mode.\<close>

definition rate_in_range :: "rawtx_consts \<Rightarrow> raw_tx_pkt_header \<Rightarrow> bool" where
  "rate_in_range K h \<longleftrightarrow>
     (tx_mode h = RAWTX_MODE_HT K \<longrightarrow> data_rate h \<le> 7) \<and>
     (tx_mode h = RAWTX_MODE_VHT K \<longrightarrow> data_rate h \<le> 9)"

definition distinct_modes :: "rawtx_consts \<Rightarrow> bool" where
  "distinct_modes K \<longleftrightarrow> distinct [0, RAWTX_MODE_LEGACY K, RAWTX_MODE_HT K, RAWTX_MODE_VHT K]
     \<or> RAWTX_MODE_LEGACY K = 0 \<and> distinct [0, RAWTX_MODE_HT K, RAWTX_MODE_VHT K]"

lemma tx_meta_field_range:
  assumes "distinct_modes K" and "rate_in_range K h"
  shows "rate_in_range K (tx_meta_field K f h)"
  using assms
  by (auto simp: tx_meta_field_def rate_in_range_def distinct_modes_def Let_def
      split: prod.splits option.splits)

lemma parse_range:
  assumes "distinct_modes K" and "rate_in_range K h"
  shows "rate_in_range K (nrf_wifi_parse_radiotap_tx_meta K iter skb h)"
proof -
  have "rate_in_range K (fold (tx_meta_field K) fs h)" for fs
    using assms(2) by (induction fs arbitrary: h) (auto intro: tx_meta_field_range [OF assms(1)])
  then show ?thesis
    using assms(2) by (auto simp: nrf_wifi_parse_radiotap_tx_meta_def split: option.splits)
qed

lemma finish_range:
  assumes "distinct_modes K" and "rate_in_range K h"
  shows "rate_in_range K (finish_raw_hdr K n h)"
  using assms by (auto simp: finish_raw_hdr_def rate_in_range_def distinct_modes_def Let_def)

lemma strip_radiotap_suffix:
  assumes "distinct_modes K" and "strip_radiotap K iter skb = (h, skb1)"
  shows "rate_in_range K h \<and> suffix (skb_data skb1) (skb_data skb)"
proof -
  have z: "rate_in_range K zero_raw_hdr"
    by (simp add: rate_in_range_def zero_raw_hdr_def)
  then show ?thesis
    using assms(2) parse_range [OF assms(1) z]
    by (auto simp: strip_radiotap_def skb_pull_def Let_def suffix_drop split: if_splits)
qed

text \<open>
  C24. What preparation makes of a frame that is not yet a raw frame: on success the result is a
  raw header in front of the payload left after removing the radiotap header; the header
  carries the magic number, the exact payload length, the best-effort queue and a rate within
  the range of its mode (at most MCS 7 for HT, 9 for VHT). It fails exactly when the payload
  is longer than 65535 bytes or no headroom can be made.
\<close>

theorem prepare_monitor_tx_spec:
  assumes "rawtx_layout K" and "distinct_modes K"
    and "raw_tx_size K \<le> length (skb_data skb) \<Longrightarrow> get_le32 (skb_data skb) \<noteq> NRF_WIFI_MAGIC_NUM_RAWTX K"
    and "strip_radiotap K iter skb = (h, skb1)"
  shows "if length (skb_data skb1) \<le> 0xFFFF \<and> \<not> cow_fails
     then \<exists>skb' h'. nrf_wifi_prepare_monitor_tx_skb K iter cow_fails (Some skb) = (0, Some skb')
        \<and> skb_data skb' = raw_tx_encode K h' @ skb_data skb1
        \<and> suffix (skb_data skb1) (skb_data skb)
        \<and> magic_num h' = NRF_WIFI_MAGIC_NUM_RAWTX K \<and> unat (packet_length h') = length (skb_data skb1)
        \<and> queue h' = FMAC_AC_BE K \<and> raw_tx_flag h' = 1 \<and> rate_in_range K h'
     else fst (nrf_wifi_prepare_monitor_tx_skb K iter cow_fails (Some skb)) \<in> {-EINVAL, -ENOMEM}"
proof -
  have "rate_in_range K (finish_raw_hdr K n h)" for n
    using finish_range [OF assms(2)] strip_radiotap_suffix [OF assms(2,4)] by blast
  moreover have "unat (packet_length (finish_raw_hdr K n h)) = n" if "n \<le> 0xFFFF" for n
    using that by (simp add: finish_raw_hdr_def Let_def unat_of_nat)
  moreover have "queue (finish_raw_hdr K n h) = FMAC_AC_BE K \<and> raw_tx_flag (finish_raw_hdr K n h) = 1" for n
    by (simp add: finish_raw_hdr_def Let_def)
  ultimately show ?thesis
    using assms(3) strip_radiotap_suffix [OF assms(2,4)]
    by (auto simp: nrf_wifi_prepare_monitor_tx_skb_def assms(4) skb_cow_head_def skb_push_def
        finish_raw_hdr_magic)
qed

theorem prepare_monitor_tx_spec_witness:
  "\<exists>skb' h'. nrf_wifi_prepare_monitor_tx_skb sample_rawtx (\<lambda>_. None) False
       (Some \<lparr>skb_data = [8, 1, 2, 3], skb_headroom = 0\<rparr>) = (0, Some skb')
     \<and> skb_data skb' = raw_tx_encode sample_rawtx h' @ [8, 1, 2, 3]
     \<and> unat (packet_length h') = length [8, 1, 2, 3 :: u8]"
proof -
  let ?s = "\<lparr>skb_data = [8, 1, 2, 3], skb_headroom = 0\<rparr>"
  have "distinct_modes sample_rawtx" "raw_tx_size sample_rawtx = 10"
    by (simp_all add: distinct_modes_def sample_rawtx_def)
  moreover have "strip_radiotap sample_rawtx (\<lambda>_. None) ?s = (zero_raw_hdr, ?s)"
    by (simp add: strip_radiotap_def)
  ultimately show ?thesis
    using prepare_monitor_tx_spec [OF sample_rawtx_layout, of ?s "\<lambda>_. None" zero_raw_hdr ?s False]
    by fastforce
qed

text \<open>
  The radiotap iterator on the headers the driver itself writes: the four fields, in order, at
  the offsets the standard's alignment rules give.
\<close>

definition rx_fields :: "u8 list \<Rightarrow> rt_field list" where
  "rx_fields bs = map (\<lambda>(index, off, sz). (index, Some (\<lambda>i. bs ! (off + i)), sz))
     [(IEEE80211_RADIOTAP_FLAGS, 8, 1), (IEEE80211_RADIOTAP_RATE, 9, 1),
      (IEEE80211_RADIOTAP_CHANNEL, 10, 4), (IEEE80211_RADIOTAP_DBM_ANTSIGNAL, 14, 1)]"

definition iter_reads_rx :: "rt_iter \<Rightarrow> bool" where
  "iter_reads_rx iter \<longleftrightarrow>
     (\<forall>K r frame. iter (rtap_bytes (nrf_wifi_fill_radiotap_rx K r) @ frame) =
        Some (rx_fields (rtap_bytes (nrf_wifi_fill_radiotap_rx K r) @ frame)))"

lemma rtap_bytes_facts:
  fixes K r
  defines "bs \<equiv> rtap_bytes (nrf_wifi_fill_radiotap_rx K r)"
  shows "length bs = 15" and "bs ! 0 = 0" and "get_le16 (drop 2 bs @ rest) = 15"
    and "(bs @ rest) ! 9 = rt_rate (nrf_wifi_fill_radiotap_rx K r)"
    and "get_le32 (bs @ rest) = 0x000F0000"
  by (simp_all add: bs_def rtap_bytes_def nrf_wifi_fill_radiotap_rx_def le16_def le32_def
      drop_bit_eq_div push_bit_eq_mult)

text \<open>
  C25. A sniffed legacy frame can be re-injected: the radiotap header that the sniffer callback
  puts in front of it is recognised and removed by the injection path, and the raw transmit
  header it becomes carries the legacy mode, the rate the frame was received with and the
  length of the original frame.
\<close>

theorem sniffed_frame_reinjected:
  assumes "iter_reads_rx iter" and "NRF_WIFI_MAGIC_NUM_RAWTX K \<noteq> 0x000F0000"
    and "rate_flags r = RPU_TPUT_MODE_LEGACY K" and "0 < rate r" and "rate r \<le> 55"
    and "length (skb_data skb) \<le> 0xFFFF"
    and "nrf_wifi_rx_sniffer_frm_callbk_fn K True True False (Some skb) (Some r) free = Delivered skb1"
  shows "\<exists>skb2 h. nrf_wifi_prepare_monitor_tx_skb K iter False (Some skb1) = (0, Some skb2)
     \<and> skb_data skb2 = raw_tx_encode K h @ skb_data skb
     \<and> tx_mode h = RAWTX_MODE_LEGACY K \<and> data_rate h = rate r
     \<and> unat (packet_length h) = length (skb_data skb)"
proof -
  let ?bs = "rtap_bytes (nrf_wifi_fill_radiotap_rx K r)"
  note f = rtap_bytes_facts [of K r]
  have d: "skb_data skb1 = ?bs @ skb_data skb"
    using assms(7) by (auto simp: nrf_wifi_rx_sniffer_frm_callbk_fn_def skb_cow_head_def skb_push_def)
  have rt: "nrf_wifi_map_radiotap_rate (rt_rate (nrf_wifi_fill_radiotap_rx K r)) = rate r"
    using assms(3-5) legacy_rate_inverse by (simp add: nrf_wifi_fill_radiotap_rx_def)
  have "nrf_wifi_parse_radiotap_tx_meta K iter skb1 zero_raw_hdr =
      zero_raw_hdr\<lparr>tx_mode := RAWTX_MODE_LEGACY K, data_rate := rate r\<rparr>"
    using assms(1,4) rt f(4) [of "skb_data skb"]
    by (auto simp: nrf_wifi_parse_radiotap_tx_meta_def iter_reads_rx_def d rx_fields_def tx_meta_field_def
        Let_def)
  moreover have "skb_data skb1 ! 0 = 0" "8 \<le> length (skb_data skb1)" "15 \<le> length (skb_data skb1)"
    using f(1,2) by (auto simp: d nth_append)
  moreover have "get_le16 (drop 2 (skb_data skb1)) = 15" "drop 15 (skb_data skb1) = skb_data skb"
    using f(1) f(3) [of "skb_data skb"] by (simp_all add: d)
  ultimately have "strip_radiotap K iter skb1 =
      (zero_raw_hdr\<lparr>tx_mode := RAWTX_MODE_LEGACY K, data_rate := rate r\<rparr>,
       skb1\<lparr>skb_data := skb_data skb, skb_headroom := skb_headroom skb1 + 15\<rparr>)"
    by (simp add: strip_radiotap_def skb_pull_def)
  then show ?thesis
    using assms(2,4,6) f(5) [of "skb_data skb"]
    by (auto simp: nrf_wifi_prepare_monitor_tx_skb_def d skb_cow_head_def skb_push_def
        finish_raw_hdr_def Let_def unat_of_nat)
qed

definition sample_rx :: raw_rx_pkt_header where
  "sample_rx = \<lparr>frequency = 2412, rx_signal = 200, rate_flags = 0, rate = 54\<rparr>"

theorem sniffed_frame_reinjected_witness:
  "\<exists>skb1 skb2 h. nrf_wifi_rx_sniffer_frm_callbk_fn sample_rawtx True True False
        (Some \<lparr>skb_data = [8, 1, 2], skb_headroom = 0\<rparr>) (Some sample_rx) True = Delivered skb1
     \<and> nrf_wifi_prepare_monitor_tx_skb sample_rawtx (\<lambda>bs. Some (rx_fields bs)) False (Some skb1) = (0, Some skb2)
     \<and> skb_data skb2 = raw_tx_encode sample_rawtx h @ [8, 1, 2] \<and> data_rate h = 54"
proof -
  obtain skb1 where s: "nrf_wifi_rx_sniffer_frm_callbk_fn sample_rawtx True True False
      (Some \<lparr>skb_data = [8, 1, 2], skb_headroom = 0\<rparr>) (Some sample_rx) True = Delivered skb1"
    by (simp add: nrf_wifi_rx_sniffer_frm_callbk_fn_def skb_cow_head_def)
  have "iter_reads_rx (\<lambda>bs. Some (rx_fields bs))" by (simp add: iter_reads_rx_def)
  moreover have "NRF_WIFI_MAGIC_NUM_RAWTX sample_rawtx \<noteq> 0x000F0000"
    "rate_flags sample_rx = RPU_TPUT_MODE_LEGACY sample_rawtx" "rate sample_rx = 54"
    by (simp_all add: sample_rawtx_def sample_rx_def)
  ultimately show ?thesis
    using sniffed_frame_reinjected [OF _ _ _ _ _ _ s, of "\<lambda>bs. Some (rx_fields bs)"] s by fastforce
qed

text \<open>
  At 2.4 GHz the CCK channel flag is decided by comparing the rate in Mb/s with 22, the
  radiotap value (in 500 kb/s) of 11 Mb/s: the CCK rate 5.5 Mb/s (encoded as 55) is reported
  as OFDM and the OFDM rates 6, 9, 12 and 18 Mb/s are reported as CCK.
\<close>

theorem rx_cck_flag_wrong_units:
  assumes "2400 \<le> frequency r" and "frequency r \<le> 2500" and "rate_flags r = RPU_TPUT_MODE_LEGACY K"
  shows "(rate r = 55 \<longrightarrow> chan_flags (nrf_wifi_fill_radiotap_rx K r) = IEEE80211_CHAN_2GHZ OR IEEE80211_CHAN_OFDM)
     \<and> (rate r \<in> {6, 9, 12, 18} \<longrightarrow>
          chan_flags (nrf_wifi_fill_radiotap_rx K r) = IEEE80211_CHAN_2GHZ OR IEEE80211_CHAN_CCK)"
  using assms by (auto simp: nrf_wifi_fill_radiotap_rx_def rx_chan_flags_def)

theorem rx_cck_flag_wrong_units_witness:
  "chan_flags (nrf_wifi_fill_radiotap_rx sample_rawtx (sample_rx\<lparr>rate := 55\<rparr>)) =
     IEEE80211_CHAN_2GHZ OR IEEE80211_CHAN_OFDM"
  using rx_cck_flag_wrong_units [of "sample_rx\<lparr>rate := 55\<rparr>" sample_rawtx]
  by (simp add: sample_rx_def sample_rawtx_def)

end
