(* ===== verification/Shim_Nbuf.thy ===== *)
theory Shim_Nbuf
  imports Radiotap
begin

text \<open>
  Network buffers of the OS shim (\<open>shim.c\<close>, \<open>shim_nbuf_*\<close>) and the memory and logging
  wrappers around them. A buffer is the linear part of a \<open>struct sk_buff\<close>: its memory from
  \<open>head\<close> to \<open>end\<close> and the offsets of \<open>data\<close> and \<open>tail\<close> in it. The kernel's \<open>skb_over_panic\<close> and
  \<open>skb_under_panic\<close> stop the machine: an operation that reaches them has the result \<open>None\<close>.
  The locale \<open>net_buffer\<close> is the contract the firmware core relies on when it frames packets;
  it is interpreted on the shim's operations.
\<close>

subsection \<open>Memory and strings\<close>

text \<open>
  A pointer into a memory block is an offset; copying or setting bytes outside the block is
  undefined. \<open>memcpy\<close> between two blocks: source and destination do not overlap.
\<close>

definition put_at :: "nat \<Rightarrow> u8 list \<Rightarrow> u8 list \<Rightarrow> u8 list outcome" where
  "put_at off bytes mem =
     (if off + length bytes \<le> length mem
      then Ret (take off mem @ bytes @ drop (off + length bytes) mem) else UB OutOfBounds)"

text \<open>\<open>kfree\<close> of a pointer, on the set of live allocations; freeing NULL does nothing.\<close>

definition kfree :: "nat option \<Rightarrow> nat set \<Rightarrow> nat set outcome" where
  "kfree ptr live =
     (case ptr of None \<Rightarrow> Ret live | Some a \<Rightarrow> if a \<in> live then Ret (live - {a}) else UB InvalidFree)"

definition shim_mem_free :: "nat option \<Rightarrow> nat set \<Rightarrow> nat set outcome" where "shim_mem_free = kfree"
definition shim_spinlock_free :: "nat option \<Rightarrow> nat set \<Rightarrow> nat set outcome" where "shim_spinlock_free = kfree"
definition shim_nbuf_free :: "nat option \<Rightarrow> nat set \<Rightarrow> nat set outcome" where "shim_nbuf_free = kfree"
definition shim_llist_node_free :: "nat option \<Rightarrow> nat set \<Rightarrow> nat set outcome" where "shim_llist_node_free = kfree"
definition shim_llist_free :: "nat option \<Rightarrow> nat set \<Rightarrow> nat set outcome" where "shim_llist_free = kfree"
definition shim_tasklet_free :: "nat option \<Rightarrow> nat set \<Rightarrow> nat set outcome" where "shim_tasklet_free = kfree"
definition shim_timer_free :: "nat option \<Rightarrow> nat set \<Rightarrow> nat set outcome" where "shim_timer_free = kfree"

definition shim_mem_alloc :: "u8 list option \<Rightarrow> u8 list option" where
  "shim_mem_alloc kmalloc = kmalloc"

definition shim_mem_zalloc :: "bool \<Rightarrow> ulong \<Rightarrow> u8 list option" where
  "shim_mem_zalloc available sz = (if available then Some (replicate (unat sz) 0) else None)"

definition shim_mem_cpy :: "u8 list \<Rightarrow> nat \<Rightarrow> u8 list \<Rightarrow> ulong \<Rightarrow> u8 list outcome" where
  "shim_mem_cpy dest off src count =
     (if unat count \<le> length src then put_at off (take (unat count) src) dest else UB OutOfBounds)"

definition shim_mem_set :: "u8 list \<Rightarrow> nat \<Rightarrow> int \<Rightarrow> ulong \<Rightarrow> u8 list outcome" where
  "shim_mem_set start off val sz = put_at off (replicate (unat sz) (of_int val)) start"

fun memcmp :: "nat \<Rightarrow> u8 list \<Rightarrow> u8 list \<Rightarrow> int outcome" where
  "memcmp 0 _ _ = Ret 0"
| "memcmp (Suc n) (a # as) (b # bs) =
     (if a = b then memcmp n as bs else Ret (if a < b then -1 else 1))"
| "memcmp (Suc n) _ _ = UB OutOfBounds"

definition shim_mem_cmp :: "u8 list \<Rightarrow> u8 list \<Rightarrow> ulong \<Rightarrow> int outcome" where
  "shim_mem_cmp addr1 addr2 sz = memcmp (unat sz) addr1 addr2"

text \<open>\<open>ioremap\<close> of the kernel chooses the address; \<open>maps\<close> are the live mappings.\<close>

definition shim_iomem_mmap ::
  "(ulong \<Rightarrow> ulong \<Rightarrow> nat option) \<Rightarrow> ulong \<Rightarrow> ulong \<Rightarrow> nat set \<Rightarrow> nat option \<times> nat set" where
  "shim_iomem_mmap ioremap addr sz maps =
     (case ioremap addr sz of None \<Rightarrow> (None, maps) | Some a \<Rightarrow> (Some a, insert a maps))"

definition shim_iomem_unmap :: "nat \<Rightarrow> nat set \<Rightarrow> nat set outcome" where
  "shim_iomem_unmap addr maps = (if addr \<in> maps then Ret (maps - {addr}) else UB InvalidFree)"

text \<open>Memory-mapped access: registers are little endian, copies go byte by byte.\<close>

definition shim_iomem_read_reg32 :: "u8 list \<Rightarrow> nat \<Rightarrow> u32 outcome" where
  "shim_iomem_read_reg32 io addr =
     (if addr + 4 \<le> length io then Ret (get_le32 (drop addr io)) else UB OutOfBounds)"

definition shim_iomem_write_reg32 :: "u8 list \<Rightarrow> nat \<Rightarrow> u32 \<Rightarrow> u8 list outcome" where
  "shim_iomem_write_reg32 io addr val = put_at addr (le32 val) io"

definition shim_iomem_cpy_from :: "u8 list \<Rightarrow> u8 list \<Rightarrow> nat \<Rightarrow> ulong \<Rightarrow> u8 list outcome" where
  "shim_iomem_cpy_from dest io src count =
     (if src + unat count \<le> length io then put_at 0 (take (unat count) (drop src io)) dest
      else UB OutOfBounds)"

definition shim_iomem_cpy_to :: "u8 list \<Rightarrow> nat \<Rightarrow> u8 list \<Rightarrow> ulong \<Rightarrow> u8 list outcome" where
  "shim_iomem_cpy_to io dest src count = shim_mem_cpy io dest src count"

definition shim_strlen :: "string \<Rightarrow> u32" where
  "shim_strlen str = of_nat (length (cstr str))"

lemma put_at_Ret:
  "put_at off bytes mem = Ret mem' \<longleftrightarrow>
     off + length bytes \<le> length mem \<and> mem' = take off mem @ bytes @ drop (off + length bytes) mem"
  by (auto simp: put_at_def)

lemma put_at_read:
  assumes "put_at off bytes mem = Ret mem'"
  shows "length mem' = length mem" and "take (length bytes) (drop off mem') = bytes"
    and "take off mem' = take off mem"
    and "drop (off + length bytes) mem' = drop (off + length bytes) mem"
  using assms by (auto simp: put_at_Ret)

lemma memcmp_zero_iff:
  "n \<le> length xs \<Longrightarrow> n \<le> length ys \<Longrightarrow> memcmp n xs ys = Ret 0 \<longleftrightarrow> take n xs = take n ys"
  by (induction n xs ys rule: memcmp.induct) auto

lemma mem_cpy_cmp:
  assumes "shim_mem_cpy dest off src count = Ret dest'"
  shows "shim_mem_cmp (drop off dest') src count = Ret 0"
proof -
  from assms have c: "unat count \<le> length src" and p: "put_at off (take (unat count) src) dest = Ret dest'"
    by (auto simp: shim_mem_cpy_def split: if_splits)
  have "take (unat count) (drop off dest') = take (unat count) src"
    using put_at_read(2) [OF p] c by (simp add: min_absorb2)
  moreover have "unat count \<le> length (drop off dest')"
    using p c by (auto simp: put_at_Ret)
  ultimately show ?thesis
    using c by (simp add: shim_mem_cmp_def memcmp_zero_iff)
qed

lemma iomem_map_unmap:
  "shim_iomem_mmap ioremap addr sz maps = (Some a, maps') \<Longrightarrow> a \<notin> maps \<Longrightarrow> shim_iomem_unmap a maps' = Ret maps"
  by (auto simp: shim_iomem_mmap_def shim_iomem_unmap_def split: option.splits)

lemma iomem_register_round_trip:
  assumes "addr + 4 \<le> length io"
  shows "\<exists>io'. shim_iomem_write_reg32 io addr val = Ret io' \<and> shim_iomem_read_reg32 io' addr = Ret val"
proof -
  let ?io = "take addr io @ le32 val @ drop (addr + 4) io"
  have "shim_iomem_write_reg32 io addr val = Ret ?io"
    using assms by (simp add: shim_iomem_write_reg32_def put_at_def)
  moreover have "drop addr ?io = le32 val @ drop (addr + 4) io" using assms by simp
  then have "shim_iomem_read_reg32 ?io addr = Ret val"
    using assms by (simp add: shim_iomem_read_reg32_def del: drop_append)
  ultimately show ?thesis by blast
qed

lemma double_free:
  "kfree (Some a) live = Ret live' \<Longrightarrow> kfree (Some a) live' = UB InvalidFree"
  by (auto simp: kfree_def split: if_splits)

subsection \<open>Logging\<close>

text \<open>
  The three log functions build a format string with the kernel's level marker in a fresh
  allocation. \<open>scnprintf\<close> writes at most \<open>size - 1\<close> characters and a terminator; \<open>vprintk\<close> is the
  kernel's, applied to the format string.
\<close>

definition KERN_ERR :: string where "KERN_ERR = CHR 0x01 # ''3''"
definition KERN_INFO :: string where "KERN_INFO = CHR 0x01 # ''6''"
definition KERN_DEBUG :: string where "KERN_DEBUG = CHR 0x01 # ''7''"

definition scnprintf_ss :: "ulong \<Rightarrow> string \<Rightarrow> string \<Rightarrow> string" where
  "scnprintf_ss sz a b =
     (if sz = 0 then [] else take (unat sz - 1) (cstr a @ cstr b))"

definition shim_pr :: "string \<Rightarrow> bool \<Rightarrow> (string \<Rightarrow> int) \<Rightarrow> string \<Rightarrow> int" where
  "shim_pr level available vprintk fmt =
     (let mod_fmt_len = of_nat (length (cstr fmt)) + of_nat (length (cstr level)) + 1 in
      if \<not> available then -1 else vprintk (scnprintf_ss mod_fmt_len level fmt))"

definition shim_pr_dbg :: "bool \<Rightarrow> (string \<Rightarrow> int) \<Rightarrow> string \<Rightarrow> int" where
  "shim_pr_dbg = shim_pr KERN_DEBUG"

definition shim_pr_info :: "bool \<Rightarrow> (string \<Rightarrow> int) \<Rightarrow> string \<Rightarrow> int" where
  "shim_pr_info = shim_pr KERN_INFO"

definition shim_pr_err :: "bool \<Rightarrow> (string \<Rightarrow> int) \<Rightarrow> string \<Rightarrow> int" where
  "shim_pr_err = shim_pr KERN_ERR"

lemma cstr_level [simp]: "cstr KERN_ERR = KERN_ERR" "cstr KERN_INFO = KERN_INFO" "cstr KERN_DEBUG = KERN_DEBUG"
  by (simp_all add: cstr_def KERN_ERR_def KERN_INFO_def KERN_DEBUG_def)

lemma shim_pr_complete:
  assumes "length (cstr fmt) + length (cstr level) + 1 < 2 ^ 64"
  shows "shim_pr level True vprintk fmt = vprintk (cstr level @ cstr fmt)"
proof -
  let ?n = "length (cstr fmt) + length (cstr level) + 1"
  have n: "of_nat (length (cstr fmt)) + of_nat (length (cstr level)) + 1 = (of_nat ?n :: ulong)"
    by simp
  have u: "unat (of_nat ?n :: ulong) = ?n"
    using assms by (simp add: unat_of_nat del: of_nat_add of_nat_Suc)
  then have "(of_nat ?n :: ulong) \<noteq> 0"
    by (metis add_is_0 one_neq_zero unat_0)
  then show ?thesis
    unfolding shim_pr_def Let_def n scnprintf_ss_def u by simp
qed

text \<open>
  A log message always carries its level marker and the whole format string: the allocation
  is large enough for both, so nothing is cut off.
\<close>

lemma shim_pr_not_truncated:
  assumes "length (cstr fmt) < 2 ^ 64 - 3"
  shows "shim_pr_dbg True vprintk fmt = vprintk (KERN_DEBUG @ cstr fmt)"
    and "shim_pr_info True vprintk fmt = vprintk (KERN_INFO @ cstr fmt)"
    and "shim_pr_err True vprintk fmt = vprintk (KERN_ERR @ cstr fmt)"
  using assms shim_pr_complete [of fmt KERN_DEBUG] shim_pr_complete [of fmt KERN_INFO]
    shim_pr_complete [of fmt KERN_ERR]
  by (simp_all add: shim_pr_dbg_def shim_pr_info_def shim_pr_err_def KERN_DEBUG_def KERN_INFO_def
      KERN_ERR_def cstr_def)

subsection \<open>Network buffers\<close>

datatype ip_summed = CHECKSUM_NONE | CHECKSUM_UNNECESSARY | CHECKSUM_COMPLETE | CHECKSUM_PARTIAL

record nbuf =
  nb_mem :: "u8 list"
  nb_data :: int
  nb_tail :: int
  nb_len :: u32
  nb_priority :: u32
  nb_ip_summed :: ip_summed
  nb_csum_complete_sw :: bool

text \<open>\<open>alloc_skb\<close> answers with memory of at least the requested size, or fails.\<close>

definition shim_nbuf_alloc :: "(u32 \<Rightarrow> u8 list option) \<Rightarrow> u32 \<Rightarrow> nbuf option" where
  "shim_nbuf_alloc alloc_skb sz =
     map_option (\<lambda>mem. \<lparr>nb_mem = mem, nb_data = 0, nb_tail = 0, nb_len = 0, nb_priority = 0,
       nb_ip_summed = CHECKSUM_NONE, nb_csum_complete_sw = False\<rparr>) (alloc_skb sz)"

text \<open>\<open>skb_reserve\<close> takes an \<open>int\<close> and checks nothing.\<close>

definition shim_nbuf_headroom_res :: "u32 \<Rightarrow> nbuf \<Rightarrow> nbuf" where
  "shim_nbuf_headroom_res sz nb = nb\<lparr>nb_data := nb_data nb + sint sz, nb_tail := nb_tail nb + sint sz\<rparr>"

definition shim_nbuf_headroom_get :: "nbuf \<Rightarrow> u32" where
  "shim_nbuf_headroom_get nb = of_int (nb_data nb)"

definition shim_nbuf_data_size :: "nbuf \<Rightarrow> u32" where
  "shim_nbuf_data_size nb = nb_len nb"

definition shim_nbuf_data_get :: "nbuf \<Rightarrow> int" where
  "shim_nbuf_data_get nb = nb_data nb"

definition shim_nbuf_data_put :: "u32 \<Rightarrow> nbuf \<Rightarrow> (int \<times> nbuf) option" where
  "shim_nbuf_data_put sz nb =
     (let nb' = nb\<lparr>nb_tail := nb_tail nb + uint sz, nb_len := nb_len nb + sz\<rparr> in
      if nb_tail nb' > int (length (nb_mem nb)) then None else Some (nb_tail nb, nb'))"

definition shim_nbuf_data_push :: "u32 \<Rightarrow> nbuf \<Rightarrow> (int \<times> nbuf) option" where
  "shim_nbuf_data_push sz nb =
     (let nb' = nb\<lparr>nb_data := nb_data nb - uint sz, nb_len := nb_len nb + sz\<rparr> in
      if nb_data nb' < 0 then None else Some (nb_data nb', nb'))"

text \<open>\<open>skb_pull\<close> returns NULL and changes nothing when there is less data.\<close>

definition shim_nbuf_data_pull :: "u32 \<Rightarrow> nbuf \<Rightarrow> int option \<times> nbuf" where
  "shim_nbuf_data_pull sz nb =
     (if sz > nb_len nb then (None, nb)
      else let nb' = nb\<lparr>nb_data := nb_data nb + uint sz, nb_len := nb_len nb - sz\<rparr>
           in (Some (nb_data nb'), nb'))"

definition shim_nbuf_get_priority :: "nbuf \<Rightarrow> u8" where
  "shim_nbuf_get_priority nb = ucast (nb_priority nb)"

definition shim_nbuf_get_chksum_done :: "nbuf option \<Rightarrow> u8" where
  "shim_nbuf_get_chksum_done nbo =
     (case nbo of None \<Rightarrow> 0 | Some nb \<Rightarrow> if nb_ip_summed nb = CHECKSUM_PARTIAL then 0 else 1)"

definition shim_nbuf_set_chksum_done :: "u8 \<Rightarrow> nbuf option \<Rightarrow> nbuf option" where
  "shim_nbuf_set_chksum_done chksum_done nbo =
     map_option (\<lambda>nb. nb\<lparr>nb_csum_complete_sw := (chksum_done \<noteq> 0)\<rparr>) nbo"

text \<open>A buffer is well formed when its offsets are in order and \<open>len\<close> counts its data.\<close>

definition nbuf_wf :: "nbuf \<Rightarrow> bool" where
  "nbuf_wf nb \<longleftrightarrow> 0 \<le> nb_data nb \<and> nb_data nb \<le> nb_tail nb \<and> nb_tail nb \<le> int (length (nb_mem nb))
     \<and> length (nb_mem nb) < 2 ^ 31 \<and> uint (nb_len nb) = nb_tail nb - nb_data nb"

definition nbuf_bytes :: "nbuf \<Rightarrow> u8 list" where
  "nbuf_bytes nb = take (nat (nb_tail nb - nb_data nb)) (drop (nat (nb_data nb)) (nb_mem nb))"

definition nbuf_headroom :: "nbuf \<Rightarrow> nat" where
  "nbuf_headroom nb = nat (nb_data nb)"

definition nbuf_tailroom :: "nbuf \<Rightarrow> nat" where
  "nbuf_tailroom nb = length (nb_mem nb) - nat (nb_tail nb)"

lemmas nbuf_view = nbuf_bytes_def nbuf_headroom_def nbuf_tailroom_def

lemma length_nbuf_bytes: "nbuf_wf nb \<Longrightarrow> length (nbuf_bytes nb) = unat (nb_len nb)"
proof -
  assume "nbuf_wf nb"
  then have "unat (nb_len nb) = nat (nb_tail nb - nb_data nb)"
    by (simp add: nbuf_wf_def flip: nat_uint_eq)
  moreover have "nat (nb_tail nb - nb_data nb) \<le> length (nb_mem nb) - nat (nb_data nb)"
    using \<open>nbuf_wf nb\<close> by (simp add: nbuf_wf_def nat_le_iff of_nat_diff)
  ultimately show ?thesis by (simp add: nbuf_bytes_def min_absorb2)
qed

lemma uint_nonneg: "0 \<le> uint (n :: u32)"
  by simp

lemma uint_add_small: "uint a + uint b < 2 ^ 32 \<Longrightarrow> uint (a + b :: u32) = uint a + uint b"
  by (simp add: uint_word_ariths)

lemma uint_sub_small: "b \<le> a \<Longrightarrow> uint (a - b :: u32) = uint a - uint b"
  by (simp add: uint_sub_if' word_le_def)

lemma sint_small: "uint (a :: u32) < 2 ^ 31 \<Longrightarrow> sint a = uint a"
  by (simp add: sint_uint signed_take_bit_int_eq_self_iff) (insert uint_nonneg [of a], linarith)

text \<open>The operations of the firmware core on a buffer, as one instruction set.\<close>

datatype nbuf_op = HeadroomRes u32 | DataPut u32 | DataPush u32 | DataPull u32 | SetChksum u8

fun nbuf_exec :: "nbuf_op \<Rightarrow> nbuf \<Rightarrow> nbuf option" where
  "nbuf_exec (HeadroomRes n) nb = Some (shim_nbuf_headroom_res n nb)"
| "nbuf_exec (DataPut n) nb = map_option snd (shim_nbuf_data_put n nb)"
| "nbuf_exec (DataPush n) nb = map_option snd (shim_nbuf_data_push n nb)"
| "nbuf_exec (DataPull n) nb = Some (snd (shim_nbuf_data_pull n nb))"
| "nbuf_exec (SetChksum c) nb = shim_nbuf_set_chksum_done c (Some nb)"

fun nbuf_fits :: "nbuf_op \<Rightarrow> nbuf \<Rightarrow> bool" where
  "nbuf_fits (HeadroomRes n) nb = (unat n \<le> nbuf_tailroom nb)"
| "nbuf_fits (DataPut n) nb = (unat n \<le> nbuf_tailroom nb)"
| "nbuf_fits (DataPush n) nb = (unat n \<le> nbuf_headroom nb)"
| "nbuf_fits _ nb = True"

fun nbuf_run :: "nbuf_op list \<Rightarrow> nbuf \<Rightarrow> nbuf option" where
  "nbuf_run [] nb = Some nb"
| "nbuf_run (p # ps) nb = (case nbuf_exec p nb of None \<Rightarrow> None | Some nb \<Rightarrow> nbuf_run ps nb)"

lemma put_None_iff:
  assumes "nbuf_wf nb"
  shows "shim_nbuf_data_put n nb = None \<longleftrightarrow> \<not> unat n \<le> nbuf_tailroom nb"
  using assms uint_nonneg [of n]
  by (auto simp: shim_nbuf_data_put_def nbuf_wf_def nbuf_tailroom_def Let_def simp flip: nat_uint_eq)

lemma push_None_iff:
  assumes "nbuf_wf nb"
  shows "shim_nbuf_data_push n nb = None \<longleftrightarrow> \<not> unat n \<le> nbuf_headroom nb"
  using assms
  by (auto simp: shim_nbuf_data_push_def nbuf_wf_def nbuf_headroom_def Let_def simp flip: nat_uint_eq)

lemma put_wf:
  assumes "nbuf_wf nb" and "shim_nbuf_data_put n nb = Some (p, nb')"
  shows "nbuf_wf nb'"
proof -
  have "nb_tail nb + uint n \<le> int (length (nb_mem nb))"
    using assms(2) by (auto simp: shim_nbuf_data_put_def Let_def split: if_splits)
  moreover from this assms(1) have "uint (nb_len nb + n) = uint (nb_len nb) + uint n"
    by (intro uint_add_small) (auto simp: nbuf_wf_def)
  ultimately show ?thesis
    using assms
    by (auto simp: shim_nbuf_data_put_def nbuf_wf_def Let_def split: if_splits)
       (insert uint_nonneg [of n], linarith)
qed

lemma push_wf:
  assumes "nbuf_wf nb" and "shim_nbuf_data_push n nb = Some (p, nb')"
  shows "nbuf_wf nb'"
proof -
  have "uint n \<le> nb_data nb"
    using assms(2) by (auto simp: shim_nbuf_data_push_def Let_def split: if_splits)
  moreover from this assms(1) have "uint (nb_len nb + n) = uint (nb_len nb) + uint n"
    by (intro uint_add_small) (auto simp: nbuf_wf_def)
  ultimately show ?thesis
    using assms
    by (auto simp: shim_nbuf_data_push_def nbuf_wf_def Let_def split: if_splits)
       (insert uint_nonneg [of n], linarith)
qed

lemma pull_wf:
  assumes "nbuf_wf nb"
  shows "nbuf_wf (snd (shim_nbuf_data_pull n nb))"
proof (cases "n \<le> nb_len nb")
  case True
  then have "uint (nb_len nb - n) = uint (nb_len nb) - uint n" by (rule uint_sub_small)
  moreover from True have "uint n \<le> uint (nb_len nb)" by (simp add: word_le_def)
  ultimately show ?thesis
    using assms uint_nonneg [of n] True
    by (simp add: shim_nbuf_data_pull_def nbuf_wf_def Let_def not_less)
qed (use assms in \<open>simp add: shim_nbuf_data_pull_def not_le\<close>)

lemma headroom_res_eq:
  assumes "nbuf_wf nb" and "unat n \<le> nbuf_tailroom nb"
  shows "shim_nbuf_headroom_res n nb =
       nb\<lparr>nb_data := nb_data nb + uint n, nb_tail := nb_tail nb + uint n\<rparr>"
    and "nb_tail nb + uint n \<le> int (length (nb_mem nb))"
proof -
  show t: "nb_tail nb + uint n \<le> int (length (nb_mem nb))"
    using assms put_None_iff [OF assms(1), of n]
    by (auto simp: shim_nbuf_data_put_def Let_def split: if_splits)
  with assms(1) have "sint n = uint n" by (intro sint_small) (simp add: nbuf_wf_def)
  then show "shim_nbuf_headroom_res n nb =
       nb\<lparr>nb_data := nb_data nb + uint n, nb_tail := nb_tail nb + uint n\<rparr>"
    by (simp add: shim_nbuf_headroom_res_def)
qed

lemma headroom_res_wf:
  assumes "nbuf_wf nb" and "unat n \<le> nbuf_tailroom nb"
  shows "nbuf_wf (shim_nbuf_headroom_res n nb)"
  using assms(1) headroom_res_eq [OF assms] uint_nonneg [of n] by (simp add: nbuf_wf_def)

subsection \<open>Sizes as types\<close>

text \<open>
  The type of a buffer is the triple of its headroom, its data length and its tailroom. The
  checker follows a program of buffer operations on types alone.
\<close>

type_synonym nbuf_type = "nat \<times> nat \<times> nat"

definition nbuf_sizes :: "nbuf \<Rightarrow> nbuf_type" where
  "nbuf_sizes nb = (nbuf_headroom nb, unat (nb_len nb), nbuf_tailroom nb)"

fun nbuf_check1 :: "nbuf_op \<Rightarrow> nbuf_type \<Rightarrow> nbuf_type option" where
  "nbuf_check1 (HeadroomRes n) (h, l, t) = (if unat n \<le> t then Some (h + unat n, l, t - unat n) else None)"
| "nbuf_check1 (DataPut n) (h, l, t) = (if unat n \<le> t then Some (h, l + unat n, t - unat n) else None)"
| "nbuf_check1 (DataPush n) (h, l, t) = (if unat n \<le> h then Some (h - unat n, l + unat n, t) else None)"
| "nbuf_check1 (DataPull n) (h, l, t) = Some (if unat n \<le> l then (h + unat n, l - unat n, t) else (h, l, t))"
| "nbuf_check1 (SetChksum c) (h, l, t) = Some (h, l, t)"

fun nbuf_check :: "nbuf_op list \<Rightarrow> nbuf_type \<Rightarrow> nbuf_type option" where
  "nbuf_check [] ty = Some ty"
| "nbuf_check (p # ps) ty = (case nbuf_check1 p ty of None \<Rightarrow> None | Some ty \<Rightarrow> nbuf_check ps ty)"

lemma put_sizes:
  assumes "nbuf_wf nb" and "unat n \<le> nbuf_tailroom nb"
  shows "\<exists>nb'. shim_nbuf_data_put n nb = Some (nb_tail nb, nb') \<and> nbuf_wf nb'
     \<and> nbuf_sizes nb' = (nbuf_headroom nb, unat (nb_len nb) + unat n, nbuf_tailroom nb - unat n)"
proof -
  obtain nb' where nb': "shim_nbuf_data_put n nb = Some (nb_tail nb, nb')"
    using put_None_iff [OF assms(1), of n] assms(2)
    by (auto simp: shim_nbuf_data_put_def Let_def split: if_splits)
  then have eq: "nb' = nb\<lparr>nb_tail := nb_tail nb + uint n, nb_len := nb_len nb + n\<rparr>"
    by (auto simp: shim_nbuf_data_put_def Let_def split: if_splits)
  note wf' = put_wf [OF assms(1) nb']
  have "uint (nb_len nb') = uint (nb_len nb) + uint n"
    using wf' assms(1) by (simp add: eq nbuf_wf_def)
  then have "unat (nb_len nb') = unat (nb_len nb) + unat n"
    by (metis nat_add_distrib nat_uint_eq unsigned_greater_eq)
  moreover have "nat (nb_tail nb + uint n) = nat (nb_tail nb) + unat n"
    using assms(1) uint_nonneg [of n]
    by (simp add: nbuf_wf_def nat_add_distrib nat_uint_eq)
  ultimately show ?thesis
    using nb' wf' by (simp add: eq nbuf_sizes_def nbuf_view)
qed

lemma push_sizes:
  assumes "nbuf_wf nb" and "unat n \<le> nbuf_headroom nb"
  shows "\<exists>nb'. shim_nbuf_data_push n nb = Some (nb_data nb - uint n, nb') \<and> nbuf_wf nb'
     \<and> nbuf_sizes nb' = (nbuf_headroom nb - unat n, unat (nb_len nb) + unat n, nbuf_tailroom nb)"
proof -
  obtain nb' where nb': "shim_nbuf_data_push n nb = Some (nb_data nb - uint n, nb')"
    using push_None_iff [OF assms(1), of n] assms(2)
    by (auto simp: shim_nbuf_data_push_def Let_def split: if_splits)
  then have eq: "nb' = nb\<lparr>nb_data := nb_data nb - uint n, nb_len := nb_len nb + n\<rparr>"
    by (auto simp: shim_nbuf_data_push_def Let_def split: if_splits)
  note wf' = push_wf [OF assms(1) nb']
  have "uint (nb_len nb') = uint (nb_len nb) + uint n"
    using wf' assms(1) by (simp add: eq nbuf_wf_def)
  then have "unat (nb_len nb') = unat (nb_len nb) + unat n"
    by (metis nat_add_distrib nat_uint_eq unsigned_greater_eq)
  moreover have "nat (nb_data nb - uint n) = nat (nb_data nb) - unat n"
    using uint_nonneg [of n] by (simp only: nat_diff_distrib' nat_uint_eq [symmetric])
  ultimately show ?thesis
    using nb' wf' by (simp add: eq nbuf_sizes_def nbuf_view)
qed

lemma pull_sizes:
  assumes "nbuf_wf nb"
  shows "nbuf_sizes (snd (shim_nbuf_data_pull n nb)) =
     (if unat n \<le> unat (nb_len nb)
      then (nbuf_headroom nb + unat n, unat (nb_len nb) - unat n, nbuf_tailroom nb) else nbuf_sizes nb)"
proof (cases "n \<le> nb_len nb")
  case True
  have "nat (nb_data nb + uint n) = nat (nb_data nb) + unat n"
    using assms by (simp add: nbuf_wf_def nat_add_distrib nat_uint_eq)
  moreover have "unat (nb_len nb - n) = unat (nb_len nb) - unat n" using True by (rule unat_sub)
  ultimately show ?thesis
    using True by (simp add: shim_nbuf_data_pull_def nbuf_sizes_def nbuf_view Let_def word_le_nat_alt word_less_nat_alt)
qed (simp add: shim_nbuf_data_pull_def nbuf_sizes_def word_le_nat_alt word_less_nat_alt)

lemma headroom_res_sizes:
  assumes "nbuf_wf nb" and "unat n \<le> nbuf_tailroom nb"
  shows "nbuf_sizes (shim_nbuf_headroom_res n nb) =
     (nbuf_headroom nb + unat n, unat (nb_len nb), nbuf_tailroom nb - unat n)"
  using headroom_res_eq(1) [OF assms] assms(1)
  by (simp add: nbuf_sizes_def nbuf_view nbuf_wf_def nat_add_distrib nat_uint_eq)

lemma nbuf_exec_typed:
  assumes "nbuf_wf nb" and "nbuf_check1 p (nbuf_sizes nb) = Some ty"
  shows "\<exists>nb'. nbuf_exec p nb = Some nb' \<and> nbuf_wf nb' \<and> nbuf_sizes nb' = ty"
proof (cases p)
  case (HeadroomRes n)
  with assms show ?thesis
    using headroom_res_wf [OF assms(1), of n] headroom_res_sizes [OF assms(1), of n]
    by (auto simp: nbuf_sizes_def split: if_splits)
next
  case (DataPut n)
  with assms show ?thesis
    using put_sizes [OF assms(1), of n] by (auto simp: nbuf_sizes_def split: if_splits)
next
  case (DataPush n)
  with assms show ?thesis
    using push_sizes [OF assms(1), of n] by (auto simp: nbuf_sizes_def split: if_splits)
next
  case (DataPull n)
  with assms show ?thesis
    using pull_sizes [OF assms(1), of n] pull_wf [OF assms(1), of n] by (auto simp: nbuf_sizes_def)
next
  case (SetChksum c)
  with assms show ?thesis
    by (auto simp: shim_nbuf_set_chksum_done_def nbuf_wf_def nbuf_sizes_def nbuf_view)
qed

lemma nbuf_exec_rejected:
  assumes "nbuf_wf nb" and "nbuf_check1 p (nbuf_sizes nb) = None"
  shows "nbuf_exec p nb = None \<or> (\<exists>n. p = HeadroomRes n)"
  using assms put_None_iff [OF assms(1)] push_None_iff [OF assms(1)]
  by (cases p) (auto simp: nbuf_sizes_def split: if_splits)

text \<open>
  C5. Well-typed programs do not go wrong: a sequence of buffer operations whose sizes check
  against the headroom, length and tailroom of a well-formed buffer runs without a kernel panic,
  keeps the buffer well formed and ends with exactly the sizes that were computed. A sequence
  without reservations (which the kernel does not check) that does not type panics.
\<close>

theorem nbuf_type_sound:
  assumes "nbuf_wf nb"
  shows "case nbuf_check ps (nbuf_sizes nb) of
       Some ty \<Rightarrow> \<exists>nb'. nbuf_run ps nb = Some nb' \<and> nbuf_wf nb' \<and> nbuf_sizes nb' = ty
     | None \<Rightarrow> (\<forall>n. HeadroomRes n \<notin> set ps) \<longrightarrow> nbuf_run ps nb = None"
  using assms
proof (induction ps arbitrary: nb)
  case (Cons p ps)
  show ?case
  proof (cases "nbuf_check1 p (nbuf_sizes nb)")
    case None
    with nbuf_exec_rejected [OF Cons.prems, of p] show ?thesis by auto
  next
    case (Some ty)
    then obtain nb' where "nbuf_exec p nb = Some nb'" "nbuf_wf nb'" "nbuf_sizes nb' = ty"
      using nbuf_exec_typed [OF Cons.prems] by blast
    with Cons.IH [of nb'] Some show ?thesis by (auto split: option.splits)
  qed
qed simp

definition empty_nbuf :: nbuf where
  "empty_nbuf = the (shim_nbuf_alloc (\<lambda>n. Some (replicate (unat n) 0)) 64)"

lemma empty_nbuf_wf: "nbuf_wf empty_nbuf"
  by (simp add: empty_nbuf_def shim_nbuf_alloc_def nbuf_wf_def)

theorem nbuf_type_sound_witness:
  "(\<exists>nb'. nbuf_run [HeadroomRes 16, DataPut 40, DataPush 10, DataPull 4] empty_nbuf = Some nb'
      \<and> nbuf_wf nb' \<and> nbuf_sizes nb' = (10, 46, 8))
   \<and> nbuf_run [DataPut 60, DataPut 8] empty_nbuf = None"
  using nbuf_type_sound [OF empty_nbuf_wf, of "[HeadroomRes 16, DataPut 40, DataPush 10, DataPull 4]"]
    nbuf_type_sound [OF empty_nbuf_wf, of "[DataPut 60, DataPut 8]"]
  by (simp add: empty_nbuf_def shim_nbuf_alloc_def nbuf_sizes_def nbuf_view)

subsection \<open>Framing\<close>

text \<open>
  The firmware core builds a packet by extending the buffer at an end and copying bytes to
  the pointer it gets back. This is the contract it relies on.
\<close>

locale net_buffer =
  fixes invar :: "'b \<Rightarrow> bool" and bytes :: "'b \<Rightarrow> u8 list"
    and headroom :: "'b \<Rightarrow> nat" and tailroom :: "'b \<Rightarrow> nat"
    and append :: "u8 list \<Rightarrow> 'b \<Rightarrow> 'b option" and prepend :: "u8 list \<Rightarrow> 'b \<Rightarrow> 'b option"
    and strip :: "u32 \<Rightarrow> 'b \<Rightarrow> 'b"
  assumes append_law: "\<lbrakk>invar b; length src \<le> tailroom b\<rbrakk> \<Longrightarrow>
      \<exists>b'. append src b = Some b' \<and> invar b' \<and> bytes b' = bytes b @ src
         \<and> headroom b' = headroom b \<and> tailroom b' = tailroom b - length src"
    and prepend_law: "\<lbrakk>invar b; length src \<le> headroom b\<rbrakk> \<Longrightarrow>
      \<exists>b'. prepend src b = Some b' \<and> invar b' \<and> bytes b' = src @ bytes b
         \<and> headroom b' = headroom b - length src \<and> tailroom b' = tailroom b"
    and strip_law: "\<lbrakk>invar b; unat n \<le> length (bytes b)\<rbrakk> \<Longrightarrow>
      invar (strip n b) \<and> bytes (strip n b) = drop (unat n) (bytes b)
         \<and> headroom (strip n b) = headroom b + unat n \<and> tailroom (strip n b) = tailroom b"
begin

fun prepend_all :: "u8 list list \<Rightarrow> 'b \<Rightarrow> 'b option" where
  "prepend_all [] b = Some b"
| "prepend_all (h # hs) b = (case prepend_all hs b of None \<Rightarrow> None | Some b \<Rightarrow> prepend h b)"

lemma prepend_all_law:
  assumes "invar b" and "length (concat hs) \<le> headroom b"
  shows "\<exists>b'. prepend_all hs b = Some b' \<and> invar b' \<and> bytes b' = concat hs @ bytes b
     \<and> headroom b' = headroom b - length (concat hs) \<and> tailroom b' = tailroom b"
  using assms(2)
proof (induction hs)
  case (Cons h hs)
  then obtain c where c: "prepend_all hs b = Some c" "invar c" "bytes c = concat hs @ bytes b"
      "headroom c = headroom b - length (concat hs)" "tailroom c = tailroom b" by auto
  moreover have "length h \<le> headroom c" using Cons.prems c(4) by simp
  ultimately show ?case using prepend_law [OF c(2), of h] by auto
qed (use assms(1) in simp)

lemma framing:
  assumes "invar b" and "bytes b = []" and "length payload \<le> tailroom b"
    and "length (concat hs) \<le> headroom b" and "length (concat hs) < 2 ^ 32"
  shows "\<exists>b1 b2. append payload b = Some b1 \<and> prepend_all hs b1 = Some b2 \<and> invar b2
     \<and> bytes b2 = concat hs @ payload \<and> headroom b2 = headroom b - length (concat hs)
     \<and> tailroom b2 = tailroom b - length payload
     \<and> bytes (strip (of_nat (length (concat hs))) b2) = payload
     \<and> headroom (strip (of_nat (length (concat hs))) b2) = headroom b"
proof -
  obtain b1 where b1: "append payload b = Some b1" "invar b1" "bytes b1 = payload"
      "headroom b1 = headroom b" "tailroom b1 = tailroom b - length payload"
    using append_law [OF assms(1,3)] assms(2) by auto
  obtain b2 where b2: "prepend_all hs b1 = Some b2" "invar b2" "bytes b2 = concat hs @ payload"
      "headroom b2 = headroom b - length (concat hs)" "tailroom b2 = tailroom b - length payload"
    using prepend_all_law [OF b1(2), of hs] b1(3-5) assms(4) by auto
  have "unat (of_nat (length (concat hs)) :: u32) = length (concat hs)"
    using assms(5) by (simp add: unat_of_nat)
  with strip_law [OF b2(2), of "of_nat (length (concat hs))"] b1 b2 assms(4) show ?thesis by auto
qed

end

definition nbuf_fill :: "u8 list \<Rightarrow> (int \<times> nbuf) option \<Rightarrow> nbuf option" where
  "nbuf_fill src r =
     (case r of None \<Rightarrow> None
      | Some (p, nb) \<Rightarrow>
          (case shim_mem_cpy (nb_mem nb) (nat p) src (of_nat (length src)) of
             UB _ \<Rightarrow> None | Ret mem \<Rightarrow> Some (nb\<lparr>nb_mem := mem\<rparr>)))"

definition nbuf_append :: "u8 list \<Rightarrow> nbuf \<Rightarrow> nbuf option" where
  "nbuf_append src nb = nbuf_fill src (shim_nbuf_data_put (of_nat (length src)) nb)"

definition nbuf_prepend :: "u8 list \<Rightarrow> nbuf \<Rightarrow> nbuf option" where
  "nbuf_prepend src nb = nbuf_fill src (shim_nbuf_data_push (of_nat (length src)) nb)"

definition nbuf_strip :: "u32 \<Rightarrow> nbuf \<Rightarrow> nbuf" where
  "nbuf_strip n nb = snd (shim_nbuf_data_pull n nb)"

lemma nbuf_fill_Some:
  assumes "0 \<le> p" and "nat p + length src \<le> length (nb_mem nb)" and "length src < 2 ^ 64"
  shows "nbuf_fill src (Some (p, nb)) =
     Some (nb\<lparr>nb_mem := take (nat p) (nb_mem nb) @ src @ drop (nat p + length src) (nb_mem nb)\<rparr>)"
  using assms by (simp add: nbuf_fill_def shim_mem_cpy_def put_at_def unat_of_nat)

lemma length_of_nat_u32: "n < 2 ^ 32 \<Longrightarrow> unat (of_nat n :: u32) = n"
  by (simp add: unat_of_nat)

lemma nbuf_wfD:
  assumes "nbuf_wf nb"
  shows "nat (nb_data nb) \<le> nat (nb_tail nb)" "nat (nb_tail nb) \<le> length (nb_mem nb)"
    "nat (nb_tail nb - nb_data nb) = nat (nb_tail nb) - nat (nb_data nb)" "length (nb_mem nb) < 2 ^ 31"
  using assms by (auto simp: nbuf_wf_def)

lemma window_append:
  "d \<le> t \<Longrightarrow> t \<le> length m \<Longrightarrow>
     take (t - d + length s) (drop d (take t m @ s @ r)) = take (t - d) (drop d m) @ s"
  by (simp add: drop_take)

lemma window_prepend:
  "p + length s = d \<Longrightarrow> d \<le> length m \<Longrightarrow>
     take (length s + k) (drop p (take p m @ s @ drop d m)) = s @ take k (drop d m)"
  by simp

lemma length_splice:
  "p + length s = d \<Longrightarrow> d \<le> length m \<Longrightarrow> length (take p m @ s @ drop d m) = length m"
  by simp

lemma nbuf_append_law:
  assumes "nbuf_wf nb" and "length src \<le> nbuf_tailroom nb"
  shows "\<exists>nb'. nbuf_append src nb = Some nb' \<and> nbuf_wf nb' \<and> nbuf_bytes nb' = nbuf_bytes nb @ src
     \<and> nbuf_headroom nb' = nbuf_headroom nb \<and> nbuf_tailroom nb' = nbuf_tailroom nb - length src"
proof -
  let ?n = "of_nat (length src) :: u32"
  note D = nbuf_wfD [OF assms(1)]
  have n: "unat ?n = length src" using assms(2) D(4) by (intro length_of_nat_u32) (simp add: nbuf_tailroom_def)
  obtain c where c: "shim_nbuf_data_put ?n nb = Some (nb_tail nb, c)" "nbuf_wf c"
      "nbuf_sizes c = (nbuf_headroom nb, unat (nb_len nb) + length src, nbuf_tailroom nb - length src)"
    using put_sizes [OF assms(1), of ?n] n assms(2) by auto
  then have c_eq: "c = nb\<lparr>nb_tail := nb_tail nb + uint ?n, nb_len := nb_len nb + ?n\<rparr>"
    by (auto simp: shim_nbuf_data_put_def Let_def split: if_splits)
  let ?d = "c\<lparr>nb_mem := take (nat (nb_tail nb)) (nb_mem nb) @ src @ drop (nat (nb_tail nb) + length src) (nb_mem nb)\<rparr>"
  have room: "nat (nb_tail nb) + length src \<le> length (nb_mem nb)"
    using assms(2) D(2) by (simp add: nbuf_tailroom_def)
  have "nbuf_append src nb = Some ?d"
    using nbuf_fill_Some [of "nb_tail nb" src c] room c(1) D(4) assms(1)
    by (simp add: nbuf_append_def c_eq nbuf_wf_def)
  moreover have "nbuf_wf ?d" using c(2) room by (simp add: nbuf_wf_def c_eq)
  moreover have "nbuf_bytes ?d = nbuf_bytes nb @ src"
  proof -
    have "uint ?n = int (length src)" using n by (metis uint_nat)
    then have "nat (nb_tail nb + uint ?n - nb_data nb) = (nat (nb_tail nb) - nat (nb_data nb)) + length src"
      using assms(1) by (simp add: nbuf_wf_def) linarith
    then show ?thesis
      by (simp add: c_eq nbuf_bytes_def D(3) window_append [OF D(1,2)] del: drop_append take_append)
  qed
  moreover have "nbuf_headroom ?d = nbuf_headroom nb" "nbuf_tailroom ?d = nbuf_tailroom nb - length src"
    using c(3) room by (simp_all add: nbuf_sizes_def nbuf_view c_eq)
  ultimately show ?thesis by blast
qed

lemma nbuf_prepend_law:
  assumes "nbuf_wf nb" and "length src \<le> nbuf_headroom nb"
  shows "\<exists>nb'. nbuf_prepend src nb = Some nb' \<and> nbuf_wf nb' \<and> nbuf_bytes nb' = src @ nbuf_bytes nb
     \<and> nbuf_headroom nb' = nbuf_headroom nb - length src \<and> nbuf_tailroom nb' = nbuf_tailroom nb"
proof -
  let ?n = "of_nat (length src) :: u32"
  note D = nbuf_wfD [OF assms(1)]
  have "length src \<le> length (nb_mem nb)"
    using assms(2) D(1,2) unfolding nbuf_headroom_def by linarith
  then have n: "unat ?n = length src" using D(4) by (intro length_of_nat_u32) simp
  then have u: "uint ?n = int (length src)" by (metis uint_nat)
  obtain c where c: "shim_nbuf_data_push ?n nb = Some (nb_data nb - uint ?n, c)" "nbuf_wf c"
      "nbuf_sizes c = (nbuf_headroom nb - length src, unat (nb_len nb) + length src, nbuf_tailroom nb)"
    using push_sizes [OF assms(1), of ?n] n assms(2) by auto
  then have c_eq: "c = nb\<lparr>nb_data := nb_data nb - uint ?n, nb_len := nb_len nb + ?n\<rparr>"
    by (auto simp: shim_nbuf_data_push_def Let_def split: if_splits)
  let ?p = "nat (nb_data nb) - length src"
  have p: "nat (nb_data nb - uint ?n) = ?p" unfolding u by (rule nat_diff_distrib' [THEN trans]) (use assms(1) in \<open>simp_all add: nbuf_wf_def\<close>)
  have pd: "?p + length src = nat (nb_data nb)"
    using assms(2) by (simp add: nbuf_headroom_def)
  let ?d = "c\<lparr>nb_mem := take ?p (nb_mem nb) @ src @ drop (nat (nb_data nb)) (nb_mem nb)\<rparr>"
  have mem: "nb_mem c = nb_mem nb" by (simp add: c_eq)
  have room: "?p + length src \<le> length (nb_mem c)" unfolding pd mem by (rule le_trans [OF D(1,2)])
  have small: "length src < 2 ^ 64"
    using \<open>length src \<le> length (nb_mem nb)\<close> D(4) by simp
  have "0 \<le> nb_data nb - uint ?n" using c(2) by (simp add: c_eq nbuf_wf_def)
  then have "nbuf_prepend src nb = Some ?d"
    using nbuf_fill_Some [of "nb_data nb - uint ?n" src c] room small
    unfolding nbuf_prepend_def c(1) p pd mem by simp
  moreover have same: "length (nb_mem ?d) = length (nb_mem nb)"
    using length_splice [OF pd le_trans [OF D(1,2)]] by (cases c) (simp only: nbuf.simps nbuf.update_convs)
  moreover have "nbuf_wf ?d" using c(2) unfolding nbuf_wf_def same by (simp add: c_eq)
  moreover have "nbuf_bytes ?d = src @ nbuf_bytes nb"
  proof -
    have "nat (nb_tail nb - (nb_data nb - uint ?n)) = length src + (nat (nb_tail nb) - nat (nb_data nb))"
      using assms(1) u by (simp add: nbuf_wf_def) linarith
    then show ?thesis
      by (simp add: c_eq nbuf_bytes_def D(3) p window_prepend [OF pd le_trans [OF D(1,2)]]
          del: drop_append take_append)
  qed
  moreover have "nbuf_headroom ?d = nbuf_headroom nb - length src" "nbuf_tailroom ?d = nbuf_tailroom nb"
    using c(3) unfolding nbuf_sizes_def nbuf_headroom_def nbuf_tailroom_def same mem by simp_all
  ultimately show ?thesis by blast
qed

lemma nbuf_strip_law:
  assumes "nbuf_wf nb" and "unat n \<le> length (nbuf_bytes nb)"
  shows "nbuf_wf (nbuf_strip n nb) \<and> nbuf_bytes (nbuf_strip n nb) = drop (unat n) (nbuf_bytes nb)
     \<and> nbuf_headroom (nbuf_strip n nb) = nbuf_headroom nb + unat n
     \<and> nbuf_tailroom (nbuf_strip n nb) = nbuf_tailroom nb"
proof -
  have l: "unat n \<le> unat (nb_len nb)" using assms length_nbuf_bytes by simp
  then have eq: "nbuf_strip n nb = nb\<lparr>nb_data := nb_data nb + uint n, nb_len := nb_len nb - n\<rparr>"
    by (simp add: nbuf_strip_def shim_nbuf_data_pull_def Let_def word_less_nat_alt)
  have "nat (nb_data nb + uint n) = nat (nb_data nb) + unat n"
    using assms(1) by (simp add: nbuf_wf_def nat_add_distrib nat_uint_eq)
  moreover have "nat (nb_tail nb - (nb_data nb + uint n)) = nat (nb_tail nb - nb_data nb) - unat n"
    using assms(1) nat_diff_distrib' [OF _ uint_nonneg [of n], of "nb_tail nb - nb_data nb"]
    by (simp add: nbuf_wf_def diff_diff_eq flip: nat_uint_eq)
  ultimately have "nbuf_bytes (nbuf_strip n nb) = drop (unat n) (nbuf_bytes nb)"
    by (simp add: eq nbuf_bytes_def drop_take add.commute)
  with pull_wf [OF assms(1), of n] pull_sizes [OF assms(1), of n] l show ?thesis
    by (simp add: nbuf_strip_def nbuf_sizes_def)
qed

interpretation nb: net_buffer nbuf_wf nbuf_bytes nbuf_headroom nbuf_tailroom nbuf_append nbuf_prepend nbuf_strip
  by unfold_locales (rule nbuf_append_law nbuf_prepend_law nbuf_strip_law; assumption)+

text \<open>
  A packet framed through the OS layer: in a freshly allocated buffer with enough room, after
  reserving headroom, the payload followed by any number of headers in front of it gives exactly
  the headers in order and then the payload, and pulling the headers off again leaves the payload
  and the reserved headroom.
\<close>

theorem nbuf_framing_round_trip:
  assumes "alloc_skb sz = Some mem" and "length mem < 2 ^ 31"
    and "unat reserve + length payload \<le> length mem" and "length (concat hs) \<le> unat reserve"
  shows "\<exists>nb b1 b2. shim_nbuf_alloc alloc_skb sz = Some nb
     \<and> nbuf_append payload (shim_nbuf_headroom_res reserve nb) = Some b1 \<and> nb.prepend_all hs b1 = Some b2
     \<and> nbuf_bytes b2 = concat hs @ payload
     \<and> shim_nbuf_data_size b2 = of_nat (length (concat hs) + length payload)
     \<and> nbuf_bytes (nbuf_strip (of_nat (length (concat hs))) b2) = payload
     \<and> shim_nbuf_headroom_get (nbuf_strip (of_nat (length (concat hs))) b2) = reserve"
proof -
  obtain nb where nb: "shim_nbuf_alloc alloc_skb sz = Some nb" and wf: "nbuf_wf nb"
    and room: "nbuf_tailroom nb = length mem" and l: "nb_len nb = 0" and h: "nbuf_headroom nb = 0"
    using assms(1,2) by (auto simp: shim_nbuf_alloc_def nbuf_wf_def nbuf_view)
  let ?b = "shim_nbuf_headroom_res reserve nb"
  have "unat reserve \<le> nbuf_tailroom nb" using room assms(3) by simp
  note B = headroom_res_wf [OF wf this] headroom_res_sizes [OF wf this]
  then have empty: "nbuf_bytes ?b = []" using length_nbuf_bytes [OF B(1)] l by (simp add: nbuf_sizes_def)
  have sizes: "nbuf_headroom ?b = unat reserve" "nbuf_tailroom ?b = length mem - unat reserve"
    using B(2) room h by (simp_all add: nbuf_sizes_def)
  have "length (concat hs) < 2 ^ 32" using assms(2-4) by simp
  then obtain b1 b2 where F: "nbuf_append payload ?b = Some b1" "nb.prepend_all hs b1 = Some b2"
      "nbuf_bytes b2 = concat hs @ payload" "nbuf_bytes (nbuf_strip (of_nat (length (concat hs))) b2) = payload"
      "nbuf_headroom (nbuf_strip (of_nat (length (concat hs))) b2) = unat reserve" and wf2: "nbuf_wf b2"
    using nb.framing [OF B(1) empty, of payload hs] assms(3,4) unfolding sizes by (auto simp: le_diff_conv2)
  have "unat (nb_len b2) = length (concat hs) + length payload" using length_nbuf_bytes [OF wf2] F(3) by simp
  then have "shim_nbuf_data_size b2 = of_nat (length (concat hs) + length payload)"
    unfolding shim_nbuf_data_size_def by (metis of_nat_unat ucast_id)
  moreover have "shim_nbuf_headroom_get (nbuf_strip (of_nat (length (concat hs))) b2) = reserve"
    using F(5) nbuf_strip_law [OF wf2, of "of_nat (length (concat hs))"]
      \<open>length (concat hs) < 2 ^ 32\<close> F(3)
    by (simp add: shim_nbuf_headroom_get_def nbuf_headroom_def nbuf_wf_def unat_of_nat)
       (metis nat_uint_eq eq_nat_nat_iff unsigned_greater_eq word_of_int_uint)
  ultimately show ?thesis using nb F by blast
qed

theorem nbuf_framing_round_trip_witness:
  "\<exists>nb b1 b2. shim_nbuf_alloc (\<lambda>n. Some (replicate (unat n) 0)) 64 = Some nb
     \<and> nbuf_append [7, 8, 9] (shim_nbuf_headroom_res 16 nb) = Some b1
     \<and> nb.prepend_all [[1, 2], [3]] b1 = Some b2
     \<and> nbuf_bytes b2 = [1, 2, 3, 7, 8, 9] \<and> shim_nbuf_data_size b2 = 6
     \<and> nbuf_bytes (nbuf_strip 3 b2) = [7, 8, 9] \<and> shim_nbuf_headroom_get (nbuf_strip 3 b2) = 16"
  using nbuf_framing_round_trip [of "\<lambda>n. Some (replicate (unat n) 0)" 64 "replicate 64 0" 16
      "[7, 8, 9]" "[[1, 2], [3]]"]
  by simp

subsection \<open>Refinement of the abstract buffer\<close>

text \<open>
  The transmit path of monitor interfaces is modelled on buffers that are just a byte sequence
  with some headroom. Every shim buffer is one, and the operations agree.
\<close>

definition skb_of :: "nbuf \<Rightarrow> sk_buff" where
  "skb_of nb = \<lparr>skb_data = nbuf_bytes nb, skb_headroom = nbuf_headroom nb\<rparr>"


lemma empty_nbuf_reserved: "nbuf_wf (shim_nbuf_headroom_res 16 empty_nbuf)"
  by (rule headroom_res_wf [OF empty_nbuf_wf]) (simp add: empty_nbuf_def shim_nbuf_alloc_def nbuf_view)


text \<open>
  The receive path's \<open>shim_nbuf_set_chksum_done\<close> writes a field that \<open>shim_nbuf_get_chksum_done\<close>
  never reads: what was set is not what is read. A priority is cut to its low byte.
\<close>

lemma chksum_done_not_read_back:
  "shim_nbuf_get_chksum_done (shim_nbuf_set_chksum_done c nbo) = shim_nbuf_get_chksum_done nbo"
  by (simp add: shim_nbuf_get_chksum_done_def shim_nbuf_set_chksum_done_def split: option.splits)

lemma priority_truncated:
  "unat (shim_nbuf_get_priority nb) = unat (nb_priority nb) mod 256"
  by (simp add: shim_nbuf_get_priority_def unsigned_ucast_eq take_bit_eq_mod)

end
