(* ===== verification/Shim_Work.thy ===== *)
theory Shim_Work
  imports Shim_Bus
begin

text \<open>
  Deferred execution in the OS shim (\<open>shim.c\<close>): tasklets, which the shim implements as work
  items, timers, which hand over to a work item when they expire, and the interrupt, whose
  handler only queues a work item; and the locks, which are mutexes. Each is a labelled step
  relation over the shim's operations and the kernel's worker. The locale
  \<open>deferred_call\<close> states that no scheduled call is lost, and \<open>stoppable_call\<close> adds that none
  happens after the object was stopped.
\<close>

subsection \<open>The kernel's work items\<close>

datatype work_fn = Fn_worker | Timer_invoke_callback | Irq_work_handler

record work =
  work_fn :: "work_fn option"
  pending :: bool
  running :: bool

definition zero_work :: work where
  "zero_work = \<lparr>work_fn = None, pending = False, running = False\<rparr>"

definition INIT_WORK :: "work_fn \<Rightarrow> work \<Rightarrow> work" where
  "INIT_WORK f w = w\<lparr>work_fn := Some f, pending := False\<rparr>"

text \<open>\<open>queue_work\<close> of an initialised item; an item that is already queued stays queued once.\<close>

definition queue_work :: "work \<Rightarrow> work outcome" where
  "queue_work w = (if work_fn w = None then UB Uninitialised else Ret (w\<lparr>pending := True\<rparr>))"

text \<open>\<open>cancel_work_sync\<close> takes the item out of the queue and returns when it is not running any more.\<close>

definition cancel_work_sync :: "work \<Rightarrow> work" where
  "cancel_work_sync w = w\<lparr>pending := False, running := False\<rparr>"

definition runnable :: "work \<Rightarrow> bool" where
  "runnable w \<longleftrightarrow> pending w \<and> \<not> running w"

definition begin_work :: "work \<Rightarrow> work" where
  "begin_work w = w\<lparr>pending := False, running := True\<rparr>"

definition finish_work :: "work \<Rightarrow> work" where
  "finish_work w = w\<lparr>running := False\<rparr>"

lemmas work_defs = INIT_WORK_def queue_work_def cancel_work_sync_def runnable_def begin_work_def
  finish_work_def zero_work_def

subsection \<open>Labelled steps and the contract of a deferred call\<close>

datatype dlabel = Sched | Expire | Begin | Finish | Kill | Free

inductive path :: "('l \<Rightarrow> 's \<Rightarrow> 's \<Rightarrow> bool) \<Rightarrow> 'l list \<Rightarrow> 's \<Rightarrow> 's \<Rightarrow> bool"
  for step :: "'l \<Rightarrow> 's \<Rightarrow> 's \<Rightarrow> bool" where
  path_nil: "path step [] s s"
| path_cons: "step l s t \<Longrightarrow> path step ls t u \<Longrightarrow> path step (l # ls) s u"

inductive_simps path_Nil_iff: "path step [] s t"
inductive_simps path_Cons_iff: "path step (l # ls) s t"

lemma path_single: "step l s t \<Longrightarrow> path step [l] s t"
  by (auto intro: path.intros)

locale deferred_call =
  fixes step :: "dlabel \<Rightarrow> 's \<Rightarrow> 's \<Rightarrow> bool" and calls :: "'s \<Rightarrow> 'k list" and owed :: "'s \<Rightarrow> bool"
  assumes sched_owes: "step Sched s t \<Longrightarrow> owed t"
    and owed_kept: "step l s t \<Longrightarrow> owed s \<Longrightarrow> l \<noteq> Begin \<Longrightarrow> l \<noteq> Kill \<Longrightarrow> owed t"
    and begin_calls: "step Begin s t \<Longrightarrow> \<exists>k. calls t = calls s @ [k]"
    and calls_mono: "step l s t \<Longrightarrow> \<exists>ks. calls t = calls s @ ks"
begin

lemma calls_path: "path step ls s t \<Longrightarrow> \<exists>ks. calls t = calls s @ ks"
  by (induction rule: path.induct) (auto dest: calls_mono)

lemma owed_or_called:
  assumes "path step ls s u" and "owed s" and "Kill \<notin> set ls"
  shows "owed u \<or> (\<exists>k ks. calls u = calls s @ k # ks)"
  using assms
proof (induction rule: path.induct)
  case (path_cons l s t ls u)
  then show ?case
  proof (cases "l = Begin")
    case True
    then obtain k ks where "calls t = calls s @ [k]" "calls u = calls t @ ks"
      using begin_calls path_cons(1) calls_path [OF path_cons(2)] by blast
    then show ?thesis by simp
  next
    case False
    then have "owed t" using owed_kept path_cons by auto
    moreover obtain ks where "calls t = calls s @ ks" using calls_mono [OF path_cons(1)] by blast
    ultimately show ?thesis using path_cons by (auto simp: append_eq_append_conv2) (metis append_Cons append_assoc append_is_Nil_conv list.exhaust)
  qed
qed simp

lemma schedule_not_lost:
  assumes "step Sched s t" and "path step ls t u" and "Kill \<notin> set ls"
  shows "owed u \<or> (\<exists>k ks. calls u = calls t @ k # ks)"
  using owed_or_called [OF assms(2) sched_owes [OF assms(1)] assms(3)] .

end

locale stoppable_call = deferred_call +
  fixes quiet :: "'s \<Rightarrow> bool"
  assumes kill_quiet: "step Kill s t \<Longrightarrow> quiet t"
    and quiet_step: "step l s t \<Longrightarrow> quiet s \<Longrightarrow> l \<noteq> Sched \<Longrightarrow> quiet t \<and> calls t = calls s"
begin

lemma quiet_path: "path step ls s t \<Longrightarrow> quiet s \<Longrightarrow> Sched \<notin> set ls \<Longrightarrow> quiet t \<and> calls t = calls s"
  by (induction rule: path.induct) (auto dest: quiet_step)

lemma no_call_after_kill:
  "step Kill s t \<Longrightarrow> path step ls t u \<Longrightarrow> Sched \<notin> set ls \<Longrightarrow> calls u = calls t"
  using quiet_path kill_quiet by blast

end

subsection \<open>Tasklets\<close>

text \<open>A callback is a number; a call is the callback with its argument.\<close>

type_synonym call = "nat \<times> ulong"

record work_item =
  wi_work :: work
  wi_data :: ulong
  wi_callback :: "nat option"

definition shim_tasklet_alloc :: "bool \<Rightarrow> work_item option" where
  "shim_tasklet_alloc available =
     (if available then Some \<lparr>wi_work = zero_work, wi_data = 0, wi_callback = None\<rparr> else None)"

definition fn_worker :: "work_item \<Rightarrow> call outcome" where
  "fn_worker item_ctx =
     (case wi_callback item_ctx of None \<Rightarrow> UB NullDeref | Some f \<Rightarrow> Ret (f, wi_data item_ctx))"

definition shim_tasklet_init :: "nat \<Rightarrow> ulong \<Rightarrow> work_item \<Rightarrow> work_item" where
  "shim_tasklet_init callback data item =
     item\<lparr>wi_data := data, wi_callback := Some callback, wi_work := INIT_WORK Fn_worker (wi_work item)\<rparr>"

definition shim_tasklet_schedule :: "work_item \<Rightarrow> work_item outcome" where
  "shim_tasklet_schedule item =
     and_then (queue_work (wi_work item)) (\<lambda>w. Ret (item\<lparr>wi_work := w\<rparr>))"

definition shim_tasklet_kill :: "work_item \<Rightarrow> work_item" where
  "shim_tasklet_kill item = item\<lparr>wi_work := cancel_work_sync (wi_work item)\<rparr>"

text \<open>
  The second component says whether the object was freed, the third records the calls the
  worker made; running a freed object is a call that is undefined.
\<close>

type_synonym tasklet_sys = "work_item \<times> bool \<times> call outcome list"

definition worker_call :: "bool \<Rightarrow> call outcome \<Rightarrow> call outcome" where
  "worker_call freed c = (if freed then UB UseAfterFree else c)"

inductive tasklet_step :: "dlabel \<Rightarrow> tasklet_sys \<Rightarrow> tasklet_sys \<Rightarrow> bool" where
  ts_sched: "shim_tasklet_schedule t = Ret t' \<Longrightarrow> tasklet_step Sched (t, False, c) (t', False, c)"
| ts_begin: "runnable (wi_work t) \<Longrightarrow>
    tasklet_step Begin (t, fr, c)
      (t\<lparr>wi_work := begin_work (wi_work t)\<rparr>, fr, c @ [worker_call fr (fn_worker t)])"
| ts_finish: "running (wi_work t) \<Longrightarrow>
    tasklet_step Finish (t, fr, c) (t\<lparr>wi_work := finish_work (wi_work t)\<rparr>, fr, c)"
| ts_kill: "tasklet_step Kill (t, False, c) (shim_tasklet_kill t, False, c)"
| ts_free: "tasklet_step Free (t, False, c) (t, True, c)"

definition tasklet_owed :: "tasklet_sys \<Rightarrow> bool" where
  "tasklet_owed s \<longleftrightarrow> pending (wi_work (fst s))"

definition tasklet_quiet :: "tasklet_sys \<Rightarrow> bool" where
  "tasklet_quiet s \<longleftrightarrow> \<not> pending (wi_work (fst s)) \<and> \<not> running (wi_work (fst s))"

definition sys_calls :: "'a \<times> bool \<times> call outcome list \<Rightarrow> call outcome list" where
  "sys_calls s = snd (snd s)"

lemma schedule_eq:
  "shim_tasklet_schedule t = Ret t' \<longleftrightarrow>
     work_fn (wi_work t) \<noteq> None \<and> t' = t\<lparr>wi_work := (wi_work t)\<lparr>pending := True\<rparr>\<rparr>"
  by (auto simp: shim_tasklet_schedule_def queue_work_def)

interpretation tasklet: stoppable_call tasklet_step sys_calls tasklet_owed tasklet_quiet
  by unfold_locales
     (auto elim!: tasklet_step.cases simp: tasklet_owed_def tasklet_quiet_def sys_calls_def
        schedule_eq work_defs shim_tasklet_kill_def)

text \<open>
  C7. A tasklet of the shim: a scheduled call is never lost (as long as the tasklet is not
  killed it is still due or was made), every call made is the registered callback with its
  argument, and after a kill no call happens, also when the tasklet is freed then.
\<close>

theorem tasklet_contract:
  assumes "shim_tasklet_alloc True = Some item" and "t0 = shim_tasklet_init cb data item"
    and "path tasklet_step ls (t0, False, []) s" and "Free \<notin> set ls"
  shows "(\<forall>k \<in> set (sys_calls s). k = Ret (cb, data))
     \<and> (\<forall>t ms u. tasklet_step Sched s t \<longrightarrow> path tasklet_step ms t u \<longrightarrow> Kill \<notin> set ms \<longrightarrow>
          tasklet_owed u \<or> (\<exists>k ks. sys_calls u = sys_calls t @ k # ks))
     \<and> (\<forall>t ms u. tasklet_step Kill s t \<longrightarrow> path tasklet_step ms t u \<longrightarrow> Sched \<notin> set ms \<longrightarrow>
          sys_calls u = sys_calls s)"
proof -
  have inv: "wi_callback (fst s) = Some cb \<and> wi_data (fst s) = data \<and> \<not> fst (snd s)
      \<and> (\<forall>k \<in> set (sys_calls s). k = Ret (cb, data))"
    if "path tasklet_step ls s0 s" "Free \<notin> set ls" "wi_callback (fst s0) = Some cb"
      "wi_data (fst s0) = data" "\<not> fst (snd s0)" "\<forall>k \<in> set (sys_calls s0). k = Ret (cb, data)" for s0
    using that
  proof (induction rule: path.induct)
    case (path_cons l s t ls u)
    from path_cons(1,4-) show ?case
      by (intro path_cons.IH)
         (auto elim!: tasklet_step.cases simp: sys_calls_def schedule_eq shim_tasklet_kill_def
            worker_call_def fn_worker_def)
  qed simp
  have "\<forall>k \<in> set (sys_calls s). k = Ret (cb, data)"
    using inv [OF assms(3,4)] by (simp add: assms(2) shim_tasklet_init_def sys_calls_def)
  moreover have "sys_calls t = sys_calls s" if "tasklet_step Kill s t" for t
    using that by (auto elim!: tasklet_step.cases simp: sys_calls_def)
  ultimately show ?thesis
    using tasklet.schedule_not_lost tasklet.no_call_after_kill by metis
qed

definition demo_tasklet :: work_item where
  "demo_tasklet = shim_tasklet_init 5 7 (the (shim_tasklet_alloc True))"

definition demo_queued :: work_item where
  "demo_queued = demo_tasklet\<lparr>wi_work := (wi_work demo_tasklet)\<lparr>pending := True\<rparr>\<rparr>"

lemma demo_queued_reached: "path tasklet_step [Sched] (demo_tasklet, False, []) (demo_queued, False, [])"
  by (rule path_single, rule ts_sched)
     (simp add: schedule_eq demo_queued_def demo_tasklet_def shim_tasklet_init_def INIT_WORK_def)

theorem tasklet_contract_witness:
  "\<exists>t u. tasklet_step Kill (demo_queued, False, []) t \<and> path tasklet_step [Free] t u \<and> sys_calls u = []"
proof -
  have "tasklet_step Kill (demo_queued, False, []) (shim_tasklet_kill demo_queued, False, [])"
    by (rule ts_kill)
  moreover have "path tasklet_step [Free] (shim_tasklet_kill demo_queued, False, []) (shim_tasklet_kill demo_queued, True, [])"
    by (rule path_single, rule ts_free)
  moreover from calculation have "sys_calls (shim_tasklet_kill demo_queued, True, []) = sys_calls (demo_queued, False, [])"
    using tasklet_contract [of "the (shim_tasklet_alloc True)" demo_tasklet 5 7, OF _ demo_tasklet_def demo_queued_reached]
    by (simp add: shim_tasklet_alloc_def)
  then have "sys_calls (shim_tasklet_kill demo_queued, True, []) = []" by (simp add: sys_calls_def)
  ultimately show ?thesis by blast
qed

subsection \<open>Timers\<close>

text \<open>
  The memory of a timer comes uninitialised from \<open>kmalloc\<close>; \<open>tm_setup\<close> says whether
  \<open>timer_setup\<close> was called, \<open>None\<close> that the callback was not stored yet.
\<close>

record shim_timer_data =
  tm_setup :: bool
  tm_armed :: bool
  tm_callback :: "nat option"
  tm_data :: ulong
  tm_work :: work

definition shim_timer_alloc :: "bool \<Rightarrow> shim_timer_data option outcome" where
  "shim_timer_alloc available =
     (if \<not> available then UB NullDeref
      else Ret (Some \<lparr>tm_setup = False, tm_armed = False, tm_callback = None, tm_data = 0,
        tm_work = INIT_WORK Timer_invoke_callback zero_work\<rparr>))"

definition shim_timer_init :: "nat \<Rightarrow> ulong \<Rightarrow> shim_timer_data \<Rightarrow> shim_timer_data" where
  "shim_timer_init callback data timer =
     timer\<lparr>tm_callback := Some callback, tm_data := data, tm_setup := True, tm_armed := False\<rparr>"

definition shim_timer_schedule :: "shim_timer_data \<Rightarrow> shim_timer_data outcome" where
  "shim_timer_schedule timer =
     (if tm_setup timer then Ret (timer\<lparr>tm_armed := True\<rparr>) else UB Uninitialised)"

definition shim_timer_callback :: "shim_timer_data \<Rightarrow> shim_timer_data outcome" where
  "shim_timer_callback timer = and_then (queue_work (tm_work timer)) (\<lambda>w. Ret (timer\<lparr>tm_work := w\<rparr>))"

definition shim_timer_invoke_callback :: "shim_timer_data \<Rightarrow> call outcome" where
  "shim_timer_invoke_callback timer =
     (case tm_callback timer of None \<Rightarrow> UB NullDeref | Some f \<Rightarrow> Ret (f, tm_data timer))"

definition shim_timer_kill :: "shim_timer_data \<Rightarrow> shim_timer_data" where
  "shim_timer_kill timer = timer\<lparr>tm_armed := False\<rparr>"

type_synonym timer_sys = "shim_timer_data \<times> bool \<times> call outcome list"

inductive timer_step :: "dlabel \<Rightarrow> timer_sys \<Rightarrow> timer_sys \<Rightarrow> bool" where
  tm_sched: "shim_timer_schedule t = Ret t' \<Longrightarrow> timer_step Sched (t, False, c) (t', False, c)"
| tm_expire: "tm_armed t \<Longrightarrow> shim_timer_callback (t\<lparr>tm_armed := False\<rparr>) = Ret t' \<Longrightarrow>
    timer_step Expire (t, fr, c) (t', fr, c)"
| tm_begin: "runnable (tm_work t) \<Longrightarrow>
    timer_step Begin (t, fr, c)
      (t\<lparr>tm_work := begin_work (tm_work t)\<rparr>, fr, c @ [worker_call fr (shim_timer_invoke_callback t)])"
| tm_finish: "running (tm_work t) \<Longrightarrow>
    timer_step Finish (t, fr, c) (t\<lparr>tm_work := finish_work (tm_work t)\<rparr>, fr, c)"
| tm_kill: "timer_step Kill (t, False, c) (shim_timer_kill t, False, c)"
| tm_free: "timer_step Free (t, False, c) (t, True, c)"

definition timer_owed :: "timer_sys \<Rightarrow> bool" where
  "timer_owed s \<longleftrightarrow> tm_armed (fst s) \<or> pending (tm_work (fst s))"

interpretation timer: deferred_call timer_step sys_calls timer_owed
  by unfold_locales
     (auto elim!: timer_step.cases simp: timer_owed_def sys_calls_def shim_timer_schedule_def
        shim_timer_callback_def queue_work_def begin_work_def finish_work_def shim_timer_kill_def
        split: if_splits)

text \<open>
  Killing a timer of the shim stops the timer but not the work item it has handed over to:
  a callback that is due when the timer is killed still runs afterwards, and when the timer is
  freed in between it runs on freed memory. Only when no work is due does a kill silence the timer.
\<close>

theorem timer_kill_leaves_work:
  assumes "work_fn (tm_work t) = Some Timer_invoke_callback" and "tm_callback t = Some cb"
    and "\<not> running (tm_work t)"
  shows "(pending (tm_work t) \<longrightarrow>
       (\<exists>u v. path timer_step [Kill, Begin] (t, False, c) u \<and> sys_calls u = c @ [Ret (cb, tm_data t)]
          \<and> path timer_step [Kill, Free, Begin] (t, False, c) v \<and> sys_calls v = c @ [UB UseAfterFree]))
     \<and> (\<not> pending (tm_work t) \<longrightarrow>
          (\<forall>ls u. path timer_step ls (shim_timer_kill t, False, c) u \<longrightarrow> Sched \<notin> set ls \<longrightarrow> sys_calls u = c))"
proof (intro conjI impI allI)
  assume "pending (tm_work t)"
  then have r: "runnable (tm_work (shim_timer_kill t))"
    using assms(3) by (simp add: runnable_def shim_timer_kill_def)
  have "shim_timer_invoke_callback (shim_timer_kill t) = Ret (cb, tm_data t)"
    using assms(2) by (simp add: shim_timer_invoke_callback_def shim_timer_kill_def)
  then show "\<exists>u v. path timer_step [Kill, Begin] (t, False, c) u \<and> sys_calls u = c @ [Ret (cb, tm_data t)]
      \<and> path timer_step [Kill, Free, Begin] (t, False, c) v \<and> sys_calls v = c @ [UB UseAfterFree]"
    using path_cons [of timer_step, OF tm_kill path_single [of timer_step, OF tm_begin [OF r]], of c]
      path_cons [of timer_step, OF tm_kill path_cons [of timer_step, OF tm_free
        path_single [of timer_step, OF tm_begin [OF r]]], of c]
    by (intro exI conjI) (assumption | simp add: sys_calls_def worker_call_def)+
next
  fix ls u
  assume "\<not> pending (tm_work t)" and p: "path timer_step ls (shim_timer_kill t, False, c) u" "Sched \<notin> set ls"
  have quiet: "sys_calls u = sys_calls s"
    if "path timer_step ls s u" "Sched \<notin> set ls" "\<not> timer_owed s" "\<not> running (tm_work (fst s))" for s
    using that
  proof (induction rule: path.induct)
    case (path_cons l s t ls u)
    from path_cons(1,4-) have "sys_calls t = sys_calls s \<and> \<not> timer_owed t \<and> \<not> running (tm_work (fst t))"
      by (auto elim!: timer_step.cases
          simp: timer_owed_def sys_calls_def runnable_def finish_work_def shim_timer_kill_def)
    with path_cons show ?case by simp
  qed simp
  show "sys_calls u = c"
    using quiet [OF p] \<open>\<not> pending (tm_work t)\<close> assms(3)
    by (simp add: timer_owed_def shim_timer_kill_def sys_calls_def)
qed

definition due_timer :: shim_timer_data where
  "due_timer = \<lparr>tm_setup = True, tm_armed = False, tm_callback = Some 3, tm_data = 9,
     tm_work = \<lparr>work_fn = Some Timer_invoke_callback, pending = True, running = False\<rparr>\<rparr>"

theorem timer_kill_leaves_work_witness:
  "\<exists>u v. path timer_step [Kill, Begin] (due_timer, False, []) u \<and> sys_calls u = [Ret (3, 9)]
     \<and> path timer_step [Kill, Free, Begin] (due_timer, False, []) v \<and> sys_calls v = [UB UseAfterFree]"
  using timer_kill_leaves_work [of due_timer 3 "[]"] by (simp add: due_timer_def)

text \<open>A due timer is reached by initialising, scheduling and letting a fresh timer expire.\<close>

lemma due_timer_reached:
  "\<exists>t. shim_timer_alloc True = Ret (Some t)
     \<and> path timer_step [Sched, Expire] (shim_timer_init 3 9 t, False, []) (due_timer, False, [])"
  unfolding shim_timer_alloc_def
  by (auto intro!: path.intros tm_sched tm_expire
      simp: shim_timer_schedule_def shim_timer_callback_def shim_timer_init_def due_timer_def work_defs)

subsection \<open>The interrupt\<close>

text \<open>
  The handler runs in interrupt context and queues the work item of \<open>intr_priv\<close> on the queue
  that \<open>shim_bus_spi_intr_reg\<close> allocated; the worker calls back into the firmware core.
\<close>

definition shim_spi_irq_handler :: "spi_priv \<Rightarrow> work \<Rightarrow> work outcome" where
  "shim_spi_irq_handler p w = (if wq p then queue_work w else UB NullDeref)"

definition irq_work_handler :: "spi_priv \<Rightarrow> nat outcome" where
  "irq_work_handler p = (case intr_callbk p of None \<Rightarrow> UB NullDeref | Some f \<Rightarrow> Ret f)"

type_synonym irq_sys = "spi_priv \<times> work \<times> nat outcome list"

text \<open>
  Stopping: \<open>shim_bus_spi_intr_unreg\<close> frees the interrupt, then \<open>shim_bus_spi_dev_rem\<close> destroys the
  queue, which first runs what is queued.
\<close>

definition irq_stop :: "irq_sys \<Rightarrow> irq_sys" where
  "irq_stop s = (case s of (p, w, c) \<Rightarrow>
     (p\<lparr>irq_enabled := False, wq := False\<rparr>, w\<lparr>pending := False, running := False\<rparr>,
      if pending w then c @ [irq_work_handler p] else c))"

inductive irq_step :: "dlabel \<Rightarrow> irq_sys \<Rightarrow> irq_sys \<Rightarrow> bool" where
  iq_interrupt: "irq_enabled p \<Longrightarrow> shim_spi_irq_handler p w = Ret w' \<Longrightarrow> irq_step Sched (p, w, c) (p, w', c)"
| iq_begin: "runnable w \<Longrightarrow> irq_step Begin (p, w, c) (p, begin_work w, c @ [irq_work_handler p])"
| iq_finish: "running w \<Longrightarrow> irq_step Finish (p, w, c) (p, finish_work w, c)"
| iq_stop: "irq_step Kill s (irq_stop s)"

definition irq_owed :: "irq_sys \<Rightarrow> bool" where
  "irq_owed s \<longleftrightarrow> pending (fst (snd s))"

definition irq_quiet :: "irq_sys \<Rightarrow> bool" where
  "irq_quiet s \<longleftrightarrow> \<not> irq_enabled (fst s) \<and> \<not> pending (fst (snd s)) \<and> \<not> running (fst (snd s))"

definition irq_calls :: "irq_sys \<Rightarrow> nat outcome list" where
  "irq_calls s = snd (snd s)"

lemmas irq_defs = irq_owed_def irq_quiet_def irq_calls_def irq_stop_def shim_spi_irq_handler_def

interpretation irq: stoppable_call irq_step irq_calls irq_owed irq_quiet
  by unfold_locales
     (auto elim!: irq_step.cases simp: irq_defs queue_work_def begin_work_def finish_work_def runnable_def
        split: if_splits)

lemma irq_silent_path:
  "path irq_step ls s u \<Longrightarrow> irq_quiet s \<Longrightarrow> irq_quiet u \<and> irq_calls u = irq_calls s"
proof (induction rule: path.induct)
  case (path_cons l s t ls u)
  then have "l \<noteq> Sched" by (auto elim!: irq_step.cases simp: irq_quiet_def)
  with irq.quiet_step path_cons show ?case by auto
qed simp

lemma intr_reg_ok:
  assumes "shim_bus_spi_intr_reg e cb b = Ret (True, b')" and "irq_number e \<noteq> 0"
  shows "\<exists>p. priv b' = Some p \<and> wq p \<and> irq_enabled p \<and> intr_callbk p = Some cb"
  using assms
  by (auto simp: shim_bus_spi_intr_reg_def with_priv_def book_def Let_def split: option.splits if_splits)


definition demo_bus :: spi_bus where
  "demo_bus = \<lparr>priv = Some (zero_priv\<lparr>spi_dev := Some 1, dev_added := True\<rparr>), drvdata = (\<lambda>_. None),
     drv_reg_scheduled = True, ledger = [],
     hw = \<lparr>iovdd = Null, bucken = Null, spi = fresh_spi\<rparr>\<rparr>"

definition demo_irq_env :: irq_env where
  "demo_irq_env = \<lparr>alloc_wq = True, irq_gpio = Null, irq_dir = 0, irq_number = 17, request_irq = 0\<rparr>"

definition demo_priv :: spi_priv where
  "demo_priv = zero_priv\<lparr>spi_dev := Some 1, dev_added := True, wq := True, intr_callbk := Some 4,
     irq_enabled := True\<rparr>"


subsection \<open>Locks\<close>

text \<open>
  The shim's spin locks are mutexes: taking one may sleep, which is only allowed in process
  context. The lock records the thread that holds it; \<open>None\<close> says that the caller has to wait.
\<close>

datatype exec_context = HardIrq | SoftIrq | ProcessCtx

definition mutex_lock :: "exec_context \<Rightarrow> nat \<Rightarrow> nat option \<Rightarrow> nat option option outcome" where
  "mutex_lock ctx me lock =
     (if ctx \<noteq> ProcessCtx then UB AtomicSleep
      else Ret (if lock = None then Some (Some me) else None))"

text \<open>A fresh lock has arbitrary contents until it is initialised: the inner \<open>None\<close>.\<close>

definition shim_spinlock_alloc :: "bool \<Rightarrow> nat option option option" where
  "shim_spinlock_alloc alloc = (if alloc then Some None else None)"

definition shim_spinlock_init :: "nat option" where
  "shim_spinlock_init = None"

definition shim_spinlock_take :: "exec_context \<Rightarrow> nat \<Rightarrow> nat option \<Rightarrow> nat option option outcome" where
  "shim_spinlock_take ctx me lock = mutex_lock ctx me lock"

definition shim_spinlock_rel :: "nat option \<Rightarrow> nat option" where
  "shim_spinlock_rel lock = None"

definition shim_spinlock_irq_take ::
  "exec_context \<Rightarrow> nat \<Rightarrow> nat option \<Rightarrow> ulong \<Rightarrow> (nat option option \<times> ulong) outcome" where
  "shim_spinlock_irq_take ctx me lock flags =
     and_then (mutex_lock ctx me lock) (\<lambda>r. Ret (r, flags))"

definition shim_spinlock_irq_rel :: "nat option \<Rightarrow> ulong \<Rightarrow> nat option \<times> ulong" where
  "shim_spinlock_irq_rel lock flags = (None, flags)"

text \<open>
  The context in which the kernel runs each entry point of the shim, and the entry points that
  call back into the firmware core, which takes locks.
\<close>

datatype shim_entry = E_irq_handler | E_timer_callback | E_work work_fn

fun entry_context :: "shim_entry \<Rightarrow> exec_context" where
  "entry_context E_irq_handler = HardIrq"
| "entry_context E_timer_callback = SoftIrq"
| "entry_context (E_work _) = ProcessCtx"

fun enters_core :: "shim_entry \<Rightarrow> bool" where
  "enters_core E_irq_handler = False"
| "enters_core E_timer_callback = False"
| "enters_core (E_work _) = True"

lemma locks_taken_in_process_context:
  "enters_core e \<Longrightarrow> shim_spinlock_take (entry_context e) me lock \<noteq> UB AtomicSleep
     \<and> shim_spinlock_irq_take (entry_context e) me lock flags \<noteq> UB AtomicSleep"
  by (cases e) (simp_all add: shim_spinlock_take_def shim_spinlock_irq_take_def mutex_lock_def)

subsection \<open>Delays\<close>

text \<open>
  Both waits convert a signed argument: milliseconds to 32 bits, microseconds to 64. The clock is in
  nanoseconds; \<open>extra\<close> is how much longer than asked the kernel waits.
\<close>

definition shim_msleep :: "nat \<Rightarrow> u32 \<Rightarrow> nat \<Rightarrow> int \<times> nat" where
  "shim_msleep extra msecs now = (0, now + unat msecs * 1000000 + extra)"

definition shim_udelay :: "nat \<Rightarrow> u32 \<Rightarrow> nat \<Rightarrow> int \<times> nat" where
  "shim_udelay extra usecs now = (0, now + unat (scast usecs :: ulong) * 1000 + extra)"

text \<open>The shim's clock shows at least the delay, as long as neither counter wraps around.\<close>

lemma delay_measured:
  assumes "now + unat usecs * 1000 + extra < 2 ^ 41" and "unat usecs < 2 ^ 31"
  shows "unat usecs \<le> unat (shim_time_elapsed_us (of_nat (snd (shim_udelay extra usecs now)))
    (shim_time_get_curr_us (of_nat now)))"
proof -
  let ?later = "now + unat usecs * 1000 + extra"
  have u: "uint usecs = int (unat usecs)" by simp
  have "sint usecs = signed_take_bit 31 (uint usecs)" by (simp add: sint_uint)
  also have "\<dots> = int (unat usecs)"
  proof -
    have "unat usecs < 2147483648" using assms(2) by simp
    then have "- 2147483648 \<le> int (unat usecs)" "int (unat usecs) < 2147483648" by linarith+
    then show ?thesis unfolding u by (intro signed_take_bit_int_eq_self) simp_all
  qed
  finally have scast: "(scast usecs :: ulong) = of_nat (unat usecs)" by (simp only: scast_eq) simp
  have fits: "?later < 2 ^ 64" "unat usecs < 2 ^ 64" "now < 2 ^ 64"
    using assms by (simp_all add: less_trans)
  have un: "unat (of_nat n :: u64) = n" if "n < 2 ^ 64" for n
    unfolding unsigned_of_nat of_nat_id by (rule take_bit_nat_eq_self) (rule order_less_le_trans [OF that], simp)
  from scast have delay: "snd (shim_udelay extra usecs now) = ?later"
    unfolding shim_udelay_def by (simp only: snd_conv un [OF fits(2)])
  note un = un [OF fits(3)] un [OF fits(1)]
  have le: "(of_nat now :: u64) \<le> of_nat ?later" unfolding word_le_nat_alt un by simp
  have "?later div 1000 - now div 1000 < 2 ^ 32" using assms(1) by simp
  from elapsed_exact [OF le, unfolded un, OF this]
  show ?thesis unfolding delay by linarith
qed

lemma negative_sleep:
  "shim_msleep extra (- 1) now = (0, now + 4294967295000000 + extra)"
  by (simp add: shim_msleep_def unsigned_minus_1_eq_mask mask_eq_exp_minus_1)

subsection \<open>Power saving and the host map\<close>

text \<open>The power-save operations drop the results of the wake-up and sleep commands.\<close>

definition shim_bus_qspi_ps_sleep :: "bus \<Rightarrow> rpu_hw \<Rightarrow> (int \<times> rpu_hw) outcome" where
  "shim_bus_qspi_ps_sleep bus h = and_then (rpu_sleep bus h) (\<lambda>(_, h). Ret (0, h))"

definition shim_bus_qspi_ps_wake :: "bus \<Rightarrow> rpu_hw \<Rightarrow> (int \<times> rpu_hw) outcome" where
  "shim_bus_qspi_ps_wake bus h = and_then (rpu_wakeup bus h) (\<lambda>(_, h). Ret (0, h))"

definition shim_bus_qspi_ps_status :: "bus \<Rightarrow> rpu_hw \<Rightarrow> (int \<times> rpu_hw) outcome" where
  "shim_bus_qspi_ps_status bus h = rpu_sleep_status bus h"

definition shim_bus_spi_dev_host_map_get :: "bool \<Rightarrow> ulong option \<Rightarrow> ulong option" where
  "shim_bus_spi_dev_host_map_get os_spi_dev_ctx host_map_addr =
     (if \<not> os_spi_dev_ctx \<or> host_map_addr = None then host_map_addr else Some 0)"

subsection \<open>The operations table\<close>

text \<open>
  \<open>nrf_wifi_os_ops\<close> binds every slot of the OS abstraction layer to a function of the shim; the
  timer and power-save slots exist in low-power builds only.
\<close>

definition low_power_ops :: "(string \<times> string) list" where
  "low_power_ops =
    [(''timer_alloc'', ''shim_timer_alloc''),
     (''timer_init'', ''shim_timer_init''),
     (''timer_free'', ''shim_timer_free''),
     (''timer_schedule'', ''shim_timer_schedule''),
     (''timer_kill'', ''shim_timer_kill''),
     (''bus_qspi_ps_sleep'', ''shim_bus_qspi_ps_sleep''),
     (''bus_qspi_ps_wake'', ''shim_bus_qspi_ps_wake''),
     (''bus_qspi_ps_status'', ''shim_bus_qspi_ps_status'')]"

definition nrf_wifi_os_ops :: "bool \<Rightarrow> (string \<times> string) list" where
  "nrf_wifi_os_ops low_power =
    [(''mem_alloc'', ''shim_mem_alloc''),
     (''mem_zalloc'', ''shim_mem_zalloc''),
     (''mem_free'', ''shim_mem_free''),
     (''mem_cpy'', ''shim_mem_cpy''),
     (''mem_set'', ''shim_mem_set''),
     (''mem_cmp'', ''shim_mem_cmp''),
     (''iomem_mmap'', ''shim_iomem_mmap''),
     (''iomem_unmap'', ''shim_iomem_unmap''),
     (''iomem_read_reg32'', ''shim_iomem_read_reg32''),
     (''iomem_write_reg32'', ''shim_iomem_write_reg32''),
     (''iomem_cpy_from'', ''shim_iomem_cpy_from''),
     (''iomem_cpy_to'', ''shim_iomem_cpy_to''),
     (''spi_read_reg32'', ''shim_spi_read_reg32''),
     (''spi_write_reg32'', ''shim_spi_write_reg32''),
     (''spi_cpy_from'', ''shim_spi_cpy_from''),
     (''spi_cpy_to'', ''shim_spi_cpy_to''),
     (''spinlock_alloc'', ''shim_spinlock_alloc''),
     (''spinlock_free'', ''shim_spinlock_free''),
     (''spinlock_init'', ''shim_spinlock_init''),
     (''spinlock_take'', ''shim_spinlock_take''),
     (''spinlock_rel'', ''shim_spinlock_rel''),
     (''spinlock_irq_take'', ''shim_spinlock_irq_take''),
     (''spinlock_irq_rel'', ''shim_spinlock_irq_rel''),
     (''log_dbg'', ''shim_pr_dbg''),
     (''log_info'', ''shim_pr_info''),
     (''log_err'', ''shim_pr_err''),
     (''llist_node_alloc'', ''shim_llist_node_alloc''),
     (''llist_node_free'', ''shim_llist_node_free''),
     (''llist_node_data_get'', ''shim_llist_node_data_get''),
     (''llist_node_data_set'', ''shim_llist_node_data_set''),
     (''llist_alloc'', ''shim_llist_alloc''),
     (''llist_free'', ''shim_llist_free''),
     (''llist_init'', ''shim_llist_init''),
     (''llist_add_node_tail'', ''shim_llist_add_node_tail''),
     (''llist_get_node_head'', ''shim_llist_get_node_head''),
     (''llist_get_node_nxt'', ''shim_llist_get_node_nxt''),
     (''llist_del_node'', ''shim_llist_del_node''),
     (''llist_len'', ''shim_llist_len''),
     (''nbuf_alloc'', ''shim_nbuf_alloc''),
     (''nbuf_free'', ''shim_nbuf_free''),
     (''nbuf_headroom_res'', ''shim_nbuf_headroom_res''),
     (''nbuf_headroom_get'', ''shim_nbuf_headroom_get''),
     (''nbuf_data_size'', ''shim_nbuf_data_size''),
     (''nbuf_data_get'', ''shim_nbuf_data_get''),
     (''nbuf_data_put'', ''shim_nbuf_data_put''),
     (''nbuf_data_push'', ''shim_nbuf_data_push''),
     (''nbuf_data_pull'', ''shim_nbuf_data_pull''),
     (''nbuf_get_priority'', ''shim_nbuf_get_priority''),
     (''nbuf_get_chksum_done'', ''shim_nbuf_get_chksum_done''),
     (''nbuf_set_chksum_done'', ''shim_nbuf_set_chksum_done''),
     (''tasklet_alloc'', ''shim_tasklet_alloc''),
     (''tasklet_free'', ''shim_tasklet_free''),
     (''tasklet_init'', ''shim_tasklet_init''),
     (''tasklet_schedule'', ''shim_tasklet_schedule''),
     (''tasklet_kill'', ''shim_tasklet_kill''),
     (''sleep_ms'', ''shim_msleep''),
     (''delay_us'', ''shim_udelay''),
     (''time_get_curr_us'', ''shim_time_get_curr_us''),
     (''time_elapsed_us'', ''shim_time_elapsed_us''),
     (''bus_spi_init'', ''shim_bus_spi_init''),
     (''bus_spi_deinit'', ''shim_bus_spi_deinit''),
     (''bus_spi_dev_add'', ''shim_bus_spi_dev_add''),
     (''bus_spi_dev_rem'', ''shim_bus_spi_dev_rem''),
     (''bus_spi_dev_init'', ''shim_bus_spi_dev_init''),
     (''bus_spi_dev_deinit'', ''shim_bus_spi_dev_deinit''),
     (''bus_spi_dev_intr_reg'', ''shim_bus_spi_intr_reg''),
     (''bus_spi_dev_intr_unreg'', ''shim_bus_spi_intr_unreg''),
     (''bus_spi_dev_host_map_get'', ''shim_bus_spi_dev_host_map_get'')]
    @ (if low_power then low_power_ops else [])
    @ [(''assert'', ''shim_assert''),
     (''str_len'', ''shim_strlen'')]"

text \<open>The slots whose function is not named after them.\<close>

definition renamed_ops :: "(string \<times> string) list" where
  "renamed_ops =
    [(''log_dbg'', ''shim_pr_dbg''),
     (''log_info'', ''shim_pr_info''),
     (''log_err'', ''shim_pr_err''),
     (''sleep_ms'', ''shim_msleep''),
     (''delay_us'', ''shim_udelay''),
     (''bus_spi_dev_intr_reg'', ''shim_bus_spi_intr_reg''),
     (''bus_spi_dev_intr_unreg'', ''shim_bus_spi_intr_unreg''),
     (''str_len'', ''shim_strlen'')]"

text \<open>Every slot is bound once, and to the shim function of its own name except for the renamed ones.\<close>

definition well_wired :: "(string \<times> string) list \<Rightarrow> bool" where
  "well_wired ops \<longleftrightarrow> distinct (map fst ops)
     \<and> list_all (\<lambda>(slot, f). f = ''shim_'' @ slot \<or> List.member renamed_ops (slot, f)) ops"

lemma os_ops_wired: "well_wired (nrf_wifi_os_ops True)"
  by code_simp

end
