(* ===== verification/Netdev_Tx.thy ===== *)
theory Netdev_Tx
  imports Shim_Llist
begin

text \<open>
  The transmit path of \<open>netdev.c\<close>: \<open>nrf_wifi_netdev_start_xmit\<close>, called by the network stack, the
  work item \<open>nrf_cfg80211_data_tx_routine\<close> that hands one frame at a time to the firmware, and the
  work item \<open>nrf_cfg80211_queue_monitor_routine\<close> that restarts a stopped interface queue. The
  driver's own queue functions are a parameter with a locale for what they promise; the locale
  is interpreted on a queue built from the OS shim's lists. The handlers are also composed
  into a step relation in which they interleave, each split at the points where another
  thread can run.
\<close>

subsection \<open>The queue contract\<close>

record 'q q_ops =
  q_enqueue :: "'q \<Rightarrow> nat \<Rightarrow> 'q option"
  q_dequeue :: "'q \<Rightarrow> nat option \<times> 'q"
  q_len :: "'q \<Rightarrow> nat"

locale tx_queue =
  fixes Q :: "'q q_ops" and qlist :: "'q \<Rightarrow> nat list" and qinv :: "'q \<Rightarrow> bool"
  assumes enqueue: "qinv q \<Longrightarrow> q_enqueue Q q x = Some q' \<Longrightarrow> qinv q' \<and> qlist q' = qlist q @ [x]"
    and dequeue: "qinv q \<Longrightarrow> q_dequeue Q q = (r, q') \<Longrightarrow> qinv q' \<and>
        (case qlist q of [] \<Rightarrow> r = None \<and> qlist q' = [] | x # xs \<Rightarrow> r = Some x \<and> qlist q' = xs)"
    and length: "qinv q \<Longrightarrow> q_len Q q = length (qlist q)"

subsection \<open>State and handlers\<close>

text \<open>What became of a frame: handed to the firmware as data or raw frame, or not prepared.\<close>

datatype fate = Xmit bool | RawXmit bool | PrepFailed

record 'q vif_tx =
  data_txq :: 'q
  num_tx_pkt :: u64
  total_tx_pkts :: u64
  queue_stopped :: bool
  ws_data_tx :: bool
  ws_queue_monitor :: bool
  monitor_if :: bool
  fmac_vif :: bool
  txinjection_mode :: bool
  raw_tx_dequeued_pkts :: nat
  raw_tx_prep_fail_pkts :: nat
  raw_tx_sent_ok_pkts :: nat
  raw_tx_sent_fail_pkts :: nat
  dispatched :: "(nat \<times> fate) list"

definition MAX_TX_PENDING_QLEN :: nat where "MAX_TX_PENDING_QLEN = 48"

definition tx_outstanding :: "('q, 'z) vif_tx_scheme \<Rightarrow> nat" where
  "tx_outstanding s = unat (num_tx_pkt s - total_tx_pkts s)"

text \<open>The network stack's return codes.\<close>

datatype netdev_tx = NETDEV_TX_OK | NETDEV_TX_BUSY

text \<open>
  \<open>start_xmit\<close> up to the update of the counter, with whether the frame was queued; then the
  scheduling of the transmit work.
\<close>

definition start_xmit_queue ::
  "'q q_ops \<Rightarrow> bool \<Rightarrow> nat \<Rightarrow> 'q vif_tx \<Rightarrow> netdev_tx \<times> bool \<times> 'q vif_tx" where
  "start_xmit_queue Q right_dev skb s =
     (if \<not> right_dev then (NETDEV_TX_OK, False, s) else
      let s = (if tx_outstanding s \<ge> MAX_TX_PENDING_QLEN
               then s\<lparr>queue_stopped := True, ws_queue_monitor := True\<rparr> else s) in
      case q_enqueue Q (data_txq s) skb of
        None \<Rightarrow> (NETDEV_TX_BUSY, False, s)
      | Some q \<Rightarrow> (NETDEV_TX_OK, True, s\<lparr>data_txq := q, num_tx_pkt := num_tx_pkt s + 1\<rparr>))"

definition nrf_wifi_netdev_start_xmit ::
  "'q q_ops \<Rightarrow> bool \<Rightarrow> nat \<Rightarrow> 'q vif_tx \<Rightarrow> netdev_tx \<times> 'q vif_tx" where
  "nrf_wifi_netdev_start_xmit Q right_dev skb s =
     (case start_xmit_queue Q right_dev skb s of
        (ret, queued, s) \<Rightarrow> (ret, if queued then s\<lparr>ws_data_tx := True\<rparr> else s))"

definition data_tx_take :: "'q q_ops \<Rightarrow> 'q vif_tx \<Rightarrow> nat option \<times> 'q vif_tx" where
  "data_tx_take Q s =
     (case q_dequeue Q (data_txq s) of
        (None, q) \<Rightarrow> (None, s\<lparr>data_txq := q\<rparr>)
      | (Some b, q) \<Rightarrow>
          (Some b, if monitor_if s
                   then s\<lparr>data_txq := q, raw_tx_dequeued_pkts := raw_tx_dequeued_pkts s + 1\<rparr>
                   else s\<lparr>data_txq := q\<rparr>))"

text \<open>\<open>prep\<close> is the result of \<open>nrf_wifi_prepare_monitor_tx_skb\<close>, \<open>ok\<close> whether the firmware call succeeds.\<close>

definition data_tx_send :: "int \<Rightarrow> bool \<Rightarrow> nat \<Rightarrow> 'q vif_tx \<Rightarrow> 'q vif_tx" where
  "data_tx_send prep ok netbuf s =
     (if monitor_if s then
        let s = (if fmac_vif s then s\<lparr>txinjection_mode := True\<rparr> else s) in
        if prep \<noteq> 0
        then s\<lparr>raw_tx_prep_fail_pkts := raw_tx_prep_fail_pkts s + 1,
               dispatched := dispatched s @ [(netbuf, PrepFailed)]\<rparr>
        else if \<not> ok
        then s\<lparr>raw_tx_sent_fail_pkts := raw_tx_sent_fail_pkts s + 1,
               dispatched := dispatched s @ [(netbuf, RawXmit False)]\<rparr>
        else s\<lparr>raw_tx_sent_ok_pkts := raw_tx_sent_ok_pkts s + 1,
               dispatched := dispatched s @ [(netbuf, RawXmit True)]\<rparr>
      else s\<lparr>dispatched := dispatched s @ [(netbuf, Xmit ok)]\<rparr>)"

definition data_tx_resched :: "'q q_ops \<Rightarrow> 'q vif_tx \<Rightarrow> 'q vif_tx" where
  "data_tx_resched Q s = (if q_len Q (data_txq s) > 0 then s\<lparr>ws_data_tx := True\<rparr> else s)"

definition nrf_cfg80211_data_tx_routine :: "'q q_ops \<Rightarrow> int \<Rightarrow> bool \<Rightarrow> 'q vif_tx \<Rightarrow> 'q vif_tx" where
  "nrf_cfg80211_data_tx_routine Q prep ok s =
     (case data_tx_take Q s of
        (None, s) \<Rightarrow> s
      | (Some b, s) \<Rightarrow> data_tx_resched Q (data_tx_send prep ok b s))"

definition nrf_cfg80211_queue_monitor_routine :: "'q vif_tx \<Rightarrow> 'q vif_tx" where
  "nrf_cfg80211_queue_monitor_routine s =
     (if tx_outstanding s \<le> MAX_TX_PENDING_QLEN div 2
      then s\<lparr>queue_stopped := False\<rparr>
      else s\<lparr>ws_queue_monitor := True\<rparr>)"

subsection \<open>Interleaving\<close>

text \<open>
  The work items run in workqueue threads: a scheduled item is taken (its pending flag is
  cleared) and then runs, and can be scheduled again while it runs. The network stack calls
  \<open>start_xmit\<close> from one thread at a time and not while the interface queue is stopped. The
  firmware completes frames that were handed over, which the driver core counts in
  \<open>total_tx_pkts\<close>. \<open>accepted\<close> and \<open>completed\<close> are history variables.
\<close>

datatype worker = WIdle | WGot nat | WResched

datatype sender = SIdle | SQueued

record 'q tx_sys =
  vif :: "'q vif_tx"
  worker :: worker
  sender :: sender
  accepted :: "nat list"
  completed :: nat

inductive tx_step :: "'q q_ops \<Rightarrow> 'q tx_sys \<Rightarrow> 'q tx_sys \<Rightarrow> bool" for Q :: "'q q_ops" where
  xmit_queued: "sender s = SIdle \<Longrightarrow> \<not> queue_stopped (vif s) \<Longrightarrow>
     start_xmit_queue Q d b (vif s) = (r, True, v) \<Longrightarrow>
     tx_step Q s (s\<lparr>vif := v, sender := SQueued, accepted := accepted s @ [b]\<rparr>)"
| xmit_refused: "sender s = SIdle \<Longrightarrow> \<not> queue_stopped (vif s) \<Longrightarrow>
     start_xmit_queue Q d b (vif s) = (r, False, v) \<Longrightarrow> tx_step Q s (s\<lparr>vif := v\<rparr>)"
| xmit_schedule: "sender s = SQueued \<Longrightarrow>
     tx_step Q s (s\<lparr>vif := (vif s)\<lparr>ws_data_tx := True\<rparr>, sender := SIdle\<rparr>)"
| data_take: "worker s = WIdle \<Longrightarrow> ws_data_tx (vif s) \<Longrightarrow>
     data_tx_take Q ((vif s)\<lparr>ws_data_tx := False\<rparr>) = (Some b, v) \<Longrightarrow>
     tx_step Q s (s\<lparr>vif := v, worker := WGot b\<rparr>)"
| data_none: "worker s = WIdle \<Longrightarrow> ws_data_tx (vif s) \<Longrightarrow>
     data_tx_take Q ((vif s)\<lparr>ws_data_tx := False\<rparr>) = (None, v) \<Longrightarrow> tx_step Q s (s\<lparr>vif := v\<rparr>)"
| data_send: "worker s = WGot b \<Longrightarrow>
     tx_step Q s (s\<lparr>vif := data_tx_send p ok b (vif s), worker := WResched\<rparr>)"
| data_resched: "worker s = WResched \<Longrightarrow>
     tx_step Q s (s\<lparr>vif := data_tx_resched Q (vif s), worker := WIdle\<rparr>)"
| monitor: "ws_queue_monitor (vif s) \<Longrightarrow>
     tx_step Q s (s\<lparr>vif := nrf_cfg80211_queue_monitor_routine ((vif s)\<lparr>ws_queue_monitor := False\<rparr>)\<rparr>)"
| complete: "completed s < length (dispatched (vif s)) \<Longrightarrow>
     tx_step Q s (s\<lparr>vif := (vif s)\<lparr>total_tx_pkts := total_tx_pkts (vif s) + 1\<rparr>,
                    completed := completed s + 1\<rparr>)"

definition in_flight :: "'q tx_sys \<Rightarrow> nat list" where
  "in_flight s = (case worker s of WGot b \<Rightarrow> [b] | _ \<Rightarrow> [])"

inductive_cases tx_stepE: "tx_step Q s t"

subsection \<open>Invariants\<close>

text \<open>
  Frames are neither lost, duplicated nor reordered between \<open>start_xmit\<close> and the firmware; no
  wake-up of the transmit work is lost; a stopped interface queue has the monitor scheduled;
  the number of outstanding frames is bounded.
\<close>

definition tx_fifo :: "('q \<Rightarrow> nat list) \<Rightarrow> 'q tx_sys \<Rightarrow> bool" where
  "tx_fifo qlist s \<longleftrightarrow>
     accepted s = map fst (dispatched (vif s)) @ in_flight s @ qlist (data_txq (vif s))"

definition tx_awake :: "('q \<Rightarrow> nat list) \<Rightarrow> 'q tx_sys \<Rightarrow> bool" where
  "tx_awake qlist s \<longleftrightarrow>
     (qlist (data_txq (vif s)) \<noteq> [] \<longrightarrow> ws_data_tx (vif s) \<or> worker s \<noteq> WIdle \<or> sender s = SQueued) \<and>
     (queue_stopped (vif s) \<longrightarrow> ws_queue_monitor (vif s))"

definition tx_bounded :: "'q tx_sys \<Rightarrow> bool" where
  "tx_bounded s \<longleftrightarrow>
     num_tx_pkt (vif s) = of_nat (length (accepted s)) \<and> total_tx_pkts (vif s) = of_nat (completed s) \<and>
     completed s \<le> length (dispatched (vif s)) \<and>
     length (accepted s) - completed s \<le>
       (if queue_stopped (vif s) then MAX_TX_PENDING_QLEN + 1 else MAX_TX_PENDING_QLEN)"

definition tx_inv :: "('q \<Rightarrow> nat list) \<Rightarrow> ('q \<Rightarrow> bool) \<Rightarrow> 'q tx_sys \<Rightarrow> bool" where
  "tx_inv qlist qinv s \<longleftrightarrow> qinv (data_txq (vif s)) \<and> tx_fifo qlist s \<and> tx_awake qlist s \<and> tx_bounded s"

definition tx_init :: "('q \<Rightarrow> nat list) \<Rightarrow> ('q \<Rightarrow> bool) \<Rightarrow> 'q tx_sys \<Rightarrow> bool" where
  "tx_init qlist qinv s \<longleftrightarrow>
     qinv (data_txq (vif s)) \<and> qlist (data_txq (vif s)) = [] \<and> worker s = WIdle \<and> sender s = SIdle \<and>
     accepted s = [] \<and> completed s = 0 \<and> dispatched (vif s) = [] \<and>
     num_tx_pkt (vif s) = 0 \<and> total_tx_pkts (vif s) = 0 \<and> \<not> queue_stopped (vif s)"

lemma tx_outstanding_eq:
  assumes "num_tx_pkt v = of_nat n" and "total_tx_pkts v = of_nat k" and "k \<le> n" and "n - k < 2 ^ 64"
  shows "tx_outstanding v = n - k"
proof -
  have "num_tx_pkt v - total_tx_pkts v = of_nat (n - k)"
    using assms(1-3) by (simp add: of_nat_diff)
  with assms(4) show ?thesis
    by (simp add: tx_outstanding_def unat_of_nat)
qed

lemma tx_fifo_length:
  assumes "tx_fifo qlist s" and "tx_bounded s"
  shows "completed s \<le> length (accepted s)"
    and "tx_outstanding (vif s) = length (accepted s) - completed s"
proof -
  show le: "completed s \<le> length (accepted s)"
    using assms by (auto simp: tx_fifo_def tx_bounded_def)
  have "length (accepted s) - completed s < 2 ^ 64"
    using assms(2) by (auto simp: tx_bounded_def MAX_TX_PENDING_QLEN_def split: if_splits)
  with le assms(2) show "tx_outstanding (vif s) = length (accepted s) - completed s"
    by (intro tx_outstanding_eq) (auto simp: tx_bounded_def)
qed

lemma in_flight_simps [simp]:
  "in_flight (s\<lparr>worker := WGot b\<rparr>) = [b]" "in_flight (s\<lparr>worker := WIdle\<rparr>) = []"
  "in_flight (s\<lparr>worker := WResched\<rparr>) = []"
  "in_flight (s\<lparr>vif := v\<rparr>) = in_flight s" "in_flight (s\<lparr>sender := x\<rparr>) = in_flight s"
  "in_flight (s\<lparr>accepted := a\<rparr>) = in_flight s" "in_flight (s\<lparr>completed := c\<rparr>) = in_flight s"
  "worker s = WIdle \<Longrightarrow> in_flight s = []" "worker s = WResched \<Longrightarrow> in_flight s = []"
  "worker s = WGot b \<Longrightarrow> in_flight s = [b]"
  by (simp_all add: in_flight_def)

lemma data_tx_send_simps [simp]:
  "data_txq (data_tx_send p ok b v) = data_txq v" "ws_data_tx (data_tx_send p ok b v) = ws_data_tx v"
  "queue_stopped (data_tx_send p ok b v) = queue_stopped v"
  "ws_queue_monitor (data_tx_send p ok b v) = ws_queue_monitor v"
  "num_tx_pkt (data_tx_send p ok b v) = num_tx_pkt v"
  "total_tx_pkts (data_tx_send p ok b v) = total_tx_pkts v"
  "map fst (dispatched (data_tx_send p ok b v)) = map fst (dispatched v) @ [b]"
  "length (dispatched (data_tx_send p ok b v)) = Suc (length (dispatched v))"
  by (simp_all add: data_tx_send_def Let_def)

lemma data_tx_resched_simps [simp]:
  "data_txq (data_tx_resched Q v) = data_txq v"
  "queue_stopped (data_tx_resched Q v) = queue_stopped v"
  "ws_queue_monitor (data_tx_resched Q v) = ws_queue_monitor v"
  "num_tx_pkt (data_tx_resched Q v) = num_tx_pkt v" "total_tx_pkts (data_tx_resched Q v) = total_tx_pkts v"
  "dispatched (data_tx_resched Q v) = dispatched v"
  "ws_data_tx (data_tx_resched Q v) \<longleftrightarrow> ws_data_tx v \<or> q_len Q (data_txq v) > 0"
  by (simp_all add: data_tx_resched_def)

text \<open>The fields an operation leaves alone.\<close>

lemma start_xmit_queue_frame:
  assumes "start_xmit_queue Q d b v = (r, queued, w)"
  shows "dispatched w = dispatched v" "ws_data_tx w = ws_data_tx v" "total_tx_pkts w = total_tx_pkts v"
    and "num_tx_pkt w = (if queued then num_tx_pkt v + 1 else num_tx_pkt v)"
    and "queue_stopped w \<and> \<not> queue_stopped v \<Longrightarrow> ws_queue_monitor w"
    and "ws_queue_monitor v \<Longrightarrow> ws_queue_monitor w" and "queue_stopped v \<Longrightarrow> queue_stopped w"
    and "queued \<Longrightarrow> \<not> queue_stopped w \<Longrightarrow> tx_outstanding v < MAX_TX_PENDING_QLEN"
    and "\<not> queued \<Longrightarrow> data_txq w = data_txq v"
    and "queued \<Longrightarrow> q_enqueue Q (data_txq v) b = Some (data_txq w)"
  using assms by (auto simp: start_xmit_queue_def Let_def split: if_splits option.splits)

lemma data_tx_take_frame:
  assumes "data_tx_take Q v = (r, w)"
  shows "dispatched w = dispatched v" "ws_data_tx w = ws_data_tx v" "total_tx_pkts w = total_tx_pkts v"
    "num_tx_pkt w = num_tx_pkt v" "queue_stopped w = queue_stopped v"
    "ws_queue_monitor w = ws_queue_monitor v" "q_dequeue Q (data_txq v) = (r, data_txq w)"
  using assms by (auto simp: data_tx_take_def split: if_splits option.splits prod.splits)

context tx_queue
begin

lemma take_Some:
  assumes "data_tx_take Q v = (Some b, w)" and "qinv (data_txq v)"
  shows "qinv (data_txq w)" and "qlist (data_txq v) = b # qlist (data_txq w)"
  using dequeue [OF assms(2) data_tx_take_frame(7) [OF assms(1)]] by (auto split: list.splits)

lemma take_None:
  assumes "data_tx_take Q v = (None, w)" and "qinv (data_txq v)"
  shows "qinv (data_txq w)" and "qlist (data_txq v) = []" and "qlist (data_txq w) = []"
  using dequeue [OF assms(2) data_tx_take_frame(7) [OF assms(1)]] by (auto split: list.splits)

lemma xmit_queued_list:
  assumes "start_xmit_queue Q d b v = (r, True, w)" and "qinv (data_txq v)"
  shows "qinv (data_txq w)" and "qlist (data_txq w) = qlist (data_txq v) @ [b]"
  using enqueue [OF assms(2) start_xmit_queue_frame(10) [OF assms(1)]] by auto

lemma tx_step_fifo:
  assumes "tx_step Q s t" and "qinv (data_txq (vif s))" and "tx_fifo qlist s"
  shows "qinv (data_txq (vif t)) \<and> tx_fifo qlist t"
  using assms(1)
proof cases
  case (xmit_queued d b r v)
  then show ?thesis
    using assms(2,3) xmit_queued_list [OF xmit_queued(4)] start_xmit_queue_frame(1) [OF xmit_queued(4)]
    by (simp add: tx_fifo_def)
next
  case (xmit_refused d b r v)
  then show ?thesis
    using assms(2,3) start_xmit_queue_frame(1,9) [OF xmit_refused(4)] by (simp add: tx_fifo_def)
next
  case (data_take b v)
  then show ?thesis
    using assms(2,3) take_Some [OF data_take(4)] data_tx_take_frame(1) [OF data_take(4)]
    by (simp add: tx_fifo_def)
next
  case (data_none v)
  then show ?thesis
    using assms(2,3) take_None [OF data_none(4)] data_tx_take_frame(1) [OF data_none(4)]
    by (simp add: tx_fifo_def)
next
  case monitor
  then show ?thesis
    using assms(2,3) by (simp add: tx_fifo_def nrf_cfg80211_queue_monitor_routine_def)
qed (use assms(2,3) in \<open>simp_all add: tx_fifo_def\<close>)

lemma tx_step_awake:
  assumes "tx_step Q s t" and "qinv (data_txq (vif s))" and "tx_awake qlist s"
  shows "tx_awake qlist t"
  using assms(1)
proof cases
  case (xmit_queued d b r v)
  then show ?thesis
    using assms(3) start_xmit_queue_frame(5,6) [OF xmit_queued(4)] by (auto simp: tx_awake_def)
next
  case (xmit_refused d b r v)
  then show ?thesis
    using assms(3) start_xmit_queue_frame(2,5,6,9) [OF xmit_refused(4)] by (auto simp: tx_awake_def)
next
  case (data_take b v)
  then show ?thesis
    using assms(3) data_tx_take_frame(5,6) [OF data_take(4)] by (auto simp: tx_awake_def)
next
  case (data_none v)
  then show ?thesis
    using assms(2,3) take_None(3) [OF data_none(4)] data_tx_take_frame(5,6) [OF data_none(4)]
    by (auto simp: tx_awake_def)
next
  case data_resched
  then show ?thesis
    using assms(2,3) length by (auto simp: tx_awake_def)
next
  case monitor
  then show ?thesis
    using assms(3) by (auto simp: tx_awake_def nrf_cfg80211_queue_monitor_routine_def)
qed (use assms(3) in \<open>auto simp: tx_awake_def\<close>)

lemma tx_step_bounded:
  assumes "tx_step Q s t" and "tx_fifo qlist s" and "tx_bounded s"
  shows "tx_bounded t"
  using assms(1)
proof cases
  case (xmit_queued d b r v)
  then show ?thesis
    using assms(3) start_xmit_queue_frame(1,3,4,7,8) [OF xmit_queued(4)] tx_fifo_length [OF assms(2,3)]
    by (auto simp: tx_bounded_def)
next
  case (xmit_refused d b r v)
  then show ?thesis
    using assms(3) start_xmit_queue_frame(1,3,4,7) [OF xmit_refused(4)] by (auto simp: tx_bounded_def)
next
  case (data_take b v)
  then show ?thesis
    using assms(3) data_tx_take_frame [OF data_take(4)] by (simp add: tx_bounded_def)
next
  case (data_none v)
  then show ?thesis
    using assms(3) data_tx_take_frame [OF data_none(4)] by (simp add: tx_bounded_def)
next
  case monitor
  then show ?thesis
    using assms(3) tx_fifo_length [OF assms(2,3)]
    by (auto simp: tx_bounded_def nrf_cfg80211_queue_monitor_routine_def tx_outstanding_def
        MAX_TX_PENDING_QLEN_def)
next
  case complete
  then show ?thesis
    using assms(3) by (auto simp: tx_bounded_def)
qed (use assms(3) in \<open>auto simp: tx_bounded_def\<close>)

end

sublocale tx_queue < tx: invariant_system "tx_init qlist qinv" "tx_step Q" "tx_inv qlist qinv"
proof
  show "tx_inv qlist qinv s" if "tx_init qlist qinv s" for s
    using that by (simp add: tx_init_def tx_inv_def tx_fifo_def tx_awake_def tx_bounded_def)
  show "tx_inv qlist qinv t" if "tx_inv qlist qinv s" "tx_step Q s t" for s t
    using that tx_step_fifo tx_step_awake tx_step_bounded unfolding tx_inv_def by blast
qed

context tx_queue
begin

lemma reach_fifo: "reach (tx_init qlist qinv) (tx_step Q) s \<Longrightarrow> tx_fifo qlist s"
  using tx.reach_invar by (simp add: tx_inv_def)

lemma reach_awake: "reach (tx_init qlist qinv) (tx_step Q) s \<Longrightarrow> tx_awake qlist s"
  using tx.reach_invar by (simp add: tx_inv_def)

lemma reach_bounded:
  assumes "reach (tx_init qlist qinv) (tx_step Q) s"
  shows "tx_bounded s" and "tx_outstanding (vif s) = length (accepted s) - completed s"
  using tx.reach_invar [OF assms] tx_fifo_length(2) [of qlist s] by (simp_all add: tx_inv_def)

end

subsection \<open>A transmit queue on the shim's lists\<close>

text \<open>
  The OS layer's lists meet the contract: a queue entry is a list node whose data is the frame.
  Nodes are allocated from fresh addresses; a list whose length field is about to wrap
  refuses the entry.
\<close>

record llq =
  lq_heap :: lheap
  lq_list :: addr
  lq_free :: addr

definition lq_nodes :: "llq \<Rightarrow> addr list" where
  "lq_nodes q = walk (\<lambda>n. shim_llist_get_node_nxt (lq_list q) n (lq_heap q))
     (unat (shim_llist_len (lq_list q) (lq_heap q))) (shim_llist_get_node_head (lq_list q) (lq_heap q))"

definition lq_abs :: "llq \<Rightarrow> nat list" where
  "lq_abs q = map (\<lambda>n. shim_llist_node_data_get n (lq_heap q)) (lq_nodes q)"

definition lq_inv :: "llq \<Rightarrow> bool" where
  "lq_inv q \<longleftrightarrow> is_llist (lq_heap q) (lq_list q) (lq_nodes q) \<and>
     (\<forall>n \<in> set (lq_list q # lq_nodes q). n < lq_free q)"

definition lq_enqueue :: "llq \<Rightarrow> nat \<Rightarrow> llq option" where
  "lq_enqueue q x =
     (if shim_llist_len (lq_list q) (lq_heap q) = 0xFFFFFFFF then None
      else case shim_llist_node_alloc (lq_free q) (lq_heap q) of
        (n, h) \<Rightarrow> Some (q\<lparr>lq_heap := shim_llist_add_node_tail (lq_list q) n (shim_llist_node_data_set n x h),
                            lq_free := lq_free q + 1\<rparr>))"

definition lq_dequeue :: "llq \<Rightarrow> nat option \<times> llq" where
  "lq_dequeue q =
     (let n = shim_llist_get_node_head (lq_list q) (lq_heap q) in
      if n = NULL then (None, q)
      else (Some (shim_llist_node_data_get n (lq_heap q)),
            q\<lparr>lq_heap := the (shim_llist_del_node (lq_list q) n (lq_heap q))\<rparr>))"

definition lq_ops :: "llq q_ops" where
  "lq_ops = \<lparr>q_enqueue = lq_enqueue, q_dequeue = lq_dequeue,
             q_len = (\<lambda>q. unat (shim_llist_len (lq_list q) (lq_heap q)))\<rparr>"

lemma lq_nodes_eq: "is_llist (lq_heap q) (lq_list q) ns \<Longrightarrow> lq_nodes q = ns"
  unfolding lq_nodes_def
  using shim_list.walk_suffix [of "lq_heap q" "lq_list q" "[]" ns "length ns"]
    get_node_head_ok [of "lq_heap q" "lq_list q" ns] llist_len_ok [of "lq_heap q" "lq_list q" ns]
  by simp

lemma lq_enqueue_ok:
  assumes "lq_inv q" and "lq_enqueue q x = Some q'"
  shows "lq_inv q' \<and> lq_abs q' = lq_abs q @ [x]"
proof -
  let ?l = "lq_list q" and ?ns = "lq_nodes q" and ?n = "lq_free q"
  let ?h = "shim_llist_node_data_set ?n x (INIT_LIST_HEAD ?n (zeroed ?n (lq_heap q)))"
  have l: "is_llist (lq_heap q) ?l ?ns" and fresh: "\<forall>n \<in> set (?l # ?ns). n < ?n"
    using assms(1) by (auto simp: lq_inv_def)
  have n: "?n \<notin> set (?l # ?ns)" "?n \<noteq> NULL" using fresh by auto
  have lh: "is_llist ?h ?l ?ns"
    by (rule is_llist_frame [OF l]) (use n in \<open>auto simp: shim_llist_node_data_set_def INIT_LIST_HEAD_def zeroed_def\<close>)
  have q': "q' = q\<lparr>lq_heap := shim_llist_add_node_tail ?l ?n ?h, lq_free := ?n + 1\<rparr>"
    and small: "shim_llist_len ?l (lq_heap q) \<noteq> 0xFFFFFFFF"
    using assms(2) n(2) by (auto simp: lq_enqueue_def shim_llist_node_alloc_def split: if_splits)
  have len: "length ?ns + 1 < 2 ^ 32"
  proof -
    have "unat (shim_llist_len ?l (lq_heap q)) \<noteq> unat (0xFFFFFFFF :: u32)"
      using small word_unat_eq_iff by blast
    then show ?thesis
      using llist_len_ok [OF l] l by (simp add: is_llist_def)
  qed
  have add: "is_llist (lq_heap q') (lq_list q') (?ns @ [?n])"
    using add_node_tail_ok [OF lh n len] by (simp add: q')
  then have nodes: "lq_nodes q' = ?ns @ [?n]" by (rule lq_nodes_eq)
  have "data (lq_heap q') = (data (lq_heap q))(?n := x)"
    by (simp add: q' data_unchanged(1) shim_llist_node_data_set_def INIT_LIST_HEAD_def zeroed_def)
  then have "lq_abs q' = lq_abs q @ [x]"
    using n(1) by (auto simp: lq_abs_def nodes shim_llist_node_data_get_def)
  moreover have "lq_inv q'"
    using add nodes fresh by (auto simp: lq_inv_def q')
  ultimately show ?thesis by simp
qed

lemma lq_dequeue_ok:
  assumes "lq_inv q" and "lq_dequeue q = (r, q')"
  shows "lq_inv q' \<and> (case lq_abs q of [] \<Rightarrow> r = None \<and> lq_abs q' = [] | x # xs \<Rightarrow> r = Some x \<and> lq_abs q' = xs)"
proof -
  let ?l = "lq_list q" and ?ns = "lq_nodes q"
  have l: "is_llist (lq_heap q) ?l ?ns" using assms(1) by (simp add: lq_inv_def)
  show ?thesis
  proof (cases ?ns)
    case Nil
    then show ?thesis
      using assms get_node_head_ok [OF l] by (simp add: lq_dequeue_def lq_abs_def)
  next
    case (Cons n ms)
    then have n: "n \<noteq> NULL" "n \<noteq> ?l" using l by (auto simp: is_llist_def)
    obtain h where h: "shim_llist_del_node ?l n (lq_heap q) = Some h" "is_llist h ?l ms"
      using del_node_ok [OF l n(2)] Cons by auto
    have r: "r = Some (data (lq_heap q) n)" "q' = q\<lparr>lq_heap := h\<rparr>"
      using assms(2) get_node_head_ok [OF l] Cons n(1) h(1)
      by (auto simp: lq_dequeue_def shim_llist_node_data_get_def)
    have nodes: "lq_nodes q' = ms" by (rule lq_nodes_eq) (simp add: r(2) h(2))
    show ?thesis
      using assms(1) Cons h nodes data_unchanged(2) [OF h(1)]
      by (auto simp: lq_inv_def lq_abs_def r shim_llist_node_data_get_def)
  qed
qed

interpretation lq: tx_queue lq_ops lq_abs lq_inv
proof
  show "lq_inv q \<Longrightarrow> q_len lq_ops q = length (lq_abs q)" for q
    using llist_len_ok [of "lq_heap q" "lq_list q" "lq_nodes q"]
    by (simp add: lq_ops_def lq_inv_def lq_abs_def)
  show "lq_inv q \<Longrightarrow> q_enqueue lq_ops q x = Some q' \<Longrightarrow> lq_inv q' \<and> lq_abs q' = lq_abs q @ [x]" for q x q'
    using lq_enqueue_ok [of q x q'] by (simp add: lq_ops_def)
  show "lq_inv q \<Longrightarrow> q_dequeue lq_ops q = (r, q') \<Longrightarrow> lq_inv q' \<and>
      (case lq_abs q of [] \<Rightarrow> r = None \<and> lq_abs q' = [] | x # xs \<Rightarrow> r = Some x \<and> lq_abs q' = xs)" for q r q'
    using lq_dequeue_ok [of q r q'] by (simp add: lq_ops_def)
qed

definition empty_lq :: llq where
  "empty_lq = \<lparr>lq_heap = shim_llist_init 5 empty_heap, lq_list = 5, lq_free = 6\<rparr>"

lemma empty_lq_ok: "lq_inv empty_lq" "lq_abs empty_lq = []"
proof -
  have "lq_nodes empty_lq = []"
    by (rule lq_nodes_eq) (simp add: empty_lq_def empty_list)
  then show "lq_inv empty_lq" "lq_abs empty_lq = []"
    by (simp_all add: lq_inv_def lq_abs_def empty_lq_def empty_list)
qed

subsection \<open>Properties\<close>

text \<open>An uninterrupted handler is a sequence of steps of the relation.\<close>

lemma data_tx_routine_steps:
  assumes "worker s = WIdle" and "ws_data_tx (vif s)"
  shows "(tx_step Q)\<^sup>*\<^sup>* s (s\<lparr>vif := nrf_cfg80211_data_tx_routine Q p ok ((vif s)\<lparr>ws_data_tx := False\<rparr>)\<rparr>)"
proof -
  obtain r v where t: "data_tx_take Q ((vif s)\<lparr>ws_data_tx := False\<rparr>) = (r, v)" by fastforce
  show ?thesis
  proof (cases r)
    case None
    then show ?thesis
      using data_none [OF assms] t by (auto simp: nrf_cfg80211_data_tx_routine_def)
  next
    case (Some b)
    have 1: "tx_step Q s (s\<lparr>vif := v, worker := WGot b\<rparr>)"
      using data_take [OF assms] t Some by simp
    have 2: "tx_step Q (s\<lparr>vif := v, worker := WGot b\<rparr>) (s\<lparr>vif := data_tx_send p ok b v, worker := WResched\<rparr>)"
      using data_send [of "s\<lparr>vif := v, worker := WGot b\<rparr>" b Q p ok] by simp
    have 3: "tx_step Q (s\<lparr>vif := data_tx_send p ok b v, worker := WResched\<rparr>)
        (s\<lparr>vif := data_tx_resched Q (data_tx_send p ok b v), worker := WIdle\<rparr>)"
      using data_resched [of "s\<lparr>vif := data_tx_send p ok b v, worker := WResched\<rparr>" Q] by simp
    have "s\<lparr>vif := x, worker := WIdle\<rparr> = s\<lparr>vif := x\<rparr>" for x using assms(1) by simp
    then show ?thesis
      using 1 2 3 t Some by (auto simp: nrf_cfg80211_data_tx_routine_def intro: rtranclp.rtrancl_into_rtrancl)
  qed
qed

text \<open>
  C1. Frames are handed to the firmware in the order in which the network stack gave them to the
  driver, each exactly once, whatever the interleaving of \<open>start_xmit\<close>, the transmit work, the
  queue monitor and firmware completions: at every moment the accepted frames are those
  already dispatched, then the one in the hands of the work item, then those still queued.
\<close>

theorem tx_no_loss_no_reorder:
  assumes "tx_queue Q qlist qinv" and "reach (tx_init qlist qinv) (tx_step Q) s"
  shows "accepted s = map fst (dispatched (vif s)) @ in_flight s @ qlist (data_txq (vif s))"
  using tx_queue.reach_fifo [OF assms] by (simp add: tx_fifo_def)

definition idle_tx :: "llq tx_sys" where
  "idle_tx = \<lparr>vif = \<lparr>data_txq = empty_lq, num_tx_pkt = 0, total_tx_pkts = 0, queue_stopped = False,
       ws_data_tx = False, ws_queue_monitor = False, monitor_if = False, fmac_vif = True,
       txinjection_mode = False, raw_tx_dequeued_pkts = 0, raw_tx_prep_fail_pkts = 0,
       raw_tx_sent_ok_pkts = 0, raw_tx_sent_fail_pkts = 0, dispatched = []\<rparr>,
     worker = WIdle, sender = SIdle, accepted = [], completed = 0\<rparr>"

lemma idle_tx_init: "tx_init lq_abs lq_inv idle_tx"
  by (simp add: tx_init_def idle_tx_def empty_lq_ok)

text \<open>One frame on its way: accepted and queued, the work item not yet scheduled.\<close>

lemma one_frame_reachable:
  "\<exists>s. reach (tx_init lq_abs lq_inv) (tx_step lq_ops) s \<and> accepted s = [42] \<and> sender s = SQueued
     \<and> dispatched (vif s) = [] \<and> in_flight s = [] \<and> \<not> ws_data_tx (vif s)"
proof -
  have "shim_llist_len (lq_list empty_lq) (lq_heap empty_lq) = 0"
    by (simp add: empty_lq_def shim_llist_len_def shim_llist_init_def INIT_LIST_HEAD_def empty_heap_def)
  then have "lq_enqueue empty_lq 42 \<noteq> None"
    by (simp add: lq_enqueue_def split: prod.splits)
  then obtain q where q: "lq_enqueue empty_lq 42 = Some q" by blast
  have x: "start_xmit_queue lq_ops True 42 (vif idle_tx) =
      (NETDEV_TX_OK, True, (vif idle_tx)\<lparr>data_txq := q, num_tx_pkt := 1\<rparr>)"
    using q by (simp add: start_xmit_queue_def idle_tx_def lq_ops_def tx_outstanding_def
        MAX_TX_PENDING_QLEN_def)
  have "tx_step lq_ops idle_tx (idle_tx\<lparr>vif := (vif idle_tx)\<lparr>data_txq := q, num_tx_pkt := 1\<rparr>,
      sender := SQueued, accepted := accepted idle_tx @ [42]\<rparr>)"
    by (rule xmit_queued [OF _ _ x]) (simp_all add: idle_tx_def)
  then have "reach (tx_init lq_abs lq_inv) (tx_step lq_ops)
      (idle_tx\<lparr>vif := (vif idle_tx)\<lparr>data_txq := q, num_tx_pkt := 1\<rparr>,
       sender := SQueued, accepted := accepted idle_tx @ [42]\<rparr>)"
    by (rule reach_step [OF reach_init [of "tx_init lq_abs lq_inv", OF idle_tx_init]])
  then show ?thesis
    by (intro exI conjI) (assumption, simp_all add: idle_tx_def in_flight_def)
qed

theorem tx_no_loss_no_reorder_witness:
  "\<exists>s. reach (tx_init lq_abs lq_inv) (tx_step lq_ops) s \<and> lq_abs (data_txq (vif s)) = [42]"
  using one_frame_reachable tx_no_loss_no_reorder [OF lq.tx_queue_axioms] by fastforce





end
