(* ===== verification/Driver_Init.thy ===== *)
theory Driver_Init
  imports Nrf_Prelude
begin

text \<open>
  Interfaces and life cycle of the driver (\<open>netdev.c\<close>, \<open>main.c\<close>): link-layer configuration of an
  interface, creation and removal of interfaces, adding, initialising and removing the device,
  and module initialisation. Kernel services and firmware calls answer through environment
  records; what they acquire and release is kept in a ledger, so that leaks and dangling
  pointers are visible in the state.
\<close>

subsection \<open>Interface configuration\<close>

datatype iftype = IF_STATION | IF_AP | IF_P2P_CLIENT | IF_P2P_GO | IF_P2P_DEVICE | IF_MONITOR | IF_OTHER

record net_device =
  nd_type :: u16
  hard_header_len :: u16
  addr_len :: u8
  header_ops :: "nat option"
  nd_flags :: u32
  carrier :: bool

abbreviation ARPHRD_ETHER :: u16 where "ARPHRD_ETHER \<equiv> 1"
abbreviation ARPHRD_IEEE80211_RADIOTAP :: u16 where "ARPHRD_IEEE80211_RADIOTAP \<equiv> 803"
abbreviation ETH_HLEN :: u16 where "ETH_HLEN \<equiv> 14"
abbreviation ETH_ALEN :: u8 where "ETH_ALEN \<equiv> 6"
abbreviation IFF_NOARP :: u32 where "IFF_NOARP \<equiv> 0x80"

record vif_if =
  netdev :: "net_device option"
  saved_header_ops :: "nat option"
  wdev_iftype :: "iftype option"

definition nrf_wifi_netdev_set_iftype :: "vif_if option \<Rightarrow> iftype \<Rightarrow> int \<times> vif_if option" where
  "nrf_wifi_netdev_set_iftype v iftype =
     (case v of
        None \<Rightarrow> (-EINVAL, None)
      | Some vif \<Rightarrow>
          (case netdev vif of
             None \<Rightarrow> (-EINVAL, Some vif)
           | Some nd \<Rightarrow>
               (0, Some (vif\<lparr>netdev := Some
                  (if iftype = IF_MONITOR
                   then nd\<lparr>nd_type := ARPHRD_IEEE80211_RADIOTAP, hard_header_len := 0,
                           addr_len := ETH_ALEN, header_ops := None, nd_flags := nd_flags nd OR IFF_NOARP\<rparr>
                   else nd\<lparr>nd_type := ARPHRD_ETHER, hard_header_len := ETH_HLEN,
                           addr_len := ETH_ALEN, header_ops := saved_header_ops vif,
                           nd_flags := nd_flags nd AND NOT IFF_NOARP\<rparr>)\<rparr>))))"

text \<open>
  Opening and closing: a monitor interface only changes its carrier; for the others the
  firmware is told. \<open>alloc\<close> is whether the command structure can be allocated, \<open>fw\<close> the status
  the firmware call returns. The third component lists the firmware commands sent.
\<close>

record status_consts =
  NRF_WIFI_STATUS_SUCCESS :: int
  NRF_WIFI_STATUS_FAIL :: int

definition is_monitor :: "vif_if \<Rightarrow> bool" where
  "is_monitor vif \<longleftrightarrow> wdev_iftype vif = Some IF_MONITOR"

definition set_carrier :: "bool \<Rightarrow> vif_if \<Rightarrow> vif_if" where
  "set_carrier c vif = vif\<lparr>netdev := map_option (\<lambda>nd. nd\<lparr>carrier := c\<rparr>) (netdev vif)\<rparr>"

definition nrf_wifi_netdev_open :: "bool \<Rightarrow> int \<Rightarrow> vif_if \<Rightarrow> int \<times> vif_if \<times> bool list" where
  "nrf_wifi_netdev_open alloc fw vif =
     (if is_monitor vif then (0, set_carrier True vif, [])
      else if \<not> alloc then (-1, vif, [])
      else (fw, vif, [True]))"

definition nrf_wifi_netdev_close ::
  "status_consts \<Rightarrow> bool \<Rightarrow> int \<Rightarrow> vif_if \<Rightarrow> int \<times> vif_if \<times> bool list" where
  "nrf_wifi_netdev_close K alloc fw vif =
     (if is_monitor vif then (0, set_carrier False vif, [])
      else if \<not> alloc then (-1, vif, [])
      else if fw = NRF_WIFI_STATUS_FAIL K then (fw, vif, [False])
      else (fw, set_carrier False vif, [False]))"

datatype carr_state = CARR_ON | CARR_OFF | CARR_OTHER

definition nrf_wifi_netdev_if_state_chg_callbk_fn ::
  "status_consts \<Rightarrow> vif_if option \<Rightarrow> carr_state \<Rightarrow> int \<times> vif_if option" where
  "nrf_wifi_netdev_if_state_chg_callbk_fn K v if_state =
     (case v of
        None \<Rightarrow> (NRF_WIFI_STATUS_FAIL K, None)
      | Some vif \<Rightarrow>
          (case if_state of
             CARR_ON \<Rightarrow> (NRF_WIFI_STATUS_SUCCESS K, Some (set_carrier True vif))
           | CARR_OFF \<Rightarrow> (NRF_WIFI_STATUS_SUCCESS K, Some (set_carrier False vif))
           | CARR_OTHER \<Rightarrow> (NRF_WIFI_STATUS_FAIL K, Some vif)))"

text \<open>A received frame: monitor interfaces get it as it is, the others through Ethernet typing.\<close>

datatype rx_protocol = ETH_P_802_2 | EthType

record rx_meta =
  rx_protocol :: rx_protocol
  rx_otherhost :: bool
  rx_csum_none :: bool

definition nrf_wifi_netdev_frame_rx_callbk_fn :: "vif_if \<Rightarrow> rx_meta" where
  "nrf_wifi_netdev_frame_rx_callbk_fn vif =
     (if is_monitor vif
      then \<lparr>rx_protocol = ETH_P_802_2, rx_otherhost = True, rx_csum_none = True\<rparr>
      else \<lparr>rx_protocol = EthType, rx_otherhost = False, rx_csum_none = True\<rparr>)"

text \<open>
  Turning an interface into a monitor and back restores its Ethernet link layer, including
  the saved header operations and the address resolution flag, and keeps the carrier state.
\<close>

theorem set_iftype_round_trip:
  assumes "netdev vif = Some nd" and "iftype \<noteq> IF_MONITOR"
    and "nd_type nd = ARPHRD_ETHER" and "hard_header_len nd = ETH_HLEN" and "addr_len nd = ETH_ALEN"
    and "header_ops nd = saved_header_ops vif" and "nd_flags nd AND IFF_NOARP = 0"
  shows "\<exists>m. nrf_wifi_netdev_set_iftype (Some vif) IF_MONITOR = (0, Some m)
     \<and> nrf_wifi_netdev_set_iftype (Some m) iftype = (0, Some vif)"
proof -
  have "(nd_flags nd OR IFF_NOARP) AND NOT IFF_NOARP = nd_flags nd AND NOT IFF_NOARP"
    by (rule bit_word_eqI) (auto simp: bit_simps)
  also have "\<dots> = nd_flags nd"
  proof (rule bit_word_eqI)
    fix n assume "n < LENGTH(32)"
    have "bit (nd_flags nd AND IFF_NOARP) n = bit (0 :: u32) n" by (simp only: assms(7))
    then show "bit (nd_flags nd AND NOT IFF_NOARP) n = bit (nd_flags nd) n"
      using \<open>n < LENGTH(32)\<close> by (auto simp: bit_simps)
  qed
  finally show ?thesis
    using assms(1-6) by (simp add: nrf_wifi_netdev_set_iftype_def)
qed

definition ether_vif :: vif_if where
  "ether_vif = \<lparr>netdev = Some \<lparr>nd_type = ARPHRD_ETHER, hard_header_len = ETH_HLEN, addr_len = ETH_ALEN,
       header_ops = Some 3, nd_flags = 0x1003, carrier = True\<rparr>,
     saved_header_ops = Some 3, wdev_iftype = Some IF_STATION\<rparr>"

theorem set_iftype_round_trip_witness:
  "\<exists>m. nrf_wifi_netdev_set_iftype (Some ether_vif) IF_MONITOR = (0, Some m)
     \<and> nrf_wifi_netdev_set_iftype (Some m) IF_AP = (0, Some ether_vif)"
  using set_iftype_round_trip [of ether_vif _ IF_AP] by (simp add: ether_vif_def)

subsection \<open>Creating and removing interfaces\<close>

datatype res = RWdev | RNetdev | RTxq | RFmacVif | RWiphy | RFmacDev | RDbgfs

datatype ledger_event = Acq res | Rel res

text \<open>
  The driver context: whether the pointer to the default interface is set, which of the other
  interface slots of the driver core are taken, whether the default interface is registered
  with the network stack, and the ledger.
\<close>

record dev_ctx =
  def_vif :: bool
  vif_slots :: "bool list"
  registered :: bool
  ledger :: "ledger_event list"

definition logged :: "ledger_event \<Rightarrow> dev_ctx \<Rightarrow> dev_ctx" where
  "logged e c = c\<lparr>ledger := ledger c @ [e]\<rparr>"

definition held :: "res \<Rightarrow> dev_ctx \<Rightarrow> int" where
  "held r c = int (count_list (ledger c) (Acq r)) - int (count_list (ledger c) (Rel r))"

record vif_env =
  alloc_wdev :: bool
  alloc_netdev :: bool
  alloc_txq :: bool
  register_ret :: int

definition nrf_wifi_netdev_add_vif :: "vif_env \<Rightarrow> dev_ctx \<Rightarrow> bool \<times> dev_ctx" where
  "nrf_wifi_netdev_add_vif e c =
     (if \<not> alloc_netdev e then (False, c) else
      let c = logged (Acq RNetdev) c in
      if \<not> alloc_txq e then (True, c) else
      let c = logged (Acq RTxq) c; ret = register_ret e in
      if ret \<noteq> 0 then (False, logged (Rel RNetdev) c)
      else (True, c\<lparr>registered := True\<rparr>))"

definition nrf_wifi_wlan_fmac_add_vif :: "vif_env \<Rightarrow> dev_ctx \<Rightarrow> bool \<times> dev_ctx" where
  "nrf_wifi_wlan_fmac_add_vif e c =
     (if \<not> alloc_wdev e then (False, c) else
      case nrf_wifi_netdev_add_vif e (logged (Acq RWdev) c) of
        (True, c) \<Rightarrow> (True, c)
      | (False, c) \<Rightarrow> (False, logged (Rel RWdev) c))"

text \<open>The network device itself is released by its destructor when it is unregistered.\<close>

definition nrf_wifi_netdev_del_vif :: "dev_ctx \<Rightarrow> dev_ctx" where
  "nrf_wifi_netdev_del_vif c =
     logged (Rel RNetdev) ((logged (Rel RTxq) c)\<lparr>registered := False\<rparr>)"

definition nrf_wifi_wlan_fmac_del_vif :: "dev_ctx \<Rightarrow> dev_ctx" where
  "nrf_wifi_wlan_fmac_del_vif c = logged (Rel RWdev) (nrf_wifi_netdev_del_vif c)"

subsection \<open>Adding and initialising the device\<close>

text \<open>
  \<open>drv_init t\<close> is the value of the initialisation flag at the \<open>t\<close>-th evaluation of the wait loop.
\<close>

record add_env =
  drv_init_at :: "nat \<Rightarrow> bool"
  cfg80211_init :: bool
  fmac_dev_add :: bool
  fw_load :: bool

definition nrf_wifi_fmac_dev_add_lnx :: "add_env \<Rightarrow> dev_ctx \<Rightarrow> bool \<times> dev_ctx" where
  "nrf_wifi_fmac_dev_add_lnx e c =
     (let i = poll (drv_init_at e) 0 5 in
      if i = 5 then (False, c) else
      if \<not> cfg80211_init e then (False, c) else
      let c = logged (Acq RWiphy) c in
      if \<not> fmac_dev_add e then (False, logged (Rel RWiphy) c) else
      let c = logged (Acq RFmacDev) c in
      if \<not> fw_load e then (False, logged (Rel RWiphy) c)
      else (True, c))"

record init_env =
  otp_mac :: int
  vifs :: vif_env
  fmac_add_vif :: u8
  dbgfs_init :: int
  ver_get :: int
  fmac_dev_init :: int
  set_vif_macaddr :: int

definition dev_init_out :: "status_consts \<Rightarrow> int \<Rightarrow> bool \<Rightarrow> dev_ctx \<Rightarrow> int \<times> dev_ctx" where
  "dev_init_out K status vif c =
     (status, if status \<noteq> NRF_WIFI_STATUS_SUCCESS K \<and> vif then nrf_wifi_wlan_fmac_del_vif c else c)"

definition nrf_wifi_fmac_dev_init_lnx :: "status_consts \<Rightarrow> init_env \<Rightarrow> dev_ctx \<Rightarrow> int \<times> dev_ctx" where
  "nrf_wifi_fmac_dev_init_lnx K e c =
     (let SUCCESS = NRF_WIFI_STATUS_SUCCESS K; status = otp_mac e in
      if status \<noteq> SUCCESS then dev_init_out K status False c else
      let (vif, c) = nrf_wifi_wlan_fmac_add_vif (vifs e) c in
      if \<not> vif then dev_init_out K status False c else
      let c = logged (Acq RFmacVif) c in
      if fmac_add_vif e \<noteq> 0 then dev_init_out K status True c else
      let c = c\<lparr>def_vif := True\<rparr>; status = dbgfs_init e in
      if status \<noteq> SUCCESS then dev_init_out K status True c else
      let c = logged (Acq RDbgfs) c; status = ver_get e in
      if status \<noteq> SUCCESS then dev_init_out K status True c else
      let status = fmac_dev_init e in
      if status \<noteq> SUCCESS then dev_init_out K status True c else
      dev_init_out K (set_vif_macaddr e) True c)"

text \<open>
  Removal first deletes the interfaces in the other slots, then dereferences the default
  interface without checking it; using its memory after it was released is undefined.
\<close>

fun del_other_vifs :: "bool list \<Rightarrow> dev_ctx \<Rightarrow> dev_ctx" where
  "del_other_vifs [] c = c"
| "del_other_vifs (present # slots) c =
     del_other_vifs slots (if present then logged (Rel RFmacVif) (nrf_wifi_wlan_fmac_del_vif c) else c)"

definition nrf_wifi_fmac_dev_deinit_lnx :: "dev_ctx \<Rightarrow> dev_ctx outcome" where
  "nrf_wifi_fmac_dev_deinit_lnx c =
     (let c = (del_other_vifs (vif_slots c) c)\<lparr>vif_slots := map (\<lambda>_. False) (vif_slots c)\<rparr> in
      if \<not> def_vif c then UB NullDeref
      else if held RNetdev c \<le> 0 then UB InvalidFree
      else Ret ((logged (Rel RFmacVif) (nrf_wifi_wlan_fmac_del_vif (logged (Rel RDbgfs) c)))\<lparr>def_vif := False\<rparr>))"

definition nrf_wifi_fmac_dev_rem_lnx :: "dev_ctx \<Rightarrow> dev_ctx" where
  "nrf_wifi_fmac_dev_rem_lnx c = logged (Rel RFmacDev) (logged (Rel RWiphy) c)"

subsection \<open>Module initialisation\<close>

record drv_priv =
  dbgfs_root :: bool
  fmac_priv :: bool
  drv_init :: bool
  max_ampdu_len_per_token :: u32
  avail_ampdu_len_per_token :: u32

definition nrf_wifi_dbgfs_deinit :: "drv_priv \<Rightarrow> drv_priv" where
  "nrf_wifi_dbgfs_deinit d = d\<lparr>dbgfs_root := False\<rparr>"

definition nrf_wifi_dbgfs_init :: "bool \<Rightarrow> drv_priv \<Rightarrow> int \<times> drv_priv" where
  "nrf_wifi_dbgfs_init created d =
     (let d = d\<lparr>dbgfs_root := created\<rparr> in
      if created then (0, d) else (-1, nrf_wifi_dbgfs_deinit d))"

record mod_env =
  dbgfs_created :: bool
  rf_params :: "string option"
  NRF_WIFI_RF_PARAMS_SIZE :: nat
  fmac_init :: bool
  RPU_PKTRAM_SIZE :: u32
  max_tx_aggregation :: u8

text \<open>
  Of the build configuration: 63 receive buffers of 1600 bytes, 10 transmit tokens; the packet
  memory overhead is 6 bytes per aggregated frame.
\<close>

definition nrf_wifi_init_lnx :: "mod_env \<Rightarrow> drv_priv \<Rightarrow> int \<times> drv_priv" where
  "nrf_wifi_init_lnx e d =
     (let (ret, d) = nrf_wifi_dbgfs_init (dbgfs_created e) d in
      if ret \<noteq> 0 then (ret, d) else
      if (case rf_params e of None \<Rightarrow> False | Some p \<Rightarrow> length p \<noteq> NRF_WIFI_RF_PARAMS_SIZE e * 2)
      then (ret, d) else
      let d = d\<lparr>drv_init := False\<rparr>; d = d\<lparr>fmac_priv := fmac_init e\<rparr> in
      if \<not> fmac_init e then (ret, d) else
      let d = d\<lparr>drv_init := True\<rparr>;
          m = ((RPU_PKTRAM_SIZE e - 63 * 1600) div 10) AND NOT 3;
          d = d\<lparr>max_ampdu_len_per_token := m,
                avail_ampdu_len_per_token := m - 6 * ucast (max_tx_aggregation e)\<rparr>
      in (0, d))"

definition nrf_wifi_deinit_lnx :: "drv_priv \<Rightarrow> drv_priv" where
  "nrf_wifi_deinit_lnx d = nrf_wifi_dbgfs_deinit (d\<lparr>fmac_priv := False\<rparr>)"

subsection \<open>Properties of the life cycle\<close>

lemma held_logged [simp]:
  "held r (logged (Acq q) c) = held r c + (if q = r then 1 else 0)"
  "held r (logged (Rel q) c) = held r c - (if q = r then 1 else 0)"
  "held r (c\<lparr>def_vif := b\<rparr>) = held r c" "held r (c\<lparr>registered := b\<rparr>) = held r c"
  "held r (c\<lparr>vif_slots := v\<rparr>) = held r c"
  by (simp_all add: held_def logged_def)

lemma logged_simps [simp]:
  "def_vif (logged x c) = def_vif c" "vif_slots (logged x c) = vif_slots c"
  "registered (logged x c) = registered c"
  by (simp_all add: logged_def)

lemma poll_less_iff: "poll f 0 n < n \<longleftrightarrow> (\<exists>i<n. f i)"
  using poll_stops_early [of f 0 n] poll_not_before [of 0 _ f n] poll_bounds [of 0 f n]
  by (metis add_0 le0 linorder_not_less order_le_less)

text \<open>
  Adding the device succeeds exactly when module initialisation finished within the first
  five polls (a flag that is set during the last pause comes too late) and the wiphy, the core
  device and the firmware download all succeed. The wiphy is held exactly after success, but a
  failed firmware download leaves the core device behind.
\<close>

theorem dev_add_lnx_spec:
  "\<exists>r c'. nrf_wifi_fmac_dev_add_lnx e c = (r, c')
     \<and> (r \<longleftrightarrow> (\<exists>i<5. drv_init_at e i) \<and> cfg80211_init e \<and> fmac_dev_add e \<and> fw_load e)
     \<and> held RWiphy c' = held RWiphy c + (if r then 1 else 0)
     \<and> held RFmacDev c' = held RFmacDev c +
         (if (\<exists>i<5. drv_init_at e i) \<and> cfg80211_init e \<and> fmac_dev_add e then 1 else 0)"
proof -
  have "poll (drv_init_at e) 0 5 = 5 \<longleftrightarrow> \<not> (\<exists>i<5. drv_init_at e i)"
    using poll_less_iff [of "drv_init_at e" 5] poll_bounds [of 0 "drv_init_at e" 5] by auto
  then show ?thesis
    by (simp add: nrf_wifi_fmac_dev_add_lnx_def Let_def)
qed

lemma del_other_vifs_none: "True \<notin> set slots \<Longrightarrow> del_other_vifs slots c = c"
  by (induction slots) auto

lemma del_vif_simps [simp]:
  "held r (nrf_wifi_wlan_fmac_del_vif c) = held r c - (if r \<in> {RTxq, RNetdev, RWdev} then 1 else 0)"
  "def_vif (nrf_wifi_wlan_fmac_del_vif c) = def_vif c"
  "vif_slots (nrf_wifi_wlan_fmac_del_vif c) = vif_slots c"
  by (auto simp: nrf_wifi_wlan_fmac_del_vif_def nrf_wifi_netdev_del_vif_def)

definition all_ok :: "status_consts \<Rightarrow> init_env \<Rightarrow> bool" where
  "all_ok K e \<longleftrightarrow> otp_mac e = NRF_WIFI_STATUS_SUCCESS K \<and> alloc_wdev (vifs e) \<and> alloc_netdev (vifs e) \<and>
     alloc_txq (vifs e) \<and> register_ret (vifs e) = 0 \<and> fmac_add_vif e = 0 \<and>
     dbgfs_init e = NRF_WIFI_STATUS_SUCCESS K \<and> ver_get e = NRF_WIFI_STATUS_SUCCESS K \<and>
     fmac_dev_init e = NRF_WIFI_STATUS_SUCCESS K \<and> set_vif_macaddr e = NRF_WIFI_STATUS_SUCCESS K"


definition sample_status :: status_consts where
  "sample_status = \<lparr>NRF_WIFI_STATUS_SUCCESS = 0, NRF_WIFI_STATUS_FAIL = -1\<rparr>"

definition ok_env :: init_env where
  "ok_env = \<lparr>otp_mac = 0, vifs = \<lparr>alloc_wdev = True, alloc_netdev = True, alloc_txq = True, register_ret = 0\<rparr>,
     fmac_add_vif = 0, dbgfs_init = 0, ver_get = 0, fmac_dev_init = 0, set_vif_macaddr = 0\<rparr>"

definition fresh_ctx :: dev_ctx where
  "fresh_ctx = \<lparr>def_vif = False, vif_slots = [False], registered = False, ledger = []\<rparr>"


text \<open>
  Two failures of device initialisation leave a context that crashes on removal. If the
  default interface cannot be created, the call still reports success (the status is that of
  the preceding MAC address read), and removal dereferences a NULL interface. If a later step
  fails, the interface is deleted but the pointer to it stays, and removal uses freed memory.
\<close>

theorem dev_init_failures_break_removal:
  assumes "otp_mac e = NRF_WIFI_STATUS_SUCCESS K" and "\<not> def_vif c" and "True \<notin> set (vif_slots c)"
    and "held RNetdev c = 0"
  shows "(\<not> alloc_wdev (vifs e) \<longrightarrow>
      (\<exists>c'. nrf_wifi_fmac_dev_init_lnx K e c = (NRF_WIFI_STATUS_SUCCESS K, c')
          \<and> nrf_wifi_fmac_dev_deinit_lnx c' = UB NullDeref))
   \<and> (alloc_wdev (vifs e) \<and> alloc_netdev (vifs e) \<and> alloc_txq (vifs e) \<and> register_ret (vifs e) = 0
       \<and> fmac_add_vif e = 0 \<and> dbgfs_init e \<noteq> NRF_WIFI_STATUS_SUCCESS K \<longrightarrow>
      (\<exists>c'. nrf_wifi_fmac_dev_init_lnx K e c = (dbgfs_init e, c')
          \<and> nrf_wifi_fmac_dev_deinit_lnx c' = UB InvalidFree))"
  using assms
  by (simp add: nrf_wifi_fmac_dev_init_lnx_def nrf_wifi_wlan_fmac_add_vif_def nrf_wifi_netdev_add_vif_def
      dev_init_out_def nrf_wifi_fmac_dev_deinit_lnx_def del_other_vifs_none Let_def)

theorem dev_init_failures_break_removal_witness:
  "\<exists>c'. nrf_wifi_fmac_dev_init_lnx sample_status (ok_env\<lparr>dbgfs_init := - ENOMEM\<rparr>) fresh_ctx = (- ENOMEM, c')
     \<and> nrf_wifi_fmac_dev_deinit_lnx c' = UB InvalidFree"
  using dev_init_failures_break_removal [of "ok_env\<lparr>dbgfs_init := - ENOMEM\<rparr>" sample_status fresh_ctx]
  by (simp add: sample_status_def ok_env_def fresh_ctx_def held_def)

lemma and_not_3_dvd: "4 dvd unat (w AND NOT (3 :: u32))"
proof -
  have "w AND NOT 3 = push_bit 2 (drop_bit 2 w)"
  proof (rule bit_word_eqI)
    fix n assume n: "n < LENGTH(32)"
    have "bit (3 :: u32) n \<longleftrightarrow> n < 2"
      using bit_mask_iff [of 2 n, where 'a = u32] n by (simp add: mask_eq_exp_minus_1)
    moreover have "Suc (Suc (n - 2)) = n" if "2 \<le> n" using that by simp
    ultimately show "bit (w AND NOT 3) n = bit (push_bit 2 (drop_bit 2 w)) n"
      using n by (auto simp: bit_simps)
  qed
  moreover have "unat (push_bit 2 v) = unat v * 4 mod 2 ^ 32" for v :: u32
    by (simp add: push_bit_eq_mult unat_word_ariths)
  ultimately show ?thesis
    by (simp add: dvd_mod)
qed

text \<open>
  Module initialisation reports success although it did not initialise the driver: with RF
  parameters of the wrong length, or when the driver core cannot be set up, it returns 0 and
  leaves \<open>drv_init\<close> unset, so that every later probe times out. On the good path the transmit
  budget per token is a multiple of four.
\<close>

theorem init_lnx_silent_failures:
  assumes "\<not> drv_init d" and "dbgfs_created e"
  shows "\<exists>d'. nrf_wifi_init_lnx e d = (0, d')
     \<and> (drv_init d' \<longleftrightarrow> fmac_init e \<and>
          (case rf_params e of None \<Rightarrow> True | Some p \<Rightarrow> length p = NRF_WIFI_RF_PARAMS_SIZE e * 2))
     \<and> (drv_init d' \<longrightarrow> 4 dvd unat (max_ampdu_len_per_token d'))"
  using assms and_not_3_dvd
  by (auto simp: nrf_wifi_init_lnx_def nrf_wifi_dbgfs_init_def Let_def split: option.splits)

theorem init_lnx_silent_failures_witness:
  "\<exists>d'. nrf_wifi_init_lnx \<lparr>dbgfs_created = True, rf_params = Some ''00'', NRF_WIFI_RF_PARAMS_SIZE = 200,
        fmac_init = True, RPU_PKTRAM_SIZE = 0x2C000, max_tx_aggregation = 12\<rparr>
      \<lparr>dbgfs_root = False, fmac_priv = False, drv_init = False,
       max_ampdu_len_per_token = 0, avail_ampdu_len_per_token = 0\<rparr> = (0, d') \<and> \<not> drv_init d'"
  using init_lnx_silent_failures [of "\<lparr>dbgfs_root = False, fmac_priv = False, drv_init = False,
       max_ampdu_len_per_token = 0, avail_ampdu_len_per_token = 0\<rparr>"
      "\<lparr>dbgfs_created = True, rf_params = Some ''00'', NRF_WIFI_RF_PARAMS_SIZE = 200,
        fmac_init = True, RPU_PKTRAM_SIZE = 0x2C000, max_tx_aggregation = 12\<rparr>"]
  by auto

end
