(* ===== verification/Driver_Conf.thy ===== *)
theory Driver_Conf
  imports Driver_Init Shim_Nbuf Shim_Work "HOL-Library.Signed_Division"
begin

text \<open>
  Configuration the driver hands to the firmware core: the module parameters and the packet
  memory they share, the table of callbacks, the firmware image, transmit power settings, the
  signal strength of received frames and the multicast list (\<open>main.c\<close>, \<open>netdev.c\<close>). The build
  configuration is that of the Makefile; constants of the firmware core are parameters.
\<close>

subsection \<open>Data path configuration\<close>

text \<open>The module parameters, with their default values.\<close>

record mod_params =
  aggregation :: u8
  wmm :: u8
  max_num_tx_agg_sessions :: u8
  max_num_rx_agg_sessions :: u8
  max_tx_agg :: u8
  reorder_buf_size :: u8
  max_rxampdu_size :: u8
  rate_protection_type :: u8
  rx_num_bufs :: "u32 list"
  rx_buf_sz :: "u32 list"

definition def_params :: "u8 \<Rightarrow> mod_params" where
  "def_params MAX_RX_AMPDU_SIZE_64KB =
     \<lparr>aggregation = 1, wmm = 1, max_num_tx_agg_sessions = 4, max_num_rx_agg_sessions = 8, max_tx_agg = 12,
      reorder_buf_size = 64, max_rxampdu_size = MAX_RX_AMPDU_SIZE_64KB, rate_protection_type = 0,
      rx_num_bufs = replicate 3 (63 div 3), rx_buf_sz = replicate 3 1600\<rparr>"

record data_config =
  dc_aggregation :: u8
  dc_wmm :: u8
  dc_max_num_tx_agg_sessions :: u8
  dc_max_num_rx_agg_sessions :: u8
  dc_max_tx_aggregation :: u8
  dc_reorder_buf_size :: u8
  dc_max_rxampdu_size :: u8
  dc_rate_protection_type :: u8

definition data_config_of :: "mod_params \<Rightarrow> data_config" where
  "data_config_of m =
     \<lparr>dc_aggregation = aggregation m, dc_wmm = wmm m,
      dc_max_num_tx_agg_sessions = max_num_tx_agg_sessions m,
      dc_max_num_rx_agg_sessions = max_num_rx_agg_sessions m, dc_max_tx_aggregation = max_tx_agg m,
      dc_reorder_buf_size = reorder_buf_size m, dc_max_rxampdu_size = max_rxampdu_size m,
      dc_rate_protection_type = rate_protection_type m\<rparr>"

text \<open>A receive buffer pool: the number of its buffers and their size.\<close>

definition rx_buf_pools_of :: "mod_params \<Rightarrow> (u32 \<times> u32) list" where
  "rx_buf_pools_of m = zip (rx_num_bufs m) (rx_buf_sz m)"

definition pool_bytes :: "(u32 \<times> u32) list \<Rightarrow> nat" where
  "pool_bytes ps = (\<Sum>(n, sz) \<leftarrow> ps. unat n * unat sz)"

text \<open>The share of the packet memory of a transmit token, as module initialisation computes it.\<close>

definition token_len :: "u32 \<Rightarrow> u32" where
  "token_len pktram = ((pktram - 63 * 1600) div 10) AND NOT 3"

lemma unat_and_not_3: "unat (w AND NOT 3 :: u32) = 4 * (unat w div 4)"
proof -
  have three: "(3 :: u32) = mask 2" by (simp add: mask_eq_exp_minus_1)
  have "w AND NOT 3 = push_bit 2 (drop_bit 2 w)"
    unfolding three
  proof (rule bit_word_eqI)
    fix n assume "n < LENGTH(32)"
    moreover have "2 \<le> n \<Longrightarrow> Suc (Suc (n - 2)) = n" by simp
    ultimately show "bit (w AND NOT (mask 2)) n = bit (push_bit 2 (drop_bit 2 w)) n"
      by (auto simp: bit_simps)
  qed
  moreover have "unat (drop_bit 2 w) = unat w div 4" by (simp add: drop_bit_eq_div unat_div)
  moreover have "4 * (unat w div 4) < 2 ^ 32"
    using order_le_less_trans [OF times_div_less_eq_dividend unsigned_less [of w]] by simp
  ultimately show ?thesis by (simp add: push_bit_eq_mult unat_word_ariths)
qed

lemma token_len_exact:
  assumes "100800 \<le> unat pktram"
  shows "unat (token_len pktram) = 4 * ((unat pktram - 100800) div 40)"
proof -
  have "unat (pktram - 100800) = unat pktram - 100800"
    using assms by (subst unat_sub) (simp_all add: word_le_nat_alt)
  then have "unat ((pktram - 100800) div 10) = (unat pktram - 100800) div 10" by (simp add: unat_div)
  then show ?thesis
    unfolding token_len_def by (simp only: unat_and_not_3) (simp add: div_mult2_eq [symmetric])
qed


definition demo_mod_env :: mod_env where
  "demo_mod_env = \<lparr>dbgfs_created = True, rf_params = None, NRF_WIFI_RF_PARAMS_SIZE = 200, fmac_init = True,
     RPU_PKTRAM_SIZE = 0x2C000, max_tx_aggregation = 12\<rparr>"

definition unloaded :: drv_priv where
  "unloaded = \<lparr>dbgfs_root = False, fmac_priv = False, drv_init = False,
     max_ampdu_len_per_token = 0, avail_ampdu_len_per_token = 0\<rparr>"


subsection \<open>Callbacks\<close>

text \<open>
  The callbacks the driver registers with the firmware core, as pairs of the slot and the
  function; the sleep event exists in low-power builds only.
\<close>

definition callbk_fns :: "bool \<Rightarrow> (string \<times> string) list" where
  "callbk_fns low_power =
    [(''if_carr_state_chg_callbk_fn'', ''nrf_wifi_netdev_if_state_chg_callbk_fn''),
     (''rx_frm_callbk_fn'', ''nrf_wifi_netdev_frame_rx_callbk_fn''),
     (''get_station_callbk_fn'', ''nrf_wifi_get_station_callbk_fn''),
     (''disp_scan_res_callbk_fn'', ''nrf_wifi_disp_scan_res_callbk_fn''),
     (''rx_bcn_prb_resp_callbk_fn'', ''nrf_wifi_cfg80211_rx_bcn_prb_rsp_callbk_fn''),
     (''set_if_callbk_fn'', ''nrf_wifi_set_if_callbk_fn''),
     (''chnl_get_callbk_fn'', ''nrf_wifi_chnl_get_callbk_fn''),
     (''tx_pwr_get_callbk_fn'', ''nrf_wifi_tx_pwr_get_callbk_fn''),
     (''cookie_rsp_callbk_fn'', ''nrf_wifi_cookie_rsp_callbk_fn''),
     (''process_rssi_from_rx'', ''nrf_wifi_process_rssi_from_rx''),
     (''scan_start_callbk_fn'', ''nrf_wifi_cfg80211_scan_start_callbk_fn''),
     (''scan_res_callbk_fn'', ''nrf_wifi_cfg80211_scan_res_callbk_fn''),
     (''scan_done_callbk_fn'', ''nrf_wifi_cfg80211_scan_done_callbk_fn''),
     (''scan_abort_callbk_fn'', ''nrf_wifi_cfg80211_scan_abort_callbk_fn''),
     (''auth_resp_callbk_fn'', ''nrf_wifi_cfg80211_auth_resp_callbk_fn''),
     (''assoc_resp_callbk_fn'', ''nrf_wifi_cfg80211_assoc_resp_callbk_fn''),
     (''deauth_callbk_fn'', ''nrf_wifi_cfg80211_deauth_callbk_fn''),
     (''disassoc_callbk_fn'', ''nrf_wifi_cfg80211_disassoc_callbk_fn''),
     (''mgmt_rx_callbk_fn'', ''nrf_wifi_cfg80211_mgmt_rx_callbk_fn''),
     (''unprot_mlme_mgmt_rx_callbk_fn'', ''nrf_wifi_cfg80211_unprot_mlme_mgmt_rx_callbk_fn''),
     (''roc_callbk_fn'', ''nrf_wifi_cfg80211_roc_callbk_fn''),
     (''roc_cancel_callbk_fn'', ''nrf_wifi_cfg80211_roc_cancel_callbk_fn''),
     (''tx_status_callbk_fn'', ''nrf_wifi_cfg80211_tx_status_callbk_fn''),
     (''reg_change_callbk_fn'', ''nrf_wifi_reg_change_callbk_fn''),
     (''rx_sniffer_frm_callbk_fn'', ''nrf_wifi_rx_sniffer_frm_callbk_fn''),
     (''twt_config_callbk_fn'', ''nrf_wifi_twt_config_callbk_fn''),
     (''twt_teardown_callbk_fn'', ''nrf_wifi_twt_teardown_callbk_fn'')]
    @ (if low_power then [(''twt_sleep_callbk_fn'', ''nrf_wifi_twt_sleep_callbk_fn'')] else [])"

definition renamed_callbks :: "(string \<times> string) list" where
  "renamed_callbks =
    [(''if_carr_state_chg_callbk_fn'', ''nrf_wifi_netdev_if_state_chg_callbk_fn''),
     (''rx_frm_callbk_fn'', ''nrf_wifi_netdev_frame_rx_callbk_fn''),
     (''rx_bcn_prb_resp_callbk_fn'', ''nrf_wifi_cfg80211_rx_bcn_prb_rsp_callbk_fn'')]"

text \<open>Every slot is set once, and to the function of its own name except for the renamed ones.\<close>

lemma callbk_fns_wired:
  "distinct (map fst (callbk_fns True))
   \<and> list_all (\<lambda>(slot, f). suffix slot f \<or> List.member renamed_callbks (slot, f)) (callbk_fns True)"
  by code_simp

subsection \<open>Firmware image\<close>

text \<open>
  The image is linked into the module between two symbols. \<open>fw_parse\<close> and \<open>fw_load\<close> are the
  core's; the information structure starts zeroed.
\<close>

definition nrf_wifi_wlan_fmac_fw_load ::
  "status_consts \<Rightarrow> (u8 list \<Rightarrow> int \<times> 'i) \<Rightarrow> ('i \<Rightarrow> int) \<Rightarrow> u8 list \<Rightarrow> int" where
  "nrf_wifi_wlan_fmac_fw_load K fw_parse fmac_fw_load img =
     (case fw_parse img of
        (status, fw_info) \<Rightarrow>
          if status \<noteq> NRF_WIFI_STATUS_SUCCESS K then status
          else let status = fmac_fw_load fw_info in
               if status \<noteq> NRF_WIFI_STATUS_SUCCESS K then status else NRF_WIFI_STATUS_SUCCESS K)"

text \<open>
  The device is added exactly when, besides the module and the wiphy, the whole image parses and
  the parsed patches load.
\<close>

lemma dev_add_loads_image:
  assumes "fw_load e \<longleftrightarrow> nrf_wifi_wlan_fmac_fw_load K fw_parse fmac_fw_load img = NRF_WIFI_STATUS_SUCCESS K"
  shows "fst (nrf_wifi_fmac_dev_add_lnx e c) \<longleftrightarrow>
     poll (drv_init_at e) 0 5 < 5 \<and> cfg80211_init e \<and> fmac_dev_add e
     \<and> fst (fw_parse img) = NRF_WIFI_STATUS_SUCCESS K
     \<and> fmac_fw_load (snd (fw_parse img)) = NRF_WIFI_STATUS_SUCCESS K"
  using assms poll_bounds [of 0 "drv_init_at e" 5]
  by (auto simp: nrf_wifi_fmac_dev_add_lnx_def nrf_wifi_wlan_fmac_fw_load_def Let_def split: prod.splits)

subsection \<open>Transmit power\<close>

text \<open>
  A structure is a map from its fields to their values; a field that was not written is
  indeterminate (\<open>None\<close>). The control parameters are all taken from the build configuration,
  the ceilings only on the boards that are named.
\<close>

type_synonym pwr_struct = "string \<rightharpoonup> int"

datatype board = NRF7002DK_NRF7001 | NRF7002DK_NRF5340 | NRF5340DK_NRF5340 | OTHER_BOARD

definition ceil_2g :: "string list" where
  "ceil_2g = [''max_pwr_2g_dsss'', ''max_pwr_2g_mcs7'', ''max_pwr_2g_mcs0'']"

definition ceil_5g :: "string list" where
  "ceil_5g = [''max_pwr_5g_low_mcs7'', ''max_pwr_5g_mid_mcs7'', ''max_pwr_5g_high_mcs7'',
     ''max_pwr_5g_low_mcs0'', ''max_pwr_5g_mid_mcs0'', ''max_pwr_5g_high_mcs0'']"

definition ceil_fields :: "string list" where
  "ceil_fields = ceil_2g @ ceil_5g @ [''rf_tx_pwr_ceil_params_override'']"

definition set_fields :: "string list \<Rightarrow> int list \<Rightarrow> pwr_struct \<Rightarrow> pwr_struct" where
  "set_fields fs vs p = p(fs [\<mapsto>] vs)"

definition has_2g :: "board \<Rightarrow> bool" where
  "has_2g b \<longleftrightarrow> b \<noteq> OTHER_BOARD"

definition has_5g :: "board \<Rightarrow> bool" where
  "has_5g b \<longleftrightarrow> b = NRF7002DK_NRF5340 \<or> b = NRF5340DK_NRF5340"

definition set_tx_pwr_ceil_default :: "board \<Rightarrow> pwr_struct" where
  "set_tx_pwr_ceil_default b =
     (let p = set_fields ceil_fields (replicate (length ceil_fields) 0) Map.empty;
          p = (if has_2g b then set_fields ceil_2g [0x54, 0x40, 0x40] p else p)
      in if has_5g b then set_fields ceil_5g (replicate (length ceil_5g) 0x38) p else p)"

text \<open>\<open>dt\<close> is the device-tree node \<open>nrf70_tx_power_ceiling\<close>, when it exists.\<close>

definition dt_override :: "pwr_struct option \<Rightarrow> string list \<Rightarrow> pwr_struct \<Rightarrow> pwr_struct" where
  "dt_override dt fs p = (\<lambda>f. if f \<in> set fs \<and> (case dt of None \<Rightarrow> False | Some d \<Rightarrow> d f \<noteq> None)
      then (case dt of None \<Rightarrow> None | Some d \<Rightarrow> d f) else p f)"

definition tx_pwr_ctrl_fields :: "(string \<times> string) list" where
  "tx_pwr_ctrl_fields =
    [(''ant_gain_2g'', ''ANT_GAIN_2G''),
     (''ant_gain_5g_band1'', ''ANT_GAIN_5G_BAND1''),
     (''ant_gain_5g_band2'', ''ANT_GAIN_5G_BAND2''),
     (''ant_gain_5g_band3'', ''ANT_GAIN_5G_BAND3''),
     (''band_edge_2g_lo_dss'', ''BAND_2G_LOWER_EDGE_BACKOFF_DSSS''),
     (''band_edge_2g_lo_ht'', ''BAND_2G_LOWER_EDGE_BACKOFF_HT''),
     (''band_edge_2g_lo_he'', ''BAND_2G_LOWER_EDGE_BACKOFF_HE''),
     (''band_edge_2g_hi_dsss'', ''BAND_2G_UPPER_EDGE_BACKOFF_DSSS''),
     (''band_edge_2g_hi_ht'', ''BAND_2G_UPPER_EDGE_BACKOFF_HT''),
     (''band_edge_2g_hi_he'', ''BAND_2G_UPPER_EDGE_BACKOFF_HE''),
     (''band_edge_5g_unii_1_lo_ht'', ''BAND_UNII_1_LOWER_EDGE_BACKOFF_HT''),
     (''band_edge_5g_unii_1_lo_he'', ''BAND_UNII_1_LOWER_EDGE_BACKOFF_HE''),
     (''band_edge_5g_unii_1_hi_ht'', ''BAND_UNII_1_UPPER_EDGE_BACKOFF_HT''),
     (''band_edge_5g_unii_1_hi_he'', ''BAND_UNII_1_UPPER_EDGE_BACKOFF_HE''),
     (''band_edge_5g_unii_2a_lo_ht'', ''BAND_UNII_2A_LOWER_EDGE_BACKOFF_HT''),
     (''band_edge_5g_unii_2a_lo_he'', ''BAND_UNII_2A_LOWER_EDGE_BACKOFF_HE''),
     (''band_edge_5g_unii_2a_hi_ht'', ''BAND_UNII_2A_UPPER_EDGE_BACKOFF_HT''),
     (''band_edge_5g_unii_2a_hi_he'', ''BAND_UNII_2A_UPPER_EDGE_BACKOFF_HE''),
     (''band_edge_5g_unii_2c_lo_ht'', ''BAND_UNII_2C_LOWER_EDGE_BACKOFF_HT''),
     (''band_edge_5g_unii_2c_lo_he'', ''BAND_UNII_2C_LOWER_EDGE_BACKOFF_HE''),
     (''band_edge_5g_unii_2c_hi_ht'', ''BAND_UNII_2C_UPPER_EDGE_BACKOFF_HT''),
     (''band_edge_5g_unii_2c_hi_he'', ''BAND_UNII_2C_UPPER_EDGE_BACKOFF_HE''),
     (''band_edge_5g_unii_3_lo_ht'', ''BAND_UNII_3_LOWER_EDGE_BACKOFF_HT''),
     (''band_edge_5g_unii_3_lo_he'', ''BAND_UNII_3_LOWER_EDGE_BACKOFF_HE''),
     (''band_edge_5g_unii_3_hi_ht'', ''BAND_UNII_3_UPPER_EDGE_BACKOFF_HT''),
     (''band_edge_5g_unii_3_hi_he'', ''BAND_UNII_3_UPPER_EDGE_BACKOFF_HE''),
     (''band_edge_5g_unii_4_lo_ht'', ''BAND_UNII_4_LOWER_EDGE_BACKOFF_HT''),
     (''band_edge_5g_unii_4_lo_he'', ''BAND_UNII_4_LOWER_EDGE_BACKOFF_HE''),
     (''band_edge_5g_unii_4_hi_ht'', ''BAND_UNII_4_UPPER_EDGE_BACKOFF_HT''),
     (''band_edge_5g_unii_4_hi_he'', ''BAND_UNII_4_UPPER_EDGE_BACKOFF_HE'')]"

definition configure_tx_pwr_settings ::
  "board \<Rightarrow> pwr_struct option \<Rightarrow> (string \<Rightarrow> int) \<Rightarrow> pwr_struct \<times> pwr_struct \<Rightarrow> pwr_struct \<times> pwr_struct" where
  "configure_tx_pwr_settings b dt cfg s =
     (case s of (ctrl, ceil) \<Rightarrow>
        let ctrl = set_fields (map fst tx_pwr_ctrl_fields) (map (cfg \<circ> snd) tx_pwr_ctrl_fields) ctrl;
            ceil = (if has_2g b
                    then (dt_override dt ceil_2g (set_tx_pwr_ceil_default b))
                           (''rf_tx_pwr_ceil_params_override'' \<mapsto> (if dt = None then 0 else 1))
                    else ceil);
            ceil = (if has_5g b then dt_override dt ceil_5g ceil else ceil)
        in (ctrl, ceil))"

lemma set_fields_table:
  assumes "distinct (map fst tbl)" and "(f, kopt) \<in> set tbl"
  shows "set_fields (map fst tbl) (map (cfg \<circ> snd) tbl) p f = Some (cfg kopt)"
  using assms
proof (induction tbl arbitrary: p)
  case (Cons a tbl)
  then show ?case
  proof (cases "f = fst a")
    case True
    with Cons.prems have "(f, kopt) = a" by (metis distinct.simps(2) fst_conv image_eqI list.set_map list.simps(9) set_ConsD)
    moreover from Cons.prems True have "f \<notin> fst ` set tbl" by simp
    ultimately show ?thesis by (auto simp: set_fields_def)
  qed (auto simp: set_fields_def)
qed simp

lemma tx_pwr_ctrl_distinct: "distinct (map fst tx_pwr_ctrl_fields)"
  by code_simp

lemmas ceil_defs = ceil_2g_def ceil_5g_def ceil_fields_def set_fields_def has_2g_def has_5g_def
  set_tx_pwr_ceil_default_def

lemma ceil_default_total: "\<forall>f \<in> set ceil_fields. set_tx_pwr_ceil_default b f \<noteq> None"
  by (cases b) (simp_all add: ceil_defs numeral_eq_Suc)

lemma ceil_sets:
  "set ceil_2g \<subseteq> set ceil_fields" "set ceil_5g \<subseteq> set ceil_fields" "set ceil_2g \<inter> set ceil_5g = {}"
  "''rf_tx_pwr_ceil_params_override'' \<notin> set ceil_2g \<union> set ceil_5g"
  by (simp_all add: ceil_2g_def ceil_5g_def ceil_fields_def)

text \<open>
  Transmit power: every control parameter gets its configuration value. On a named board
  all ceilings are set, from the device tree where it has them. On any other board, the
  Raspberry Pi among them, the ceilings are never written: the structure that device
  initialisation hands to the firmware is indeterminate.
\<close>

theorem tx_pwr_settings_spec:
  "\<exists>ctrl' ceil'. configure_tx_pwr_settings b dt cfg (Map.empty, Map.empty) = (ctrl', ceil')
     \<and> (\<forall>(f, kopt) \<in> set tx_pwr_ctrl_fields. ctrl' f = Some (cfg kopt))
     \<and> (\<forall>f \<in> set ceil_fields. ceil' f = None \<longleftrightarrow> b = OTHER_BOARD)
     \<and> (\<forall>d f v. dt = Some d \<and> d f = Some v \<and> b \<noteq> OTHER_BOARD \<and>
          (f \<in> set ceil_2g \<or> f \<in> set ceil_5g \<and> b \<noteq> NRF7002DK_NRF7001) \<longrightarrow> ceil' f = Some v)"
proof -
  obtain ctrl' ceil' where c: "configure_tx_pwr_settings b dt cfg (Map.empty, Map.empty) = (ctrl', ceil')"
    by fastforce
  have "ctrl' f = Some (cfg kopt)" if "(f, kopt) \<in> set tx_pwr_ctrl_fields" for f kopt
    using c set_fields_table [OF tx_pwr_ctrl_distinct that]
    by (auto simp: configure_tx_pwr_settings_def Let_def)
  moreover have "ceil' f = None \<longleftrightarrow> b = OTHER_BOARD" if "f \<in> set ceil_fields" for f
    using c ceil_default_total [of b] that
    by (auto simp: configure_tx_pwr_settings_def Let_def dt_override_def has_2g_def has_5g_def
        split: if_splits option.splits)
  moreover have "ceil' f = Some v" if "dt = Some d" "d f = Some v" "b \<noteq> OTHER_BOARD"
      "f \<in> set ceil_2g \<or> f \<in> set ceil_5g \<and> b \<noteq> NRF7002DK_NRF7001" for d f v
    using c that ceil_sets(4)
    by (cases b) (auto simp: configure_tx_pwr_settings_def Let_def dt_override_def has_2g_def has_5g_def)
  ultimately show ?thesis using c by blast
qed

theorem tx_pwr_settings_spec_witness:
  "fst (configure_tx_pwr_settings OTHER_BOARD None (\<lambda>_. 2) (Map.empty, Map.empty)) ''ant_gain_2g'' = Some 2
   \<and> snd (configure_tx_pwr_settings OTHER_BOARD None (\<lambda>_. 2) (Map.empty, Map.empty)) ''max_pwr_2g_dsss'' = None"
proof -
  have "(''ant_gain_2g'', ''ANT_GAIN_2G'') \<in> set tx_pwr_ctrl_fields" "''max_pwr_2g_dsss'' \<in> set ceil_fields"
    by (simp_all add: tx_pwr_ctrl_fields_def ceil_fields_def ceil_2g_def)
  with tx_pwr_settings_spec [of OTHER_BOARD None "\<lambda>_. 2"] show ?thesis by fastforce
qed

subsection \<open>Signal strength\<close>

text \<open>
  The signal of a received frame comes in hundredths of a dBm; C division truncates towards
  zero. The interface context also has the time of the record; \<open>ktime\<close> is the clock.
\<close>

record rssi_rec =
  rssi :: "16 word"
  rssi_timestamp_us :: ulong

definition MBM_TO_DBM :: "int \<Rightarrow> int" where
  "MBM_TO_DBM gain = gain sdiv 100"

definition nrf_wifi_process_rssi_from_rx ::
  "u64 \<Rightarrow> bool \<Rightarrow> 16 word \<Rightarrow> rssi_rec option \<Rightarrow> rssi_rec option" where
  "nrf_wifi_process_rssi_from_rx ktime has_rpu_ctx sig v =
     (case v of None \<Rightarrow> None
      | Some r \<Rightarrow>
          if \<not> has_rpu_ctx then Some r
          else Some (r\<lparr>rssi := of_int (MBM_TO_DBM (sint sig)),
                       rssi_timestamp_us := shim_time_get_curr_us ktime\<rparr>))"

lemma sdiv_100:
  fixes x :: int
  shows "\<bar>x sdiv 100\<bar> = \<bar>x\<bar> div 100" and "0 \<le> x \<Longrightarrow> 0 \<le> x sdiv 100" and "x \<le> 0 \<Longrightarrow> x sdiv 100 \<le> 0"
  by (auto simp: signed_divide_int_def abs_mult sgn_if)

text \<open>The stored signal is the received one to within a dBm, in the direction of zero; nothing is cut off.\<close>

lemma rssi_recorded:
  assumes "nrf_wifi_process_rssi_from_rx ktime True sig (Some r) = Some r'"
  shows "\<bar>sint (rssi r')\<bar> = \<bar>sint sig\<bar> div 100" and "rssi_timestamp_us r' = ktime div 1000"
proof -
  let ?q = "sint sig sdiv 100"
  have s: "- (2 ^ 15) \<le> sint sig" "sint sig < 2 ^ 15"
    using sint_greater_eq [of sig] sint_lt [of sig] by simp_all
  have "\<bar>?q\<bar> = \<bar>sint sig\<bar> div 100" by (rule sdiv_100)
  moreover have "\<bar>sint sig\<bar> div 100 < 2 ^ 15" using s by (simp add: abs_le_iff div_less_iff_less_mult abs_less_iff)
  ultimately have "- (2 ^ 15) \<le> ?q" "?q < 2 ^ 15" by linarith+
  then have "sint (of_int ?q :: 16 word) = ?q"
    by (simp add: signed_of_int signed_take_bit_int_eq_self_iff)
  with assms show "\<bar>sint (rssi r')\<bar> = \<bar>sint sig\<bar> div 100"
    by (auto simp: nrf_wifi_process_rssi_from_rx_def MBM_TO_DBM_def sdiv_100)
  show "rssi_timestamp_us r' = ktime div 1000"
    using assms by (auto simp: nrf_wifi_process_rssi_from_rx_def shim_time_get_curr_us_def)
qed

subsection \<open>Multicast list\<close>

text \<open>
  The command holds \<open>sz\<close> bytes of which the first address starts at \<open>off\<close>; room for the other
  addresses is allocated behind it. The allocation may sleep. \<open>mc\<close> are the addresses of the
  device, \<open>sent\<close> is the command as it goes to the firmware.
\<close>

fun copy_mc :: "nat \<Rightarrow> u8 list list \<Rightarrow> nat \<Rightarrow> u8 list \<Rightarrow> u8 list outcome" where
  "copy_mc off [] indx info = Ret info"
| "copy_mc off (ha # mc) indx info =
     and_then (put_at (off + indx * 6) (take 6 ha) info) (copy_mc off mc (indx + 1))"

definition nrf_wifi_netdev_set_multicast_list ::
  "exec_context \<Rightarrow> bool \<Rightarrow> nat \<Rightarrow> nat \<Rightarrow> u8 list list \<Rightarrow> u8 list option outcome" where
  "nrf_wifi_netdev_set_multicast_list ctx available sz off mc =
     (if ctx \<noteq> ProcessCtx then UB AtomicSleep
      else if \<not> available then Ret None
      else and_then (copy_mc off mc 0 (replicate (sz + length mc * 6) 0)) (\<lambda>sent. Ret (Some sent)))"

lemma copy_mc_spec:
  assumes "\<forall>ha \<in> set mc. length ha = 6" and "off + (indx + length mc) * 6 \<le> length info"
  shows "copy_mc off mc indx info =
     Ret (take (off + indx * 6) info @ concat mc @ drop (off + (indx + length mc) * 6) info)"
  using assms
proof (induction mc arbitrary: indx info)
  case (Cons ha mc)
  let ?i = "take (off + indx * 6) info @ ha @ drop (off + indx * 6 + 6) info"
  have "length ha = 6" using Cons.prems(1) by simp
  then have "put_at (off + indx * 6) (take 6 ha) info = Ret ?i"
    using Cons.prems(2) by (simp add: put_at_def)
  moreover have "copy_mc off mc (indx + 1) ?i =
      Ret (take (off + (indx + 1) * 6) ?i @ concat mc @ drop (off + (indx + 1 + length mc) * 6) ?i)"
    using Cons.prems \<open>length ha = 6\<close> by (intro Cons.IH) simp_all
  moreover have "take (off + (indx + 1) * 6) ?i = take (off + indx * 6) info @ ha"
    using Cons.prems(2) \<open>length ha = 6\<close> by simp
  moreover have "drop (off + (indx + 1 + length mc) * 6) ?i = drop (off + (indx + 1 + length mc) * 6) info"
    using Cons.prems(2) \<open>length ha = 6\<close> by (simp add: add_ac)
  ultimately show ?case by (simp add: add_ac)
qed simp

text \<open>
  The whole list goes to the firmware behind the zeroed head of the command. The routine can
  only run where sleeping is allowed.
\<close>

lemma set_multicast_list_spec:
  assumes "\<forall>ha \<in> set mc. length ha = 6" and "off \<le> sz"
  shows "nrf_wifi_netdev_set_multicast_list ProcessCtx True sz off mc =
     Ret (Some (replicate off 0 @ concat mc @ replicate (sz - off) 0))"
    and "nrf_wifi_netdev_set_multicast_list SoftIrq True sz off mc = UB AtomicSleep"
  using copy_mc_spec [OF assms(1), of off 0 "replicate (sz + length mc * 6) 0"] assms(2)
  by (simp_all add: nrf_wifi_netdev_set_multicast_list_def min_def)

end
