(* ===== verification/Cfg80211_Mlme.thy ===== *)
theory Cfg80211_Mlme
  imports Nrf_Prelude
begin

text \<open>
  The connection part of the cfg80211 interface (\<open>cfg80211_if.c\<close>): authentication, association,
  deauthentication, disassociation, scanning, management frame transmission and the cookies
  that tie frame transmissions to their status reports. The firmware and cfg80211 are seen
  through the commands and reports they are given; the firmware's answer to a command and
  the kernel's element search \<open>cfg80211_find_ie\<close> are parameters. A copy into a command structure
  is checked against the size of the array it goes to.
\<close>

subsection \<open>Commands, reports and state\<close>

record mlme_consts =
  STATUS_FAIL :: int
  NRF_WIFI_MAX_IE_LEN :: nat
  NRF_WIFI_MAX_SSID_LEN :: nat
  NRF_WIFI_MAX_KEY_LENGTH :: nat
  NRF_WIFI_MAX_SAE_DATA_LENGTH :: nat
  NRF_WIFI_SCAN_MAX_NUM_FREQUENCIES :: nat
  NRF_WIFI_SCAN_MAX_NUM_SSIDS :: nat
  LOCAL_STATE_CHANGE :: u32
  FRAME_OFFCHANNEL_TX_OK :: u32
  FRAME_DONT_WAIT_FOR_ACK :: u32
  FRAME_TX_NO_CCK_RATE :: u32
  EVENT_MLME_ACK :: u32
  size_ie :: nat
  size_ssid :: nat
  size_key :: nat
  size_sae :: nat
  size_frame :: nat

definition sizes_ok :: "mlme_consts \<Rightarrow> bool" where
  "sizes_ok K \<longleftrightarrow> NRF_WIFI_MAX_IE_LEN K \<le> size_ie K \<and> NRF_WIFI_MAX_SSID_LEN K \<le> size_ssid K \<and>
     NRF_WIFI_MAX_KEY_LENGTH K \<le> size_key K \<and> NRF_WIFI_MAX_SAE_DATA_LENGTH K \<le> size_sae K"

datatype cipher = NO_CIPHER | WEP40 | WEP104

record auth_info =
  ai_frequency :: u32
  ai_auth_type :: nat
  ai_bssid :: "u8 list"
  ai_bss_ie :: "u8 list"
  ai_ssid :: "u8 list"
  ai_key_idx :: u8
  ai_key :: "u8 list"
  ai_cipher :: cipher
  ai_sae :: "u8 list"
  ai_scan_width :: nat
  ai_signal :: int
  ai_capability :: u16
  ai_beacon_interval :: u16
  ai_tsf :: u64
  ai_from_beacon :: bool

record assoc_info =
  as_frequency :: u32
  as_bssid :: "u8 list"
  as_ssid :: "u8 list"
  as_wpa_ie :: "u8 list"
  as_use_mfp :: bool
  as_control_port :: bool

record disconn_info =
  di_reason_code :: u16
  di_mac_addr :: "u8 list"
  di_flags :: u32

text \<open>The fixed-size array of SSIDs is a list of that many entries, empty ones zeroed.\<close>

record scan_params =
  passive_scan :: bool
  num_scan_ssids :: nat
  scan_ssids :: "u8 list list"

record mgmt_tx_info =
  mt_flags :: u32
  mt_frequency :: u32
  mt_dur :: u32
  mt_frame :: "u8 list"
  mt_freq_params_frequency :: u32
  mt_freq_params_center1 :: u32
  mt_freq_params_center2 :: u32
  mt_freq_params_width :: nat
  mt_freq_params_type :: nat
  mt_host_cookie :: u64

datatype fw_cmd =
  CmdAuth auth_info | CmdAssoc assoc_info | CmdDeauth disconn_info | CmdDisassoc disconn_info
| CmdScan scan_params | CmdMgmtTx mgmt_tx_info | CmdGetScanResults

datatype report =
  RxMlme "u8 list" | RxAssocResp "nat option" "u8 list" | TxMlme "u8 list" | Disconnected u16
| ScanDone nat bool | TxStatus u64 "u8 list" bool | ReadyOnChannel u64 u32 u32
| RemainExpired u64 u32 | RxMgmt u32 int "u8 list" u32 | RxUnprotMlme "u8 list"
| InformBss u32 "u8 list" u64 u16 u16 int | InformBssFrame u16 int "u8 list"

record cookie_info =
  host_cookie :: u64
  rpu_cookie :: u64

record mlme =
  bss :: "nat option"
  scan_req :: "nat option"
  cookie_list :: "cookie_info list"
  cmd_frame_cookie_g :: u64
  remain_on_channel :: "u32 option"
  remain_on_channel_cookie :: u64
  get_scan_results :: bool
  req_n_channels :: "nat \<Rightarrow> nat"
  cmds :: "fw_cmd list"
  reports :: "report list"
  live :: int

type_synonym fw_reply = "fw_cmd \<Rightarrow> int"

text \<open>The offset of the first element with a given identifier in a string of elements.\<close>

type_synonym find_ie = "u8 \<Rightarrow> u8 list \<Rightarrow> nat option"

definition NL80211_BSS_CHAN_WIDTH_20 :: nat where "NL80211_BSS_CHAN_WIDTH_20 = 0"

definition NL80211_CHAN_WIDTH_20 :: nat where "NL80211_CHAN_WIDTH_20 = 1"

definition NL80211_CHAN_HT20 :: nat where "NL80211_CHAN_HT20 = 1"

abbreviation WLAN_EID_SSID :: u8 where "WLAN_EID_SSID \<equiv> 0"

definition send :: "fw_cmd \<Rightarrow> mlme \<Rightarrow> mlme" where
  "send c s = s\<lparr>cmds := cmds s @ [c]\<rparr>"

definition tell :: "report \<Rightarrow> mlme \<Rightarrow> mlme" where
  "tell r s = s\<lparr>reports := reports s @ [r]\<rparr>"

definition kzalloc_cmd :: "mlme \<Rightarrow> mlme" where "kzalloc_cmd s = s\<lparr>live := live s + 1\<rparr>"

definition kfree_cmd :: "mlme \<Rightarrow> mlme" where "kfree_cmd s = s\<lparr>live := live s - 1\<rparr>"

subsection \<open>Authentication and association\<close>

record auth_request =
  ar_frequency :: u32
  ar_bssid :: "u8 list"
  ar_ies :: "u8 list option"
  ar_auth_type :: nat
  ar_key :: "u8 list"
  ar_key_idx :: u8
  ar_auth_data :: "u8 list"
  ar_signal :: int
  ar_capability :: u16
  ar_beacon_interval :: u16
  ar_tsf :: u64
  ar_from_beacon :: bool

text \<open>
  The SSID element of the BSS, as both handlers look it up: the three conditions of the check
  are evaluated in order, and the length byte must exist to be read.
\<close>

datatype ssid_result = SsidInvalid | SsidTooLong | Ssid "u8 list"

definition get_ssid :: "mlme_consts \<Rightarrow> find_ie \<Rightarrow> u8 list \<Rightarrow> ssid_result outcome" where
  "get_ssid K find_ie ies =
     (case find_ie WLAN_EID_SSID ies of
        None \<Rightarrow> Ret SsidInvalid
      | Some off \<Rightarrow>
          if length ies < 2 then Ret SsidInvalid
          else if length ies \<le> off + 1 then UB OutOfBounds
          else let n = unat (ies ! (off + 1)) in
            if off + 2 + n > length ies then Ret SsidInvalid
            else if n > NRF_WIFI_MAX_SSID_LEN K then Ret SsidTooLong
            else and_then (copy_to (size_ssid K) (take n (drop (off + 2) ies))) (\<lambda>b. Ret (Ssid b)))"

definition auth_key :: "mlme_consts \<Rightarrow> auth_request \<Rightarrow> auth_info \<Rightarrow> auth_info option outcome" where
  "auth_key K req info =
     (if ar_key req = [] then Ret (Some info)
      else if length (ar_key req) > NRF_WIFI_MAX_KEY_LENGTH K then Ret None
      else and_then (copy_to (size_key K) (ar_key req)) (\<lambda>k.
        Ret (Some (info\<lparr>ai_key_idx := ar_key_idx req, ai_key := k,
               ai_cipher := (if length (ar_key req) = 5 then WEP40 else WEP104)\<rparr>))))"

definition auth_sae :: "mlme_consts \<Rightarrow> auth_request \<Rightarrow> auth_info \<Rightarrow> auth_info option outcome" where
  "auth_sae K req info =
     (if ar_auth_data req = [] then Ret (Some info)
      else if length (ar_auth_data req) > NRF_WIFI_MAX_SAE_DATA_LENGTH K then Ret None
      else and_then (copy_to (size_sae K) (ar_auth_data req)) (\<lambda>d. Ret (Some (info\<lparr>ai_sae := d\<rparr>))))"

definition nrf_wifi_cfg80211_auth ::
  "mlme_consts \<Rightarrow> find_ie \<Rightarrow> fw_reply \<Rightarrow> bool \<Rightarrow> auth_request \<Rightarrow> mlme \<Rightarrow> (int \<times> mlme) outcome" where
  "nrf_wifi_cfg80211_auth K find_ie fw alloc req s =
     (if \<not> alloc then Ret (-1, s) else
      let s = kzalloc_cmd s; out = (\<lambda>status s. Ret (status, kfree_cmd s)) in
      case ar_ies req of
        None \<Rightarrow> out (-EINVAL) s
      | Some ies \<Rightarrow>
          if ies = [] then out (-EINVAL) s
          else if length ies > NRF_WIFI_MAX_IE_LEN K then out (-EINVAL) s
          else and_then (copy_to (size_ie K) ies) (\<lambda>ie.
            and_then (get_ssid K find_ie ies) (\<lambda>r.
              case r of
                SsidInvalid \<Rightarrow> out (-EINVAL) s
              | SsidTooLong \<Rightarrow> out (-1) s
              | Ssid ssid \<Rightarrow>
                  let info = \<lparr>ai_frequency = ar_frequency req, ai_auth_type = ar_auth_type req,
                       ai_bssid = ar_bssid req, ai_bss_ie = ie, ai_ssid = ssid, ai_key_idx = 0,
                       ai_key = [], ai_cipher = NO_CIPHER, ai_sae = [],
                       ai_scan_width = NL80211_BSS_CHAN_WIDTH_20, ai_signal = ar_signal req,
                       ai_capability = ar_capability req,
                       ai_beacon_interval = ar_beacon_interval req, ai_tsf = ar_tsf req,
                       ai_from_beacon = ar_from_beacon req\<rparr> in
                  and_then (auth_key K req info) (\<lambda>i1.
                    case i1 of
                      None \<Rightarrow> out (-EINVAL) s
                    | Some i1 \<Rightarrow>
                        and_then (auth_sae K req i1) (\<lambda>i2.
                          case i2 of
                            None \<Rightarrow> out (-EINVAL) s
                          | Some i2 \<Rightarrow> out (fw (CmdAuth i2)) (send (CmdAuth i2) s))))))"

record assoc_request =
  sr_bss :: nat
  sr_frequency :: u32
  sr_bssid :: "u8 list"
  sr_ies :: "u8 list option"
  sr_ie :: "u8 list"
  sr_use_mfp :: bool
  sr_control_port :: bool

definition nrf_wifi_cfg80211_assoc ::
  "mlme_consts \<Rightarrow> find_ie \<Rightarrow> fw_reply \<Rightarrow> bool \<Rightarrow> assoc_request \<Rightarrow> mlme \<Rightarrow> (int \<times> mlme) outcome" where
  "nrf_wifi_cfg80211_assoc K find_ie fw alloc req s =
     (let s = s\<lparr>bss := Some (sr_bss req)\<rparr> in
      if \<not> alloc then Ret (-1, s) else
      let s = kzalloc_cmd s; out = (\<lambda>status s. Ret (status, kfree_cmd s)) in
      case sr_ies req of
        None \<Rightarrow> out (-EINVAL) s
      | Some ies \<Rightarrow>
          if ies = [] then out (-EINVAL) s
          else and_then (get_ssid K find_ie ies) (\<lambda>r.
            case r of
              SsidInvalid \<Rightarrow> out (-EINVAL) s
            | SsidTooLong \<Rightarrow> out (-1) s
            | Ssid ssid \<Rightarrow>
                if length (sr_ie req) > NRF_WIFI_MAX_IE_LEN K then out (-EINVAL) s
                else and_then (copy_to (size_ie K) (sr_ie req)) (\<lambda>wpa.
                  let c = CmdAssoc \<lparr>as_frequency = sr_frequency req, as_bssid = sr_bssid req,
                       as_ssid = ssid, as_wpa_ie = wpa, as_use_mfp = sr_use_mfp req,
                       as_control_port = sr_control_port req\<rparr> in
                  out (fw c) (send c s))))"

definition nrf_wifi_cfg80211_auth_resp_callbk_fn :: "u8 list \<Rightarrow> mlme \<Rightarrow> mlme" where
  "nrf_wifi_cfg80211_auth_resp_callbk_fn frame s = tell (RxMlme frame) s"

definition nrf_wifi_cfg80211_assoc_resp_callbk_fn :: "u8 list \<Rightarrow> mlme \<Rightarrow> mlme" where
  "nrf_wifi_cfg80211_assoc_resp_callbk_fn frame s = tell (RxAssocResp (bss s) frame) s"

subsection \<open>Deauthentication and disassociation\<close>

record disconn_request =
  dr_reason_code :: u16
  dr_addr :: "u8 list"
  dr_local_state_change :: bool

definition disconn_info_of :: "mlme_consts \<Rightarrow> disconn_request \<Rightarrow> disconn_info" where
  "disconn_info_of K req =
     \<lparr>di_reason_code = dr_reason_code req, di_mac_addr = dr_addr req,
      di_flags = (if dr_local_state_change req then LOCAL_STATE_CHANGE K else 0)\<rparr>"

definition nrf_wifi_cfg80211_deauth ::
  "mlme_consts \<Rightarrow> fw_reply \<Rightarrow> bool \<Rightarrow> disconn_request \<Rightarrow> mlme \<Rightarrow> int \<times> mlme" where
  "nrf_wifi_cfg80211_deauth K fw alloc req s =
     (if \<not> alloc then (-1, s) else
      let c = CmdDeauth (disconn_info_of K req); s = send c (kzalloc_cmd s); status = fw c in
      if status = STATUS_FAIL K then (status, s)
      else (status, tell (Disconnected (dr_reason_code req)) s))"

definition nrf_wifi_cfg80211_deauth_callbk_fn :: "u8 list \<Rightarrow> mlme \<Rightarrow> mlme" where
  "nrf_wifi_cfg80211_deauth_callbk_fn frame s = tell (TxMlme frame) s"

definition nrf_wifi_cfg80211_disassoc ::
  "mlme_consts \<Rightarrow> fw_reply \<Rightarrow> bool \<Rightarrow> disconn_request \<Rightarrow> mlme \<Rightarrow> int \<times> mlme" where
  "nrf_wifi_cfg80211_disassoc K fw alloc req s =
     (if \<not> alloc then (-1, s) else
      let c = CmdDisassoc (disconn_info_of K req); s = send c (kzalloc_cmd s); status = fw c in
      if status = STATUS_FAIL K then (status, s)
      else (status, tell (Disconnected (dr_reason_code req)) (s\<lparr>bss := None\<rparr>)))"

definition nrf_wifi_cfg80211_disassoc_callbk_fn :: "u8 list \<Rightarrow> mlme \<Rightarrow> mlme" where
  "nrf_wifi_cfg80211_disassoc_callbk_fn frame s = tell (TxMlme frame) s"

subsection \<open>Scanning\<close>

text \<open>
  The loop over the requested SSIDs. It writes entry \<open>i\<close> of the array, \<open>i\<close> being the index in the
  request, while the number of entries counts the SSIDs that are not empty. \<open>None\<close> is the
  jump to \<open>out\<close> with status -1.
\<close>

fun scan_ssid_loop :: "mlme_consts \<Rightarrow> nat \<Rightarrow> u8 list list \<Rightarrow> scan_params \<Rightarrow> scan_params option outcome" where
  "scan_ssid_loop K i [] p = Ret (Some p)"
| "scan_ssid_loop K i (ssid # rest) p =
     (if ssid = [] then scan_ssid_loop K (Suc i) rest p
      else if length ssid > NRF_WIFI_MAX_SSID_LEN K then Ret None
      else if num_scan_ssids p = NRF_WIFI_SCAN_MAX_NUM_SSIDS K then Ret None
      else if length (scan_ssids p) \<le> i then UB OutOfBounds
      else and_then (copy_to (size_ssid K) ssid) (\<lambda>b.
        scan_ssid_loop K (Suc i) rest
          (p\<lparr>scan_ssids := (scan_ssids p)[i := b], num_scan_ssids := num_scan_ssids p + 1\<rparr>)))"

record scan_request =
  sq_id :: nat
  sq_is_ap :: bool
  sq_ssids :: "u8 list list"

definition scan_params_init :: "mlme_consts \<Rightarrow> scan_request \<Rightarrow> scan_params" where
  "scan_params_init K req =
     \<lparr>passive_scan = (sq_ssids req = []), num_scan_ssids = 0,
      scan_ssids = replicate (NRF_WIFI_SCAN_MAX_NUM_SSIDS K) []\<rparr>"

text \<open>
  The handler up to the call of the firmware, and the part after it: the request is stored only
  once the call has returned. \<open>scan_command\<close> also returns whether the firmware took the command.
  The number of channels of the request, which belongs to cfg80211, is overwritten with 0.
\<close>

definition clear_channels :: "scan_request \<Rightarrow> mlme \<Rightarrow> mlme" where
  "clear_channels req s = s\<lparr>req_n_channels := (req_n_channels s)(sq_id req := 0)\<rparr>"

definition scan_command ::
  "mlme_consts \<Rightarrow> fw_reply \<Rightarrow> bool \<Rightarrow> scan_request \<Rightarrow> mlme \<Rightarrow> (int \<times> bool \<times> mlme) outcome" where
  "scan_command K fw alloc req s =
     (if sq_is_ap req then Ret (-EOPNOTSUPP, False, s)
      else if req_n_channels s (sq_id req) > NRF_WIFI_SCAN_MAX_NUM_FREQUENCIES K then Ret (-EINVAL, False, s)
      else let s = clear_channels req s in
      if \<not> alloc then Ret (-1, False, s)
      else let s = kzalloc_cmd s in
        and_then (scan_ssid_loop K 0 (sq_ssids req) (scan_params_init K req)) (\<lambda>r.
          case r of
            None \<Rightarrow> Ret (-1, False, kfree_cmd s)
          | Some p \<Rightarrow> Ret (fw (CmdScan p), fw (CmdScan p) \<noteq> STATUS_FAIL K, kfree_cmd (send (CmdScan p) s))))"

definition scan_store :: "scan_request \<Rightarrow> mlme \<Rightarrow> mlme" where
  "scan_store req s = s\<lparr>scan_req := Some (sq_id req), get_scan_results := False\<rparr>"

definition nrf_wifi_cfg80211_scan ::
  "mlme_consts \<Rightarrow> fw_reply \<Rightarrow> bool \<Rightarrow> scan_request \<Rightarrow> mlme \<Rightarrow> (int \<times> mlme) outcome" where
  "nrf_wifi_cfg80211_scan K fw alloc req s =
     and_then (scan_command K fw alloc req s) (\<lambda>(status, accepted, s).
       Ret (status, if accepted then scan_store req s else s))"

definition nrf_wifi_cfg80211_scan_done :: "bool \<Rightarrow> mlme \<Rightarrow> mlme" where
  "nrf_wifi_cfg80211_scan_done aborted s =
     (case scan_req s of
        None \<Rightarrow> s
      | Some req \<Rightarrow> (tell (ScanDone req aborted) s)\<lparr>scan_req := None\<rparr>)"

datatype bss_signal = MBM int | UNSPEC int | OTHER_SIGNAL

record scan_result =
  sc_frequency :: u32
  sc_mac_addr :: "u8 list"
  sc_ies_tsf :: u64
  sc_capability :: u16
  sc_beacon_interval :: u16
  sc_signal :: bss_signal

definition nrf_wifi_cfg80211_scan_results :: "scan_result \<Rightarrow> mlme \<Rightarrow> mlme" where
  "nrf_wifi_cfg80211_scan_results r s =
     tell (InformBss (sc_frequency r) (sc_mac_addr r) (sc_ies_tsf r) (sc_capability r)
            (sc_beacon_interval r)
            (case sc_signal r of MBM x \<Rightarrow> x | UNSPEC x \<Rightarrow> x | OTHER_SIGNAL \<Rightarrow> 0)) s"

definition nrf_wifi_cfg80211_scan_res_callbk_fn :: "scan_result \<Rightarrow> bool \<Rightarrow> mlme \<Rightarrow> mlme" where
  "nrf_wifi_cfg80211_scan_res_callbk_fn r more_res s =
     (let s = nrf_wifi_cfg80211_scan_results r s in
      if more_res then s else nrf_wifi_cfg80211_scan_done False s)"

definition nrf_wifi_cfg80211_scan_done_callbk_fn :: "mlme \<Rightarrow> mlme" where
  "nrf_wifi_cfg80211_scan_done_callbk_fn s = nrf_wifi_cfg80211_scan_done False s"

definition nrf_wifi_cfg80211_scan_abort_callbk_fn :: "mlme \<Rightarrow> mlme" where
  "nrf_wifi_cfg80211_scan_abort_callbk_fn s = nrf_wifi_cfg80211_scan_done True s"

definition umac_event_scan_done :: "bool \<Rightarrow> mlme \<Rightarrow> mlme outcome" where
  "umac_event_scan_done alloc s =
     (if \<not> alloc then UB NullDeref
      else Ret ((send CmdGetScanResults (kzalloc_cmd s))\<lparr>get_scan_results := True\<rparr>))"

definition frame_subtype :: "u8 list \<Rightarrow> u16" where
  "frame_subtype frame = get_le16 frame AND 0x00FC"

definition nrf_wifi_cfg80211_rx_bcn_prb_rsp_callbk_fn :: "u8 list \<Rightarrow> u16 \<Rightarrow> int \<Rightarrow> mlme \<Rightarrow> mlme" where
  "nrf_wifi_cfg80211_rx_bcn_prb_rsp_callbk_fn frame frequency signal s =
     (if length frame < 24 \<or> (frame_subtype frame \<noteq> 0x0050 \<and> frame_subtype frame \<noteq> 0x0080) then s
      else tell (InformBssFrame frequency signal frame) s)"

subsection \<open>Management frames and cookies\<close>

record mgmt_tx_params =
  tp_offchan :: bool
  tp_dont_wait_for_ack :: bool
  tp_no_cck :: bool
  tp_chan :: "u32 option"
  tp_wait :: u32
  tp_buf :: "u8 list"

definition next_cookie :: "u64 \<Rightarrow> u64" where
  "next_cookie c = (if c + 1 = 0 then c + 2 else c + 1)"

definition mgmt_tx_flags :: "mlme_consts \<Rightarrow> mgmt_tx_params \<Rightarrow> u32" where
  "mgmt_tx_flags K p =
     (if tp_offchan p then FRAME_OFFCHANNEL_TX_OK K else 0)
     OR (if tp_dont_wait_for_ack p then FRAME_DONT_WAIT_FOR_ACK K else 0)
     OR (if tp_no_cck p then FRAME_TX_NO_CCK_RATE K else 0)"

definition mgmt_tx_info_of :: "mlme_consts \<Rightarrow> mgmt_tx_params \<Rightarrow> u8 list \<Rightarrow> u64 \<Rightarrow> mgmt_tx_info" where
  "mgmt_tx_info_of K p frame cookie =
     \<lparr>mt_flags = mgmt_tx_flags K p,
      mt_frequency = (case tp_chan p of Some f \<Rightarrow> f | None \<Rightarrow> 0),
      mt_dur = tp_wait p, mt_frame = frame, mt_freq_params_frequency = 2412,
      mt_freq_params_center1 = 2412, mt_freq_params_center2 = 0,
      mt_freq_params_width = NL80211_CHAN_WIDTH_20, mt_freq_params_type = NL80211_CHAN_HT20,
      mt_host_cookie = cookie\<rparr>"

text \<open>The result is the status and what is written to the caller's cookie.\<close>

definition nrf_wifi_cfg80211_mgmt_tx ::
  "mlme_consts \<Rightarrow> fw_reply \<Rightarrow> bool \<Rightarrow> mgmt_tx_params \<Rightarrow> mlme \<Rightarrow> (int \<times> u64 option \<times> mlme) outcome" where
  "nrf_wifi_cfg80211_mgmt_tx K fw alloc p s =
     (if \<not> alloc then Ret (-1, None, s) else
      let s = kzalloc_cmd s in
      and_then (copy_to (size_frame K) (tp_buf p)) (\<lambda>frame.
        let cookie = next_cookie (cmd_frame_cookie_g s);
            c = CmdMgmtTx (mgmt_tx_info_of K p frame cookie);
            s = s\<lparr>cmd_frame_cookie_g := cookie\<rparr> in
        Ret (fw c, Some cookie, kfree_cmd (send c s))))"

text \<open>The registration handler looks for a matching registration and does nothing with the result.\<close>

definition nrf_wifi_cfg80211_mgmt_frame_reg :: "bool \<Rightarrow> mlme \<Rightarrow> mlme" where
  "nrf_wifi_cfg80211_mgmt_frame_reg alloc s = (if alloc then kfree_cmd (kzalloc_cmd s) else s)"

definition nrf_wifi_cfg80211_mgmt_rx_callbk_fn :: "u32 \<Rightarrow> int \<Rightarrow> u8 list \<Rightarrow> u32 \<Rightarrow> mlme \<Rightarrow> mlme" where
  "nrf_wifi_cfg80211_mgmt_rx_callbk_fn frequency signal frame flags s =
     tell (RxMgmt frequency signal frame flags) s"

definition nrf_wifi_cfg80211_unprot_mlme_mgmt_rx_callbk_fn :: "u8 list \<Rightarrow> mlme \<Rightarrow> mlme" where
  "nrf_wifi_cfg80211_unprot_mlme_mgmt_rx_callbk_fn frame s = tell (RxUnprotMlme frame) s"

definition nrf_wifi_cookie_rsp_callbk_fn :: "bool \<Rightarrow> u64 \<Rightarrow> u64 \<Rightarrow> mlme \<Rightarrow> mlme" where
  "nrf_wifi_cookie_rsp_callbk_fn alloc host rpu s =
     (if \<not> alloc then s
      else s\<lparr>cookie_list := \<lparr>host_cookie = host, rpu_cookie = rpu\<rparr> # cookie_list s\<rparr>)"

text \<open>The loop removes every entry that matches and remembers the last one.\<close>

fun take_cookie :: "u64 \<Rightarrow> cookie_info list \<Rightarrow> u64 \<Rightarrow> u64 \<times> cookie_info list" where
  "take_cookie cookie [] host = (host, [])"
| "take_cookie cookie (c # cs) host =
     (if rpu_cookie c \<noteq> cookie
      then (let (h, rest) = take_cookie cookie cs host in (h, c # rest))
      else take_cookie cookie cs (host_cookie c))"

definition nrf_wifi_cfg80211_tx_status_callbk_fn ::
  "mlme_consts \<Rightarrow> u64 \<Rightarrow> u32 \<Rightarrow> u8 list \<Rightarrow> mlme \<Rightarrow> mlme" where
  "nrf_wifi_cfg80211_tx_status_callbk_fn K cookie flags frame s =
     (let (host, rest) = take_cookie cookie (cookie_list s) 0 in
      tell (TxStatus host frame (flags AND EVENT_MLME_ACK K \<noteq> 0)) (s\<lparr>cookie_list := rest\<rparr>))"

text \<open>The handler fills in a command, but never sends it, and always fails.\<close>

definition nrf_wifi_cfg80211_remain_on_channel :: "bool \<Rightarrow> u32 \<Rightarrow> mlme \<Rightarrow> int \<times> u64 option \<times> mlme" where
  "nrf_wifi_cfg80211_remain_on_channel alloc chan s =
     (if \<not> alloc then (-1, None, s)
      else (-1, Some (remain_on_channel_cookie s),
            s\<lparr>remain_on_channel := Some chan,
              remain_on_channel_cookie := remain_on_channel_cookie s + 1\<rparr>))"

definition nrf_wifi_cfg80211_cancel_remain_on_channel :: "u64 \<Rightarrow> mlme \<Rightarrow> int \<times> mlme" where
  "nrf_wifi_cfg80211_cancel_remain_on_channel cookie s = (-1, s)"

definition nrf_wifi_cfg80211_roc_callbk_fn :: "u64 \<Rightarrow> u32 \<Rightarrow> u32 \<Rightarrow> mlme \<Rightarrow> mlme" where
  "nrf_wifi_cfg80211_roc_callbk_fn cookie frequency dur s =
     (case List.find (\<lambda>c. rpu_cookie c = cookie) (cookie_list s) of
        None \<Rightarrow> s
      | Some c \<Rightarrow> tell (ReadyOnChannel (host_cookie c) frequency dur) s)"

text \<open>
  The loop of the cancel callback: the list entry is never NULL, so each round either continues
  with the next entry or leaves the loop, and the report below the test is reached in
  neither case. \<open>matched\<close> is \<open>match_cookie_found\<close> at the beginning of a round; the value
  returned is whether the report was made.
\<close>

fun roc_cancel_loop :: "u64 \<Rightarrow> bool \<Rightarrow> cookie_info option list \<Rightarrow> bool" where
  "roc_cancel_loop cookie matched [] = False"
| "roc_cancel_loop cookie matched (entry # rest) =
     (case entry of
        Some c \<Rightarrow> if rpu_cookie c \<noteq> cookie then roc_cancel_loop cookie matched rest else False
      | None \<Rightarrow> matched \<or> roc_cancel_loop cookie matched rest)"

definition nrf_wifi_cfg80211_roc_cancel_callbk_fn :: "u64 \<Rightarrow> u32 \<Rightarrow> mlme \<Rightarrow> mlme" where
  "nrf_wifi_cfg80211_roc_cancel_callbk_fn cookie frequency s =
     (if roc_cancel_loop cookie False (map Some (cookie_list s))
      then tell (RemainExpired cookie frequency) s else s)"

subsection \<open>Authentication and association requests\<close>

text \<open>
  What \<open>cfg80211_find_ie\<close> promises: an element it finds has the identifier asked for and lies
  completely inside the data.
\<close>

definition finds_ie :: "find_ie \<Rightarrow> bool" where
  "finds_ie find_ie \<longleftrightarrow>
     (\<forall>eid ies off. find_ie eid ies = Some off \<longrightarrow>
        off + 2 \<le> length ies \<and> ies ! off = eid \<and> off + 2 + unat (ies ! (off + 1)) \<le> length ies)"

definition ssid_at :: "u8 list \<Rightarrow> nat \<Rightarrow> u8 list" where
  "ssid_at ies off = take (unat (ies ! (off + 1))) (drop (off + 2) ies)"

lemma get_ssid_eq:
  assumes "sizes_ok K" and "finds_ie find_ie"
  shows "get_ssid K find_ie ies =
    Ret (case find_ie WLAN_EID_SSID ies of
           None \<Rightarrow> SsidInvalid
         | Some off \<Rightarrow> if unat (ies ! (off + 1)) \<le> NRF_WIFI_MAX_SSID_LEN K then Ssid (ssid_at ies off)
                      else SsidTooLong)"
proof (cases "find_ie WLAN_EID_SSID ies")
  case (Some off)
  then have "off + 2 \<le> length ies" and "off + 2 + unat (ies ! (off + 1)) \<le> length ies"
    using assms(2) unfolding finds_ie_def by blast+
  with Some assms(1) show ?thesis
    by (auto simp: get_ssid_def copy_to_def ssid_at_def sizes_ok_def Let_def)
qed (simp add: get_ssid_def)

lemma auth_key_eq:
  assumes "sizes_ok K"
  shows "auth_key K req info =
    Ret (if length (ar_key req) \<le> NRF_WIFI_MAX_KEY_LENGTH K then
           Some (if ar_key req = [] then info
                 else info\<lparr>ai_key_idx := ar_key_idx req, ai_key := ar_key req,
                        ai_cipher := (if length (ar_key req) = 5 then WEP40 else WEP104)\<rparr>)
         else None)"
  using assms by (auto simp: auth_key_def copy_to_def sizes_ok_def)

lemma auth_sae_eq:
  assumes "sizes_ok K"
  shows "auth_sae K req info =
    Ret (if length (ar_auth_data req) \<le> NRF_WIFI_MAX_SAE_DATA_LENGTH K then
           Some (if ar_auth_data req = [] then info else info\<lparr>ai_sae := ar_auth_data req\<rparr>)
         else None)"
  using assms by (auto simp: auth_sae_def copy_to_def sizes_ok_def)

lemma cmd_state_simps [simp]:
  "live (send c s) = live s" "cmds (send c s) = cmds s @ [c]" "reports (send c s) = reports s"
  "live (tell r s) = live s" "cmds (tell r s) = cmds s" "reports (tell r s) = reports s @ [r]"
  "scan_req (send c s) = scan_req s" "scan_req (tell r s) = scan_req s"
  "cookie_list (send c s) = cookie_list s" "cookie_list (tell r s) = cookie_list s"
  "cmd_frame_cookie_g (send c s) = cmd_frame_cookie_g s"
  "bss (send c s) = bss s" "bss (tell r s) = bss s"
  by (simp_all add: send_def tell_def)

lemma kfree_send_kzalloc [simp]:
  "kfree_cmd (send c (kzalloc_cmd s)) = send c s" "kfree_cmd (kzalloc_cmd s) = s"
  by (simp_all add: kfree_cmd_def kzalloc_cmd_def send_def)

text \<open>The conditions under which an authentication or association request reaches the firmware.\<close>

definition ssid_ok :: "mlme_consts \<Rightarrow> find_ie \<Rightarrow> u8 list option \<Rightarrow> bool" where
  "ssid_ok K find_ie ies \<longleftrightarrow>
     (case ies of
        None \<Rightarrow> False
      | Some ies \<Rightarrow> ies \<noteq> [] \<and>
          (case find_ie WLAN_EID_SSID ies of
             None \<Rightarrow> False | Some off \<Rightarrow> unat (ies ! (off + 1)) \<le> NRF_WIFI_MAX_SSID_LEN K))"

definition auth_ok :: "mlme_consts \<Rightarrow> find_ie \<Rightarrow> auth_request \<Rightarrow> bool" where
  "auth_ok K find_ie req \<longleftrightarrow> ssid_ok K find_ie (ar_ies req) \<and>
     length (the (ar_ies req)) \<le> NRF_WIFI_MAX_IE_LEN K \<and>
     length (ar_key req) \<le> NRF_WIFI_MAX_KEY_LENGTH K \<and>
     length (ar_auth_data req) \<le> NRF_WIFI_MAX_SAE_DATA_LENGTH K"

definition bss_ssid :: "find_ie \<Rightarrow> u8 list option \<Rightarrow> u8 list" where
  "bss_ssid find_ie ies = ssid_at (the ies) (the (find_ie WLAN_EID_SSID (the ies)))"

text \<open>
  C9. Authentication stays inside the arrays of the command for every request, and keeps no
  memory. A request is passed on exactly when it has a well-formed SSID and its elements, key
  and SAE data fit; the firmware then gets the SSID, elements, key and SAE data of the
  request unchanged, and its answer is returned. Every other request is refused with an error.
\<close>

theorem auth_spec:
  assumes "sizes_ok K" and "finds_ie find_ie"
  shows "if alloc \<and> auth_ok K find_ie req
    then \<exists>info. nrf_wifi_cfg80211_auth K find_ie fw alloc req s = Ret (fw (CmdAuth info), send (CmdAuth info) s) \<and>
           ai_ssid info = bss_ssid find_ie (ar_ies req) \<and> Some (ai_bss_ie info) = ar_ies req \<and>
           ai_bssid info = ar_bssid req \<and> ai_frequency info = ar_frequency req \<and>
           ai_key info = ar_key req \<and> ai_sae info = ar_auth_data req \<and>
           (ai_cipher info = NO_CIPHER \<longleftrightarrow> ar_key req = [])
    else \<exists>e < 0. nrf_wifi_cfg80211_auth K find_ie fw alloc req s = Ret (e, s)"
proof (cases "ar_ies req")
  case None
  then show ?thesis
    by (auto simp: nrf_wifi_cfg80211_auth_def auth_ok_def ssid_ok_def)
next
  case (Some ies)
  then show ?thesis using assms
    by (auto simp: nrf_wifi_cfg80211_auth_def auth_ok_def ssid_ok_def bss_ssid_def Let_def
        get_ssid_eq auth_key_eq auth_sae_eq copy_to_def sizes_ok_def not_le split: option.splits)
qed

text \<open>An element search over type, length and value, and constants to try the handlers on.\<close>

fun find_tlv :: "nat \<Rightarrow> u8 \<Rightarrow> u8 list \<Rightarrow> nat option" where
  "find_tlv off eid (t # n # rest) =
     (if length rest < unat n then None
      else if t = eid then Some off
      else find_tlv (off + 2 + unat n) eid (drop (unat n) rest))"
| "find_tlv off eid _ = None"

lemma find_tlv_SomeD:
  "find_tlv k eid ies = Some off \<Longrightarrow>
     k \<le> off \<and> off - k + 2 \<le> length ies \<and> ies ! (off - k) = eid \<and>
     off - k + 2 + unat (ies ! (off - k + 1)) \<le> length ies"
proof (induction k eid ies rule: find_tlv.induct)
  case (1 k eid t n rest)
  show ?case
  proof (cases "t = eid")
    case True
    with 1 show ?thesis by (auto split: if_splits)
  next
    case False
    let ?k = "k + 2 + unat n" and ?r = "drop (unat n) rest"
    from False 1 have l: "unat n \<le> length rest" by (auto split: if_splits)
    with False 1 have IH: "?k \<le> off" "off - ?k + 2 \<le> length ?r" "?r ! (off - ?k) = eid"
      "off - ?k + 2 + unat (?r ! (off - ?k + 1)) \<le> length ?r"
      by auto
    have *: "off - k = Suc (Suc (unat n + (off - ?k)))" using IH(1) by simp
    show ?thesis unfolding * using IH l by auto
  qed
qed simp_all

lemma finds_ie_tlv: "finds_ie (find_tlv 0)"
  unfolding finds_ie_def using find_tlv_SomeD [of 0] by simp

definition sample_consts :: mlme_consts where
  "sample_consts = \<lparr>STATUS_FAIL = -1, NRF_WIFI_MAX_IE_LEN = 8, NRF_WIFI_MAX_SSID_LEN = 4,
     NRF_WIFI_MAX_KEY_LENGTH = 13, NRF_WIFI_MAX_SAE_DATA_LENGTH = 8,
     NRF_WIFI_SCAN_MAX_NUM_FREQUENCIES = 42, NRF_WIFI_SCAN_MAX_NUM_SSIDS = 2,
     LOCAL_STATE_CHANGE = 1, FRAME_OFFCHANNEL_TX_OK = 1, FRAME_DONT_WAIT_FOR_ACK = 2,
     FRAME_TX_NO_CCK_RATE = 4, EVENT_MLME_ACK = 8, size_ie = 8, size_ssid = 4, size_key = 13,
     size_sae = 8, size_frame = 16\<rparr>"

lemma sample_sizes_ok: "sizes_ok sample_consts"
  by (simp add: sizes_ok_def sample_consts_def)

definition idle_mlme :: mlme where
  "idle_mlme = \<lparr>bss = None, scan_req = None, cookie_list = [], cmd_frame_cookie_g = 0,
     remain_on_channel = None, remain_on_channel_cookie = 0, get_scan_results = False,
     req_n_channels = (\<lambda>_. 3), cmds = [], reports = [], live = 0\<rparr>"

definition sample_auth :: auth_request where
  "sample_auth = \<lparr>ar_frequency = 2412, ar_bssid = [1, 2, 3, 4, 5, 6],
     ar_ies = Some [1, 1, 9, 0, 2, 65, 66], ar_auth_type = 0, ar_key = [1, 2, 3, 4, 5],
     ar_key_idx = 1, ar_auth_data = [], ar_signal = -40, ar_capability = 1,
     ar_beacon_interval = 100, ar_tsf = 7, ar_from_beacon = True\<rparr>"

lemma sample_auth_ok: "auth_ok sample_consts (find_tlv 0) sample_auth"
  by (simp add: auth_ok_def ssid_ok_def sample_auth_def sample_consts_def)

theorem auth_spec_witness:
  "\<exists>info. nrf_wifi_cfg80211_auth sample_consts (find_tlv 0) (\<lambda>_. 0) True sample_auth idle_mlme =
       Ret (0, send (CmdAuth info) idle_mlme) \<and> ai_ssid info = [65, 66]"
  using auth_spec [OF sample_sizes_ok finds_ie_tlv, of True sample_auth "\<lambda>_. 0" idle_mlme] sample_auth_ok
  by (auto simp: bss_ssid_def ssid_at_def sample_auth_def)

text \<open>
  C10. Association behaves in the same way for its SSID and WPA elements; besides, the BSS is
  remembered before anything is checked, so also a refused request replaces the BSS that
  the next association response is reported for.
\<close>

theorem assoc_spec:
  assumes "sizes_ok K" and "finds_ie find_ie"
  shows "if alloc \<and> ssid_ok K find_ie (sr_ies req) \<and> length (sr_ie req) \<le> NRF_WIFI_MAX_IE_LEN K
    then \<exists>info. nrf_wifi_cfg80211_assoc K find_ie fw alloc req s =
             Ret (fw (CmdAssoc info), send (CmdAssoc info) (s\<lparr>bss := Some (sr_bss req)\<rparr>)) \<and>
           as_ssid info = bss_ssid find_ie (sr_ies req) \<and> as_wpa_ie info = sr_ie req \<and>
           as_bssid info = sr_bssid req \<and> as_frequency info = sr_frequency req \<and>
           as_use_mfp info = sr_use_mfp req \<and> as_control_port info = sr_control_port req
    else \<exists>e < 0. nrf_wifi_cfg80211_assoc K find_ie fw alloc req s =
           Ret (e, s\<lparr>bss := Some (sr_bss req)\<rparr>)"
proof (cases "sr_ies req")
  case None
  then show ?thesis
    by (auto simp: nrf_wifi_cfg80211_assoc_def ssid_ok_def Let_def)
next
  case (Some ies)
  then show ?thesis using assms
    by (auto simp: nrf_wifi_cfg80211_assoc_def ssid_ok_def bss_ssid_def Let_def
        get_ssid_eq copy_to_def sizes_ok_def not_le split: option.splits)
qed

definition sample_assoc :: assoc_request where
  "sample_assoc = \<lparr>sr_bss = 3, sr_frequency = 2412, sr_bssid = [1, 2, 3, 4, 5, 6],
     sr_ies = Some [0, 2, 65, 66], sr_ie = [48, 0], sr_use_mfp = True, sr_control_port = False\<rparr>"

theorem assoc_spec_witness:
  "\<exists>info. nrf_wifi_cfg80211_assoc sample_consts (find_tlv 0) (\<lambda>_. 0) True sample_assoc idle_mlme =
       Ret (0, send (CmdAssoc info) (idle_mlme\<lparr>bss := Some 3\<rparr>)) \<and>
     as_ssid info = [65, 66] \<and> as_wpa_ie info = [48, 0]"
proof -
  have "ssid_ok sample_consts (find_tlv 0) (sr_ies sample_assoc) \<and>
      length (sr_ie sample_assoc) \<le> NRF_WIFI_MAX_IE_LEN sample_consts"
    by (simp add: ssid_ok_def sample_assoc_def sample_consts_def)
  with assoc_spec [OF sample_sizes_ok finds_ie_tlv, of True sample_assoc "\<lambda>_. 0" idle_mlme]
  show ?thesis by (auto simp: bss_ssid_def ssid_at_def sample_assoc_def)
qed

text \<open>
  Deauthentication and disassociation report the disconnection exactly when the firmware
  accepted the command, and only then does disassociation forget the BSS; but the command
  structure is never freed, whatever the outcome.
\<close>

theorem disconnect_spec:
  "nrf_wifi_cfg80211_deauth K fw True req s =
     (let c = CmdDeauth (disconn_info_of K req) in
      (fw c, s\<lparr>cmds := cmds s @ [c], live := live s + 1,
              reports := reports s @ (if fw c = STATUS_FAIL K then [] else [Disconnected (dr_reason_code req)])\<rparr>)) \<and>
   nrf_wifi_cfg80211_disassoc K fw True req s =
     (let c = CmdDisassoc (disconn_info_of K req) in
      (fw c, s\<lparr>cmds := cmds s @ [c], live := live s + 1,
              bss := (if fw c = STATUS_FAIL K then bss s else None),
              reports := reports s @ (if fw c = STATUS_FAIL K then [] else [Disconnected (dr_reason_code req)])\<rparr>))"
  by (simp add: nrf_wifi_cfg80211_deauth_def nrf_wifi_cfg80211_disassoc_def send_def tell_def
      kzalloc_cmd_def Let_def)

subsection \<open>Scan requests\<close>

lemma scan_ssid_loop_eq:
  assumes "sizes_ok K" and "\<forall>x \<in> set ssids. length x \<le> NRF_WIFI_MAX_SSID_LEN K"
    and "scan_ssids p = pre @ replicate n []" and "length ssids \<le> n"
    and "length pre + n = NRF_WIFI_SCAN_MAX_NUM_SSIDS K" and "num_scan_ssids p \<le> length pre"
  shows "scan_ssid_loop K (length pre) ssids p =
    Ret (Some (p\<lparr>scan_ssids := pre @ ssids @ replicate (n - length ssids) [],
                num_scan_ssids := num_scan_ssids p + length (filter (\<lambda>x. x \<noteq> []) ssids)\<rparr>))"
  using assms(2-)
proof (induction ssids arbitrary: pre n p)
  case (Cons x xs)
  then obtain n' where n: "n = Suc n'" by (cases n) auto
  let ?p = "if x = [] then p else
              p\<lparr>scan_ssids := pre @ x # replicate n' [], num_scan_ssids := num_scan_ssids p + 1\<rparr>"
  have step: "scan_ssid_loop K (length pre) (x # xs) p = scan_ssid_loop K (length (pre @ [x])) xs ?p"
    using Cons.prems assms(1) n by (auto simp: copy_to_def sizes_ok_def list_update_append)
  show ?case unfolding step
    by (subst Cons.IH [where n = n']) (use Cons.prems n in auto)
qed simp

lemma take_filter_iff:
  "take (length (filter P xs)) xs = filter P xs \<longleftrightarrow> takeWhile P xs = filter P xs"
proof (induction xs)
  case (Cons x xs)
  have "take (length (filter P xs)) (x # xs) \<noteq> filter P xs" if "\<not> P x" "filter P xs \<noteq> []"
  proof
    assume eq: "take (length (filter P xs)) (x # xs) = filter P xs"
    from that(2) obtain y ys where y: "filter P xs = y # ys" by (cases "filter P xs") auto
    then have "y \<in> set (filter P xs)" by simp
    then have "P y" by simp
    moreover from eq [unfolded y] have "y = x" by simp
    ultimately show False using that(1) by simp
  qed
  with Cons show ?case by (cases "P x"; cases "filter P xs = []") simp_all
qed simp

definition scan_cmd_of :: "mlme_consts \<Rightarrow> scan_request \<Rightarrow> scan_params" where
  "scan_cmd_of K req =
     \<lparr>passive_scan = (sq_ssids req = []),
      num_scan_ssids = length (filter (\<lambda>x. x \<noteq> []) (sq_ssids req)),
      scan_ssids = sq_ssids req @ replicate (NRF_WIFI_SCAN_MAX_NUM_SSIDS K - length (sq_ssids req)) []\<rparr>"

lemma scan_ssid_loop_fits:
  assumes "sizes_ok K" and "length (sq_ssids req) \<le> NRF_WIFI_SCAN_MAX_NUM_SSIDS K"
    and "\<forall>x \<in> set (sq_ssids req). length x \<le> NRF_WIFI_MAX_SSID_LEN K"
  shows "scan_ssid_loop K 0 (sq_ssids req) (scan_params_init K req) = Ret (Some (scan_cmd_of K req))"
  using scan_ssid_loop_eq [OF assms(1,3), of "scan_params_init K req" "[]"] assms(2)
  by (simp add: scan_params_init_def scan_cmd_of_def)

text \<open>
  C35. A scan request whose SSIDs fit into the firmware's array is passed on without leaving the
  array (but without its channels), its structure is freed, and the request is remembered
  exactly when the firmware did not refuse it. The entries that the firmware counts are the SSIDs asked for exactly when no
  empty (wildcard) SSID precedes another one; otherwise the holes hide SSIDs at the end.
\<close>

theorem scan_spec:
  assumes "sizes_ok K" and "\<not> sq_is_ap req"
    and "req_n_channels s (sq_id req) \<le> NRF_WIFI_SCAN_MAX_NUM_FREQUENCIES K"
    and "length (sq_ssids req) \<le> NRF_WIFI_SCAN_MAX_NUM_SSIDS K"
    and "\<forall>x \<in> set (sq_ssids req). length x \<le> NRF_WIFI_MAX_SSID_LEN K"
  shows "nrf_wifi_cfg80211_scan K fw True req s =
      (let c = CmdScan (scan_cmd_of K req); t = send c (clear_channels req s) in
       Ret (fw c, if fw c = STATUS_FAIL K then t else scan_store req t)) \<and>
    (let p = scan_cmd_of K req; wanted = filter (\<lambda>x. x \<noteq> []) (sq_ssids req) in
     take (num_scan_ssids p) (scan_ssids p) = wanted \<longleftrightarrow> takeWhile (\<lambda>x. x \<noteq> []) (sq_ssids req) = wanted)"
proof -
  note scan_ssid_loop_fits [OF assms(1,4,5)]
  moreover have "length (filter (\<lambda>x. x \<noteq> []) (sq_ssids req)) \<le> length (sq_ssids req)" by simp
  ultimately show ?thesis using assms
    by (simp add: nrf_wifi_cfg80211_scan_def scan_command_def Let_def scan_cmd_of_def
        flip: take_filter_iff)
qed

definition sample_scan :: scan_request where
  "sample_scan = \<lparr>sq_id = 7, sq_is_ap = False, sq_ssids = [[], [65, 66]]\<rparr>"

theorem scan_spec_witness:
  "(\<exists>s. nrf_wifi_cfg80211_scan sample_consts (\<lambda>_. 0) True sample_scan idle_mlme = Ret (0, s) \<and> scan_req s = Some 7) \<and>
   (let p = scan_cmd_of sample_consts sample_scan in take (num_scan_ssids p) (scan_ssids p) \<noteq> [[65, 66]])"
  using scan_spec [OF sample_sizes_ok, of sample_scan idle_mlme "\<lambda>_. 0"]
  by (auto simp: idle_mlme_def sample_scan_def sample_consts_def scan_store_def scan_cmd_of_def Let_def)

lemma scan_ssid_loop_overrun:
  assumes "0 < NRF_WIFI_SCAN_MAX_NUM_SSIDS K" and "ssid \<noteq> []" and "length ssid \<le> NRF_WIFI_MAX_SSID_LEN K"
    and "sq_ssids req = replicate (NRF_WIFI_SCAN_MAX_NUM_SSIDS K) [] @ [ssid]"
  shows "scan_ssid_loop K 0 (sq_ssids req) (scan_params_init K req) = UB OutOfBounds"
proof -
  have skip: "scan_ssid_loop K i (replicate n [] @ [ssid]) p = scan_ssid_loop K (i + n) [ssid] p" for i n p
    by (induction n arbitrary: i) simp_all
  show ?thesis unfolding assms(4) skip using assms(1-3) by (simp add: scan_params_init_def)
qed

text \<open>
  The bounds check counts non-empty SSIDs while the write uses the position in the request: a
  request with as many empty SSIDs as the array has entries, followed by a proper one,
  writes behind the array.
\<close>

theorem scan_ssid_overflow:
  assumes "sizes_ok K" and "\<not> sq_is_ap req"
    and "req_n_channels s (sq_id req) \<le> NRF_WIFI_SCAN_MAX_NUM_FREQUENCIES K"
    and "0 < NRF_WIFI_SCAN_MAX_NUM_SSIDS K"
    and "sq_ssids req = replicate (NRF_WIFI_SCAN_MAX_NUM_SSIDS K) [] @ [ssid]"
    and "ssid \<noteq> []" and "length ssid \<le> NRF_WIFI_MAX_SSID_LEN K"
  shows "nrf_wifi_cfg80211_scan K fw True req s = UB OutOfBounds"
  using scan_ssid_loop_overrun [OF assms(4,6,7,5)] assms(2,3)
  by (simp add: nrf_wifi_cfg80211_scan_def scan_command_def Let_def)

theorem scan_ssid_overflow_witness:
  "nrf_wifi_cfg80211_scan sample_consts (\<lambda>_. 0) True
     (sample_scan\<lparr>sq_ssids := [[], [], [65]]\<rparr>) idle_mlme = UB OutOfBounds"
  by (rule scan_ssid_overflow [OF sample_sizes_ok, where ssid = "[65]"])
    (simp_all add: idle_mlme_def sample_scan_def sample_consts_def numeral_2_eq_2)

subsection \<open>Completion of scans\<close>

text \<open>
  The scan handler and the events run concurrently. \<open>cfg_req\<close> is the request that cfg80211 waits
  for (it starts no other one meanwhile), \<open>mid\<close> a request whose command the firmware has
  accepted but which the handler has not stored yet, and \<open>fw_scans\<close> the number of scans for
  which the firmware still owes the final event. The firmware answers 0 or the failure status.
\<close>

record scan_sys =
  ms :: mlme
  cfg_req :: "nat option"
  mid :: "scan_request option"
  fw_scans :: nat

inductive scan_step :: "mlme_consts \<Rightarrow> fw_reply \<Rightarrow> scan_sys \<Rightarrow> scan_sys \<Rightarrow> bool" for K fw where
  submit: "cfg_req S = None \<Longrightarrow> scan_command K fw alloc req (ms S) = Ret (0, True, m) \<Longrightarrow>
     scan_step K fw S (S\<lparr>ms := m, cfg_req := Some (sq_id req), mid := Some req, fw_scans := fw_scans S + 1\<rparr>)"
| refuse: "cfg_req S = None \<Longrightarrow> scan_command K fw alloc req (ms S) = Ret (status, False, m) \<Longrightarrow>
     scan_step K fw S (S\<lparr>ms := m\<rparr>)"
| store: "mid S = Some req \<Longrightarrow> scan_step K fw S (S\<lparr>ms := scan_store req (ms S), mid := None\<rparr>)"
| finish: "fw_scans S = Suc n \<Longrightarrow>
     scan_step K fw S (S\<lparr>ms := nrf_wifi_cfg80211_scan_done aborted (ms S), fw_scans := n,
                         cfg_req := (if scan_req (ms S) = None then cfg_req S else None)\<rparr>)"

inductive_cases scan_stepE: "scan_step K fw S T"

definition scan_init :: "scan_sys \<Rightarrow> bool" where
  "scan_init S \<longleftrightarrow> scan_req (ms S) = None \<and> cfg_req S = None \<and> mid S = None \<and> fw_scans S = 0"

definition scan_inv :: "scan_sys \<Rightarrow> bool" where
  "scan_inv S \<longleftrightarrow> (\<forall>r. scan_req (ms S) = Some r \<longrightarrow> cfg_req S = Some r) \<and>
     (\<forall>q. mid S = Some q \<longrightarrow> cfg_req S = Some (sq_id q) \<and> scan_req (ms S) = None) \<and>
     fw_scans S \<le> (if cfg_req S = None then 0 else 1)"

lemma scan_command_keeps:
  assumes "scan_command K fw alloc req s = Ret (status, accepted, t)"
  shows "scan_req t = scan_req s" and "reports t = reports s"
proof -
  have "scan_req t = scan_req s \<and> reports t = reports s"
    using assms
    by (auto simp: scan_command_def Let_def and_then_eq_Ret kzalloc_cmd_def kfree_cmd_def clear_channels_def
        split: if_splits option.splits)
  then show "scan_req t = scan_req s" and "reports t = reports s" by blast+
qed

lemma scan_done_state:
  "scan_req (nrf_wifi_cfg80211_scan_done a s) = None"
  "reports (nrf_wifi_cfg80211_scan_done a s) =
     reports s @ (case scan_req s of None \<Rightarrow> [] | Some r \<Rightarrow> [ScanDone r a])"
  by (simp_all add: nrf_wifi_cfg80211_scan_done_def split: option.splits)

lemma scan_inv_init: "scan_init S \<Longrightarrow> scan_inv S"
  by (simp add: scan_init_def scan_inv_def)

lemma scan_inv_step: "scan_inv S \<Longrightarrow> scan_step K fw S T \<Longrightarrow> scan_inv T"
  by (erule scan_stepE)
    (auto simp: scan_inv_def scan_store_def scan_done_state scan_command_keeps split: if_splits)

interpretation scan: invariant_system scan_init "scan_step K fw" scan_inv for K fw
  by unfold_locales (rule scan_inv_init, assumption, rule scan_inv_step)

definition is_scan_done :: "report \<Rightarrow> bool" where
  "is_scan_done r \<longleftrightarrow> (case r of ScanDone _ _ \<Rightarrow> True | _ \<Rightarrow> False)"

text \<open>
  C8. No scan is completed twice and none is completed that cfg80211 does not wait for: in every
  reachable state a step either makes no scan report, or reports exactly the outstanding
  request and thereby ends it.
\<close>

theorem scan_completion_safe:
  assumes "reach scan_init (scan_step K fw) S" and "scan_step K fw S T"
  shows "reports (ms T) = reports (ms S) \<or>
    (\<exists>r aborted. cfg_req S = Some r \<and> reports (ms T) = reports (ms S) @ [ScanDone r aborted] \<and>
       cfg_req T = None \<and> scan_req (ms T) = None)"
proof -
  have "scan_inv S" using assms(1) by (rule scan.reach_invar)
  with assms(2) show ?thesis
    by (cases rule: scan_step.cases)
      (auto simp: scan_inv_def scan_store_def scan_done_state scan_command_keeps split: option.splits)
qed

lemma sample_submit:
  "scan_command sample_consts (\<lambda>_. 0) True sample_scan idle_mlme =
     Ret (0, True, send (CmdScan (scan_cmd_of sample_consts sample_scan)) (clear_channels sample_scan idle_mlme))"
  by (simp add: idle_mlme_def scan_command_def Let_def sample_scan_def sample_consts_def scan_params_init_def
      scan_cmd_of_def copy_to_def numeral_2_eq_2)

definition scan_start :: scan_sys where
  "scan_start = \<lparr>ms = idle_mlme, cfg_req = None, mid = None, fw_scans = 0\<rparr>"

definition scan_running :: scan_sys where
  "scan_running = \<lparr>ms = scan_store sample_scan (send (CmdScan (scan_cmd_of sample_consts sample_scan)) (clear_channels sample_scan idle_mlme)),
     cfg_req = Some 7, mid = None, fw_scans = 1\<rparr>"

lemma scan_running_reachable: "reach scan_init (scan_step sample_consts (\<lambda>_. 0)) scan_running"
proof -
  let ?step = "scan_step sample_consts (\<lambda>_. 0)"
  have 0: "reach scan_init ?step scan_start"
    by (rule reach_init) (simp add: scan_init_def scan_start_def idle_mlme_def)
  let ?S = "scan_start\<lparr>ms := send (CmdScan (scan_cmd_of sample_consts sample_scan)) (clear_channels sample_scan idle_mlme),
      cfg_req := Some (sq_id sample_scan), mid := Some sample_scan, fw_scans := fw_scans scan_start + 1\<rparr>"
  have "?step scan_start ?S"
    by (rule submit [where alloc = True]) (simp_all add: scan_start_def sample_submit)
  with 0 have 1: "reach scan_init ?step ?S" by (rule reach_step)
  have "?step ?S (?S\<lparr>ms := scan_store sample_scan (ms ?S), mid := None\<rparr>)"
    by (rule store) simp
  with 1 have "reach scan_init ?step (?S\<lparr>ms := scan_store sample_scan (ms ?S), mid := None\<rparr>)"
    by (rule reach_step)
  then show ?thesis by (simp add: scan_running_def scan_start_def sample_scan_def)
qed

theorem scan_completion_safe_witness:
  "scan_step sample_consts (\<lambda>_. 0) scan_running
     (scan_running\<lparr>ms := nrf_wifi_cfg80211_scan_done False (ms scan_running), fw_scans := 0, cfg_req := None\<rparr>) \<and>
   reports (nrf_wifi_cfg80211_scan_done False (ms scan_running)) = [ScanDone 7 False]"
proof -
  have step: "scan_step sample_consts (\<lambda>_. 0) scan_running
     (scan_running\<lparr>ms := nrf_wifi_cfg80211_scan_done False (ms scan_running), fw_scans := 0, cfg_req := None\<rparr>)"
    using finish [of scan_running 0 sample_consts "\<lambda>_. 0" False]
    by (simp add: scan_running_def scan_store_def)
  from scan_completion_safe [OF scan_running_reachable step] step show ?thesis
    by (auto simp: scan_running_def scan_store_def scan_done_state idle_mlme_def sample_scan_def
        clear_channels_def)
qed

text \<open>
  A completion can be lost: when the firmware's final event arrives after the firmware took the
  command but before the handler stored the request, the event finds no request, and the
  system ends in a state in which cfg80211 waits for that scan and nothing can happen any more.
\<close>

theorem scan_completion_lost:
  assumes "scan_command K fw alloc req m0 = Ret (0, True, m)" and "scan_req m0 = None"
  shows "\<exists>S. reach scan_init (scan_step K fw) S \<and> cfg_req S = Some (sq_id req) \<and>
    reports (ms S) = reports m0 \<and> (\<forall>T. \<not> scan_step K fw S T)"
proof -
  let ?step = "scan_step K fw"
  define A where "A = \<lparr>ms = m0, cfg_req = None, mid = None, fw_scans = 0\<rparr>"
  define B where "B = \<lparr>ms = m, cfg_req = Some (sq_id req), mid = Some req, fw_scans = 1\<rparr>"
  define C where "C = B\<lparr>fw_scans := 0\<rparr>"
  define D where "D = C\<lparr>ms := scan_store req m, mid := None\<rparr>"
  have m: "scan_req m = None" "reports m = reports m0"
    using assms by (simp_all add: scan_command_keeps)
  then have same: "nrf_wifi_cfg80211_scan_done False m = m"
    by (simp add: nrf_wifi_cfg80211_scan_done_def)
  have "reach scan_init ?step A" by (rule reach_init) (simp add: scan_init_def A_def assms(2))
  moreover have "?step A B"
    using submit [of A K fw alloc req m] assms(1) by (simp add: A_def B_def)
  moreover have "?step B C"
    using finish [of B 0 K fw False] same m by (simp add: B_def C_def)
  moreover have "?step C D"
    using store [of C req K fw] by (simp add: B_def C_def D_def)
  ultimately have "reach scan_init ?step D" by (blast intro: reach_step)
  moreover have "\<not> ?step D T" for T
    by (auto simp: D_def C_def B_def elim!: scan_stepE)
  ultimately show ?thesis
    by (intro exI [of _ D]) (simp add: D_def C_def B_def scan_store_def m)
qed

theorem scan_completion_lost_witness:
  "\<exists>S. reach scan_init (scan_step sample_consts (\<lambda>_. 0)) S \<and> cfg_req S = Some 7 \<and> reports (ms S) = [] \<and>
     (\<forall>T. \<not> scan_step sample_consts (\<lambda>_. 0) S T)"
  using scan_completion_lost [OF sample_submit] by (simp add: idle_mlme_def sample_scan_def)

subsection \<open>Cookies\<close>

lemma next_cookie_unat:
  "unat (next_cookie c) = (if unat c = 2 ^ 64 - 1 then 1 else unat c + 1)"
proof (cases "c + 1 = 0")
  case True
  then have "c = - 1" by (simp add: eq_neg_iff_add_eq_0)
  then show ?thesis by (simp add: next_cookie_def unsigned_minus_1_eq_mask mask_eq_exp_minus_1)
next
  case False
  then have "unat (c + 1) = unat c + 1" by (metis Suc_eq_plus1 add.commute unatSuc)
  moreover have "unat (c + 1) < 2 ^ 64" using unsigned_less [of "c + 1"] by simp
  then have "unat c \<noteq> 2 ^ 64 - 1" using calculation by auto
  ultimately show ?thesis using False by (simp add: next_cookie_def)
qed

lemma next_cookie_nonzero: "next_cookie c \<noteq> 0"
  using next_cookie_unat [of c] by (auto split: if_splits)

lemma mod_succ: "x < M \<Longrightarrow> (if x + 1 = M then 0 else x + 1) = (x + 1) mod (M :: nat)"
  by auto

lemma cookie_pow_unat:
  assumes "c \<noteq> 0"
  shows "unat ((next_cookie ^^ n) c) = (unat c - 1 + n) mod (2 ^ 64 - 1) + 1"
proof (induction n)
  case 0
  have "0 < unat c" and "unat c < 2 ^ 64" using assms unsigned_less [of c] by (simp_all add: unat_gt_0)
  then show ?case by simp
next
  case (Suc n)
  let ?M = "2 ^ 64 - 1 :: nat" and ?x = "(unat c - 1 + n) mod (2 ^ 64 - 1)"
  have "unat ((next_cookie ^^ Suc n) c) = (if ?x + 1 = ?M then 0 else ?x + 1) + 1"
    by (simp add: next_cookie_unat Suc.IH)
  also have "(if ?x + 1 = ?M then 0 else ?x + 1) = (?x + 1) mod ?M"
    by (rule mod_succ) simp
  also have "\<dots> = (unat c - 1 + Suc n) mod ?M" by (simp add: mod_Suc_eq)
  finally show ?case .
qed

lemma mod_add_inj_le: "(a + i) mod M = (a + j) mod M \<Longrightarrow> i \<le> j \<Longrightarrow> j < M \<Longrightarrow> i = (j :: nat)"
  using mod_eq_dvd_iff_nat [of "a + i" "a + j" M] by (auto dest: dvd_imp_le)

lemma mod_add_inj: "(a + i) mod M = (a + j) mod M \<Longrightarrow> i < M \<Longrightarrow> j < M \<Longrightarrow> i = (j :: nat)"
  using mod_add_inj_le [of a i M j] mod_add_inj_le [of a j M i] by (cases "i \<le> j") auto

text \<open>The cookies handed out by a sequence of transmissions.\<close>

fun mgmt_tx_run :: "mlme_consts \<Rightarrow> fw_reply \<Rightarrow> mgmt_tx_params list \<Rightarrow> mlme \<Rightarrow> u64 option list outcome" where
  "mgmt_tx_run K fw [] s = Ret []"
| "mgmt_tx_run K fw (p # ps) s =
     and_then (nrf_wifi_cfg80211_mgmt_tx K fw True p s) (\<lambda>(status, cookie, s).
       and_then (mgmt_tx_run K fw ps s) (\<lambda>cs. Ret (cookie # cs)))"

lemma mgmt_tx_eq:
  assumes "length (tp_buf p) \<le> size_frame K"
  shows "nrf_wifi_cfg80211_mgmt_tx K fw True p s =
    (let cookie = next_cookie (cmd_frame_cookie_g s);
         c = CmdMgmtTx (mgmt_tx_info_of K p (tp_buf p) cookie) in
     Ret (fw c, Some cookie, send c (s\<lparr>cmd_frame_cookie_g := cookie\<rparr>)))"
  using assms
  by (simp add: nrf_wifi_cfg80211_mgmt_tx_def copy_to_def Let_def send_def kzalloc_cmd_def kfree_cmd_def)

lemma mgmt_tx_run_eq:
  assumes "\<forall>p \<in> set ps. length (tp_buf p) \<le> size_frame K"
  shows "mgmt_tx_run K fw ps s =
    Ret (map (\<lambda>i. Some ((next_cookie ^^ i) (next_cookie (cmd_frame_cookie_g s)))) [0..<length ps])"
  using assms
proof (induction ps arbitrary: s)
  case (Cons p ps)
  then show ?case
    by (simp del: upt_Suc add: mgmt_tx_eq Let_def upt_conv_Cons map_Suc_upt [symmetric] funpow_swap1)
qed simp

text \<open>
  C16. The cookies given to user space for transmitted management frames are never 0 (the value the
  status callback uses for an unknown frame) and are all different in any sequence of fewer
  than \<open>2 ^ 64\<close> transmissions, across the wrap-around of the counter.
\<close>

theorem mgmt_tx_cookies_distinct:
  assumes "\<forall>p \<in> set ps. length (tp_buf p) \<le> size_frame K" and "length ps < 2 ^ 64"
  shows "\<exists>cs. mgmt_tx_run K fw ps s = Ret (map Some cs) \<and> length cs = length ps \<and>
    distinct cs \<and> 0 \<notin> set cs"
proof -
  let ?c = "next_cookie (cmd_frame_cookie_g s)"
  let ?cs = "map (\<lambda>i. (next_cookie ^^ i) ?c) [0..<length ps]"
  note pow = cookie_pow_unat [OF next_cookie_nonzero, of _ "cmd_frame_cookie_g s"]
  have "inj_on (\<lambda>i. (next_cookie ^^ i) ?c) {0..<length ps}"
  proof (rule inj_onI)
    fix i j assume ij: "i \<in> {0..<length ps}" "j \<in> {0..<length ps}"
      "(next_cookie ^^ i) ?c = (next_cookie ^^ j) ?c"
    then have "(unat ?c - 1 + i) mod (2 ^ 64 - 1) = (unat ?c - 1 + j) mod (2 ^ 64 - 1)"
      using pow [of i] pow [of j] by simp
    then show "i = j" by (rule mod_add_inj) (use ij assms(2) in auto)
  qed
  moreover have "0 \<notin> set ?cs" using pow by (auto dest: arg_cong [where f = unat])
  ultimately show ?thesis
    using mgmt_tx_run_eq [OF assms(1), of fw s] by (intro exI [of _ ?cs]) (simp add: distinct_map comp_def)
qed

definition sample_tx :: mgmt_tx_params where
  "sample_tx = \<lparr>tp_offchan = True, tp_dont_wait_for_ack = False, tp_no_cck = True,
     tp_chan = Some 5180, tp_wait = 100, tp_buf = [0xD0, 0]\<rparr>"

theorem mgmt_tx_cookies_distinct_witness:
  "\<exists>cs. mgmt_tx_run sample_consts (\<lambda>_. 0) [sample_tx, sample_tx] (idle_mlme\<lparr>cmd_frame_cookie_g := -1\<rparr>) =
     Ret (map Some cs) \<and> length cs = 2 \<and> distinct cs \<and> 0 \<notin> set cs"
proof -
  have "\<forall>p \<in> set [sample_tx, sample_tx]. length (tp_buf p) \<le> size_frame sample_consts"
    by (simp add: sample_tx_def sample_consts_def)
  then have "\<exists>cs. mgmt_tx_run sample_consts (\<lambda>_. 0) [sample_tx, sample_tx] (idle_mlme\<lparr>cmd_frame_cookie_g := -1\<rparr>) =
      Ret (map Some cs) \<and> length cs = length [sample_tx, sample_tx] \<and> distinct cs \<and> 0 \<notin> set cs"
    by (rule mgmt_tx_cookies_distinct) simp
  then show ?thesis by (simp del: mgmt_tx_run.simps add: numeral_2_eq_2)
qed

lemma take_cookie_eq:
  "take_cookie k cs h =
     (last (h # map host_cookie (filter (\<lambda>c. rpu_cookie c = k) cs)), filter (\<lambda>c. rpu_cookie c \<noteq> k) cs)"
  by (induction cs arbitrary: h) (auto simp: Let_def)

text \<open>
  C15. A transmitted frame is reported back under the cookie user space was given: when the
  firmware announces its own cookie for the frame and later reports its status with it, the
  report carries the host cookie, the frame and the acknowledgement flag, and the list of
  pending cookies is what it was before. The command carries the same cookie and the whole
  frame, and no memory is kept.
\<close>

theorem mgmt_tx_status_round_trip:
  assumes "length (tp_buf p) \<le> size_frame K" and "\<forall>c \<in> set (cookie_list s). rpu_cookie c \<noteq> rpu"
  shows "\<exists>info s1. nrf_wifi_cfg80211_mgmt_tx K fw True p s =
      Ret (fw (CmdMgmtTx info), Some (mt_host_cookie info), s1) \<and>
    cmds s1 = cmds s @ [CmdMgmtTx info] \<and> live s1 = live s \<and>
    mt_host_cookie info \<noteq> 0 \<and> mt_frame info = tp_buf p \<and>
    (let s2 = nrf_wifi_cfg80211_tx_status_callbk_fn K rpu flags frame
                (nrf_wifi_cookie_rsp_callbk_fn True (mt_host_cookie info) rpu s1) in
     reports s2 = reports s @ [TxStatus (mt_host_cookie info) frame (flags AND EVENT_MLME_ACK K \<noteq> 0)] \<and>
     cookie_list s2 = cookie_list s)"
proof -
  have "filter (\<lambda>c. rpu_cookie c = rpu) (cookie_list s) = []"
    and "filter (\<lambda>c. rpu_cookie c \<noteq> rpu) (cookie_list s) = cookie_list s"
    using assms(2) by (auto simp: filter_empty_conv filter_id_conv)
  then show ?thesis
    unfolding mgmt_tx_eq [OF assms(1)] Let_def
    by (intro exI [of _ "mgmt_tx_info_of K p (tp_buf p) (next_cookie (cmd_frame_cookie_g s))"])
      (simp add: mgmt_tx_info_of_def next_cookie_nonzero nrf_wifi_cfg80211_tx_status_callbk_fn_def
        nrf_wifi_cookie_rsp_callbk_fn_def take_cookie_eq)
qed

theorem mgmt_tx_status_round_trip_witness:
  "\<exists>(info :: mgmt_tx_info) s1. nrf_wifi_cfg80211_mgmt_tx sample_consts (\<lambda>_. 0) True sample_tx idle_mlme =
      Ret (0, Some (mt_host_cookie info), s1) \<and> mt_host_cookie info \<noteq> 0 \<and>
    reports (nrf_wifi_cfg80211_tx_status_callbk_fn sample_consts 99 8 [1, 2]
      (nrf_wifi_cookie_rsp_callbk_fn True (mt_host_cookie info) 99 s1)) =
      [TxStatus (mt_host_cookie info) [1, 2] True]"
proof -
  have fits: "length (tp_buf sample_tx) \<le> size_frame sample_consts"
    by (simp add: sample_tx_def sample_consts_def)
  have fresh: "\<forall>c \<in> set (cookie_list idle_mlme). rpu_cookie c \<noteq> 99" and idle: "reports idle_mlme = []"
    by (simp_all add: idle_mlme_def)
  have ack: "(8 AND EVENT_MLME_ACK sample_consts \<noteq> 0) = True"
    by (simp add: sample_consts_def)
  from mgmt_tx_status_round_trip [OF fits fresh, of "\<lambda>_. 0" 8 "[1, 2]"]
  show ?thesis 
    unfolding Let_def ack idle append_Nil by blast
qed

text \<open>
  Remain-on-channel: a ready event is reported for the cookie it belongs to and changes
  nothing else, but the cancel event never leads to an expiry report and never removes the
  cookie, since its report can only be reached when a list entry is NULL; and a request to
  remain on a channel fails without sending a command.
\<close>

theorem roc_never_expires:
  "nrf_wifi_cfg80211_roc_cancel_callbk_fn cookie frequency s = s \<and>
   (nrf_wifi_cfg80211_roc_callbk_fn cookie frequency dur s =
      (if \<exists>c \<in> set (cookie_list s). rpu_cookie c = cookie
       then tell (ReadyOnChannel (host_cookie (hd (filter (\<lambda>c. rpu_cookie c = cookie) (cookie_list s)))) frequency dur) s
       else s)) \<and>
   fst (nrf_wifi_cfg80211_remain_on_channel alloc chan s) = -1 \<and>
   cmds (snd (snd (nrf_wifi_cfg80211_remain_on_channel alloc chan s))) = cmds s"
proof -
  have "\<not> roc_cancel_loop cookie False (map Some cs)" for cs
    by (induction cs) auto
  moreover have "(case List.find P cs of None \<Rightarrow> s | Some c \<Rightarrow> tell (f c) s) =
      (if \<exists>c \<in> set cs. P c then tell (f (hd (filter P cs))) s else s)" for P cs and f :: "cookie_info \<Rightarrow> report"
    by (induction cs) auto
  ultimately show ?thesis
    by (simp add: nrf_wifi_cfg80211_roc_cancel_callbk_fn_def nrf_wifi_cfg80211_roc_callbk_fn_def
        nrf_wifi_cfg80211_remain_on_channel_def)
qed

end
