(* ===== verification/Cfg80211_Vif.thy ===== *)
theory Cfg80211_Vif
  imports Driver_Init
begin

text \<open>
  The interface part of the cfg80211 callbacks (\<open>cfg80211_if.c\<close>): adding, deleting and changing
  virtual interfaces, the queries that wait for an answer of the firmware, keys, and the
  handlers for access points and stations. An answer of the firmware is an event callback
  that another thread runs while a handler polls; it is given by the instant (the number
  of polls so far) at which it takes effect.
\<close>

subsection \<open>Adding and deleting interfaces\<close>

record add_vif_env =
  args_valid :: bool
  dev_valid :: bool
  mac_addr_ret :: int
  vif_alloc :: vif_env
  alloc_info :: bool
  ifacename_size :: nat
  fmac_if_idx :: nat

record vif_consts =
  VIF_SUCCESS :: int
  VIF_FAIL :: int
  IFNAMSIZ :: nat
  MAX_NUM_VIFS :: nat

text \<open>\<open>Inl\<close> is the error pointer, \<open>Inr\<close> the index of the new interface.\<close>

definition nrf_wifi_cfg80211_add_vif ::
  "vif_consts \<Rightarrow> add_vif_env \<Rightarrow> string \<Rightarrow> iftype \<Rightarrow> dev_ctx \<Rightarrow> (int + nat) \<times> dev_ctx" where
  "nrf_wifi_cfg80211_add_vif K e name type c =
     (if \<not> args_valid e \<or> name = [] then (Inl (-EINVAL), c)
      else if type = IF_MONITOR then (Inl (-EOPNOTSUPP), c)
      else if length name \<ge> IFNAMSIZ K then (Inl (-EINVAL), c)
      else if \<not> dev_valid e then (Inl (-ENODEV), c)
      else if mac_addr_ret e \<noteq> VIF_SUCCESS K then (Inl (-EIO), c)
      else case nrf_wifi_wlan_fmac_add_vif (vif_alloc e) c of
        (False, c) \<Rightarrow> (Inl (-ENOMEM), c)
      | (True, c) \<Rightarrow>
          if \<not> alloc_info e then (Inl (-ENOMEM), nrf_wifi_wlan_fmac_del_vif c)
          else if length name \<ge> ifacename_size e then (Inl (-EINVAL), nrf_wifi_wlan_fmac_del_vif c)
          else if fmac_if_idx e \<ge> MAX_NUM_VIFS K then (Inl (-EIO), nrf_wifi_wlan_fmac_del_vif c)
          else (Inr (fmac_if_idx e), logged (Acq RFmacVif) c))"

definition nrf_wifi_cfg80211_del_vif :: "vif_consts \<Rightarrow> int \<Rightarrow> nat \<Rightarrow> dev_ctx \<Rightarrow> int \<times> dev_ctx" where
  "nrf_wifi_cfg80211_del_vif K fw if_idx c =
     (if if_idx = 0 then (-1, c)
      else if fw \<noteq> VIF_SUCCESS K then (fw, c)
      else (fw, logged (Rel RWdev) (nrf_wifi_netdev_del_vif (logged (Rel RFmacVif) c))))"

subsection \<open>Changing the type of an interface\<close>

datatype fmac_type = FmacIf iftype | MonitorTxInjector

record vif_ctl =
  vi :: vif_if
  fmac_vif :: "(fmac_type \<times> bool) option"
  event_set_if :: bool
  status_set_if :: int

text \<open>
  The answer to a change: the callback \<open>nrf_wifi_set_if_callbk_fn\<close> raises the flag at one instant
  and stores the firmware's return value at another one, in this order.
\<close>

record set_if_event =
  flag_at :: nat
  status_at :: nat
  return_value :: int

definition nrf_wifi_set_if_callbk_fn :: "int \<Rightarrow> vif_ctl \<Rightarrow> vif_ctl" where
  "nrf_wifi_set_if_callbk_fn ret v = v\<lparr>event_set_if := True, status_set_if := ret\<rparr>"

definition flag_seen :: "vif_ctl \<Rightarrow> set_if_event option \<Rightarrow> nat \<Rightarrow> bool" where
  "flag_seen v ev t \<longleftrightarrow> event_set_if v \<or> (case ev of None \<Rightarrow> False | Some e \<Rightarrow> flag_at e \<le> t)"

definition status_seen :: "vif_ctl \<Rightarrow> set_if_event option \<Rightarrow> nat \<Rightarrow> int" where
  "status_seen v ev t =
     (case ev of None \<Rightarrow> status_set_if v | Some e \<Rightarrow> if status_at e \<le> t then return_value e else status_set_if v)"

text \<open>
  Leaving the handler at instant \<open>t\<close>: the flag is cleared, and what the callback does afterwards
  stays in the context.
\<close>

definition leave_chg :: "set_if_event option \<Rightarrow> nat \<Rightarrow> vif_ctl \<Rightarrow> vif_ctl" where
  "leave_chg ev t v =
     (case ev of
        None \<Rightarrow> v\<lparr>event_set_if := False\<rparr>
      | Some e \<Rightarrow> v\<lparr>event_set_if := t < flag_at e, status_set_if := return_value e\<rparr>)"

definition set_iftype :: "iftype \<Rightarrow> vif_ctl \<Rightarrow> vif_ctl" where
  "set_iftype type v =
     v\<lparr>vi := the (snd (nrf_wifi_netdev_set_iftype (Some ((vi v)\<lparr>wdev_iftype := Some type\<rparr>)) type))\<rparr>"

definition set_fmac_type :: "fmac_type \<Rightarrow> bool option \<Rightarrow> vif_ctl \<Rightarrow> vif_ctl" where
  "set_fmac_type ft injection v =
     v\<lparr>fmac_vif := map_option (\<lambda>(_, old). (ft, case injection of Some b \<Rightarrow> b | None \<Rightarrow> old)) (fmac_vif v)\<rparr>"

definition chg_vif_polls :: nat where "chg_vif_polls = 50"

definition nrf_wifi_cfg80211_chg_vif ::
  "vif_consts \<Rightarrow> bool \<Rightarrow> int \<Rightarrow> set_if_event option \<Rightarrow> iftype \<Rightarrow> vif_ctl \<Rightarrow> int \<times> vif_ctl" where
  "nrf_wifi_cfg80211_chg_vif K alloc fw ev type v =
     (if type = IF_MONITOR then
        let v = set_iftype IF_MONITOR (set_fmac_type MonitorTxInjector (Some True) v) in
        (0, v\<lparr>vi := set_carrier True (vi v)\<rparr>)
      else if \<not> alloc then (-1, leave_chg None 0 v)
      else if fw = VIF_FAIL K then (fw, leave_chg None 0 v)
      else let t = poll (flag_seen v ev) 0 chg_vif_polls in
        if \<not> flag_seen v ev t then (-ETIMEDOUT, leave_chg ev t v)
        else if status_seen v ev t \<noteq> 0 then (status_seen v ev t, leave_chg ev t v)
        else (fw, leave_chg ev t (set_iftype type (set_fmac_type (FmacIf type) None v))))"

text \<open>
  The link layer of the network device and the type recorded for cfg80211 belong together.
\<close>

definition link_ok :: "vif_ctl \<Rightarrow> bool" where
  "link_ok v \<longleftrightarrow>
     (case netdev (vi v) of
        None \<Rightarrow> False
      | Some nd \<Rightarrow>
          if is_monitor (vi v)
          then nd_type nd = ARPHRD_IEEE80211_RADIOTAP \<and> hard_header_len nd = 0 \<and> header_ops nd = None
          else nd_type nd = ARPHRD_ETHER \<and> hard_header_len nd = ETH_HLEN \<and> header_ops nd = saved_header_ops (vi v))"

lemma vif_frame [simp]:
  "vi (leave_chg ev t v) = vi v" "fmac_vif (leave_chg ev t v) = fmac_vif v"
  "vi (set_fmac_type ft i v) = vi v" "event_set_if (set_fmac_type ft i v) = event_set_if v"
  "status_set_if (set_fmac_type ft i v) = status_set_if v"
  "event_set_if (set_iftype type v) = event_set_if v" "status_set_if (set_iftype type v) = status_set_if v"
  by (simp_all add: leave_chg_def set_fmac_type_def set_iftype_def split: option.splits)

lemma set_iftype_link:
  assumes "netdev (vi v) = Some nd"
  shows "link_ok (set_iftype type v)" and "wdev_iftype (vi (set_iftype type v)) = Some type"
    and "\<exists>nd. netdev (vi (set_iftype type v)) = Some nd"
  using assms
  by (auto simp: set_iftype_def nrf_wifi_netdev_set_iftype_def link_ok_def is_monitor_def)

lemma link_ok_carrier: "link_ok v \<Longrightarrow> link_ok (v\<lparr>vi := set_carrier c (vi v)\<rparr>)"
  by (auto simp: link_ok_def set_carrier_def is_monitor_def split: option.splits)

lemma link_ok_cong: "vi v = vi w \<Longrightarrow> link_ok v = link_ok w"
  unfolding link_ok_def by (simp only:)

lemma link_ok_leave [simp]: "link_ok (leave_chg ev t v) = link_ok v"
  by (rule link_ok_cong) simp

text \<open>
  C13. Changing the type of an interface keeps its link layer and its recorded type consistent,
  whatever the firmware answers and when; a failed change alters neither, and the
  wait always ends after at most 50 pauses.
\<close>

theorem chg_vif_consistent:
  assumes "link_ok v" and "nrf_wifi_cfg80211_chg_vif K alloc fw ev type v = (status, w)"
  shows "link_ok w \<and> wdev_iftype (vi w) \<in> {wdev_iftype (vi v), Some type} \<and>
    (status \<noteq> 0 \<and> fw = 0 \<longrightarrow> vi w = vi v \<and> fmac_vif w = fmac_vif v) \<and>
    poll (flag_seen v ev) 0 chg_vif_polls \<le> 50"
proof -
  from assms(1) obtain nd where nd: "netdev (vi v) = Some nd"
    by (auto simp: link_ok_def split: option.splits)
  have nd': "netdev (vi (set_fmac_type ft i v)) = Some nd" for ft i using nd by simp
  have "poll (flag_seen v ev) 0 chg_vif_polls \<le> 50"
    using poll_bounds [of 0 "flag_seen v ev" chg_vif_polls] by (simp add: chg_vif_polls_def)
  with assms set_iftype_link [OF nd'] show ?thesis
    by (auto simp: nrf_wifi_cfg80211_chg_vif_def Let_def set_carrier_def link_ok_carrier [unfolded set_carrier_def]
        split: if_splits)
qed

definition station_vif :: vif_ctl where
  "station_vif = \<lparr>vi = ether_vif, fmac_vif = Some (FmacIf IF_STATION, False),
     event_set_if = False, status_set_if = 0\<rparr>"

definition sample_vif_consts :: vif_consts where
  "sample_vif_consts = \<lparr>VIF_SUCCESS = 0, VIF_FAIL = -1, IFNAMSIZ = 16, MAX_NUM_VIFS = 2\<rparr>"

lemma station_link_ok: "link_ok station_vif"
  by (simp add: link_ok_def station_vif_def ether_vif_def is_monitor_def)

theorem chg_vif_consistent_witness:
  "\<exists>status w. nrf_wifi_cfg80211_chg_vif sample_vif_consts True 0
       (Some \<lparr>flag_at = 3, status_at = 3, return_value = 0\<rparr>) IF_AP station_vif = (status, w) \<and> link_ok w"
proof -
  obtain status w where *: "nrf_wifi_cfg80211_chg_vif sample_vif_consts True 0
       (Some \<lparr>flag_at = 3, status_at = 3, return_value = 0\<rparr>) IF_AP station_vif = (status, w)"
    by (cases "nrf_wifi_cfg80211_chg_vif sample_vif_consts True 0
       (Some \<lparr>flag_at = 3, status_at = 3, return_value = 0\<rparr>) IF_AP station_vif")
  with chg_vif_consistent [OF station_link_ok *] show ?thesis by blast
qed



lemma chg_vif_flag_already_set:
  assumes "netdev (vi v) = Some nd" and "type \<noteq> IF_MONITOR" and "VIF_FAIL K \<noteq> 0"
    and "flag_seen v (Some e) (poll (flag_seen v (Some e)) 0 chg_vif_polls)"
    and "status_seen v (Some e) (poll (flag_seen v (Some e)) 0 chg_vif_polls) = 0"
  shows "\<exists>x. nrf_wifi_cfg80211_chg_vif K True 0 (Some e) type v = (0, x) \<and> wdev_iftype (vi x) = Some type"
proof -
  have nd': "netdev (vi (set_fmac_type (FmacIf type) None v)) = Some nd" using assms(1) by simp
  show ?thesis using assms(2-) set_iftype_link [OF nd']
    by (simp add: nrf_wifi_cfg80211_chg_vif_def Let_def)
qed

lemma chg_vif_late:
  assumes "type \<noteq> IF_MONITOR" and "VIF_FAIL K \<noteq> 0" and "\<not> event_set_if v" and "50 < flag_at e"
  shows "nrf_wifi_cfg80211_chg_vif K True 0 (Some e) type v = (-ETIMEDOUT, leave_chg (Some e) 50 v)"
proof -
  have "poll (flag_seen v (Some e)) 0 chg_vif_polls = 50"
    using poll_timeout [of 0 chg_vif_polls "flag_seen v (Some e)"] assms(3,4)
    by (auto simp: flag_seen_def chg_vif_polls_def)
  then show ?thesis
    using assms by (simp add: nrf_wifi_cfg80211_chg_vif_def Let_def flag_seen_def)
qed

text \<open>
  Two races of the same wait. An answer that comes after the time-out is taken for the answer
  to the next change: that change succeeds at once although the firmware rejects it. And since
  the callback raises the flag before it stores the return value, a handler that looks
  in between uses the previous value, so that a rejected change is carried out.
\<close>

theorem chg_vif_races:
  assumes "netdev (vi v) = Some nd" and "type \<noteq> IF_MONITOR" and "VIF_FAIL K \<noteq> 0"
    and "\<not> event_set_if v" and "status_set_if v = 0"
    and "50 < flag_at late" and "return_value late = 0"
    and "return_value rejected \<noteq> 0" and "flag_at rejected \<le> 50" and "flag_at rejected < status_at rejected"
  shows "(\<exists>w x. nrf_wifi_cfg80211_chg_vif K True 0 (Some late) type v = (-ETIMEDOUT, w) \<and>
        nrf_wifi_cfg80211_chg_vif K True 0 (Some rejected) type w = (0, x) \<and>
        wdev_iftype (vi x) = Some type) \<and>
    (\<exists>x. nrf_wifi_cfg80211_chg_vif K True 0 (Some rejected) type v = (0, x) \<and>
        wdev_iftype (vi x) = Some type)"
proof
  define w where "w = leave_chg (Some late) 50 v"
  have w: "event_set_if w" "status_set_if w = 0" "netdev (vi w) = Some nd"
    using assms(1,6,7) by (simp_all add: w_def leave_chg_def)
  have "poll (flag_seen w (Some rejected)) 0 chg_vif_polls = 0"
    by (rule poll_found) (simp_all add: flag_seen_def w)
  with w assms(2,3,10)
  have "\<exists>x. nrf_wifi_cfg80211_chg_vif K True 0 (Some rejected) type w = (0, x) \<and> wdev_iftype (vi x) = Some type"
    by (intro chg_vif_flag_already_set) (simp_all add: flag_seen_def status_seen_def)
  moreover have "nrf_wifi_cfg80211_chg_vif K True 0 (Some late) type v = (-ETIMEDOUT, w)"
    using assms(2-4,6) unfolding w_def by (rule chg_vif_late)
  ultimately show "\<exists>w x. nrf_wifi_cfg80211_chg_vif K True 0 (Some late) type v = (-ETIMEDOUT, w) \<and>
        nrf_wifi_cfg80211_chg_vif K True 0 (Some rejected) type w = (0, x) \<and>
        wdev_iftype (vi x) = Some type" by blast
next
  have "poll (flag_seen v (Some rejected)) 0 chg_vif_polls = flag_at rejected"
    by (rule poll_found) (use assms in \<open>auto simp: flag_seen_def chg_vif_polls_def\<close>)
  with assms show "\<exists>x. nrf_wifi_cfg80211_chg_vif K True 0 (Some rejected) type v = (0, x) \<and>
        wdev_iftype (vi x) = Some type"
    by (intro chg_vif_flag_already_set) (simp_all add: flag_seen_def status_seen_def)
qed

theorem chg_vif_races_witness:
  "(\<exists>w x. nrf_wifi_cfg80211_chg_vif sample_vif_consts True 0
        (Some \<lparr>flag_at = 60, status_at = 60, return_value = 0\<rparr>) IF_AP station_vif = (-ETIMEDOUT, w) \<and>
      nrf_wifi_cfg80211_chg_vif sample_vif_consts True 0
        (Some \<lparr>flag_at = 2, status_at = 3, return_value = -5\<rparr>) IF_AP w = (0, x) \<and>
      wdev_iftype (vi x) = Some IF_AP)"
  using chg_vif_races [of station_vif _ IF_AP sample_vif_consts "\<lparr>flag_at = 60, status_at = 60, return_value = 0\<rparr>"
      "\<lparr>flag_at = 2, status_at = 3, return_value = -5\<rparr>"]
  by (simp add: sample_vif_consts_def station_vif_def ether_vif_def)



end
