(* ===== verification/Station_Info.thy ===== *)
theory Station_Info
  imports Nrf_Prelude
begin

text \<open>
  Station statistics and the other queries of the cfg80211 interface that ask the firmware and wait
  for its answer (\<open>cfg80211_if.c\<close>, with the event callbacks of \<open>main.c\<close>). A query polls a slot
  of the interface context that the callback fills from another thread; \<open>resp\<close> gives the
  instant, in polls, at which the callback runs and the answer it brings. Values copied
  from the firmware are mathematical integers here; a field with several parts is a list.
\<close>

subsection \<open>Station information\<close>

datatype sta_field =
  F_CONNECTED_TIME | F_INACTIVE_TIME | F_RX_BYTES | F_TX_BYTES | F_SIGNAL | F_SIGNAL_AVG |
  F_TX_BITRATE | F_RX_BITRATE | F_STA_FLAGS | F_LLID | F_PLID | F_PLINK_STATE |
  F_RX_PACKETS | F_TX_PACKETS | F_TX_RETRIES | F_TX_FAILED | F_EXPECTED_THROUGHPUT |
  F_BEACON_LOSS_COUNT | F_LOCAL_PM | F_PEER_PM | F_NONPEER_PM | F_T_OFFSET |
  F_RX_DROPPED_MISC | F_RX_BEACON | F_RX_BEACON_SIGNAL_AVG | F_STA_BSS_PARAMS |
  F_CHAIN_SIGNAL | F_CHAIN_SIGNAL_AVG

definition sta_fields :: "sta_field list" where
  "sta_fields =
    [F_CONNECTED_TIME, F_INACTIVE_TIME, F_RX_BYTES, F_TX_BYTES, F_SIGNAL, F_SIGNAL_AVG,
     F_TX_BITRATE, F_RX_BITRATE, F_STA_FLAGS, F_LLID, F_PLID, F_PLINK_STATE, F_RX_PACKETS,
     F_TX_PACKETS, F_TX_RETRIES, F_TX_FAILED, F_EXPECTED_THROUGHPUT, F_BEACON_LOSS_COUNT,
     F_LOCAL_PM, F_PEER_PM, F_NONPEER_PM, F_T_OFFSET, F_RX_DROPPED_MISC, F_RX_BEACON,
     F_RX_BEACON_SIGNAL_AVG, F_STA_BSS_PARAMS, F_CHAIN_SIGNAL, F_CHAIN_SIGNAL_AVG]"

text \<open>The bits of cfg80211 (\<open>enum nl80211_sta_info\<close>) that announce a field.\<close>

fun nl80211_bit :: "sta_field \<Rightarrow> nat" where
  "nl80211_bit F_CONNECTED_TIME = 16"
| "nl80211_bit F_INACTIVE_TIME = 1"
| "nl80211_bit F_RX_BYTES = 2"
| "nl80211_bit F_TX_BYTES = 3"
| "nl80211_bit F_SIGNAL = 7"
| "nl80211_bit F_SIGNAL_AVG = 13"
| "nl80211_bit F_TX_BITRATE = 8"
| "nl80211_bit F_RX_BITRATE = 14"
| "nl80211_bit F_STA_FLAGS = 17"
| "nl80211_bit F_LLID = 4"
| "nl80211_bit F_PLID = 5"
| "nl80211_bit F_PLINK_STATE = 6"
| "nl80211_bit F_RX_PACKETS = 9"
| "nl80211_bit F_TX_PACKETS = 10"
| "nl80211_bit F_TX_RETRIES = 11"
| "nl80211_bit F_TX_FAILED = 12"
| "nl80211_bit F_EXPECTED_THROUGHPUT = 27"
| "nl80211_bit F_BEACON_LOSS_COUNT = 18"
| "nl80211_bit F_LOCAL_PM = 20"
| "nl80211_bit F_PEER_PM = 21"
| "nl80211_bit F_NONPEER_PM = 22"
| "nl80211_bit F_T_OFFSET = 19"
| "nl80211_bit F_RX_DROPPED_MISC = 28"
| "nl80211_bit F_RX_BEACON = 29"
| "nl80211_bit F_RX_BEACON_SIGNAL_AVG = 30"
| "nl80211_bit F_STA_BSS_PARAMS = 15"
| "nl80211_bit F_CHAIN_SIGNAL = 25"
| "nl80211_bit F_CHAIN_SIGNAL_AVG = 26"

datatype rate_bw = BW_20 | BW_40 | BW_80 | BW_160

record fw_rate =
  fr_flags :: u32
  fr_valid_fields :: u32
  fr_bitrate :: int
  fr_mcs :: int
  fr_vht_mcs :: int
  fr_vht_nss :: int

record fw_sta =
  sta_valid_fields :: u32
  sta_vals :: "sta_field \<Rightarrow> int list"
  tx_bitrate :: fw_rate
  rx_bitrate :: fw_rate

record rate_info =
  rate_bw :: rate_bw
  rate_flags :: u8
  rate_legacy :: int
  rate_mcs :: int
  rate_nss :: int

record station_info =
  filled :: u64
  svals :: "sta_field \<Rightarrow> int list"
  txrate :: rate_info
  rxrate :: rate_info

record sta_consts =
  sta_mask :: "sta_field \<Rightarrow> u32"
  RATE_40_MHZ :: u32
  RATE_80_MHZ :: u32
  RATE_160_MHZ :: u32
  RATE_SHORT_GI :: u32
  BITRATE_VALID :: u32
  BITRATE_MCS_VALID :: u32
  BITRATE_VHT_MCS_VALID :: u32
  BITRATE_VHT_NSS_VALID :: u32
  STA_FAIL :: int

abbreviation RATE_INFO_FLAGS_MCS :: u8 where "RATE_INFO_FLAGS_MCS \<equiv> 1"
abbreviation RATE_INFO_FLAGS_VHT_MCS :: u8 where "RATE_INFO_FLAGS_VHT_MCS \<equiv> 2"
abbreviation RATE_INFO_FLAGS_SHORT_GI :: u8 where "RATE_INFO_FLAGS_SHORT_GI \<equiv> 4"

definition has :: "u32 \<Rightarrow> u32 \<Rightarrow> bool" where "has w bits \<longleftrightarrow> w AND bits \<noteq> 0"

text \<open>
  One rate. The two directions differ in the word that the VHT tests look at: \<open>valid_fields\<close> for
  the transmit rate, \<open>nrf_wifi_flags\<close> for the receive rate.
\<close>

definition set_rate :: "sta_consts \<Rightarrow> u32 \<Rightarrow> fw_rate \<Rightarrow> rate_info \<Rightarrow> rate_info" where
  "set_rate K vht_word r i =
     (let i = i\<lparr>rate_bw := (if has (fr_flags r) (RATE_40_MHZ K) then BW_40
                else if has (fr_flags r) (RATE_80_MHZ K) then BW_80
                else if has (fr_flags r) (RATE_160_MHZ K) then BW_160 else BW_20)\<rparr>;
          i = (if has (fr_flags r) (RATE_SHORT_GI K)
               then i\<lparr>rate_flags := rate_flags i OR RATE_INFO_FLAGS_SHORT_GI\<rparr> else i);
          i = (if has (fr_valid_fields r) (BITRATE_VALID K) then i\<lparr>rate_legacy := fr_bitrate r\<rparr> else i);
          i = (if has (fr_valid_fields r) (BITRATE_MCS_VALID K)
               then i\<lparr>rate_mcs := fr_mcs r, rate_flags := rate_flags i OR RATE_INFO_FLAGS_MCS\<rparr> else i);
          i = (if has vht_word (BITRATE_VHT_MCS_VALID K)
               then i\<lparr>rate_mcs := fr_vht_mcs r, rate_flags := rate_flags i OR RATE_INFO_FLAGS_VHT_MCS\<rparr> else i)
      in if has vht_word (BITRATE_VHT_NSS_VALID K) then i\<lparr>rate_nss := fr_vht_nss r\<rparr> else i)"

definition sta_has :: "sta_consts \<Rightarrow> fw_sta \<Rightarrow> sta_field \<Rightarrow> bool" where
  "sta_has K sta f \<longleftrightarrow> has (sta_valid_fields sta) (sta_mask K f)"

definition fill_field :: "sta_consts \<Rightarrow> fw_sta \<Rightarrow> sta_field \<Rightarrow> station_info \<Rightarrow> station_info" where
  "fill_field K sta f s =
     (if \<not> sta_has K sta f then s
      else (if f = F_TX_BITRATE
            then s\<lparr>txrate := set_rate K (fr_valid_fields (tx_bitrate sta)) (tx_bitrate sta) (txrate s)\<rparr>
            else if f = F_RX_BITRATE
            then s\<lparr>rxrate := set_rate K (fr_flags (rx_bitrate sta)) (rx_bitrate sta) (rxrate s)\<rparr>
            else s\<lparr>svals := (svals s)(f := sta_vals sta f)\<rparr>)
           \<lparr>filled := filled s OR push_bit (nl80211_bit f) 1\<rparr>)"

definition sta_set_sinfo :: "sta_consts \<Rightarrow> fw_sta \<Rightarrow> station_info \<Rightarrow> station_info" where
  "sta_set_sinfo K sta s = fold (fill_field K sta) sta_fields s"

subsection \<open>Waiting for an answer\<close>

definition query_polls :: nat where "query_polls = 50"

definition slot_at :: "'s option \<Rightarrow> (nat \<times> 's) option \<Rightarrow> nat \<Rightarrow> 's option" where
  "slot_at slot resp t =
     (case resp of None \<Rightarrow> slot | Some (at, x) \<Rightarrow> if at \<le> t then Some x else slot)"

definition await :: "'s option \<Rightarrow> (nat \<times> 's) option \<Rightarrow> nat" where
  "await slot resp = poll (\<lambda>t. slot_at slot resp t \<noteq> None) 0 query_polls"

text \<open>What a callback that runs after instant \<open>t\<close> leaves in the slot emptied at \<open>t\<close>.\<close>

definition slot_after :: "(nat \<times> 's) option \<Rightarrow> nat \<Rightarrow> 's option" where
  "slot_after resp t = (case resp of None \<Rightarrow> None | Some (at, x) \<Rightarrow> if t < at then Some x else None)"

definition nrf_wifi_get_station_callbk_fn :: "bool \<Rightarrow> fw_sta \<Rightarrow> fw_sta option" where
  "nrf_wifi_get_station_callbk_fn alloc sta = (if alloc then Some sta else None)"

definition nrf_wifi_cfg80211_get_station ::
  "sta_consts \<Rightarrow> int \<Rightarrow> station_info \<Rightarrow> fw_sta option \<Rightarrow> (nat \<times> fw_sta) option \<Rightarrow>
   (int \<times> station_info option) \<times> fw_sta option" where
  "nrf_wifi_cfg80211_get_station K fw sinfo slot resp =
     (if fw = STA_FAIL K then ((-EIO, None), slot)
      else let t = await slot resp in
        case slot_at slot resp t of
          None \<Rightarrow> ((-ETIMEDOUT, None), slot_after resp t)
        | Some sta \<Rightarrow> ((0, Some (sta_set_sinfo K sta sinfo)), slot_after resp t))"

record chan_def =
  center_frequency :: u32
  width :: nat
  center_frequency1 :: u32
  center_frequency2 :: u32

definition nrf_wifi_chnl_get_callbk_fn :: "bool \<Rightarrow> chan_def \<Rightarrow> chan_def option" where
  "nrf_wifi_chnl_get_callbk_fn alloc c = (if alloc then Some c else None)"

definition chan_answer :: "chan_def \<Rightarrow> int \<times> chan_def option" where
  "chan_answer c = (if center_frequency c = 0 then (-ENODATA, None) else (0, Some c))"

definition nrf_wifi_cfg80211_get_channel ::
  "sta_consts \<Rightarrow> bool \<Rightarrow> int \<Rightarrow> chan_def option \<Rightarrow> (nat \<times> chan_def) option \<Rightarrow>
   (int \<times> chan_def option) \<times> chan_def option" where
  "nrf_wifi_cfg80211_get_channel K up fw slot resp =
     (if \<not> up then ((-ENETDOWN, None), slot)
      else if fw = STA_FAIL K then ((-EIO, None), slot)
      else let t = await slot resp in
        case slot_at slot resp t of
          None \<Rightarrow> ((-ETIMEDOUT, None), slot_after resp t)
        | Some c \<Rightarrow> (chan_answer c, slot_after resp t))"

text \<open>The transmit power has a value and a flag, and the query clears the flag first.\<close>

definition nrf_wifi_tx_pwr_get_callbk_fn :: "int \<Rightarrow> bool \<times> int \<Rightarrow> bool \<times> int" where
  "nrf_wifi_tx_pwr_get_callbk_fn level p = (True, level)"

definition nrf_wifi_cfg80211_get_tx_power ::
  "sta_consts \<Rightarrow> bool \<Rightarrow> int \<Rightarrow> bool \<times> int \<Rightarrow> (nat \<times> int) option \<Rightarrow> (int \<times> int option) \<times> bool \<times> int" where
  "nrf_wifi_cfg80211_get_tx_power K up fw p resp =
     (let (event, power) = (False, snd p) in
      if \<not> up then ((-ENETDOWN, None), event, power)
      else if fw = STA_FAIL K then ((-EIO, None), event, power)
      else let t = await None resp in
        case slot_at None resp t of
          None \<Rightarrow> ((-ETIMEDOUT, None), (case resp of None \<Rightarrow> (event, power) | Some (_, x) \<Rightarrow> (True, x)))
        | Some x \<Rightarrow> ((0, Some x), True, 0))"

subsection \<open>What user space learns about a station\<close>

lemma fill_field_filled:
  "filled (fill_field K sta f s) =
     (if sta_has K sta f then filled s OR push_bit (nl80211_bit f) 1 else filled s)"
  by (simp add: fill_field_def)

lemma fold_filled:
  assumes "n < 64"
  shows "bit (filled (fold (fill_field K sta) fs s)) n \<longleftrightarrow>
    bit (filled s) n \<or> (\<exists>f \<in> set fs. sta_has K sta f \<and> nl80211_bit f = n)"
proof (induction fs arbitrary: s)
  case (Cons f fs)
  with assms show ?case by (auto simp: fill_field_filled bit_simps)
qed simp

lemma fold_svals:
  "f \<notin> {F_TX_BITRATE, F_RX_BITRATE} \<Longrightarrow>
     svals (fold (fill_field K sta) fs s) f = (if f \<in> set fs \<and> sta_has K sta f then sta_vals sta f else svals s f)"
proof (induction fs arbitrary: s)
  case (Cons g fs)
  then show ?case by (simp add: fill_field_def)
qed simp

lemma fold_txrate:
  "txrate (fold (fill_field K sta) fs s) =
     (if sta_has K sta F_TX_BITRATE
      then (set_rate K (fr_valid_fields (tx_bitrate sta)) (tx_bitrate sta) ^^ count_list fs F_TX_BITRATE) (txrate s)
      else txrate s)"
  by (induction fs arbitrary: s) (auto simp: fill_field_def funpow_swap1)

lemma fold_rxrate:
  "rxrate (fold (fill_field K sta) fs s) =
     (if sta_has K sta F_RX_BITRATE
      then (set_rate K (fr_flags (rx_bitrate sta)) (rx_bitrate sta) ^^ count_list fs F_RX_BITRATE) (rxrate s)
      else rxrate s)"
  by (induction fs arbitrary: s) (auto simp: fill_field_def funpow_swap1)

lemma all_sta_fields: "f \<in> set sta_fields"
  by (cases f) (simp_all add: sta_fields_def)

lemma nl80211_bit_less: "nl80211_bit f < 64"
  by (cases f) simp_all

lemma nl80211_bit_inj: "nl80211_bit f = nl80211_bit g \<longleftrightarrow> f = g"
  by (cases f; cases g) simp_all


definition sample_sta_consts :: sta_consts where
  "sample_sta_consts = \<lparr>sta_mask = (\<lambda>f. push_bit (nl80211_bit f) 1), RATE_40_MHZ = 2, RATE_80_MHZ = 4,
     RATE_160_MHZ = 8, RATE_SHORT_GI = 1, BITRATE_VALID = 1, BITRATE_MCS_VALID = 2,
     BITRATE_VHT_MCS_VALID = 4, BITRATE_VHT_NSS_VALID = 8, STA_FAIL = -1\<rparr>"

definition vht_rate :: fw_rate where
  "vht_rate = \<lparr>fr_flags = 0, fr_valid_fields = 4, fr_bitrate = 0, fr_mcs = 0, fr_vht_mcs = 9, fr_vht_nss = 1\<rparr>"

definition sample_sta :: fw_sta where
  "sample_sta = \<lparr>sta_valid_fields = 0x4180, sta_vals = (\<lambda>f. if f = F_SIGNAL then [-40] else [1]),
     tx_bitrate = vht_rate, rx_bitrate = vht_rate\<rparr>"

definition empty_sinfo :: station_info where
  "empty_sinfo = \<lparr>filled = 0, svals = (\<lambda>_. []),
     txrate = \<lparr>rate_bw = BW_20, rate_flags = 0, rate_legacy = 0, rate_mcs = 0, rate_nss = 0\<rparr>,
     rxrate = \<lparr>rate_bw = BW_20, rate_flags = 0, rate_legacy = 0, rate_mcs = 0, rate_nss = 0\<rparr>\<rparr>"

lemma sample_sta_has:
  "sta_has sample_sta_consts sample_sta F_SIGNAL" "sta_has sample_sta_consts sample_sta F_TX_BITRATE"
  "sta_has sample_sta_consts sample_sta F_RX_BITRATE"
  by (simp_all add: sta_has_def has_def sample_sta_consts_def sample_sta_def)


text \<open>
  For the receive rate the VHT validity bits are looked up in the flags instead of the valid
  fields: a station that receives with a VHT rate is reported without VHT index, whereas the
  same description of the transmit rate is reported with it.
\<close>

theorem rx_rate_loses_vht:
  assumes "sta_has K sta F_RX_BITRATE" and "sta_has K sta F_TX_BITRATE"
    and "rx_bitrate sta = r" and "tx_bitrate sta = r"
    and "has (fr_valid_fields r) (BITRATE_VHT_MCS_VALID K)" and "\<not> has (fr_flags r) (BITRATE_VHT_MCS_VALID K)"
    and "\<not> has (fr_valid_fields r) (BITRATE_MCS_VALID K)"
  shows "rate_mcs (rxrate (sta_set_sinfo K sta s)) = rate_mcs (rxrate s) \<and>
    rate_mcs (txrate (sta_set_sinfo K sta s)) = fr_vht_mcs r"
proof -
  have "count_list sta_fields F_TX_BITRATE = 1" "count_list sta_fields F_RX_BITRATE = 1"
    by (simp_all add: sta_fields_def)
  with assms show ?thesis
    by (simp add: sta_set_sinfo_def fold_txrate fold_rxrate set_rate_def Let_def)
qed

theorem rx_rate_loses_vht_witness:
  "rate_mcs (rxrate (sta_set_sinfo sample_sta_consts sample_sta empty_sinfo)) = 0 \<and>
   rate_mcs (txrate (sta_set_sinfo sample_sta_consts sample_sta empty_sinfo)) = 9"
  using rx_rate_loses_vht [OF sample_sta_has(3,2) refl, of empty_sinfo]
  by (simp add: sample_sta_def vht_rate_def has_def sample_sta_consts_def empty_sinfo_def)

subsection \<open>Answers and the questions they belong to\<close>

text \<open>
  What the waiting queries have in common: \<open>ask slot resp\<close> is the result of one call and the slot
  it leaves, \<open>answer\<close> what is made of the data in the slot.
\<close>

locale slot_query =
  fixes ask :: "'s option \<Rightarrow> (nat \<times> 's) option \<Rightarrow> 'r \<times> 's option"
    and answer :: "'s \<Rightarrow> 'r" and timed_out :: 'r and limit :: nat
  assumes prompt: "t \<le> limit \<Longrightarrow> ask None (Some (t, x)) = (answer x, None)"
    and late: "limit < t \<Longrightarrow> ask None (Some (t, x)) = (timed_out, Some x)"
    and stale: "0 < t \<Longrightarrow> ask (Some y) (Some (t, x)) = (answer y, Some x)"

text \<open>A sequence of calls, each with the response the firmware gives to it.\<close>

fun ask_all :: "('s option \<Rightarrow> (nat \<times> 's) option \<Rightarrow> 'r \<times> 's option) \<Rightarrow> 's option \<Rightarrow> (nat \<times> 's) list \<Rightarrow> 'r list" where
  "ask_all ask slot [] = []"
| "ask_all ask slot (r # rs) = (let (a, slot) = ask slot (Some r) in a # ask_all ask slot rs)"

context slot_query
begin

lemma all_prompt: "\<forall>(t, x) \<in> set rs. t \<le> limit \<Longrightarrow> ask_all ask None rs = map (\<lambda>(t, x). answer x) rs"
  by (induction rs) (auto simp: prompt)

lemma shifted:
  "\<forall>(t, x) \<in> set rs. 0 < t \<Longrightarrow> ask_all ask (Some y) rs = take (length rs) (map answer (y # map snd rs))"
  by (induction rs arbitrary: y) (auto simp: stale)

lemma one_late:
  assumes "limit < t" and "\<forall>(t, x) \<in> set rs. 0 < t"
  shows "ask_all ask None ((t, x) # rs) = timed_out # take (length rs) (map answer (x # map snd rs))"
  using assms by (simp add: late shifted)

end

lemma await_empty: "await None (Some (t, x)) = min t 50"
proof (cases "t \<le> 50")
  case True
  then have "poll (\<lambda>n. slot_at None (Some (t, x)) n \<noteq> None) 0 query_polls = t"
    by (intro poll_found) (auto simp: slot_at_def query_polls_def)
  with True show ?thesis by (simp add: await_def)
next
  case False
  then have "poll (\<lambda>n. slot_at None (Some (t, x)) n \<noteq> None) 0 query_polls = 0 + query_polls"
    by (intro poll_timeout) (auto simp: slot_at_def query_polls_def)
  with False show ?thesis by (simp add: await_def query_polls_def)
qed

lemma await_full: "await (Some y) resp = 0"
  unfolding await_def by (rule poll_found) (auto simp: slot_at_def split: option.splits)

lemmas await_eq = await_empty await_full

interpretation station: slot_query "nrf_wifi_cfg80211_get_station (K\<lparr>STA_FAIL := -1\<rparr>) 0 sinfo"
    "\<lambda>sta. (0, Some (sta_set_sinfo (K\<lparr>STA_FAIL := -1\<rparr>) sta sinfo))" "(-ETIMEDOUT, None)" 50
    for K sinfo
  by unfold_locales
    (auto simp: nrf_wifi_cfg80211_get_station_def await_eq slot_at_def slot_after_def Let_def)

interpretation channel: slot_query "nrf_wifi_cfg80211_get_channel (K\<lparr>STA_FAIL := -1\<rparr>) True 0"
    chan_answer "(-ETIMEDOUT, None)" 50
    for K
  by unfold_locales
    (auto simp: nrf_wifi_cfg80211_get_channel_def await_eq slot_at_def slot_after_def Let_def)


definition chan1 :: chan_def where
  "chan1 = \<lparr>center_frequency = 2412, width = 1, center_frequency1 = 2412, center_frequency2 = 0\<rparr>"

definition chan6 :: chan_def where "chan6 = chan1\<lparr>center_frequency := 2437, center_frequency1 := 2437\<rparr>"

lemma sample_sta_fail: "STA_FAIL sample_sta_consts = -1"
  by (simp add: sample_sta_consts_def)


text \<open>
  One late answer shifts all the following ones: after a query that timed out, the answer that
  still arrives stays in the slot, and every later call returns the answer to the call before
  it, however promptly the firmware reacts (as long as it needs at least one poll).
\<close>

theorem late_answer_shifts_queries:
  assumes "STA_FAIL K = -1" and "50 < t" and "\<forall>(t, x) \<in> set stas. 0 < t"
    and "50 < u" and "\<forall>(t, x) \<in> set chans. 0 < t"
  shows "ask_all (nrf_wifi_cfg80211_get_station K 0 sinfo) None ((t, sta) # stas) =
      (-ETIMEDOUT, None) # take (length stas)
        (map (\<lambda>x. (0, Some (sta_set_sinfo K x sinfo))) (sta # map snd stas)) \<and>
    ask_all (nrf_wifi_cfg80211_get_channel K True 0) None ((u, c) # chans) =
      (-ETIMEDOUT, None) # take (length chans) (map chan_answer (c # map snd chans))"
proof -
  have "K\<lparr>STA_FAIL := -1\<rparr> = K" using assms(1) by (cases K) simp
  with station.one_late [OF assms(2,3), of K sinfo sta] channel.one_late [OF assms(4,5), of K c]
  show ?thesis by simp
qed

theorem late_answer_shifts_queries_witness:
  "ask_all (nrf_wifi_cfg80211_get_channel sample_sta_consts True 0) None [(60, chan1), (3, chan6)] =
     [(-ETIMEDOUT, None), (0, Some chan1)]"
  using late_answer_shifts_queries [OF sample_sta_fail, of 60 "[]" 60 "[(3, chan6)]" _ _ chan1]
  by (simp add: chan_answer_def chan1_def del: ask_all.simps)

text \<open>
  The transmit power query does not have this defect for answers that arrived before it: it
  clears the flag first, so its result depends on the interface state, the firmware's
  acceptance and the response alone.
\<close>

theorem tx_power_ignores_old_event:
  "fst (nrf_wifi_cfg80211_get_tx_power K up fw (event, pwr) resp) =
     (if \<not> up then (-ENETDOWN, None)
      else if fw = STA_FAIL K then (-EIO, None)
      else case resp of
        Some (t, x) \<Rightarrow> if t \<le> 50 then (0, Some x) else (-ETIMEDOUT, None)
      | None \<Rightarrow> (-ETIMEDOUT, None))"
proof (cases resp)
  case None
  then show ?thesis by (simp add: nrf_wifi_cfg80211_get_tx_power_def Let_def slot_at_def)
next
  case (Some r)
  then show ?thesis
    by (cases r) (auto simp: nrf_wifi_cfg80211_get_tx_power_def Let_def slot_at_def await_eq)
qed

end
