(* ===== verification/Cfg80211_Conf.thy ===== *)
theory Cfg80211_Conf
  imports Driver_Init
begin

text \<open>
  The remaining cfg80211 callbacks (\<open>cfg80211_if.c\<close>): keys, stations, access point operation, power
  management and radio parameters. Each allocates a command structure, copies the request
  into it, calls the firmware and frees the structure; for the access point and peer-to-peer
  callbacks the call is missing. Copies are checked against the array they go to.
\<close>

subsection \<open>Commands\<close>

record conf_consts =
  CONF_SUCCESS :: int
  CONF_FAIL :: int
  KEYTYPE_PAIRWISE :: nat
  KEYTYPE_GROUP :: nat
  KEY_DEFAULT :: u32
  KEY_DEFAULT_TYPE_UNICAST :: u32
  KEY_DEFAULT_TYPE_MULTICAST :: u32
  KEY_DEFAULT_MGMT :: u32
  cap_key :: nat
  cap_seq :: nat
  cap_ssid :: nat
  cap_ciphers :: nat
  cap_akm :: nat
  cap_head :: nat
  cap_tail :: nat
  cap_probe_resp :: nat
  cap_rates :: nat
  cap_ext_capability :: nat
  cap_channels :: nat
  cap_oper_classes :: nat
  cap_basic_rates :: nat
  cap_qos_map :: nat

abbreviation NL80211_KEYTYPE_GROUP :: nat where "NL80211_KEYTYPE_GROUP \<equiv> 0"
abbreviation NL80211_KEYTYPE_PAIRWISE :: nat where "NL80211_KEYTYPE_PAIRWISE \<equiv> 1"

record key_info =
  ki_key :: "u8 list"
  ki_idx :: u8
  ki_seq :: "u8 list"
  ki_cipher :: u32
  ki_type :: nat
  ki_flags :: u32

definition zero_key :: key_info where
  "zero_key = \<lparr>ki_key = [], ki_idx = 0, ki_seq = [], ki_cipher = 0, ki_type = 0, ki_flags = 0\<rparr>"

record wiphy_info =
  wi_rts_threshold :: u32
  wi_frag_threshold :: u32
  wi_retry_long :: u8
  wi_retry_short :: u8

record chg_sta_info =
  cs_aid :: u16
  cs_listen_interval :: u16
  cs_channels :: "u8 list"
  cs_oper_classes :: "u8 list"
  cs_flags_mask :: u32
  cs_flags_set :: u32
  cs_mac :: "u8 list"
  cs_opmode_notif :: u8
  cs_max_sp :: u8

datatype conf_cmd =
  AddKey key_info "u8 list option" | DelKey key_info "u8 list option" | SetKey key_info
| ChgSta chg_sta_info | SetPowerSave bool | SetQosMap "u8 list" | SetWiphy wiphy_info | SetChannel nat

text \<open>The commands sent so far and the command structures still allocated.\<close>

record conf =
  conf_cmds :: "conf_cmd list"
  conf_live :: int

type_synonym conf_fw = "conf_cmd \<Rightarrow> int"

definition alloc_conf :: "conf \<Rightarrow> conf" where "alloc_conf s = s\<lparr>conf_live := conf_live s + 1\<rparr>"
definition free_conf :: "conf \<Rightarrow> conf" where "free_conf s = s\<lparr>conf_live := conf_live s - 1\<rparr>"
definition issue :: "conf_cmd \<Rightarrow> conf \<Rightarrow> conf" where "issue c s = s\<lparr>conf_cmds := conf_cmds s @ [c]\<rparr>"

subsection \<open>Keys\<close>

record key_params =
  kp_key :: "u8 list"
  kp_seq :: "u8 list"
  kp_cipher :: u32

definition nrf_wifi_cfg80211_add_key ::
  "conf_consts \<Rightarrow> conf_fw \<Rightarrow> bool \<Rightarrow> u8 \<Rightarrow> bool \<Rightarrow> u8 list option \<Rightarrow> key_params option \<Rightarrow> conf \<Rightarrow>
   (int \<times> conf) outcome" where
  "nrf_wifi_cfg80211_add_key K fw alloc key_index is_pairwise mac_addr params s =
     (case params of
        None \<Rightarrow> Ret (-1, s)
      | Some p \<Rightarrow>
          if \<not> alloc then Ret (-1, s) else
          let s = alloc_conf s in
          and_then (copy_to (cap_key K) (kp_key p)) (\<lambda>key.
            and_then (copy_to (cap_seq K) (kp_seq p)) (\<lambda>seq.
              let info = (if kp_key p \<noteq> [] then zero_key\<lparr>ki_key := key, ki_idx := key_index\<rparr> else zero_key);
                  info = info\<lparr>ki_seq := seq, ki_cipher := kp_cipher p,
                    ki_type := (if is_pairwise then KEYTYPE_PAIRWISE K else KEYTYPE_GROUP K)\<rparr>;
                  c = AddKey info mac_addr in
              Ret (fw c, free_conf (issue c s)))))"

definition nrf_wifi_cfg80211_del_key ::
  "conf_fw \<Rightarrow> bool \<Rightarrow> u8 \<Rightarrow> bool \<Rightarrow> u8 list option \<Rightarrow> conf \<Rightarrow> int \<times> conf" where
  "nrf_wifi_cfg80211_del_key fw alloc key_idx is_pairwise mac_addr s =
     (if \<not> alloc then (-1, s) else
      let c = DelKey (zero_key\<lparr>ki_idx := key_idx,
                ki_type := (if is_pairwise then NL80211_KEYTYPE_PAIRWISE else NL80211_KEYTYPE_GROUP)\<rparr>) mac_addr in
      (fw c, free_conf (issue c (alloc_conf s))))"

definition nrf_wifi_cfg80211_set_def_key ::
  "conf_consts \<Rightarrow> conf_fw \<Rightarrow> bool \<Rightarrow> u8 \<Rightarrow> bool \<Rightarrow> bool \<Rightarrow> conf \<Rightarrow> int \<times> conf" where
  "nrf_wifi_cfg80211_set_def_key K fw alloc key_index unicast multicast s =
     (if \<not> alloc then (-1, s) else
      let flags = (if unicast then KEY_DEFAULT_TYPE_UNICAST K else 0)
                  OR (if multicast then KEY_DEFAULT_TYPE_MULTICAST K else 0) OR KEY_DEFAULT K;
          c = SetKey (zero_key\<lparr>ki_flags := flags, ki_idx := key_index\<rparr>) in
      (fw c, free_conf (issue c (alloc_conf s))))"

definition nrf_wifi_cfg80211_set_def_mgmt_key ::
  "conf_consts \<Rightarrow> conf_fw \<Rightarrow> bool \<Rightarrow> u8 \<Rightarrow> conf \<Rightarrow> int \<times> conf" where
  "nrf_wifi_cfg80211_set_def_mgmt_key K fw alloc key_index s =
     (if \<not> alloc then (-1, s) else
      let c = SetKey (zero_key\<lparr>ki_idx := key_index, ki_flags := KEY_DEFAULT_MGMT K\<rparr>) in
      (fw c, free_conf (issue c (alloc_conf s))))"

subsection \<open>Access point and stations\<close>

text \<open>
  The structures that these handlers fill are freed without having been passed on, so that only the
  bounds of the copies and the returned status remain of them.
\<close>

record beacon_data =
  bd_head :: "u8 list"
  bd_tail :: "u8 list"
  bd_probe_resp :: "u8 list"

record ap_settings =
  ap_ssid :: "u8 list option"
  ap_ciphers_pairwise :: "u8 list"
  ap_akm_suites :: "u8 list"
  ap_beacon :: beacon_data

definition copy_beacon :: "conf_consts \<Rightarrow> beacon_data \<Rightarrow> unit outcome" where
  "copy_beacon K b =
     and_then (copy_to (cap_head K) (bd_head b)) (\<lambda>_.
       and_then (copy_to (cap_tail K) (bd_tail b)) (\<lambda>_.
         and_then (copy_to (cap_probe_resp K) (bd_probe_resp b)) (\<lambda>_. Ret ())))"

definition nrf_wifi_cfg80211_start_ap :: "conf_consts \<Rightarrow> bool \<Rightarrow> ap_settings \<Rightarrow> conf \<Rightarrow> (int \<times> conf) outcome" where
  "nrf_wifi_cfg80211_start_ap K alloc p s =
     (if \<not> alloc then Ret (-1, s) else
      and_then (case ap_ssid p of None \<Rightarrow> Ret [] | Some ssid \<Rightarrow> copy_to (cap_ssid K) ssid) (\<lambda>_.
        and_then (copy_to (cap_ciphers K) (ap_ciphers_pairwise p)) (\<lambda>_.
          and_then (copy_to (cap_akm K) (ap_akm_suites p)) (\<lambda>_.
            and_then (copy_beacon K (ap_beacon p)) (\<lambda>_. Ret (-1, free_conf (alloc_conf s)))))))"

definition nrf_wifi_cfg80211_chg_bcn :: "conf_consts \<Rightarrow> bool \<Rightarrow> beacon_data \<Rightarrow> conf \<Rightarrow> (int \<times> conf) outcome" where
  "nrf_wifi_cfg80211_chg_bcn K alloc b s =
     (if \<not> alloc then Ret (-1, s)
      else and_then (copy_beacon K b) (\<lambda>_. Ret (-1, free_conf (alloc_conf s))))"

definition nrf_wifi_cfg80211_stop_ap :: "conf \<Rightarrow> int \<times> conf" where
  "nrf_wifi_cfg80211_stop_ap s = (-1, s)"

record station_params =
  sp_aid :: u16
  sp_listen_interval :: u16
  sp_rates :: "u8 list"
  sp_ext_capab :: "u8 list"
  sp_channels :: "u8 list"
  sp_oper_classes :: "u8 list"
  sp_flags_mask :: u32
  sp_flags_set :: u32
  sp_opmode_notif :: "u8 option"
  sp_max_sp :: u8

text \<open>The flags are written through a pointer that is still NULL.\<close>

definition nrf_wifi_cfg80211_add_sta :: "conf_consts \<Rightarrow> bool \<Rightarrow> station_params \<Rightarrow> conf \<Rightarrow> (int \<times> conf) outcome" where
  "nrf_wifi_cfg80211_add_sta K alloc p s =
     (if \<not> alloc then Ret (-1, s) else
      and_then (copy_to (cap_rates K) (sp_rates p)) (\<lambda>_.
        and_then (copy_to (cap_ext_capability K) (sp_ext_capab p)) (\<lambda>_.
          and_then (copy_to (cap_channels K) (sp_channels p)) (\<lambda>_.
            and_then (copy_to (cap_oper_classes K) (sp_oper_classes p)) (\<lambda>_. UB NullDeref)))))"

definition nrf_wifi_cfg80211_del_sta :: "bool \<Rightarrow> conf \<Rightarrow> int \<times> conf" where
  "nrf_wifi_cfg80211_del_sta alloc s = (-1, if alloc then free_conf (alloc_conf s) else s)"

definition nrf_wifi_cfg80211_chg_sta ::
  "conf_consts \<Rightarrow> conf_fw \<Rightarrow> bool \<Rightarrow> u8 list \<Rightarrow> station_params \<Rightarrow> conf \<Rightarrow> (int \<times> conf) outcome" where
  "nrf_wifi_cfg80211_chg_sta K fw alloc mac p s =
     (if \<not> alloc then Ret (-1, s) else
      and_then (copy_to (cap_channels K) (sp_channels p)) (\<lambda>channels.
        and_then (copy_to (cap_oper_classes K) (sp_oper_classes p)) (\<lambda>classes.
          let c = ChgSta \<lparr>cs_aid = sp_aid p, cs_listen_interval = sp_listen_interval p,
                cs_channels = channels, cs_oper_classes = classes, cs_flags_mask = sp_flags_mask p,
                cs_flags_set = sp_flags_set p, cs_mac = mac,
                cs_opmode_notif = (case sp_opmode_notif p of Some n \<Rightarrow> n | None \<Rightarrow> 0), cs_max_sp = sp_max_sp p\<rparr> in
          Ret (fw c, free_conf (issue c (alloc_conf s))))))"

definition nrf_wifi_cfg80211_chg_bss :: "conf_consts \<Rightarrow> bool \<Rightarrow> u8 list \<Rightarrow> conf \<Rightarrow> (int \<times> conf) outcome" where
  "nrf_wifi_cfg80211_chg_bss K alloc basic_rates s =
     (if \<not> alloc then Ret (-1, s)
      else and_then (copy_to (cap_basic_rates K) basic_rates) (\<lambda>_. Ret (-1, free_conf (alloc_conf s))))"

definition nrf_wifi_cfg80211_set_txq_params :: "conf \<Rightarrow> int \<times> conf" where
  "nrf_wifi_cfg80211_set_txq_params s = (0, s)"

definition nrf_wifi_cfg80211_start_p2p_dev :: "conf \<Rightarrow> int \<times> conf" where
  "nrf_wifi_cfg80211_start_p2p_dev s = (-1, s)"

definition nrf_wifi_cfg80211_probe_client :: "conf \<Rightarrow> int \<times> conf" where
  "nrf_wifi_cfg80211_probe_client s = (-1, s)"

subsection \<open>Power management and radio parameters\<close>

record wowlan =
  wow_rfkill_release :: bool
  wow_patterns :: bool
  wow_tcp :: bool
  wow_nd_config :: bool

definition nrf_wifi_cfg80211_suspend :: "wowlan option \<Rightarrow> conf \<Rightarrow> int \<times> conf" where
  "nrf_wifi_cfg80211_suspend wow s =
     (let status = 0 in
      case wow of
        None \<Rightarrow> (status, s)
      | Some w \<Rightarrow>
          if wow_rfkill_release w then (status, s)
          else if wow_patterns w then (status, s)
          else if wow_tcp w then (status, s)
          else if wow_nd_config w then (status, s)
          else (status, s))"

definition nrf_wifi_cfg80211_resume :: "conf \<Rightarrow> int \<times> conf" where
  "nrf_wifi_cfg80211_resume s = (-1, s)"

definition nrf_wifi_cfg80211_set_power_mgmt :: "conf_fw \<Rightarrow> bool \<Rightarrow> int \<Rightarrow> conf \<Rightarrow> int \<times> conf" where
  "nrf_wifi_cfg80211_set_power_mgmt fw enabled timeout s =
     (let c = SetPowerSave enabled in (fw c, issue c s))"

definition nrf_wifi_cfg80211_set_qos_map ::
  "conf_consts \<Rightarrow> conf_fw \<Rightarrow> bool \<Rightarrow> u8 list option \<Rightarrow> conf \<Rightarrow> (int \<times> conf) outcome" where
  "nrf_wifi_cfg80211_set_qos_map K fw alloc qos_map s =
     (if \<not> alloc then Ret (-1, s) else
      and_then (case qos_map of None \<Rightarrow> Ret [] | Some m \<Rightarrow> copy_to (cap_qos_map K) m) (\<lambda>m.
        let c = SetQosMap m in Ret (fw c, free_conf (issue c (alloc_conf s)))))"

definition WIPHY_PARAM_RETRY_SHORT :: u32 where "WIPHY_PARAM_RETRY_SHORT = 1"
definition WIPHY_PARAM_RETRY_LONG :: u32 where "WIPHY_PARAM_RETRY_LONG = 2"
definition WIPHY_PARAM_FRAG_THRESHOLD :: u32 where "WIPHY_PARAM_FRAG_THRESHOLD = 4"
definition WIPHY_PARAM_RTS_THRESHOLD :: u32 where "WIPHY_PARAM_RTS_THRESHOLD = 8"

text \<open>\<open>def_vif_ctx\<close> is whether the default interface exists, whose index is read.\<close>

definition nrf_wifi_cfg80211_set_wiphy_params ::
  "conf_fw \<Rightarrow> bool \<Rightarrow> bool \<Rightarrow> wiphy_info \<Rightarrow> u32 \<Rightarrow> conf \<Rightarrow> (int \<times> conf) outcome" where
  "nrf_wifi_cfg80211_set_wiphy_params fw alloc def_vif_ctx wiphy changed s =
     (if \<not> alloc then Ret (-1, s)
      else if \<not> def_vif_ctx then UB NullDeref
      else let c = SetWiphy
             \<lparr>wi_rts_threshold = (if changed AND WIPHY_PARAM_RTS_THRESHOLD \<noteq> 0 then wi_rts_threshold wiphy else 0),
              wi_frag_threshold = (if changed AND WIPHY_PARAM_FRAG_THRESHOLD \<noteq> 0 then wi_frag_threshold wiphy else 0),
              wi_retry_long = (if changed AND WIPHY_PARAM_RETRY_LONG \<noteq> 0 then wi_retry_long wiphy else 0),
              wi_retry_short = (if changed AND WIPHY_PARAM_RETRY_SHORT \<noteq> 0 then wi_retry_short wiphy else 0)\<rparr> in
        Ret (fw c, free_conf (issue c (alloc_conf s))))"

text \<open>\<open>freq_to_channel\<close> is the kernel's \<open>ieee80211_frequency_to_channel\<close>, 0 for no channel.\<close>

definition nrf_wifi_cfg80211_set_monitor_channel ::
  "conf_consts \<Rightarrow> (u32 \<Rightarrow> nat) \<Rightarrow> conf_fw \<Rightarrow> vif_if option \<Rightarrow> vif_if option \<Rightarrow> u32 option \<Rightarrow> conf \<Rightarrow> int \<times> conf" where
  "nrf_wifi_cfg80211_set_monitor_channel K freq_to_channel fw dev def_vif_ctx chan s =
     (case chan of
        None \<Rightarrow> (-EINVAL, s)
      | Some freq \<Rightarrow>
          (case (if dev \<noteq> None then dev else def_vif_ctx) of
             None \<Rightarrow> (-ENODEV, s)
           | Some vif \<Rightarrow>
               if wdev_iftype vif = None \<or> wdev_iftype vif \<noteq> Some IF_MONITOR then (-EOPNOTSUPP, s)
               else let channel = freq_to_channel freq in
                 if channel = 0 then (-EINVAL, s)
                 else let c = SetChannel channel; s = issue c s in
                   if fw c \<noteq> CONF_SUCCESS K then (-EIO, s) else (0, s)))"

subsection \<open>Properties\<close>

lemma free_issue_alloc [simp]:
  "free_conf (issue c (alloc_conf s)) = issue c s" "free_conf (alloc_conf s) = s"
  by (simp_all add: free_conf_def issue_def alloc_conf_def)

text \<open>
  Installing a key: the lengths of the key and of its sequence counter are not checked, so the
  call is safe exactly when both fit into the firmware's arrays; then the firmware gets the
  key, counter and cipher unchanged under the index asked for, and the memory is returned.
  A request without key material loses its index.
\<close>

theorem add_key_spec:
  "nrf_wifi_cfg80211_add_key K fw True idx is_pairwise mac (Some p) s =
     (if length (kp_key p) \<le> cap_key K \<and> length (kp_seq p) \<le> cap_seq K
      then let c = AddKey \<lparr>ki_key = kp_key p, ki_idx = (if kp_key p = [] then 0 else idx), ki_seq = kp_seq p,
                 ki_cipher = kp_cipher p, ki_type = (if is_pairwise then KEYTYPE_PAIRWISE K else KEYTYPE_GROUP K),
                 ki_flags = 0\<rparr> mac in
           Ret (fw c, issue c s)
      else UB OutOfBounds)"
  by (auto simp: nrf_wifi_cfg80211_add_key_def copy_to_def zero_key_def Let_def)

definition beacon_fits :: "conf_consts \<Rightarrow> beacon_data \<Rightarrow> bool" where
  "beacon_fits K b \<longleftrightarrow> length (bd_head b) \<le> cap_head K \<and> length (bd_tail b) \<le> cap_tail K \<and>
     length (bd_probe_resp b) \<le> cap_probe_resp K"

lemma copy_beacon_eq: "copy_beacon K b = (if beacon_fits K b then Ret () else UB OutOfBounds)"
  by (simp add: copy_beacon_def beacon_fits_def copy_to_def)

text \<open>
  Access point operation is not available: starting an access point, changing its beacon and
  stopping it never send a command and always fail (the first two after copying the
  request, unchecked, into a structure that is thrown away). Adding a station
  dereferences a NULL pointer whenever its structure can be allocated, and
  suspending always succeeds although resuming always fails.
\<close>

theorem ap_operations_unavailable:
  "nrf_wifi_cfg80211_start_ap K alloc p s =
     (if alloc \<and> \<not> ((\<forall>x. ap_ssid p = Some x \<longrightarrow> length x \<le> cap_ssid K) \<and>
            length (ap_ciphers_pairwise p) \<le> cap_ciphers K \<and> length (ap_akm_suites p) \<le> cap_akm K \<and>
            beacon_fits K (ap_beacon p))
      then UB OutOfBounds else Ret (-1, s)) \<and>
   nrf_wifi_cfg80211_chg_bcn K alloc b s =
     (if alloc \<and> \<not> beacon_fits K b then UB OutOfBounds else Ret (-1, s)) \<and>
   nrf_wifi_cfg80211_stop_ap s = (-1, s) \<and>
   \<not> defined (nrf_wifi_cfg80211_add_sta K True q s) \<and>
   nrf_wifi_cfg80211_suspend wow s = (0, s) \<and> nrf_wifi_cfg80211_resume s = (-1, s)"
proof -
  have "nrf_wifi_cfg80211_start_ap K alloc p s =
     (if alloc \<and> \<not> ((\<forall>x. ap_ssid p = Some x \<longrightarrow> length x \<le> cap_ssid K) \<and>
            length (ap_ciphers_pairwise p) \<le> cap_ciphers K \<and> length (ap_akm_suites p) \<le> cap_akm K \<and>
            beacon_fits K (ap_beacon p))
      then UB OutOfBounds else Ret (-1, s))"
    by (cases "ap_ssid p") (auto simp: nrf_wifi_cfg80211_start_ap_def copy_to_def copy_beacon_eq)
  moreover have "nrf_wifi_cfg80211_suspend wow s = (0, s)"
    by (simp add: nrf_wifi_cfg80211_suspend_def split: option.splits)
  ultimately show ?thesis
    by (simp add: nrf_wifi_cfg80211_chg_bcn_def copy_beacon_eq nrf_wifi_cfg80211_stop_ap_def
        nrf_wifi_cfg80211_add_sta_def defined_and_then nrf_wifi_cfg80211_resume_def)
qed

definition sample_conf_consts :: conf_consts where
  "sample_conf_consts = \<lparr>CONF_SUCCESS = 0, CONF_FAIL = -1, KEYTYPE_PAIRWISE = 1, KEYTYPE_GROUP = 0,
     KEY_DEFAULT = 1, KEY_DEFAULT_TYPE_UNICAST = 2, KEY_DEFAULT_TYPE_MULTICAST = 4, KEY_DEFAULT_MGMT = 8,
     cap_key = 32, cap_seq = 16, cap_ssid = 32, cap_ciphers = 28, cap_akm = 8, cap_head = 256, cap_tail = 512,
     cap_probe_resp = 400, cap_rates = 32, cap_ext_capability = 32, cap_channels = 64, cap_oper_classes = 64,
     cap_basic_rates = 32, cap_qos_map = 256\<rparr>"

theorem ap_operations_unavailable_witness:
  "nrf_wifi_cfg80211_start_ap sample_conf_consts True
     \<lparr>ap_ssid = Some [65], ap_ciphers_pairwise = [], ap_akm_suites = [],
      ap_beacon = \<lparr>bd_head = [1], bd_tail = [], bd_probe_resp = []\<rparr>\<rparr> \<lparr>conf_cmds = [], conf_live = 0\<rparr> =
   Ret (-1, \<lparr>conf_cmds = [], conf_live = 0\<rparr>)"
  using ap_operations_unavailable [of sample_conf_consts True "\<lparr>ap_ssid = Some [65], ap_ciphers_pairwise = [],
      ap_akm_suites = [], ap_beacon = \<lparr>bd_head = [1], bd_tail = [], bd_probe_resp = []\<rparr>\<rparr>"
      "\<lparr>conf_cmds = [], conf_live = 0\<rparr>"]
  by (simp add: beacon_fits_def sample_conf_consts_def)

text \<open>
  Tuning a monitor: the channel command is sent exactly when the addressed interface (the one
  given, else the default one) is in monitor mode and the frequency is that of a channel,
  and the call succeeds exactly when besides the firmware accepts it.
\<close>

theorem set_monitor_channel_spec:
  "case nrf_wifi_cfg80211_set_monitor_channel K f2c fw dev def_vif_ctx (Some freq) s of (status, t) \<Rightarrow>
     (conf_cmds t = conf_cmds s @ [SetChannel (f2c freq)] \<and> f2c freq \<noteq> 0 \<and>
        (\<exists>vif. is_monitor vif \<and> (dev = Some vif \<or> dev = None \<and> def_vif_ctx = Some vif)) \<and>
        status = (if fw (SetChannel (f2c freq)) = CONF_SUCCESS K then 0 else -EIO)) \<or>
     (t = s \<and> status < 0 \<and>
        (f2c freq = 0 \<or> \<not> (\<exists>vif. is_monitor vif \<and> (dev = Some vif \<or> dev = None \<and> def_vif_ctx = Some vif))))"
  by (cases dev; cases def_vif_ctx)
    (auto simp: nrf_wifi_cfg80211_set_monitor_channel_def is_monitor_def issue_def Let_def)

end
