(* ===== verification/Wiphy.thy ===== *)
theory Wiphy
  imports Cfg80211_Mlme Cfg80211_Conf Station_Info
begin

text \<open>
  What the driver announces to cfg80211 (\<open>wiphy.c\<close> and the end of \<open>cfg80211_if.c\<close>): channel and
  rate tables, frame subtypes, capabilities, the operations table with its wrappers for newer
  kernels, and the creation and removal of the wiphy. The constants are those of the kernel's
  802.11 headers.
\<close>

subsection \<open>Channels and rates\<close>

datatype nl_band = BAND_2GHZ | BAND_5GHZ | BAND_OTHER

record ieee80211_channel =
  ch_band :: nl_band
  center_freq :: nat
  ch_hw_value :: nat
  max_power :: int
  ch_flags :: u32

abbreviation IEEE80211_CHAN_RADAR :: u32 where "IEEE80211_CHAN_RADAR \<equiv> 8"
abbreviation IEEE80211_RATE_SHORT_PREAMBLE :: u32 where "IEEE80211_RATE_SHORT_PREAMBLE \<equiv> 1"

definition CHAN5G :: "nat \<Rightarrow> nat \<Rightarrow> u32 \<Rightarrow> ieee80211_channel" where
  "CHAN5G freq idx flgs =
     \<lparr>ch_band = BAND_5GHZ, center_freq = freq, ch_hw_value = idx, max_power = 20, ch_flags = flgs\<rparr>"

definition CHAN2G :: "nat \<Rightarrow> nat \<Rightarrow> ieee80211_channel" where
  "CHAN2G freq idx =
     \<lparr>ch_band = BAND_2GHZ, center_freq = freq, ch_hw_value = idx, max_power = 20, ch_flags = 0\<rparr>"

definition ofdm_chantable :: "ieee80211_channel list" where
  "ofdm_chantable =
    [CHAN5G 5180 14 0,
     CHAN5G 5200 15 0,
     CHAN5G 5220 16 0,
     CHAN5G 5240 17 0,
     CHAN5G 5260 18 IEEE80211_CHAN_RADAR,
     CHAN5G 5280 19 IEEE80211_CHAN_RADAR,
     CHAN5G 5300 20 IEEE80211_CHAN_RADAR,
     CHAN5G 5320 21 IEEE80211_CHAN_RADAR,
     CHAN5G 5500 22 IEEE80211_CHAN_RADAR,
     CHAN5G 5520 23 IEEE80211_CHAN_RADAR,
     CHAN5G 5540 24 IEEE80211_CHAN_RADAR,
     CHAN5G 5560 25 IEEE80211_CHAN_RADAR,
     CHAN5G 5580 26 IEEE80211_CHAN_RADAR,
     CHAN5G 5600 27 IEEE80211_CHAN_RADAR,
     CHAN5G 5620 28 IEEE80211_CHAN_RADAR,
     CHAN5G 5640 29 IEEE80211_CHAN_RADAR,
     CHAN5G 5660 30 IEEE80211_CHAN_RADAR,
     CHAN5G 5680 31 IEEE80211_CHAN_RADAR,
     CHAN5G 5700 32 IEEE80211_CHAN_RADAR,
     CHAN5G 5720 33 IEEE80211_CHAN_RADAR,
     CHAN5G 5745 34 0,
     CHAN5G 5765 35 0,
     CHAN5G 5785 36 0,
     CHAN5G 5805 37 0,
     CHAN5G 5825 38 0,
     CHAN5G 5845 39 0,
     CHAN5G 5865 40 0,
     CHAN5G 5885 41 0]"

definition dsss_chantable :: "ieee80211_channel list" where
  "dsss_chantable =
    [CHAN2G 2412 0, CHAN2G 2417 1, CHAN2G 2422 2,
     CHAN2G 2427 3, CHAN2G 2432 4, CHAN2G 2437 5,
     CHAN2G 2442 6, CHAN2G 2447 7, CHAN2G 2452 8,
     CHAN2G 2457 9, CHAN2G 2462 10, CHAN2G 2467 11,
     CHAN2G 2472 12, CHAN2G 2484 13]"

record ieee80211_rate =
  bitrate :: nat
  rt_hw_value :: nat
  rt_flags :: u32

definition RATE :: "nat \<Rightarrow> nat \<Rightarrow> u32 \<Rightarrow> ieee80211_rate" where
  "RATE br hw flgs = \<lparr>bitrate = br, rt_hw_value = hw, rt_flags = flgs\<rparr>"

definition dsss_rates :: "ieee80211_rate list" where
  "dsss_rates =
    [RATE 10 2 0, RATE 20 4 IEEE80211_RATE_SHORT_PREAMBLE, RATE 55 11 IEEE80211_RATE_SHORT_PREAMBLE,
     RATE 110 22 IEEE80211_RATE_SHORT_PREAMBLE, RATE 60 12 0, RATE 90 18 0, RATE 120 24 0, RATE 180 36 0,
     RATE 240 48 0, RATE 360 72 0, RATE 480 96 0, RATE 540 108 0]"

definition ofdm_rates :: "ieee80211_rate list" where
  "ofdm_rates =
    [RATE 60 12 0, RATE 90 18 0, RATE 120 24 0, RATE 180 36 0, RATE 240 48 0, RATE 360 72 0, RATE 480 96 0,
     RATE 540 108 0]"

text \<open>
  The reference: channel numbering of IEEE 802.11. Channel \<open>n\<close> is at \<open>2407 + 5 n\<close> MHz in the
  2.4 GHz band, except for channel 14, and at \<open>5000 + 5 n\<close> MHz in the 5 GHz band; channels 52 to
  144 require radar detection.
\<close>

fun chan_freq :: "nl_band \<Rightarrow> nat \<Rightarrow> nat" where
  "chan_freq BAND_2GHZ n = (if n = 14 then 2484 else 2407 + 5 * n)"
| "chan_freq BAND_5GHZ n = 5000 + 5 * n"
| "chan_freq BAND_OTHER n = 0"

definition freq_chan :: "nat \<Rightarrow> nat" where
  "freq_chan f = (if f = 2484 then 14 else if f < 2484 then (f - 2407) div 5 else (f - 5000) div 5)"

definition needs_radar :: "nat \<Rightarrow> bool" where
  "needs_radar n \<longleftrightarrow> 52 \<le> n \<and> n \<le> 144"

definition channels_2g :: "nat list" where
  "channels_2g = [1..<15]"

definition channels_5g :: "nat list" where
  "channels_5g = map (\<lambda>i. 36 + 4 * i) [0..<8] @ map (\<lambda>i. 100 + 4 * i) [0..<12] @ map (\<lambda>i. 149 + 4 * i) [0..<8]"

definition ref_channel :: "nl_band \<Rightarrow> nat \<Rightarrow> nat \<Rightarrow> ieee80211_channel" where
  "ref_channel b i n =
     \<lparr>ch_band = b, center_freq = chan_freq b n, ch_hw_value = i, max_power = 20,
      ch_flags = (if b = BAND_5GHZ \<and> needs_radar n then IEEE80211_CHAN_RADAR else 0)\<rparr>"

definition ref_table :: "nl_band \<Rightarrow> nat \<Rightarrow> nat list \<Rightarrow> ieee80211_channel list" where
  "ref_table b base ns = map2 (ref_channel b) [base..<base + length ns] ns"

lemmas table_defs = CHAN2G_def CHAN5G_def RATE_def ref_table_def ref_channel_def needs_radar_def
  channels_2g_def channels_5g_def dsss_chantable_def ofdm_chantable_def dsss_rates_def ofdm_rates_def

lemma dsss_chantable_ref: "dsss_chantable = ref_table BAND_2GHZ 0 channels_2g"
  by (simp add: table_defs upt_conv_Cons)

lemma ofdm_chantable_ref: "ofdm_chantable = ref_table BAND_5GHZ 14 channels_5g"
  by (simp add: table_defs upt_conv_Cons)

lemma chan_hw_values: "map ch_hw_value (dsss_chantable @ ofdm_chantable) = [0..<42]"
  by (simp add: table_defs upt_conv_Cons)

lemma chan_numbers:
  "map (freq_chan \<circ> center_freq) (dsss_chantable @ ofdm_chantable) = channels_2g @ channels_5g"
  by (simp add: table_defs upt_conv_Cons freq_chan_def)


subsection \<open>Frame subtypes\<close>

text \<open>Interface types by their numbers in \<open>nl80211.h\<close>.\<close>

abbreviation NL_ADHOC :: nat where "NL_ADHOC \<equiv> 1"
abbreviation NL_STATION :: nat where "NL_STATION \<equiv> 2"
abbreviation NL_AP :: nat where "NL_AP \<equiv> 3"
abbreviation NL_AP_VLAN :: nat where "NL_AP_VLAN \<equiv> 4"
abbreviation NL_MONITOR :: nat where "NL_MONITOR \<equiv> 6"
abbreviation NL_MESH_POINT :: nat where "NL_MESH_POINT \<equiv> 7"
abbreviation NL_P2P_CLIENT :: nat where "NL_P2P_CLIENT \<equiv> 8"
abbreviation NL_P2P_GO :: nat where "NL_P2P_GO \<equiv> 9"
abbreviation NL_P2P_DEVICE :: nat where "NL_P2P_DEVICE \<equiv> 10"

definition nrf_wifi_iftype_name :: "nat \<Rightarrow> string" where
  "nrf_wifi_iftype_name ty =
     (if ty = NL_STATION then ''station'' else if ty = NL_AP then ''ap''
      else if ty = NL_MONITOR then ''monitor'' else if ty = NL_P2P_CLIENT then ''p2p-client''
      else if ty = NL_P2P_GO then ''p2p-go'' else ''other'')"

text \<open>The bit of a subtype, given as in the frame control field.\<close>

definition stype_bit :: "nat \<Rightarrow> u16" where
  "stype_bit stype = push_bit (stype div 16) 1"

definition STYPE_ASSOC_REQ :: nat where "STYPE_ASSOC_REQ = 0"
abbreviation STYPE_REASSOC_REQ :: nat where "STYPE_REASSOC_REQ \<equiv> 0x20"
abbreviation STYPE_PROBE_REQ :: nat where "STYPE_PROBE_REQ \<equiv> 0x40"
abbreviation STYPE_DISASSOC :: nat where "STYPE_DISASSOC \<equiv> 0xA0"
abbreviation STYPE_AUTH :: nat where "STYPE_AUTH \<equiv> 0xB0"
abbreviation STYPE_DEAUTH :: nat where "STYPE_DEAUTH \<equiv> 0xC0"
abbreviation STYPE_ACTION :: nat where "STYPE_ACTION \<equiv> 0xD0"

definition stypes :: "nat list \<Rightarrow> u16" where
  "stypes ss = foldr (\<lambda>s m. stype_bit s OR m) ss 0"

definition ap_stypes :: u16 where
  "ap_stypes = stypes [STYPE_ASSOC_REQ, STYPE_REASSOC_REQ, STYPE_PROBE_REQ, STYPE_DISASSOC, STYPE_AUTH,
     STYPE_DEAUTH, STYPE_ACTION]"

definition sta_stypes :: u16 where
  "sta_stypes = stypes [STYPE_ACTION, STYPE_PROBE_REQ]"

text \<open>Per interface type, the subtypes that may be sent and that may be received.\<close>

definition ieee80211_default_mgmt_stypes :: "nat \<rightharpoonup> u16 \<times> u16" where
  "ieee80211_default_mgmt_stypes =
     [NL_ADHOC \<mapsto> (0xffff, stypes [STYPE_ACTION, STYPE_AUTH, STYPE_DEAUTH, STYPE_PROBE_REQ]),
      NL_STATION \<mapsto> (0xffff, sta_stypes), NL_AP \<mapsto> (0xffff, ap_stypes), NL_AP_VLAN \<mapsto> (0xffff, ap_stypes),
      NL_P2P_CLIENT \<mapsto> (0xffff, sta_stypes), NL_P2P_GO \<mapsto> (0xffff, ap_stypes), NL_MONITOR \<mapsto> (0, 0xffff),
      NL_MESH_POINT \<mapsto> (0xffff, stypes [STYPE_ACTION, STYPE_AUTH, STYPE_DEAUTH]),
      NL_P2P_DEVICE \<mapsto> (0xffff, sta_stypes)]"

subsection \<open>Capabilities\<close>

record ht_cap =
  ht_supported :: bool
  ht_caps :: u16
  ampdu_factor :: u8
  ampdu_density :: u8
  ht_tx_params :: u8
  ht_rx_mask :: "u8 list"

definition zero_ht :: ht_cap where
  "zero_ht = \<lparr>ht_supported = False, ht_caps = 0, ampdu_factor = 0, ampdu_density = 0, ht_tx_params = 0,
     ht_rx_mask = replicate 10 0\<rparr>"

abbreviation HT_CAP_SUP_WIDTH_20_40 :: u16 where "HT_CAP_SUP_WIDTH_20_40 \<equiv> 0x0002"
abbreviation HT_CAP_SGI_20 :: u16 where "HT_CAP_SGI_20 \<equiv> 0x0020"
abbreviation HT_CAP_SGI_40 :: u16 where "HT_CAP_SGI_40 \<equiv> 0x0040"
abbreviation HT_CAP_MAX_AMSDU :: u16 where "HT_CAP_MAX_AMSDU \<equiv> 0x0800"
abbreviation HT_CAP_LSIG_TXOP_PROT :: u16 where "HT_CAP_LSIG_TXOP_PROT \<equiv> 0x8000"

definition setup_ht_cap :: "ht_cap \<Rightarrow> ht_cap" where
  "setup_ht_cap h =
     h\<lparr>ht_supported := True,
       ht_caps := HT_CAP_MAX_AMSDU OR HT_CAP_SGI_20 OR HT_CAP_SGI_40 OR HT_CAP_SUP_WIDTH_20_40
         OR push_bit 8 1 OR HT_CAP_LSIG_TXOP_PROT,
       ampdu_factor := 2, ampdu_density := 7, ht_tx_params := ht_tx_params h OR 1,
       ht_rx_mask := (ht_rx_mask h)[0 := 0xff, 4 := 0x1]\<rparr>"

record vht_cap =
  vht_supported :: bool
  vht_caps :: u32
  vht_rx_mcs :: u16
  vht_tx_mcs :: u16

definition zero_vht :: vht_cap where
  "zero_vht = \<lparr>vht_supported = False, vht_caps = 0, vht_rx_mcs = 0, vht_tx_mcs = 0\<rparr>"

text \<open>Two bits per spatial stream: 0 for MCS 0 to 7, 3 for not supported.\<close>

definition vht_mcs_map :: "u16 list \<Rightarrow> u16" where
  "vht_mcs_map ss = foldr (OR) (map2 (\<lambda>i s. push_bit (2 * i) s) [0..<length ss] ss) 0"

definition setup_vht_cap :: "vht_cap \<Rightarrow> vht_cap" where
  "setup_vht_cap v =
     (let m = vht_mcs_map [0, 3, 3, 3, 3, 3, 3, 3] in
      v\<lparr>vht_supported := True,
        vht_caps := 2 OR push_bit 23 3 OR 0x20 OR 0x10 OR 0x80 OR 0x100 OR 0x400000,
        vht_rx_mcs := m, vht_tx_mcs := m\<rparr>)"

record he_data =
  he_types_mask :: u32
  has_he :: bool
  he_mac_cap0 :: u8
  he_mcs_80 :: u16
  he_mcs_160 :: u16
  he_mcs_80p80 :: u16

text \<open>The receive and transmit maps of the source are the same; one field stands for both.\<close>

definition he_capa_2ghz :: he_data where
  "he_capa_2ghz = \<lparr>he_types_mask = push_bit NL_STATION 1 OR push_bit NL_AP 1, has_he = True, he_mac_cap0 = 1,
     he_mcs_80 = 0xfffc, he_mcs_160 = 0xffff, he_mcs_80p80 = 0xffff\<rparr>"

definition he_capa_5ghz :: he_data where
  "he_capa_5ghz = \<lparr>he_types_mask = push_bit NL_STATION 1 OR push_bit NL_AP 1, has_he = True, he_mac_cap0 = 1,
     he_mcs_80 = 0xfffc, he_mcs_160 = 0xffff, he_mcs_80p80 = 0xffff\<rparr>"

record sband =
  sb_band :: nl_band
  sb_channels :: "ieee80211_channel list"
  sb_bitrates :: "ieee80211_rate list"
  sb_ht :: ht_cap
  sb_vht :: vht_cap
  sb_iftype_data :: "he_data list"

definition band_5ghz :: sband where
  "band_5ghz = \<lparr>sb_band = BAND_5GHZ, sb_channels = ofdm_chantable, sb_bitrates = ofdm_rates,
     sb_ht = zero_ht, sb_vht = zero_vht, sb_iftype_data = []\<rparr>"

definition band_2ghz :: sband where
  "band_2ghz = \<lparr>sb_band = BAND_2GHZ, sb_channels = dsss_chantable, sb_bitrates = dsss_rates,
     sb_ht = zero_ht\<lparr>ht_supported := True\<rparr>, sb_vht = zero_vht, sb_iftype_data = []\<rparr>"

definition setup_he_cap :: "sband \<Rightarrow> sband" where
  "setup_he_cap b =
     (case sb_band b of
        BAND_2GHZ \<Rightarrow> b\<lparr>sb_iftype_data := [he_capa_2ghz]\<rparr>
      | BAND_5GHZ \<Rightarrow> b\<lparr>sb_iftype_data := [he_capa_5ghz]\<rparr>
      | BAND_OTHER \<Rightarrow> b)"

text \<open>\<open>00-0F-AC\<close> cipher suites.\<close>

definition cipher_suites :: "u32 list" where
  "cipher_suites = [0x000FAC01, 0x000FAC05, 0x000FAC02, 0x000FAC04, 0x000FAC0A, 0x000FAC06, 0x000FAC08,
     0x000FAC09, 0x000FAC0B, 0x000FAC0C, 0x000FAC0D]"

subsection \<open>The wiphy\<close>

record wiphy =
  wp_2ghz :: "sband option"
  wp_5ghz :: "sband option"
  signal_mbm :: bool
  interface_modes :: u16
  mgmt_stypes :: "nat \<rightharpoonup> u16 \<times> u16"
  max_scan_ssids :: nat
  max_scan_ie_len :: nat
  suites :: "u32 list"
  max_roc_duration :: nat
  wp_flags :: "string list"
  wp_features :: "string list"
  wp_ext_features :: "string list"

definition zero_wiphy :: wiphy where
  "zero_wiphy = \<lparr>wp_2ghz = None, wp_5ghz = None, signal_mbm = False, interface_modes = 0,
     mgmt_stypes = Map.empty, max_scan_ssids = 0, max_scan_ie_len = 0, suites = [], max_roc_duration = 0,
     wp_flags = [], wp_features = [], wp_ext_features = []\<rparr>"

text \<open>\<open>IEEE80211_MAX_DATA_LEN\<close> is 2304.\<close>

definition wiphy_init :: "wiphy \<Rightarrow> wiphy" where
  "wiphy_init w =
     w\<lparr>wp_2ghz := Some (setup_he_cap (band_2ghz\<lparr>sb_ht := setup_ht_cap (sb_ht band_2ghz)\<rparr>)),
       wp_5ghz := Some (setup_he_cap (band_5ghz\<lparr>sb_ht := setup_ht_cap (sb_ht band_5ghz),
                                              sb_vht := setup_vht_cap (sb_vht band_5ghz)\<rparr>)),
       signal_mbm := True,
       interface_modes := push_bit NL_STATION 1 OR push_bit NL_AP 1 OR push_bit NL_P2P_GO 1
         OR push_bit NL_P2P_CLIENT 1 OR push_bit NL_MONITOR 1,
       wp_features := wp_features w @ [''ACTIVE_MONITOR''],
       max_scan_ssids := 4, max_scan_ie_len := 2304, suites := cipher_suites\<rparr>"

text \<open>
  \<open>new_ok\<close> is whether \<open>wiphy_new_nm\<close> succeeds, \<open>register\<close> the result of \<open>wiphy_register\<close>. The second
  component counts the allocated and the registered wiphys.
\<close>

type_synonym wiphy_count = "int \<times> int"

definition cfg80211_if_init :: "bool \<Rightarrow> int \<Rightarrow> wiphy_count \<Rightarrow> (wiphy option \<times> wiphy_count) outcome" where
  "cfg80211_if_init new_ok register n =
     (if \<not> new_ok then UB NullDeref
      else case n of (al, rg) \<Rightarrow>
        let w = zero_wiphy\<lparr>mgmt_stypes := ieee80211_default_mgmt_stypes, max_roc_duration := 5000,
              wp_flags := [''NETNS_OK'', ''4ADDR_AP'', ''4ADDR_STATION'', ''REPORTS_OBSS'', ''OFFCHAN_TX'',
                ''CONTROL_PORT_PROTOCOL'', ''AP_UAPSD'', ''HAS_REMAIN_ON_CHANNEL''],
              wp_features := [''SK_TX_STATUS'', ''SAE'', ''HT_IBSS'', ''VIF_TXPOWER'', ''MAC_ON_CREATE'',
                ''USERSPACE_MPM''],
              wp_ext_features := [''SET_SCAN_DWELL'']\<rparr>;
            w = wiphy_init w in
        if register < 0 then Ret (None, (al + 1 - 1, rg))
        else Ret (Some w, (al + 1, rg + 1)))"

definition cfg80211_if_deinit :: "wiphy_count \<Rightarrow> wiphy_count" where
  "cfg80211_if_deinit n = (case n of (al, rg) \<Rightarrow> (al - 1, rg - 1))"

lemmas wiphy_defs = wiphy_init_def band_2ghz_def band_5ghz_def setup_ht_cap_def setup_vht_cap_def
  setup_he_cap_def he_capa_2ghz_def he_capa_5ghz_def zero_ht_def zero_vht_def zero_wiphy_def

lemma interface_modes_bits:
  "bit (interface_modes (wiphy_init w)) ty \<longleftrightarrow> ty \<in> {NL_STATION, NL_AP, NL_P2P_GO, NL_P2P_CLIENT, NL_MONITOR}"
proof -
  have "interface_modes (wiphy_init w) = push_bit NL_STATION 1 OR push_bit NL_AP 1 OR push_bit NL_P2P_GO 1
      OR push_bit NL_P2P_CLIENT 1 OR push_bit NL_MONITOR 1"
    by (simp add: wiphy_init_def)
  then show ?thesis
    by (simp only: bit_or_iff bit_push_bit_iff bit_1_iff) (auto simp: bit_simps)
qed

lemma iftype_name_other:
  "nrf_wifi_iftype_name ty = ''other'' \<longleftrightarrow> ty \<notin> {NL_STATION, NL_AP, NL_P2P_GO, NL_P2P_CLIENT, NL_MONITOR}"
  by (simp add: nrf_wifi_iftype_name_def)

lemma stypes_nonzero: "sta_stypes \<noteq> 0" "ap_stypes \<noteq> 0"
  by (simp_all add: sta_stypes_def ap_stypes_def stypes_def stype_bit_def STYPE_ASSOC_REQ_def)

lemma one_stream: "vht_mcs_map [0, 3, 3, 3, 3, 3, 3, 3] = 0xfffc"
  by (simp add: vht_mcs_map_def)



subsection \<open>Scan limits\<close>

text \<open>
  cfg80211 only passes on scan requests with at most \<open>max_scan_ssids\<close> SSIDs. That is the bound under
  which the scan handler has to stay within the firmware's SSID array.
\<close>

definition within_limits :: "wiphy \<Rightarrow> mlme_consts \<Rightarrow> scan_request \<Rightarrow> bool" where
  "within_limits w K req \<longleftrightarrow> length (sq_ssids req) \<le> max_scan_ssids w
     \<and> (\<forall>x \<in> set (sq_ssids req). length x \<le> NRF_WIFI_MAX_SSID_LEN K)"

text \<open>
  C23. The announced scan limit is safe exactly when the firmware's SSID array has at least four
  entries: then no request within the limit leaves the array; with a smaller array a request
  within the limit writes behind it.
\<close>

theorem advertised_scan_limit:
  assumes "cfg80211_if_init True 0 n = Ret (Some w, n')" and "sizes_ok K"
    and "0 < NRF_WIFI_SCAN_MAX_NUM_SSIDS K" and "0 < NRF_WIFI_MAX_SSID_LEN K"
    and "\<And>i. req_n_channels s i \<le> NRF_WIFI_SCAN_MAX_NUM_FREQUENCIES K"
  shows "(\<forall>req. within_limits w K req \<longrightarrow> defined (nrf_wifi_cfg80211_scan K fw True req s))
     \<longleftrightarrow> 4 \<le> NRF_WIFI_SCAN_MAX_NUM_SSIDS K"
proof -
  have limit: "max_scan_ssids w = 4"
    using assms(1) by (auto simp: cfg80211_if_init_def wiphy_init_def Let_def split: prod.splits)
  show ?thesis
  proof
    assume "4 \<le> NRF_WIFI_SCAN_MAX_NUM_SSIDS K"
    then show "\<forall>req. within_limits w K req \<longrightarrow> defined (nrf_wifi_cfg80211_scan K fw True req s)"
      using scan_ssid_loop_fits [OF assms(2)] limit
      by (auto simp: within_limits_def nrf_wifi_cfg80211_scan_def scan_command_def Let_def)
  next
    assume all: "\<forall>req. within_limits w K req \<longrightarrow> defined (nrf_wifi_cfg80211_scan K fw True req s)"
    show "4 \<le> NRF_WIFI_SCAN_MAX_NUM_SSIDS K"
    proof (rule ccontr)
      assume "\<not> 4 \<le> NRF_WIFI_SCAN_MAX_NUM_SSIDS K"
      let ?req = "\<lparr>sq_id = 0, sq_is_ap = False, sq_ssids = replicate (NRF_WIFI_SCAN_MAX_NUM_SSIDS K) [] @ [[65]]\<rparr>"
      have "within_limits w K ?req"
        using \<open>\<not> 4 \<le> NRF_WIFI_SCAN_MAX_NUM_SSIDS K\<close> assms(4) by (auto simp: within_limits_def limit)
      moreover have "nrf_wifi_cfg80211_scan K fw True ?req s = UB OutOfBounds"
        using scan_ssid_loop_overrun [of K "[65]" ?req] assms(3,4) assms(5) [of 0]
        by (simp add: nrf_wifi_cfg80211_scan_def scan_command_def Let_def Suc_le_eq not_less)
      ultimately show False using all by fastforce
    qed
  qed
qed

definition demo_wiphy :: wiphy where
  "demo_wiphy = (case cfg80211_if_init True 0 (0, 0) of Ret (Some w, _) \<Rightarrow> w | _ \<Rightarrow> zero_wiphy)"

theorem advertised_scan_limit_witness:
  "\<exists>req. within_limits demo_wiphy sample_consts req
     \<and> \<not> defined (nrf_wifi_cfg80211_scan sample_consts (\<lambda>_. 0) True req idle_mlme)"
proof -
  have "cfg80211_if_init True 0 (0, 0) = Ret (Some demo_wiphy, (1, 1))"
    by (simp add: demo_wiphy_def cfg80211_if_init_def Let_def)
  from advertised_scan_limit [OF this sample_sizes_ok, of idle_mlme "\<lambda>_. 0"] show ?thesis
    by (auto simp: sample_consts_def idle_mlme_def)
qed

subsection \<open>The operations table\<close>

text \<open>
  From kernel 6.12 on some operations take a link or radio index in addition; the wrappers drop it.
\<close>

definition cfg80211_ops :: "(string \<times> string) list" where
  "cfg80211_ops =
    [(''add_virtual_intf'', ''nrf_wifi_cfg80211_add_vif''),
     (''del_virtual_intf'', ''nrf_wifi_cfg80211_del_vif''),
     (''change_virtual_intf'', ''nrf_wifi_cfg80211_chg_vif''),
     (''add_key'', ''nrf_wifi_cfg80211_add_key''),
     (''del_key'', ''nrf_wifi_cfg80211_del_key''),
     (''set_default_key'', ''nrf_wifi_cfg80211_set_def_key''),
     (''set_default_mgmt_key'', ''nrf_wifi_cfg80211_set_def_mgmt_key''),
     (''start_ap'', ''nrf_wifi_cfg80211_start_ap''),
     (''change_beacon'', ''nrf_wifi_cfg80211_chg_bcn''),
     (''stop_ap'', ''nrf_wifi_cfg80211_stop_ap''),
     (''add_station'', ''nrf_wifi_cfg80211_add_sta''),
     (''del_station'', ''nrf_wifi_cfg80211_del_sta''),
     (''change_station'', ''nrf_wifi_cfg80211_chg_sta''),
     (''change_bss'', ''nrf_wifi_cfg80211_chg_bss''),
     (''set_txq_params'', ''nrf_wifi_cfg80211_set_txq_params''),
     (''set_monitor_channel'', ''nrf_wifi_cfg80211_set_monitor_channel''),
     (''scan'', ''nrf_wifi_cfg80211_scan''),
     (''auth'', ''nrf_wifi_cfg80211_auth''),
     (''assoc'', ''nrf_wifi_cfg80211_assoc''),
     (''deauth'', ''nrf_wifi_cfg80211_deauth''),
     (''disassoc'', ''nrf_wifi_cfg80211_disassoc''),
     (''mgmt_tx'', ''nrf_wifi_cfg80211_mgmt_tx''),
     (''update_mgmt_frame_registrations'', ''nrf_wifi_cfg80211_mgmt_frame_reg''),
     (''start_p2p_device'', ''nrf_wifi_cfg80211_start_p2p_dev''),
     (''stop_p2p_device'', ''nrf_wifi_cfg80211_stop_p2p_dev''),
     (''remain_on_channel'', ''nrf_wifi_cfg80211_remain_on_channel''),
     (''cancel_remain_on_channel'', ''nrf_wifi_cfg80211_cancel_remain_on_channel''),
     (''probe_client'', ''nrf_wifi_cfg80211_probe_client''),
     (''suspend'', ''nrf_wifi_cfg80211_suspend''),
     (''resume'', ''nrf_wifi_cfg80211_resume''),
     (''set_wakeup'', ''nrf_wifi_cfg80211_set_wakeup''),
     (''set_power_mgmt'', ''nrf_wifi_cfg80211_set_power_mgmt''),
     (''set_qos_map'', ''nrf_wifi_cfg80211_set_qos_map''),
     (''get_station'', ''nrf_wifi_cfg80211_get_station''),
     (''get_tx_power'', ''nrf_wifi_cfg80211_get_tx_power''),
     (''get_channel'', ''nrf_wifi_cfg80211_get_channel''),
     (''set_wiphy_params'', ''nrf_wifi_cfg80211_set_wiphy_params'')]"

definition compat_ops :: "string list" where
  "compat_ops = [''add_key'', ''del_key'', ''set_default_key'', ''set_default_mgmt_key'', ''change_beacon'', ''stop_ap'', ''get_tx_power'', ''get_channel'', ''set_wiphy_params'']"

definition cfg80211_ops_6_12 :: "(string \<times> string) list" where
  "cfg80211_ops_6_12 = map (\<lambda>(slot, f). (slot, if List.member compat_ops slot then f @ ''_compat'' else f)) cfg80211_ops"

lemma cfg80211_ops_distinct: "distinct (map fst cfg80211_ops)" "distinct (map snd cfg80211_ops)"
  by code_simp+

definition nrf_wifi_cfg80211_add_key_compat where
  "nrf_wifi_cfg80211_add_key_compat (link_id :: int) = nrf_wifi_cfg80211_add_key"

definition nrf_wifi_cfg80211_del_key_compat where
  "nrf_wifi_cfg80211_del_key_compat (link_id :: int) = nrf_wifi_cfg80211_del_key"

definition nrf_wifi_cfg80211_set_def_key_compat where
  "nrf_wifi_cfg80211_set_def_key_compat (link_id :: int) = nrf_wifi_cfg80211_set_def_key"

definition nrf_wifi_cfg80211_set_def_mgmt_key_compat where
  "nrf_wifi_cfg80211_set_def_mgmt_key_compat (link_id :: int) = nrf_wifi_cfg80211_set_def_mgmt_key"

definition nrf_wifi_cfg80211_chg_bcn_compat where
  "nrf_wifi_cfg80211_chg_bcn_compat = nrf_wifi_cfg80211_chg_bcn"

definition nrf_wifi_cfg80211_stop_ap_compat where
  "nrf_wifi_cfg80211_stop_ap_compat (link_id :: u32) = nrf_wifi_cfg80211_stop_ap"

definition nrf_wifi_cfg80211_get_tx_power_compat where
  "nrf_wifi_cfg80211_get_tx_power_compat (radio_idx :: int) (link_id :: u32) = nrf_wifi_cfg80211_get_tx_power"

definition nrf_wifi_cfg80211_get_channel_compat where
  "nrf_wifi_cfg80211_get_channel_compat (link_id :: u32) = nrf_wifi_cfg80211_get_channel"

definition nrf_wifi_cfg80211_set_wiphy_params_compat where
  "nrf_wifi_cfg80211_set_wiphy_params_compat (radio_idx :: int) = nrf_wifi_cfg80211_set_wiphy_params"

end
