(* ===== verification/Debugfs.thy ===== *)
theory Debugfs
  imports Linux_Util Shim_Bus
begin

text \<open>
  The files under \<open>debugfs\<close> through which the driver is configured: the parameter file \<open>conf\<close>
  (\<open>debugfs/main.c\<close>), target wake time (\<open>debugfs/wlan_fmac_twt.c\<close>, with its events in \<open>main.c\<close>)
  and the creation of the directory. \<open>kstrtoul\<close> and \<open>sscanf\<close> of the kernel are parameters whose
  \<open>None\<close> leaves the output variable alone. The flags \<open>dbg_garbage\<close> and \<open>twt_garbage\<close> record that
  an error message was printed from a buffer that was never written.
\<close>

subsection \<open>Reading the input\<close>

definition MAX_CONF_BUF_SIZE :: nat where "MAX_CONF_BUF_SIZE = 500"

text \<open>
  What both write handlers do first: \<open>Inl\<close> is the error that is returned, \<open>Inr\<close> the zeroed buffer
  with the input in it and its last character replaced by NUL. An input of length 0 is
  terminated in front of the buffer.
\<close>

definition read_input :: "bool \<Rightarrow> bool \<Rightarrow> string \<Rightarrow> (int + string) outcome" where
  "read_input alloc copy_ok input =
     (if length input \<ge> MAX_CONF_BUF_SIZE then Ret (Inl (-EFAULT))
      else if \<not> alloc then Ret (Inl (-EFAULT))
      else if \<not> copy_ok then Ret (Inl (-EFAULT))
      else let conf_buf = input @ replicate (MAX_CONF_BUF_SIZE - length input) (CHR 0x00) in
        if length input = 0 then UB OutOfBounds
        else Ret (Inr (conf_buf[length input - 1 := CHR 0x00])))"

subsection \<open>Parameters\<close>

record conf_params =
  uapsd_queue :: ulong
  power_save :: ulong
  he_gi :: ulong
  rts_threshold :: ulong

datatype dbg_cmd = SetUapsdQueue ulong | SetPowerSaveMode ulong | SetRtsThreshold ulong

record dbg =
  params :: conf_params
  dbg_cmds :: "dbg_cmd list"
  dbg_live :: int
  dbg_garbage :: bool

definition tell_fw :: "dbg_cmd \<Rightarrow> dbg \<Rightarrow> dbg" where
  "tell_fw c s = s\<lparr>dbg_cmds := dbg_cmds s @ [c]\<rparr>"

definition set_params :: "(conf_params \<Rightarrow> conf_params) \<Rightarrow> dbg \<Rightarrow> dbg" where
  "set_params f s = s\<lparr>params := f (params s)\<rparr>"

text \<open>
  The branches of the handler. \<open>ok c\<close> is whether the firmware accepts a command; \<open>count\<close> is the
  length of the input, which is the result unless an error was assigned.
\<close>

definition conf_uapsd_queue :: "(dbg_cmd \<Rightarrow> bool) \<Rightarrow> int \<Rightarrow> ulong \<Rightarrow> dbg \<Rightarrow> (int \<times> dbg) outcome" where
  "conf_uapsd_queue ok count val s =
     (if val > 15 then Ret (-EINVAL, s)
      else if uapsd_queue (params s) = val then Ret (count, s)
      else let c = SetUapsdQueue val; s = tell_fw c s in
        if \<not> ok c then Ret (count, s)
        else Ret (count, (set_params (uapsd_queue_update (\<lambda>_. val)) s)\<lparr>dbg_garbage := True\<rparr>))"

definition conf_power_save :: "(dbg_cmd \<Rightarrow> bool) \<Rightarrow> int \<Rightarrow> ulong \<Rightarrow> dbg \<Rightarrow> (int \<times> dbg) outcome" where
  "conf_power_save ok count val s =
     (if val \<noteq> 0 \<and> val \<noteq> 1 then Ret (-EINVAL, s)
      else if power_save (params s) = val then Ret (count, s)
      else let c = SetPowerSaveMode val; s = tell_fw c s in
        if \<not> ok c then Ret (count, s)
        else Ret (count, set_params (power_save_update (\<lambda>_. val)) s))"

definition conf_he_gi :: "int \<Rightarrow> ulong \<Rightarrow> dbg \<Rightarrow> (int \<times> dbg) outcome" where
  "conf_he_gi count val s =
     (if val > 2 then Ret (-EINVAL, s)
      else if he_gi (params s) = val then Ret (count, s)
      else Ret (count, set_params (he_gi_update (\<lambda>_. val)) s))"

definition conf_rts_threshold ::
  "(dbg_cmd \<Rightarrow> bool) \<Rightarrow> bool \<Rightarrow> int \<Rightarrow> ulong \<Rightarrow> dbg \<Rightarrow> (int \<times> dbg) outcome" where
  "conf_rts_threshold ok alloc count val s =
     (if val \<le> 0 then Ret (-EINVAL, s)
      else if rts_threshold (params s) = val then Ret (count, s)
      else if \<not> alloc then Ret (count, s)
      else let s = s\<lparr>dbg_live := dbg_live s + 1\<rparr>; c = SetRtsThreshold val; s = tell_fw c s in
        if \<not> ok c then Ret (count, s)
        else Ret (count, set_params (rts_threshold_update (\<lambda>_. val)) (s\<lparr>dbg_live := dbg_live s - 1\<rparr>)))"

definition conf_dispatch ::
  "(string \<Rightarrow> ulong option) \<Rightarrow> (dbg_cmd \<Rightarrow> bool) \<Rightarrow> bool \<Rightarrow> int \<Rightarrow> string \<Rightarrow> dbg \<Rightarrow> (int \<times> dbg) outcome" where
  "conf_dispatch kstrtoul ok alloc count line s =
     and_then (param_get_val kstrtoul line ''uapsd_queue='' 0) (\<lambda>(hit, val).
       if hit then conf_uapsd_queue ok count val s
       else and_then (param_get_val kstrtoul line ''power_save='' val) (\<lambda>(hit, val).
         if hit then conf_power_save ok count val s
         else and_then (param_get_val kstrtoul line ''he_gi='' val) (\<lambda>(hit, val).
           if hit then conf_he_gi count val s
           else and_then (param_get_val kstrtoul line ''rts_threshold='' val) (\<lambda>(hit, val).
             if hit then conf_rts_threshold ok alloc count val s
             else Ret (-EFAULT, s)))))"

definition nrf_wifi_wlan_fmac_conf_write ::
  "(string \<Rightarrow> ulong option) \<Rightarrow> (dbg_cmd \<Rightarrow> bool) \<Rightarrow> bool \<Rightarrow> bool \<Rightarrow> bool \<Rightarrow> string \<Rightarrow> dbg \<Rightarrow> (int \<times> dbg) outcome" where
  "nrf_wifi_wlan_fmac_conf_write kstrtoul ok alloc copy_ok alloc_info input s =
     and_then (read_input alloc copy_ok input) (\<lambda>r.
       case r of
         Inl e \<Rightarrow> Ret (e, s)
       | Inr conf_buf \<Rightarrow> conf_dispatch kstrtoul ok alloc_info (int (length input)) (cstr conf_buf) s)"

subsection \<open>Target wake time\<close>

record twt_params =
  twt_flow_id :: u8
  neg_type :: u8
  setup_cmd :: u32
  ap_trigger_frame :: u8
  is_implicit :: u8
  twt_flow_type :: u8
  twt_target_wake_interval_exponent :: u8
  twt_target_wake_interval_mantissa :: u16
  target_wake_time :: u64
  nominal_min_twt_wake_duration :: u16

datatype twt_cmd = TwtSetup twt_params | TwtTeardown

record rpu_twt =
  twt_cmd :: twt_params
  twt_event :: twt_params
  twt_event_info_avail :: bool
  twt_setup_cmd :: string
  teardown_reason :: u32
  twt_status :: u32
  teardown_event_cnt :: u32
  twt_setup_event :: bool
  twt_cmds :: "twt_cmd list"
  twt_live :: int
  twt_garbage :: bool

definition zero_twt :: twt_params where
  "zero_twt = \<lparr>twt_flow_id = 0, neg_type = 0, setup_cmd = 0, ap_trigger_frame = 0, is_implicit = 0,
     twt_flow_type = 0, twt_target_wake_interval_exponent = 0, twt_target_wake_interval_mantissa = 0,
     target_wake_time = 0, nominal_min_twt_wake_duration = 0\<rparr>"

definition nrf_wifi_wlan_fmac_twt_init :: "rpu_twt \<Rightarrow> rpu_twt" where
  "nrf_wifi_wlan_fmac_twt_init s =
     s\<lparr>twt_cmd := zero_twt, twt_event := zero_twt, twt_event_info_avail := False,
       twt_setup_cmd := replicate 250 (CHR 0x00), teardown_reason := -1, twt_status := 0,
       teardown_event_cnt := 0\<rparr>"

text \<open>
  One parameter: when its name occurs, \<open>sscanf\<close> converts what follows; without a conversion
  the variable \<open>val\<close> keeps what the previous parameter left in it, and that is stored.
\<close>

definition twt_scan ::
  "(string \<Rightarrow> ulong option) \<Rightarrow> string \<Rightarrow> string \<Rightarrow> (ulong \<Rightarrow> twt_params \<Rightarrow> twt_params) \<Rightarrow>
   ulong \<times> twt_params \<Rightarrow> ulong \<times> twt_params" where
  "twt_scan sscanf line key store vp =
     (case strstr line key of
        None \<Rightarrow> vp
      | Some tok_s \<Rightarrow>
          let val = (case sscanf (drop (length key) tok_s) of Some v \<Rightarrow> v | None \<Rightarrow> fst vp) in
          (val, store val (snd vp)))"

text \<open>The target wake time has a variable of its own, which starts with 0.\<close>

definition twt_scan_time :: "(string \<Rightarrow> ulong option) \<Rightarrow> string \<Rightarrow> ulong \<times> twt_params \<Rightarrow> ulong \<times> twt_params" where
  "twt_scan_time sscanf line vp =
     (case strstr line '' twt='' of
        None \<Rightarrow> vp
      | Some tok_s \<Rightarrow>
          (fst vp, (snd vp)\<lparr>target_wake_time :=
             (case sscanf (drop (length '' twt='') tok_s) of Some v \<Rightarrow> v | None \<Rightarrow> 0)\<rparr>))"

definition twt_parse :: "(string \<Rightarrow> ulong option) \<Rightarrow> string \<Rightarrow> twt_params \<Rightarrow> twt_params" where
  "twt_parse sscanf line p =
     (let vp = (0, p);
          vp = twt_scan sscanf line '' negotiation='' (\<lambda>v. neg_type_update (\<lambda>_. ucast v)) vp;
          vp = twt_scan sscanf line '' exponent='' (\<lambda>v. twt_target_wake_interval_exponent_update (\<lambda>_. ucast v)) vp;
          vp = twt_scan sscanf line '' mantissa='' (\<lambda>v. twt_target_wake_interval_mantissa_update (\<lambda>_. ucast v)) vp;
          vp = twt_scan sscanf line '' min_twt='' (\<lambda>v. nominal_min_twt_wake_duration_update (\<lambda>_. ucast v)) vp;
          vp = twt_scan sscanf line '' setup_cmd='' (\<lambda>v. setup_cmd_update (\<lambda>_. ucast v)) vp;
          vp = twt_scan_time sscanf line vp;
          vp = twt_scan sscanf line '' trigger='' (\<lambda>v. ap_trigger_frame_update (\<lambda>_. ucast v)) vp;
          vp = twt_scan sscanf line '' implicit='' (\<lambda>v. is_implicit_update (\<lambda>_. ucast v)) vp;
          vp = twt_scan sscanf line '' flow_type='' (\<lambda>v. twt_flow_type_update (\<lambda>_. ucast v)) vp;
          vp = twt_scan sscanf line '' flow_id='' (\<lambda>v. twt_flow_id_update (\<lambda>_. ucast v)) vp
      in snd vp)"

definition MAX_TWT_WAIT :: u32 where "MAX_TWT_WAIT = 1000000"

text \<open>
  The busy wait for the set-up event: \<open>event i\<close> and \<open>elapsed i\<close> are the \<open>i\<close>-th readings of the flag
  and of the clock. The result is the flag after the loop, \<open>None\<close> that it never ends.
\<close>

partial_function (option) twt_wait :: "(nat \<Rightarrow> bool) \<Rightarrow> (nat \<Rightarrow> u32) \<Rightarrow> nat \<Rightarrow> bool option" where
  "twt_wait event elapsed i =
     (if event i then Some True
      else if elapsed i \<ge> MAX_TWT_WAIT then Some (event (Suc i))
      else twt_wait event elapsed (Suc i))"

definition send_twt :: "twt_cmd \<Rightarrow> rpu_twt \<Rightarrow> rpu_twt" where
  "send_twt c s = s\<lparr>twt_cmds := twt_cmds s @ [c]\<rparr>"

text \<open>
  Sending the set-up: at most two attempts, numbered from 0. \<open>ok\<close> is whether the firmware takes the
  command in each attempt, \<open>event\<close> and \<open>elapsed\<close> are the readings during its wait. On success
  the structure is freed; a command that the firmware does not take leaves it allocated.
\<close>

definition twt_attempt ::
  "bool \<Rightarrow> (nat \<Rightarrow> bool) \<Rightarrow> (nat \<Rightarrow> u32) \<Rightarrow> rpu_twt \<Rightarrow> (bool \<times> bool \<times> rpu_twt) option" where
  "twt_attempt ok event elapsed s =
     (let s = send_twt (TwtSetup (twt_cmd s)) (s\<lparr>twt_setup_event := False\<rparr>) in
      if \<not> ok then Some (False, False, s)
      else map_option (\<lambda>e. (True, e, s\<lparr>twt_setup_event := e\<rparr>)) (twt_wait event elapsed 0))"

definition twt_setup ::
  "(nat \<Rightarrow> bool) \<Rightarrow> (nat \<Rightarrow> nat \<Rightarrow> bool) \<Rightarrow> (nat \<Rightarrow> nat \<Rightarrow> u32) \<Rightarrow> bool \<Rightarrow> rpu_twt \<Rightarrow> rpu_twt option" where
  "twt_setup ok event elapsed alloc s =
     (if \<not> alloc then Some s else
      let s = s\<lparr>twt_live := twt_live s + 1\<rparr>; free = (\<lambda>s. s\<lparr>twt_live := twt_live s - 1\<rparr>) in
      case twt_attempt (ok 0) (event 0) (elapsed 0) s of
        None \<Rightarrow> None
      | Some (False, _, s) \<Rightarrow> Some s
      | Some (True, True, s) \<Rightarrow> Some (free s)
      | Some (True, False, s) \<Rightarrow>
          (case twt_attempt (ok 1) (event 1) (elapsed 1) s of
             None \<Rightarrow> None
           | Some (False, _, s) \<Rightarrow> Some s
           | Some (True, _, s) \<Rightarrow> Some (free s)))"

text \<open>
  The tear-down of the flow that was set up last; its structure is freed before the return. A line without
  a flow, or with another one, reaches the error message that was never written.
\<close>

definition twt_teardown ::
  "(string \<Rightarrow> ulong option) \<Rightarrow> bool \<Rightarrow> int \<Rightarrow> string \<Rightarrow> rpu_twt \<Rightarrow> (int \<times> rpu_twt) outcome" where
  "twt_teardown kstrtoul alloc_cmd count line s =
     (case strstr line '' flow_id='' of
        None \<Rightarrow> Ret (count, s\<lparr>twt_garbage := True\<rparr>)
      | Some tok_s \<Rightarrow>
          and_then (param_get_val kstrtoul tok_s ''flow_id='' 0) (\<lambda>(_, val).
            if val \<noteq> ucast (twt_flow_id (twt_cmd s)) then Ret (count, s\<lparr>twt_garbage := True\<rparr>)
            else if \<not> alloc_cmd then Ret (count, s)
            else Ret (count, send_twt TwtTeardown s)))"

text \<open>The outer option is whether the handler returns at all.\<close>

definition nrf_wifi_wlan_twt_write ::
  "(string \<Rightarrow> ulong option) \<Rightarrow> (string \<Rightarrow> ulong option) \<Rightarrow> (nat \<Rightarrow> bool) \<Rightarrow> (nat \<Rightarrow> nat \<Rightarrow> bool) \<Rightarrow>
   (nat \<Rightarrow> nat \<Rightarrow> u32) \<Rightarrow> bool \<Rightarrow> bool \<Rightarrow> bool \<Rightarrow> string \<Rightarrow> rpu_twt \<Rightarrow> (int \<times> rpu_twt) outcome option" where
  "nrf_wifi_wlan_twt_write kstrtoul sscanf ok event elapsed alloc copy_ok alloc_cmd input s =
     (case read_input alloc copy_ok input of
        UB u \<Rightarrow> Some (UB u)
      | Ret (Inl e) \<Rightarrow> Some (Ret (e, s))
      | Ret (Inr conf_buf) \<Rightarrow>
          let count = int (length input); line = cstr conf_buf in
          if strstr line ''twt_setup '' \<noteq> None then
            let s = s\<lparr>twt_setup_cmd := take 200 conf_buf @ drop 200 (twt_setup_cmd s),
                      twt_cmd := twt_parse sscanf line (twt_cmd s)\<rparr> in
            map_option (\<lambda>s. Ret (count, s)) (twt_setup ok event elapsed alloc_cmd s)
          else if strstr line ''twt_teardown'' \<noteq> None then
            Some (twt_teardown kstrtoul alloc_cmd count line s)
          else Some (Ret (count, s\<lparr>twt_garbage := True\<rparr>)))"

definition nrf_wifi_twt_config_callbk_fn :: "twt_params \<Rightarrow> rpu_twt \<Rightarrow> rpu_twt" where
  "nrf_wifi_twt_config_callbk_fn info s =
     s\<lparr>twt_event := info\<lparr>target_wake_time := target_wake_time (twt_event s)\<rparr>, twt_event_info_avail := True\<rparr>"

definition nrf_wifi_twt_teardown_callbk_fn :: "u8 \<Rightarrow> u32 \<Rightarrow> rpu_twt \<Rightarrow> rpu_twt" where
  "nrf_wifi_twt_teardown_callbk_fn flow_id reason s =
     s\<lparr>twt_event := (twt_event s)\<lparr>twt_flow_id := flow_id\<rparr>, teardown_reason := reason\<rparr>"

datatype twt_sleep = TWT_BLOCK_TX | TWT_UNBLOCK_TX | TWT_OTHER

text \<open>The transmit queue of the interface: whether it is stopped.\<close>

definition nrf_wifi_twt_sleep_callbk_fn :: "twt_sleep \<Rightarrow> bool \<Rightarrow> bool" where
  "nrf_wifi_twt_sleep_callbk_fn type stopped =
     (case type of TWT_BLOCK_TX \<Rightarrow> True | TWT_UNBLOCK_TX \<Rightarrow> False | TWT_OTHER \<Rightarrow> stopped)"

subsection \<open>Lines and the buffer\<close>

lemma read_input_line:
  assumes "CHR 0x00 \<notin> set line" and "length line < 499"
  shows "\<exists>conf_buf. read_input True True (line @ [nl]) = Ret (Inr conf_buf) \<and> cstr conf_buf = line \<and> length conf_buf = 500"
proof -
  have "takeWhile (\<lambda>c. c \<noteq> CHR 0x00) (line @ CHR 0x00 # r) = line" for r
    using assms(1) by (subst takeWhile_append2) auto
  with assms(2) show ?thesis
    by (simp add: read_input_def MAX_CONF_BUF_SIZE_def Let_def cstr_def list_update_append)
qed

subsection \<open>Properties of the parameter file\<close>

lemma sublist_up_to_equals:
  assumes "CHR ''='' \<notin> set xs" and "CHR ''='' \<notin> set name" and "CHR ''='' \<notin> set v"
  shows "sublist (xs @ [CHR ''='']) (name @ CHR ''='' # v) \<longleftrightarrow> suffix xs name"
proof
  assume "sublist (xs @ [CHR ''='']) (name @ CHR ''='' # v)"
  then obtain a b where eq: "(a @ xs) @ CHR ''='' # b = name @ CHR ''='' # v"
    by (auto simp: sublist_def)
  from arg_cong [OF eq, of "\<lambda>l. count_list l (CHR ''='')"] assms
  have "count_list a (CHR ''='') = 0" by simp
  then have "CHR ''='' \<notin> set (a @ xs)" using assms(1) by (simp add: count_list_0_iff)
  then have "takeWhile (\<lambda>c. c \<noteq> CHR ''='') ((a @ xs) @ CHR ''='' # b) = a @ xs"
    by (subst takeWhile_append2) auto
  moreover have "takeWhile (\<lambda>c. c \<noteq> CHR ''='') (name @ CHR ''='' # v) = name"
    using assms(2) by (subst takeWhile_append2) auto
  ultimately have "a @ xs = name" using eq by simp
  then show "suffix xs name" by (auto simp: suffix_def)
next
  assume "suffix xs name"
  then obtain zs where "name @ CHR ''='' # v = zs @ (xs @ [CHR ''='']) @ v"
    by (auto simp: suffix_def)
  then show "sublist (xs @ [CHR ''='']) (name @ CHR ''='' # v)"
    unfolding sublist_def by blast
qed

lemma param_parse_line:
  assumes "CHR ''='' \<notin> set xs" and "CHR ''='' \<notin> set name" and "CHR ''='' \<notin> set v"
  shows "param_parse kstrtoul (name @ CHR ''='' # v) (xs @ [CHR ''='']) =
    (if suffix xs name then kstrtoul v else None)"
  using sublist_up_to_equals [OF assms] param_value_app [OF assms(2)] by (simp add: param_parse_def)

lemma conf_dispatch_line:
  assumes v: "CHR ''='' \<notin> set v" and n: "CHR ''='' \<notin> set name"
  shows "conf_dispatch kstrtoul ok alloc count (name @ CHR ''='' # v) s =
    (case kstrtoul v of
       None \<Rightarrow> Ret (-EFAULT, s)
     | Some val \<Rightarrow>
         if suffix ''uapsd_queue'' name then conf_uapsd_queue ok count val s
         else if suffix ''power_save'' name then conf_power_save ok count val s
         else if suffix ''he_gi'' name then conf_he_gi count val s
         else if suffix ''rts_threshold'' name then conf_rts_threshold ok alloc count val s
         else Ret (-EFAULT, s))"
proof -
  note parse = param_parse_line [OF _ n v, of _ kstrtoul]
  have "param_parse kstrtoul (name @ CHR ''='' # v) ''uapsd_queue='' =
      (if suffix ''uapsd_queue'' name then kstrtoul v else None)"
    "param_parse kstrtoul (name @ CHR ''='' # v) ''power_save='' =
      (if suffix ''power_save'' name then kstrtoul v else None)"
    "param_parse kstrtoul (name @ CHR ''='' # v) ''he_gi='' =
      (if suffix ''he_gi'' name then kstrtoul v else None)"
    "param_parse kstrtoul (name @ CHR ''='' # v) ''rts_threshold='' =
      (if suffix ''rts_threshold'' name then kstrtoul v else None)"
    using parse [of "''uapsd_queue''"] parse [of "''power_save''"] parse [of "''he_gi''"]
      parse [of "''rts_threshold''"] by simp_all
  then show ?thesis
    by (auto simp: conf_dispatch_def split: option.splits)
qed

definition conf_ok :: "conf_params \<Rightarrow> bool" where
  "conf_ok p \<longleftrightarrow> uapsd_queue p \<le> 15 \<and> power_save p \<le> 1 \<and> he_gi p \<le> 2"

text \<open>What one write may do to the parameters.\<close>

definition conf_step :: "(dbg_cmd \<Rightarrow> bool) \<Rightarrow> dbg \<Rightarrow> dbg \<Rightarrow> bool" where
  "conf_step ok s t \<longleftrightarrow>
     (uapsd_queue (params t) \<noteq> uapsd_queue (params s) \<longrightarrow>
        ok (SetUapsdQueue (uapsd_queue (params t))) \<and>
        dbg_cmds t = dbg_cmds s @ [SetUapsdQueue (uapsd_queue (params t))]) \<and>
     (power_save (params t) \<noteq> power_save (params s) \<longrightarrow>
        ok (SetPowerSaveMode (power_save (params t))) \<and>
        dbg_cmds t = dbg_cmds s @ [SetPowerSaveMode (power_save (params t))]) \<and>
     (rts_threshold (params t) \<noteq> rts_threshold (params s) \<longrightarrow>
        ok (SetRtsThreshold (rts_threshold (params t))) \<and>
        dbg_cmds t = dbg_cmds s @ [SetRtsThreshold (rts_threshold (params t))])"

lemma conf_branch_safe:
  assumes "conf_ok (params s)"
  shows "conf_uapsd_queue ok count val s = Ret (ret, t) \<Longrightarrow> conf_ok (params t) \<and> conf_step ok s t"
    and "conf_power_save ok count val s = Ret (ret, t) \<Longrightarrow> conf_ok (params t) \<and> conf_step ok s t"
    and "conf_he_gi count val s = Ret (ret, t) \<Longrightarrow> conf_ok (params t) \<and> conf_step ok s t"
    and "conf_rts_threshold ok alloc count val s = Ret (ret, t) \<Longrightarrow> conf_ok (params t) \<and> conf_step ok s t"
  using assms
  by (auto simp: conf_uapsd_queue_def conf_power_save_def conf_he_gi_def conf_rts_threshold_def
      conf_ok_def conf_step_def tell_fw_def set_params_def Let_def not_less split: if_splits)

lemma conf_dispatch_safe:
  assumes "conf_ok (params s)" and "conf_dispatch kstrtoul ok alloc count line s = Ret (ret, t)"
  shows "conf_ok (params t) \<and> conf_step ok s t"
proof -
  have "conf_ok (params s) \<and> conf_step ok s s" using assms(1) by (simp add: conf_step_def)
  with assms conf_branch_safe [OF assms(1)] show ?thesis
    unfolding conf_dispatch_def and_then_eq_Ret
    by (elim exE conjE) (auto split: if_splits simp: and_then_eq_Ret simp del: param_get_val_eq)
qed


definition kstrtoul_dec :: "string \<Rightarrow> ulong option" where
  "kstrtoul_dec str =
     (if str \<noteq> [] \<and> list_all (\<lambda>c. 48 \<le> (of_char c :: nat) \<and> of_char c \<le> (57 :: nat)) str
      then Some (of_nat (foldl (\<lambda>n c. 10 * n + (of_char c - 48)) (0 :: nat) str)) else None)"

definition sample_dbg :: dbg where
  "sample_dbg = \<lparr>params = \<lparr>uapsd_queue = 0, power_save = 0, he_gi = 0, rts_threshold = 2347\<rparr>,
     dbg_cmds = [], dbg_live = 0, dbg_garbage = False\<rparr>"

lemma sample_dbg_ok: "conf_ok (params sample_dbg)"
  by (simp add: conf_ok_def sample_dbg_def)

lemma conf_write_eq:
  assumes "CHR 0x00 \<notin> set (name @ v)" and "CHR ''='' \<notin> set (name @ v)" and "length (name @ v) < 498"
  shows "nrf_wifi_wlan_fmac_conf_write kstrtoul ok True True alloc_info (name @ CHR ''='' # v @ [nl]) s =
    conf_dispatch kstrtoul ok alloc_info (int (length (name @ v)) + 2) (name @ CHR ''='' # v) s"
proof -
  have "CHR 0x00 \<notin> set (name @ CHR ''='' # v)" and "length (name @ CHR ''='' # v) < 499"
    using assms(1,3) by auto
  from read_input_line [OF this, of nl] obtain b
    where "read_input True True (name @ CHR ''='' # v @ [nl]) = Ret (Inr b)" and "cstr b = name @ CHR ''='' # v"
    by auto
  then show ?thesis by (simp add: nrf_wifi_wlan_fmac_conf_write_def add.commute)
qed

text \<open>
  A line \<open>name=value\<close> reaches the branch of its parameter with the parsed value, an unknown name or
  an unreadable value is refused, and an empty write is terminated in front of the buffer.
\<close>

theorem conf_write_line:
  assumes "CHR 0x00 \<notin> set (name @ v)" and "CHR ''='' \<notin> set (name @ v)" and "length (name @ v) < 498"
  shows "nrf_wifi_wlan_fmac_conf_write kstrtoul ok True True alloc_info (name @ CHR ''='' # v @ [nl]) s =
    (let count = int (length (name @ v)) + 2 in
     case kstrtoul v of
       None \<Rightarrow> Ret (-EFAULT, s)
     | Some val \<Rightarrow>
         if suffix ''uapsd_queue'' name then conf_uapsd_queue ok count val s
         else if suffix ''power_save'' name then conf_power_save ok count val s
         else if suffix ''he_gi'' name then conf_he_gi count val s
         else if suffix ''rts_threshold'' name then conf_rts_threshold ok alloc_info count val s
         else Ret (-EFAULT, s)) \<and>
    nrf_wifi_wlan_fmac_conf_write kstrtoul ok True True alloc_info [] s = UB OutOfBounds"
proof
  have "CHR ''='' \<notin> set v" and "CHR ''='' \<notin> set name" using assms(2) by auto
  then show "nrf_wifi_wlan_fmac_conf_write kstrtoul ok True True alloc_info (name @ CHR ''='' # v @ [nl]) s =
    (let count = int (length (name @ v)) + 2 in
     case kstrtoul v of
       None \<Rightarrow> Ret (-EFAULT, s)
     | Some val \<Rightarrow>
         if suffix ''uapsd_queue'' name then conf_uapsd_queue ok count val s
         else if suffix ''power_save'' name then conf_power_save ok count val s
         else if suffix ''he_gi'' name then conf_he_gi count val s
         else if suffix ''rts_threshold'' name then conf_rts_threshold ok alloc_info count val s
         else Ret (-EFAULT, s))"
    unfolding conf_write_eq [OF assms] Let_def by (rule conf_dispatch_line)
  show "nrf_wifi_wlan_fmac_conf_write kstrtoul ok True True alloc_info [] s = UB OutOfBounds"
    by (simp add: nrf_wifi_wlan_fmac_conf_write_def read_input_def MAX_CONF_BUF_SIZE_def)
qed

lemma not_suffixes:
  "\<not> suffix ''uapsd_queue'' ''he_gi''" "\<not> suffix ''power_save'' ''he_gi''"
  by (auto simp: suffix_def dest: arg_cong [where f = length])

theorem conf_write_line_witness:
  "nrf_wifi_wlan_fmac_conf_write kstrtoul_dec (\<lambda>_. True) True True True ''he_gi=2 '' sample_dbg =
     Ret (8, set_params (he_gi_update (\<lambda>_. 2)) sample_dbg)"
  using conf_write_line [of "''he_gi''" "''2''" kstrtoul_dec "\<lambda>_. True" True "CHR '' ''" sample_dbg]
  by (simp add: kstrtoul_dec_def not_suffixes conf_he_gi_def sample_dbg_def Let_def)


text \<open>
  A parameter that the firmware refuses is reported as written: the call returns the length of
  the input, and for the RTS threshold its structure stays allocated. A U-APSD queue that
  the firmware accepts, on the other hand, ends in printing an error message that does not exist.
\<close>

theorem conf_write_hides_refusal:
  assumes "\<not> ok (SetPowerSaveMode mode)" and "mode = 0 \<or> mode = 1" and "power_save (params s) \<noteq> mode"
    and "\<not> ok (SetRtsThreshold rts)" and "0 < rts" and "rts_threshold (params s) \<noteq> rts"
    and "ok (SetUapsdQueue queue)" and "queue \<le> 15" and "uapsd_queue (params s) \<noteq> queue"
  shows "conf_power_save ok count mode s = Ret (count, tell_fw (SetPowerSaveMode mode) s) \<and>
    (\<exists>t. conf_rts_threshold ok True count rts s = Ret (count, t) \<and> params t = params s \<and>
       dbg_live t = dbg_live s + 1) \<and>
    (\<exists>t. conf_uapsd_queue ok count queue s = Ret (count, t) \<and> uapsd_queue (params t) = queue \<and> dbg_garbage t)"
  using assms
  by (auto simp: conf_power_save_def conf_rts_threshold_def conf_uapsd_queue_def Let_def tell_fw_def
      set_params_def)

theorem conf_write_hides_refusal_witness:
  "conf_power_save (\<lambda>c. c = SetUapsdQueue 3) 13 1 sample_dbg =
     Ret (13, tell_fw (SetPowerSaveMode 1) sample_dbg)"
  using conf_write_hides_refusal [of "\<lambda>c. c = SetUapsdQueue 3" 1 sample_dbg 100 3 13]
  by (simp add: sample_dbg_def word_less_nat_alt word_le_nat_alt)

subsection \<open>Properties of target wake time\<close>

lemma twt_wait_times_out:
  assumes "\<forall>i. \<not> event i" and "elapsed n \<ge> MAX_TWT_WAIT" and "k \<le> n"
  shows "twt_wait event elapsed k = Some False"
  using assms(3)
proof (induction "n - k" arbitrary: k)
  case 0
  with assms show ?case by (subst twt_wait.simps) simp
next
  case (Suc m)
  then have "twt_wait event elapsed (Suc k) = Some False" by simp
  with assms show ?case by (subst twt_wait.simps) simp
qed

lemma twt_wait_answered:
  assumes "event n" and "\<forall>i < n. elapsed i < MAX_TWT_WAIT" and "k \<le> n"
  shows "twt_wait event elapsed k = Some True"
  using assms(3)
proof (induction "n - k" arbitrary: k)
  case 0
  with assms show ?case by (subst twt_wait.simps) simp
next
  case (Suc m)
  then have "twt_wait event elapsed (Suc k) = Some True" and "\<not> elapsed k \<ge> MAX_TWT_WAIT"
    using assms(2) by (simp_all add: not_le)
  then show ?case by (subst twt_wait.simps) simp
qed

text \<open>
  Nothing in the driver raises the flag that a target wake time set-up waits for (in particular
  not the event callback), so every accepted set-up spins until the clock has passed one
  second and is then sent a second time. The handler does return once the clock passes.
  A set-up that the firmware does not take leaks its structure.
\<close>

theorem twt_setup_sent_twice:
  assumes "\<forall>a i. \<not> event a i" and "\<forall>a. \<exists>i. elapsed a i \<ge> MAX_TWT_WAIT" and "ok 0" and "ok 1" and "\<not> refused 0"
  shows "\<exists>t. twt_setup ok event elapsed True s = Some t \<and>
      twt_cmds t = twt_cmds s @ [TwtSetup (twt_cmd s), TwtSetup (twt_cmd s)] \<and> twt_live t = twt_live s \<and>
    (\<exists>u. twt_setup refused event elapsed True s = Some u \<and> twt_live u = twt_live s + 1) \<and>
    twt_setup_event (nrf_wifi_twt_config_callbk_fn info s) = twt_setup_event s"
proof -
  have "twt_wait (event a) (elapsed a) 0 = Some False" for a
    using assms(1,2) by (metis twt_wait_times_out zero_le)
  with assms(3,4,5) show ?thesis
    by (simp add: twt_setup_def twt_attempt_def send_twt_def Let_def nrf_wifi_twt_config_callbk_fn_def)
qed

definition sample_twt :: rpu_twt where
  "sample_twt = \<lparr>twt_cmd = zero_twt, twt_event = zero_twt, twt_event_info_avail = False, twt_setup_cmd = [],
     teardown_reason = 0, twt_status = 0, teardown_event_cnt = 0, twt_setup_event = False, twt_cmds = [], twt_live = 0, twt_garbage = False\<rparr>"

theorem twt_setup_sent_twice_witness:
  "\<exists>t. twt_setup (\<lambda>_. True) (\<lambda>_ _. False) (\<lambda>_ _. 1000000) True sample_twt = Some t \<and>
     twt_cmds t = [TwtSetup zero_twt, TwtSetup zero_twt]"
  using twt_setup_sent_twice [of "\<lambda>_ _. False" "\<lambda>_ _. 1000000" "\<lambda>_. True" "\<lambda>_. False" sample_twt zero_twt]
  by (auto simp: MAX_TWT_WAIT_def sample_twt_def)

text \<open>A set-up line: the command word and parameters \<open>key=value\<close>, each after a space.\<close>

definition twt_token :: "string \<times> string \<Rightarrow> string" where
  "twt_token kv = CHR '' '' # fst kv @ CHR ''='' # snd kv"

definition twt_tokens :: "(string \<times> string) list \<Rightarrow> string" where
  "twt_tokens kvs = concat (map twt_token kvs)"

definition plain :: "string \<Rightarrow> bool" where
  "plain w \<longleftrightarrow> CHR '' '' \<notin> set w \<and> CHR ''='' \<notin> set w \<and> CHR 0x00 \<notin> set w"

lemma strstr_skip_word:
  "CHR '' '' \<notin> set w \<Longrightarrow> strstr (w @ r) (CHR '' '' # key) = strstr r (CHR '' '' # key)"
  by (induction w) auto

lemma prefix_key:
  assumes "plain k" and "plain key"
  shows "prefix (key @ [CHR ''='']) (k @ CHR ''='' # r) \<longleftrightarrow> k = key"
proof
  assume "prefix (key @ [CHR ''='']) (k @ CHR ''='' # r)"
  then obtain z where eq: "key @ CHR ''='' # z = k @ CHR ''='' # r" by (auto simp: prefix_def)
  have tw: "takeWhile (\<lambda>c. c \<noteq> CHR ''='') (w @ CHR ''='' # y) = w" if "plain w" for w y
    using that by (subst takeWhile_append2) (auto simp: plain_def)
  from arg_cong [OF eq, of "takeWhile (\<lambda>c. c \<noteq> CHR ''='')"] show "k = key"
    using tw [OF assms(1)] tw [OF assms(2)] by simp
qed simp

lemma strstr_tokens:
  assumes "\<forall>(k, v) \<in> set kvs. plain k \<and> plain v" and "plain key"
  shows "strstr (twt_tokens kvs) (CHR '' '' # key @ [CHR ''='']) =
    (case dropWhile (\<lambda>(k, v). k \<noteq> key) kvs of [] \<Rightarrow> None | rest \<Rightarrow> Some (twt_tokens rest))"
  using assms(1)
proof (induction kvs)
  case (Cons kv kvs)
  obtain k v where kv: "kv = (k, v)" by (cases kv)
  with Cons.prems have k: "plain k" "plain v" by auto
  have "strstr (twt_tokens (kv # kvs)) (CHR '' '' # key @ [CHR ''='']) =
      (if k = key then Some (twt_tokens (kv # kvs))
       else strstr ((k @ CHR ''='' # v) @ twt_tokens kvs) (CHR '' '' # key @ [CHR ''='']))"
    using prefix_key [OF k(1) assms(2), of "v @ twt_tokens kvs"]
    by (simp add: kv twt_tokens_def twt_token_def)
  also have "strstr ((k @ CHR ''='' # v) @ twt_tokens kvs) (CHR '' '' # key @ [CHR ''='']) =
      strstr (twt_tokens kvs) (CHR '' '' # key @ [CHR ''=''])"
    by (rule strstr_skip_word) (use k in \<open>auto simp: plain_def\<close>)
  finally show ?case using Cons by (simp add: kv)
qed (simp add: twt_tokens_def)

text \<open>What is relied on of \<open>sscanf\<close>: it reads back a printed number up to a space or the end.\<close>

definition scans :: "(string \<Rightarrow> ulong option) \<Rightarrow> (ulong \<Rightarrow> string) \<Rightarrow> bool" where
  "scans sscanf print \<longleftrightarrow>
     (\<forall>n r. plain (print n) \<and> (r = [] \<or> hd r = CHR '' '' \<longrightarrow> sscanf (print n @ r) = Some n))"

lemma tokens_start: "twt_tokens kvs = [] \<or> hd (twt_tokens kvs) = CHR '' ''"
  by (cases kvs) (simp_all add: twt_tokens_def twt_token_def)

lemma twt_scan_tokens:
  assumes "scans sscanf print" and "\<forall>(k, n) \<in> set kvs. plain k" and "plain key"
    and "plain word" and "map_of kvs key = Some n"
  shows "twt_scan sscanf (word @ twt_tokens (map (\<lambda>(k, n). (k, print n)) kvs))
      (CHR '' '' # key @ [CHR ''='']) store vp = (n, store n (snd vp))"
    and "sscanf (drop (length key + 2) (the (strstr (word @ twt_tokens (map (\<lambda>(k, n). (k, print n)) kvs))
      (CHR '' '' # key @ [CHR ''=''])))) = Some n"
    and "strstr (word @ twt_tokens (map (\<lambda>(k, n). (k, print n)) kvs)) (CHR '' '' # key @ [CHR ''='']) \<noteq> None"
proof -
  let ?kvs = "map (\<lambda>(k, n). (k, print n)) kvs"
  have w: "CHR '' '' \<notin> set word" using assms(4) by (simp add: plain_def)
  have pl: "\<forall>(k, v) \<in> set ?kvs. plain k \<and> plain v"
    using assms(1,2) by (auto simp: scans_def)
  have "\<exists>rest. dropWhile (\<lambda>(k, v). k \<noteq> key) ?kvs = (key, print n) # rest"
    using assms(5) by (induction kvs) (auto split: if_splits)
  then obtain rest where rest: "dropWhile (\<lambda>(k, v). k \<noteq> key) ?kvs = (key, print n) # rest" ..
  have st: "strstr (word @ twt_tokens ?kvs) (CHR '' '' # key @ [CHR ''='']) =
      Some (CHR '' '' # key @ CHR ''='' # print n @ twt_tokens rest)"
    using strstr_tokens [OF pl assms(3)] rest
    by (simp add: strstr_skip_word [OF w] twt_tokens_def twt_token_def)
  have sc: "sscanf (print n @ twt_tokens rest) = Some n"
    using assms(1) tokens_start [of rest] unfolding scans_def by blast
  show "twt_scan sscanf (word @ twt_tokens ?kvs) (CHR '' '' # key @ [CHR ''='']) store vp = (n, store n (snd vp))"
    using st sc by (simp add: twt_scan_def)
  show "sscanf (drop (length key + 2) (the (strstr (word @ twt_tokens ?kvs) (CHR '' '' # key @ [CHR ''=''])))) = Some n"
    and "strstr (word @ twt_tokens ?kvs) (CHR '' '' # key @ [CHR ''='']) \<noteq> None"
    using st sc by simp_all
qed

definition twt_values :: "twt_params \<Rightarrow> (string \<times> ulong) list" where
  "twt_values p =
     [(''negotiation'', ucast (neg_type p)), (''exponent'', ucast (twt_target_wake_interval_exponent p)),
      (''mantissa'', ucast (twt_target_wake_interval_mantissa p)),
      (''min_twt'', ucast (nominal_min_twt_wake_duration p)), (''setup_cmd'', ucast (setup_cmd p)),
      (''twt'', target_wake_time p), (''trigger'', ucast (ap_trigger_frame p)),
      (''implicit'', ucast (is_implicit p)), (''flow_type'', ucast (twt_flow_type p)),
      (''flow_id'', ucast (twt_flow_id p))]"

definition twt_line :: "(ulong \<Rightarrow> string) \<Rightarrow> twt_params \<Rightarrow> string" where
  "twt_line print p = ''twt_setup'' @ twt_tokens (map (\<lambda>(k, n). (k, print n)) (twt_values p))"

lemma twt_values_plain: "\<forall>(k, n) \<in> set (twt_values p). plain k"
  by (simp add: twt_values_def plain_def)

lemma ucast_back [simp]:
  "(ucast (ucast (x :: u8) :: ulong) :: u8) = x" "(ucast (ucast (y :: u16) :: ulong) :: u16) = y"
  "(ucast (ucast (z :: u32) :: ulong) :: u32) = z"
  by (rule bit_word_eqI, auto simp: bit_simps)+

lemma twt_parse_line:
  assumes "scans sscanf print"
  shows "twt_parse sscanf (twt_line print p) q = p"
proof -
  have word: "plain ''twt_setup''" by (simp add: plain_def)
  note scan = twt_scan_tokens [OF assms twt_values_plain _ word, of _ p, folded twt_line_def]
  have keys: "plain ''negotiation''" "plain ''exponent''" "plain ''mantissa''" "plain ''min_twt''"
    "plain ''setup_cmd''" "plain ''twt''" "plain ''trigger''" "plain ''implicit''" "plain ''flow_type''"
    "plain ''flow_id''"
    by (simp_all add: plain_def)
  have time: "twt_scan_time sscanf (twt_line print p) vp =
      (fst vp, (snd vp)\<lparr>target_wake_time := target_wake_time p\<rparr>)" for vp
    using scan(2) [OF keys(6), of "target_wake_time p"] scan(3) [OF keys(6), of "target_wake_time p"]
    by (auto simp: twt_scan_time_def twt_values_def)
  show ?thesis
    using scan(1) [OF keys(1)] scan(1) [OF keys(2)] scan(1) [OF keys(3)] scan(1) [OF keys(4)]
      scan(1) [OF keys(5)] scan(1) [OF keys(7)] scan(1) [OF keys(8)] scan(1) [OF keys(9)]
      scan(1) [OF keys(10)]
    by (simp add: twt_parse_def Let_def time twt_values_def)
qed

lemma set_twt_tokens: "CHR 0x00 \<notin> set (twt_tokens kvs)" if "\<forall>(k, v) \<in> set kvs. plain k \<and> plain v"
  using that by (auto simp: twt_tokens_def twt_token_def plain_def)

lemma twt_line_no_nul: "scans sscanf print \<Longrightarrow> CHR 0x00 \<notin> set (twt_line print p)"
proof -
  assume sc: "scans sscanf print"
  have "CHR 0x00 \<notin> set (twt_tokens (map (\<lambda>(k, n). (k, print n)) (twt_values p)))"
    by (rule set_twt_tokens) (use sc twt_values_plain [of p] in \<open>auto simp: scans_def\<close>)
  then show ?thesis by (simp add: twt_line_def)
qed

lemma twt_line_command: "strstr (twt_line print p) ''twt_setup '' \<noteq> None"
proof -
  have "prefix ''twt_setup '' (twt_line print p)"
    by (simp add: twt_line_def twt_values_def twt_tokens_def twt_token_def)
  then show ?thesis using strstr_prefix by fastforce
qed

text \<open>
  C30. A target wake time set-up written to the debugfs file reaches the firmware with exactly the
  parameters of the line, each at its width, whatever was set before; the line is kept for display.
\<close>

theorem twt_write_round_trip:
  assumes "scans sscanf print" and "length (twt_line print p) < 499"
    and "\<forall>a i. \<not> event a i" and "\<forall>a. \<exists>i. elapsed a i \<ge> MAX_TWT_WAIT" and "ok 0" and "ok 1"
  shows "\<exists>t. nrf_wifi_wlan_twt_write kstrtoul sscanf ok event elapsed True True True (twt_line print p @ [nl]) s =
      Some (Ret (int (length (twt_line print p)) + 1, t)) \<and>
    twt_cmd t = p \<and> set (drop (length (twt_cmds s)) (twt_cmds t)) = {TwtSetup p} \<and>
    prefix (twt_cmds s) (twt_cmds t) \<and> twt_live t = twt_live s \<and>
    prefix (take 200 (twt_line print p)) (twt_setup_cmd t)"
proof -
  from read_input_line [OF twt_line_no_nul [OF assms(1)] assms(2), of nl] obtain b
    where b: "read_input True True (twt_line print p @ [nl]) = Ret (Inr b)" "cstr b = twt_line print p"
      "length b = 500"
    by auto
  have "prefix (twt_line print p) b"
    unfolding b(2) [symmetric] cstr_def by (rule takeWhile_is_prefix)
  then have pre: "prefix (take 200 (twt_line print p)) (take 200 b @ r)" for r
    by (auto simp: prefix_def)
  have wait: "twt_wait (event a) (elapsed a) 0 = Some False" for a
    using assms(3,4) by (metis twt_wait_times_out zero_le)
  show ?thesis
    using b(1,2) twt_line_command [of print p] assms(5,6) pre wait
    by (simp add: nrf_wifi_wlan_twt_write_def twt_parse_line [OF assms(1)] twt_setup_def twt_attempt_def
        send_twt_def Let_def)
qed

fun dec :: "nat \<Rightarrow> string" where
  "dec n = (if n < 10 then [char_of (48 + n)] else dec (n div 10) @ [char_of (48 + n mod 10)])"

declare dec.simps [simp del]

definition is_digit :: "char \<Rightarrow> bool" where
  "is_digit c \<longleftrightarrow> 48 \<le> (of_char c :: nat) \<and> of_char c \<le> (57 :: nat)"

definition undec :: "string \<Rightarrow> nat" where
  "undec str = foldl (\<lambda>n c. 10 * n + (of_char c - 48)) 0 str"

definition scan_dec :: "string \<Rightarrow> ulong option" where
  "scan_dec str = (let d = takeWhile is_digit str in if d = [] then None else Some (of_nat (undec d)))"

lemma of_char_digit: "k < 10 \<Longrightarrow> (of_char (char_of (48 + k) :: char) :: nat) = 48 + k"
  by (simp add: of_char_of)

lemma dec_props: "dec n \<noteq> [] \<and> list_all is_digit (dec n) \<and> undec (dec n) = n"
proof (induction n rule: dec.induct)
  case (1 n)
  show ?case
  proof (cases "n < 10")
    case True
    then show ?thesis by (subst (1 2 3) dec.simps) (simp add: is_digit_def undec_def of_char_digit)
  next
    case False
    with 1 have IH: "list_all is_digit (dec (n div 10))" "undec (dec (n div 10)) = n div 10" by auto
    have "n mod 10 < 10" by simp
    with False IH show ?thesis
      by (subst (1 2 3) dec.simps) (simp add: is_digit_def undec_def of_char_digit)
  qed
qed

lemma digit_plain: "list_all is_digit w \<Longrightarrow> plain w"
  by (auto simp: list_all_iff plain_def is_digit_def)

lemma scans_dec: "scans scan_dec (\<lambda>n. dec (unat n))"
  unfolding scans_def
proof (intro allI conjI impI)
  fix n :: ulong and r :: string
  have d: "dec (unat n) \<noteq> []" "list_all is_digit (dec (unat n))" "undec (dec (unat n)) = unat n"
    using dec_props by auto
  then show "plain (dec (unat n))" by (simp add: digit_plain)
  assume "r = [] \<or> hd r = CHR '' ''"
  then have "takeWhile is_digit r = []" by (cases r) (auto simp: is_digit_def)
  with d(2) have "takeWhile is_digit (dec (unat n) @ r) = dec (unat n)"
    by (subst takeWhile_append2) (auto simp: list_all_iff)
  with d show "scan_dec (dec (unat n) @ r) = Some n" by (simp add: scan_dec_def)
qed

lemma short_zero_line: "length (twt_line (\<lambda>n. dec (unat n)) zero_twt) < 499"
  by (simp add: twt_line_def twt_values_def zero_twt_def twt_tokens_def twt_token_def dec.simps)

theorem twt_write_round_trip_witness:
  "\<exists>t. nrf_wifi_wlan_twt_write (\<lambda>_. None) scan_dec (\<lambda>_. True) (\<lambda>_ _. False) (\<lambda>_ _. 1000000) True True True
      (twt_line (\<lambda>n. dec (unat n)) zero_twt @ [CHR 0x0A]) (sample_twt\<lparr>twt_cmd := zero_twt\<lparr>twt_flow_id := 3\<rparr>\<rparr>) =
      Some (Ret (int (length (twt_line (\<lambda>n. dec (unat n)) zero_twt)) + 1, t)) \<and> twt_cmd t = zero_twt"
  using twt_write_round_trip [OF scans_dec short_zero_line, of "\<lambda>_ _. False" "\<lambda>_ _. 1000000" "\<lambda>_. True" "\<lambda>_. None"
      "CHR 0x0A" "sample_twt\<lparr>twt_cmd := zero_twt\<lparr>twt_flow_id := 3\<rparr>\<rparr>"]
  by (auto simp: MAX_TWT_WAIT_def)

end
