(* ===== verification/Debugfs_Stats.thy ===== *)
theory Debugfs_Stats
  imports Debugfs
begin

text \<open>
  The statistics file of the debug file system (\<open>stats.c\<close>) as the text it produces.
  Tables list for every line its text before the number, the
  field it shows and the text after the number.
\<close>

subsection \<open>Printing and reading numbers\<close>

abbreviation NL :: char where "NL \<equiv> CHR 0x0A"

definition show_int :: "int \<Rightarrow> string" where
  "show_int i = (if i < 0 then CHR ''-'' # dec (nat (- i)) else dec (nat i))"

definition read_int :: "string \<Rightarrow> int option" where
  "read_int str =
     (case str of
        [] \<Rightarrow> None
      | c # cs \<Rightarrow>
          if c = CHR ''-'' then
            (let d = takeWhile is_digit cs in if d = [] then None else Some (- int (undec d)))
          else (let d = takeWhile is_digit str in if d = [] then None else Some (int (undec d))))"

type_synonym row = "string \<times> string \<times> string"

definition show_row :: "(string \<Rightarrow> int) \<Rightarrow> row \<Rightarrow> string" where
  "show_row val r = (case r of (pre, fld, post) \<Rightarrow> pre @ show_int (val fld) @ post @ [NL])"

definition show_rows :: "(string \<Rightarrow> int) \<Rightarrow> row list \<Rightarrow> string" where
  "show_rows val rows = concat (map (show_row val) rows)"

text \<open>
  A reader of the file: a line that has a number behind its first equals sign gives the label
  in front of it (without spaces at its end) and the number.
\<close>

fun split_lines :: "string \<Rightarrow> string \<Rightarrow> string list" where
  "split_lines acc [] = (if acc = [] then [] else [acc])"
| "split_lines acc (c # cs) = (if c = NL then acc # split_lines [] cs else split_lines (acc @ [c]) cs)"

definition is_space :: "char \<Rightarrow> bool" where
  "is_space c \<longleftrightarrow> c = CHR '' ''"

definition rstrip :: "string \<Rightarrow> string" where
  "rstrip str = rev (dropWhile is_space (rev str))"

definition label_of :: "string \<Rightarrow> string" where
  "label_of str = rstrip (takeWhile (\<lambda>c. c \<noteq> CHR ''='') str)"

definition read_line :: "string \<Rightarrow> (string \<times> int) option" where
  "read_line line =
     (case dropWhile (\<lambda>c. c \<noteq> CHR ''='') line of
        [] \<Rightarrow> None
      | _ # v \<Rightarrow> map_option (\<lambda>n. (label_of line, n)) (read_int (dropWhile is_space v)))"

definition read_text :: "string \<Rightarrow> (string \<times> int) list" where
  "read_text str = List.map_filter read_line (split_lines [] str)"

text \<open>Rows a reader can tell apart: one equals sign with only spaces behind it, no line break inside.\<close>

definition good_row :: "row \<Rightarrow> bool" where
  "good_row r = (case r of (pre, _, post) \<Rightarrow>
     list_all (\<lambda>c. c \<noteq> NL) pre \<and> list_all (\<lambda>c. c \<noteq> NL) post
     \<and> (case dropWhile (\<lambda>c. c \<noteq> CHR ''='') pre of [] \<Rightarrow> False | _ # v \<Rightarrow> list_all is_space v)
     \<and> (case post of [] \<Rightarrow> True | c # _ \<Rightarrow> \<not> is_digit c))"

lemma dec_digits: "list_all is_digit (dec n)" and dec_nonempty: "dec n \<noteq> []" and undec_dec: "undec (dec n) = n"
  using dec_props by auto

lemma digit_not_special:
  "is_digit c \<Longrightarrow> c \<noteq> NL \<and> c \<noteq> CHR ''-'' \<and> \<not> is_space c \<and> c \<noteq> CHR ''=''"
  by (auto simp: is_digit_def is_space_def)

lemma takeWhile_digits:
  "list_all is_digit d \<Longrightarrow> (case r of [] \<Rightarrow> True | c # _ \<Rightarrow> \<not> is_digit c) \<Longrightarrow> takeWhile is_digit (d @ r) = d"
  by (induction d) (auto split: list.splits)

lemma show_int_cases:
  obtains d where "show_int i = d" "d \<noteq> []" "list_all is_digit d" "int (undec d) = i"
  | d where "show_int i = CHR ''-'' # d" "d \<noteq> []" "list_all is_digit d" "- int (undec d) = i"
proof (cases "i < 0")
  case True
  then have "- int (undec (dec (nat (- i)))) = i" by (simp add: undec_dec)
  with True that(2) [of "dec (nat (- i))"] show thesis by (simp add: show_int_def dec_digits dec_nonempty)
next
  case False
  then have "int (undec (dec (nat i))) = i" by (simp add: undec_dec)
  with False that(1) [of "dec (nat i)"] show thesis by (simp add: show_int_def dec_digits dec_nonempty)
qed

lemma read_show_int:
  assumes "case r of [] \<Rightarrow> True | c # _ \<Rightarrow> \<not> is_digit c"
  shows "read_int (show_int i @ r) = Some i"
proof (cases i rule: show_int_cases)
  case (1 d)
  then obtain c cs where "d = c # cs" by (cases d) auto
  with 1 have "c \<noteq> CHR ''-''" by (auto dest: digit_not_special)
  with 1 \<open>d = c # cs\<close> takeWhile_digits [OF 1(3) assms] show ?thesis by (simp add: read_int_def)
next
  case (2 d)
  with takeWhile_digits [OF 2(3) assms] show ?thesis by (simp add: read_int_def)
qed

lemma digits_chars: "list_all is_digit d \<Longrightarrow> NL \<notin> set d"
  using digit_not_special by (metis list_all_iff)

lemma show_int_chars: "NL \<notin> set (show_int i)"
  by (cases i rule: show_int_cases) (simp_all add: digits_chars)

lemma show_int_no_space: "dropWhile is_space (show_int i @ r) = show_int i @ r"
proof (cases i rule: show_int_cases)
  case (1 d)
  then obtain c cs where d: "d = c # cs" by (cases d) auto
  with 1(3) have "\<not> is_space c" using digit_not_special by simp
  with 1(1) d show ?thesis by simp
qed (simp add: is_space_def)

lemma split_lines_line: "NL \<notin> set l \<Longrightarrow> split_lines acc (l @ NL # rest) = (acc @ l) # split_lines [] rest"
  by (induction l arbitrary: acc) auto

lemma read_text_line:
  "NL \<notin> set l \<Longrightarrow> read_text (l @ NL # rest) =
     (case read_line l of None \<Rightarrow> read_text rest | Some kv \<Rightarrow> kv # read_text rest)"
  by (simp add: read_text_def split_lines_line List.map_filter_simps split: option.splits)

lemma read_row:
  assumes "good_row (pre, fld, post)"
  shows "read_text (show_row val (pre, fld, post) @ rest) = (label_of pre, val fld) # read_text rest"
proof -
  let ?l = "pre @ show_int (val fld) @ post"
  from assms obtain c v where pre: "dropWhile (\<lambda>c. c \<noteq> CHR ''='') pre = c # v" "list_all is_space v"
    and post: "case post of [] \<Rightarrow> True | c # _ \<Rightarrow> \<not> is_digit c" and nl: "NL \<notin> set pre" "NL \<notin> set post"
    by (auto simp: good_row_def list_all_iff split: list.splits)
  have eqs: "CHR ''='' \<in> set pre"
  proof (rule ccontr)
    assume "CHR ''='' \<notin> set pre"
    then have "dropWhile (\<lambda>c. c \<noteq> CHR ''='') pre = []" unfolding dropWhile_eq_Nil_conv by auto
    with pre(1) show False by simp
  qed
  have d: "dropWhile (\<lambda>c. c \<noteq> CHR ''='') ?l = c # v @ show_int (val fld) @ post"
    by (subst dropWhile_append1 [OF eqs]) (simp_all add: pre(1))
  have t: "takeWhile (\<lambda>c. c \<noteq> CHR ''='') ?l = takeWhile (\<lambda>c. c \<noteq> CHR ''='') pre"
    by (rule takeWhile_append1 [OF eqs]) simp
  have "dropWhile is_space (v @ show_int (val fld) @ post) = show_int (val fld) @ post"
    using pre(2) show_int_no_space by (simp add: dropWhile_append2 list_all_iff)
  then have "read_line ?l = Some (label_of pre, val fld)"
    unfolding read_line_def d label_of_def t using read_show_int [OF post] by simp
  moreover have "NL \<notin> set ?l" using nl show_int_chars by simp
  ultimately show ?thesis using read_text_line [of ?l rest] by (simp add: show_row_def)
qed

lemma read_rows:
  "list_all good_row rows \<Longrightarrow> read_text (show_rows val rows @ rest) =
     map (\<lambda>(pre, fld, post). (label_of pre, val fld)) rows @ read_text rest"
  by (induction rows) (auto simp: show_rows_def read_row)

subsection \<open>The tables\<close>

text \<open>The host counters, the four groups of the upper MAC, the lower MAC and the physical layer.\<close>

definition host_rows :: "row list" where
  "host_rows =
    [(''total_tx_pkts ='', ''total_tx_pkts'', []),
     (''total_tx_done_pkts = '', ''total_tx_done_pkts'', []),
     (''total_rx_pkts = '', ''total_rx_pkts'', [])]"

definition raw_tx_rows :: "row list" where
  "raw_tx_rows =
    [(''raw_tx_dequeued_pkts = '', ''raw_tx_dequeued_pkts'', []),
     (''raw_tx_prep_fail_pkts = '', ''raw_tx_prep_fail_pkts'', []),
     (''raw_tx_sent_ok_pkts = '', ''raw_tx_sent_ok_pkts'', []),
     (''raw_tx_sent_fail_pkts = '', ''raw_tx_sent_fail_pkts'', [])]"

definition umac_tx_rows :: "row list" where
  "umac_tx_rows =
    [(''tx_cmd = '', ''tx_dbg_params.tx_cmd'', []),
     (''tx_non_coalesce_pkts_rcvd_from_host = '', ''tx_dbg_params.tx_non_coalesce_pkts_rcvd_from_host'', []),
     (''tx_coalesce_pkts_rcvd_from_host = '', ''tx_dbg_params.tx_coalesce_pkts_rcvd_from_host'', []),
     (''tx_coalesce_pkts_rcvd_from_host = '', ''tx_dbg_params.tx_max_coalesce_pkts_rcvd_from_host'', []),
     (''tx_cmds_max_used = '', ''tx_dbg_params.tx_cmds_max_used'', []),
     (''tx_cmds_currently_in_use = '', ''tx_dbg_params.tx_cmds_currently_in_use'', []),
     (''tx_done_events_send_to_host = '', ''tx_dbg_params.tx_done_events_send_to_host'', []),
     (''tx_done_success_pkts_to_host = '', ''tx_dbg_params.tx_done_success_pkts_to_host'', []),
     (''tx_done_failure_pkts_to_host = '', ''tx_dbg_params.tx_done_failure_pkts_to_host'', []),
     (''tx_cmds_with_crypto_pkts_rcvd_from_host = '', ''tx_dbg_params.tx_cmds_with_crypto_pkts_rcvd_from_host'', []),
     (''tx_cmds_with_non_cryptot_pkts_rcvd_from_host = '', ''tx_dbg_params.tx_cmds_with_non_crypto_pkts_rcvd_from_host'', []),
     (''tx_cmds_with_broadcast_pkts_rcvd_from_host = '', ''tx_dbg_params.tx_cmds_with_broadcast_pkts_rcvd_from_host'', []),
     (''tx_cmds_with_multicast_pkts_rcvd_from_host = '', ''tx_dbg_params.tx_cmds_with_multicast_pkts_rcvd_from_host'', []),
     (''tx_cmds_with_unicast_pkts_rcvd_from_host = '', ''tx_dbg_params.tx_cmds_with_unicast_pkts_rcvd_from_host'', []),
     (''xmit = '', ''tx_dbg_params.xmit'', []),
     (''send_addba_req = '', ''tx_dbg_params.send_addba_req'', []),
     (''addba_resp = '', ''tx_dbg_params.addba_resp'', []),
     (''softmac_tx = '', ''tx_dbg_params.softmac_tx'', []),
     (''internal_pkts = '', ''tx_dbg_params.internal_pkts'', []),
     (''external_pkts = '', ''tx_dbg_params.external_pkts'', []),
     (''tx_cmds_to_lmac = '', ''tx_dbg_params.tx_cmds_to_lmac'', []),
     (''tx_dones_from_lmac = '', ''tx_dbg_params.tx_dones_from_lmac'', []),
     (''total_cmds_to_lmac = '', ''tx_dbg_params.total_cmds_to_lmac'', []),
     (''tx_packet_data_count = '', ''tx_dbg_params.tx_packet_data_count'', []),
     (''tx_packet_mgmt_count = '', ''tx_dbg_params.tx_packet_mgmt_count'', []),
     (''tx_packet_beacon_count = '', ''tx_dbg_params.tx_packet_beacon_count'', []),
     (''tx_packet_probe_req_count = '', ''tx_dbg_params.tx_packet_probe_req_count'', []),
     (''tx_packet_auth_count = '', ''tx_dbg_params.tx_packet_auth_count'', []),
     (''tx_packet_deauth_count = '', ''tx_dbg_params.tx_packet_deauth_count'', []),
     (''tx_packet_assoc_req_count = '', ''tx_dbg_params.tx_packet_assoc_req_count'', []),
     (''tx_packet_disassoc_count = '', ''tx_dbg_params.tx_packet_disassoc_count'', []),
     (''tx_packet_action_count = '', ''tx_dbg_params.tx_packet_action_count'', []),
     (''tx_packet_other_mgmt_count = '', ''tx_dbg_params.tx_packet_other_mgmt_count'', []),
     (''tx_packet_non_mgmt_data_count = '', ''tx_dbg_params.tx_packet_non_mgmt_data_count'', [])]"

definition umac_rx_rows :: "row list" where
  "umac_rx_rows =
    [(''lmac_events = '', ''rx_dbg_params.lmac_events'', []),
     (''rx_events = '', ''rx_dbg_params.rx_events'', []),
     (''rx_coalised_events = '', ''rx_dbg_params.rx_coalesce_events'', []),
     (''total_rx_pkts_from_lmac = '', ''rx_dbg_params.total_rx_pkts_from_lmac'', []),
     (''max_refill_gap = '', ''rx_dbg_params.max_refill_gap'', []),
     (''current_refill_gap = '', ''rx_dbg_params.current_refill_gap'', []),
     (''out_oforedr_mpdus = '', ''rx_dbg_params.out_of_order_mpdus'', []),
     (''reoredr_free_mpdus = '', ''rx_dbg_params.reorder_free_mpdus'', []),
     (''umac_consumed_pkts = '', ''rx_dbg_params.umac_consumed_pkts'', []),
     (''host_consumed_pkts = '', ''rx_dbg_params.host_consumed_pkts'', []),
     (''rx_mbox_post = '', ''rx_dbg_params.rx_mbox_post'', []),
     (''rx_mbox_receive = '', ''rx_dbg_params.rx_mbox_receive'', []),
     (''reordering_ampdu = '', ''rx_dbg_params.reordering_ampdu'', []),
     (''timer_mbox_post = '', ''rx_dbg_params.timer_mbox_post'', []),
     (''timer_mbox_rcv = '', ''rx_dbg_params.timer_mbox_rcv'', []),
     (''work_mbox_post = '', ''rx_dbg_params.work_mbox_post'', []),
     (''work_mbox_rcv = '', ''rx_dbg_params.work_mbox_rcv'', []),
     (''tasklet_mbox_post = '', ''rx_dbg_params.tasklet_mbox_post'', []),
     (''tasklet_mbox_rcv = '', ''rx_dbg_params.tasklet_mbox_rcv'', []),
     (''userspace_offload_frames = '', ''rx_dbg_params.userspace_offload_frames'', []),
     (''alloc_buf_fail = '', ''rx_dbg_params.alloc_buf_fail'', []),
     (''rx_packet_total_count = '', ''rx_dbg_params.rx_packet_total_count'', []),
     (''rx_packet_data_count = '', ''rx_dbg_params.rx_packet_data_count'', []),
     (''rx_packet_qos_data_count = '', ''rx_dbg_params.rx_packet_qos_data_count'', []),
     (''rx_packet_protected_data_count = '', ''rx_dbg_params.rx_packet_protected_data_count'', []),
     (''rx_packet_mgmt_count = '', ''rx_dbg_params.rx_packet_mgmt_count'', []),
     (''rx_packet_beacon_count = '', ''rx_dbg_params.rx_packet_beacon_count'', []),
     (''rx_packet_probe_resp_count = '', ''rx_dbg_params.rx_packet_probe_resp_count'', []),
     (''rx_packet_auth_count = '', ''rx_dbg_params.rx_packet_auth_count'', []),
     (''rx_packet_deauth_count = '', ''rx_dbg_params.rx_packet_deauth_count'', []),
     (''rx_packet_assoc_resp_count = '', ''rx_dbg_params.rx_packet_assoc_resp_count'', []),
     (''rx_packet_disassoc_count = '', ''rx_dbg_params.rx_packet_disassoc_count'', []),
     (''rx_packet_action_count = '', ''rx_dbg_params.rx_packet_action_count'', []),
     (''rx_packet_probe_req_count = '', ''rx_dbg_params.rx_packet_probe_req_count'', []),
     (''rx_packet_other_mgmt_count = '', ''rx_dbg_params.rx_packet_other_mgmt_count'', []),
     (''max_coalised_pkts = '', ''rx_dbg_params.max_coalesce_pkts'', []),
     (''null_skb_pointer_from_lmac = '', ''rx_dbg_params.null_skb_pointer_from_lmac'', []),
     (''unexpected_mgmt_pk = '', ''rx_dbg_params.unexpected_mgmt_pkt'', [])]"

definition umac_cmd_rows :: "row list" where
  "umac_cmd_rows =
    [(''cmd_init = '', ''cmd_evnt_dbg_params.cmd_init'', []),
     (''event_init_done = '', ''cmd_evnt_dbg_params.event_init_done'', []),
     (''cmd_get_stats = '', ''cmd_evnt_dbg_params.cmd_get_stats'', []),
     (''event_ps_state = '', ''cmd_evnt_dbg_params.event_ps_state'', []),
     (''cmd_trigger_scan = '', ''cmd_evnt_dbg_params.cmd_trigger_scan'', []),
     (''event_scan_done = '', ''cmd_evnt_dbg_params.event_scan_done'', []),
     (''cmd_get_scan = '', ''cmd_evnt_dbg_params.cmd_get_scan'', []),
     (''cmd_auth = '', ''cmd_evnt_dbg_params.cmd_auth'', []),
     (''cmd_assoc = '', ''cmd_evnt_dbg_params.cmd_assoc'', []),
     (''cmd_connect = '', ''cmd_evnt_dbg_params.cmd_connect'', []),
     (''cmd_deauth = '', ''cmd_evnt_dbg_params.cmd_deauth'', []),
     (''cmd_register_frame = '', ''cmd_evnt_dbg_params.cmd_register_frame'', []),
     (''cmd_frame = '', ''cmd_evnt_dbg_params.cmd_frame'', []),
     (''cmd_del_key = '', ''cmd_evnt_dbg_params.cmd_del_key'', []),
     (''cmd_new_key = '', ''cmd_evnt_dbg_params.cmd_new_key'', []),
     (''cmd_set_key = '', ''cmd_evnt_dbg_params.cmd_set_key'', []),
     (''cmd_set_station = '', ''cmd_evnt_dbg_params.cmd_set_station'', []),
     (''cmd_del_station = '', ''cmd_evnt_dbg_params.cmd_del_station'', []),
     (''cmd_new_interface = '', ''cmd_evnt_dbg_params.cmd_new_interface'', []),
     (''cmd_set_interface = '', ''cmd_evnt_dbg_params.cmd_set_interface'', []),
     (''cmd_set_ifflags = '', ''cmd_evnt_dbg_params.cmd_set_ifflags'', []),
     (''cmd_set_ifflags_done = '', ''cmd_evnt_dbg_params.cmd_set_ifflags_done'', []),
     (''cmd_set_bss = '', ''cmd_evnt_dbg_params.cmd_set_bss'', []),
     (''cmd_set_wiphy = '', ''cmd_evnt_dbg_params.cmd_set_wiphy'', []),
     (''cmd_start_ap = '', ''cmd_evnt_dbg_params.cmd_start_ap'', []),
     (''cmd_rf_test = '', ''cmd_evnt_dbg_params.cmd_rf_test'', []),
     (''LMAC_CMD_PS = '', ''cmd_evnt_dbg_params.LMAC_CMD_PS'', []),
     (''CURR_STATE = '', ''cmd_evnt_dbg_params.CURR_STATE'', [])]"

definition umac_if_rows :: "row list" where
  "umac_if_rows =
    [(''tx_unicast_pkt_count = '', ''interface_data_stats.tx_unicast_pkt_count'', []),
     (''tx_multicast_pkt_count = '', ''interface_data_stats.tx_multicast_pkt_count'', []),
     (''tx_broadcast_pkt_count = '', ''interface_data_stats.tx_broadcast_pkt_count'', []),
     (''tx_bytes = '', ''interface_data_stats.tx_bytes'', []),
     (''rx_unicast_pkt_count = '', ''interface_data_stats.rx_unicast_pkt_count'', []),
     (''rx_multicast_pkt_count = '', ''interface_data_stats.rx_multicast_pkt_count'', []),
     (''tx_multicast_pkt_count = '', ''interface_data_stats.tx_multicast_pkt_count'', []),
     (''rx_broadcast_pkt_count = '', ''interface_data_stats.rx_broadcast_pkt_count'', []),
     (''rx_beacon_success_count = '', ''interface_data_stats.rx_beacon_success_count'', []),
     (''rx_beacon_miss_count = '', ''interface_data_stats.rx_beacon_miss_count'', []),
     (''rx_bytes = '', ''interface_data_stats.rx_bytes'', []),
     (''rx_checksum_error_count = '', ''interface_data_stats.rx_checksum_error_count'', []),
     (''replay_attack_drop_cnt = '', ''interface_data_stats.replay_attack_drop_cnt'', [])]"

definition lmac_rows :: "row list" where
  "lmac_rows =
    [(''resetCmdCnt ='', ''reset_cmd_cnt'', []),
     (''resetCompleteEventCnt ='', ''reset_complete_event_cnt'', []),
     (''unableGenEvent ='', ''unable_gen_event'', []),
     (''chProgCmdCnt ='', ''ch_prog_cmd_cnt'', []),
     (''channelProgDone ='', ''channel_prog_done'', []),
     (''txPktCnt ='', ''tx_pkt_cnt'', []),
     (''txPktDoneCnt ='', ''tx_pkt_done_cnt'', []),
     (''scanPktCnt ='', ''scan_pkt_cnt'', []),
     (''internalPktCnt ='', ''internal_pkt_cnt'', []),
     (''internalPktDoneCnt ='', ''internal_pkt_done_cnt'', []),
     (''ackRespCnt ='', ''ack_resp_cnt'', []),
     (''txTimeout ='', ''tx_timeout'', []),
     (''deaggIsr ='', ''deagg_isr'', []),
     (''deaggInptrDescEmpty ='', ''deagg_inptr_desc_empty'', []),
     (''deaggCircularBufferFull ='', ''deagg_circular_buffer_full'', []),
     (''lmacRxisrCnt ='', ''lmac_rxisr_cnt'', []),
     (''rxDecryptcnt ='', ''rx_decryptcnt'', []),
     (''processDecryptFail ='', ''process_decrypt_fail'', []),
     (''prepaRxEventFail ='', ''prepa_rx_event_fail'', []),
     (''rxCorePoolFullCnt ='', ''rx_core_pool_full_cnt'', []),
     (''rxMpduCrcSuccessCnt ='', ''rx_mpdu_crc_success_cnt'', []),
     (''rxMpduCrcFailCnt ='', ''rx_mpdu_crc_fail_cnt'', []),
     (''rxOfdmCrcSuccessCnt ='', ''rx_ofdm_crc_success_cnt'', []),
     (''rxOfdmCrcFailCnt ='', ''rx_ofdm_crc_fail_cnt'', []),
     (''rxDSSSCrcSuccessCnt ='', ''rxDSSSCrcSuccessCnt'', []),
     (''rxDSSSCrcFailCnt ='', ''rxDSSSCrcFailCnt'', []),
     (''rxCryptoStartCnt ='', ''rx_crypto_start_cnt'', []),
     (''rxCryptoDoneCnt ='', ''rx_crypto_done_cnt'', []),
     (''rxEventBufFull ='', ''rx_event_buf_full'', []),
     (''rxExtramBufFull ='', ''rx_extram_buf_full'', []),
     (''scanReq ='', ''scan_req'', []),
     (''scanComplete ='', ''scan_complete'', []),
     (''scanAbortReq ='', ''scan_abort_req'', []),
     (''scanAbortComplete ='', ''scan_abort_complete'', []),
     (''internalBufPoolNull ='', ''internal_buf_pool_null'', [])]"

definition phy_rows :: "row list" where
  "phy_rows =
    [(''rssi_avg = '', ''rssi_avg'', '' dBm''),
     (''ofdm_crc32_pass_cnt='', ''ofdm_crc32_pass_cnt'', []),
     (''ofdm_crc32_fail_cnt='', ''ofdm_crc32_fail_cnt'', []),
     (''dsss_crc32_pass_cnt='', ''dsss_crc32_pass_cnt'', []),
     (''dsss_crc32_fail_cnt='', ''dsss_crc32_fail_cnt'', [])]"

definition twt_rows :: "row list" where
  "twt_rows =
    [(''twt_flow_id = '', ''twt_flow_id'', []), (''neg_type = '', ''neg_type'', []),
     (''setup_cmd = '', ''setup_cmd'', []), (''ap_trigger_frame = '', ''ap_trigger_frame'', []),
     (''is_implicit = '', ''is_implicit'', []), (''setup_cmd  = '', ''setup_cmd'', []),
     (''twt_flow_type = '', ''twt_flow_type'', []),
     (''twt_target_wake_interval_exponent  = '', ''twt_target_wake_interval_exponent'', []),
     (''twt_target_wake_interval_mantissa  = '', ''twt_target_wake_interval_mantissa'', []),
     (''twt_nominal_min_twt_wake_duration  = '', ''nominal_min_twt_wake_duration'', []),
     (''target_wake_time  = '', ''target_wake_time'', [])]"

definition umac_rows :: "row list" where
  "umac_rows = umac_tx_rows @ umac_rx_rows @ umac_cmd_rows @ umac_if_rows"

lemma rows_good:
  "list_all good_row host_rows" "list_all good_row raw_tx_rows" "list_all good_row lmac_rows"
  "list_all good_row phy_rows" "list_all good_row twt_rows"
  by code_simp+

lemma umac_rows_good: "list_all good_row umac_rows"
proof -
  have "list_all good_row umac_tx_rows" "list_all good_row umac_rx_rows" "list_all good_row umac_cmd_rows"
    "list_all good_row umac_if_rows" by code_simp+
  then show ?thesis by (simp add: umac_rows_def)
qed

subsection \<open>The statistics file\<close>

record op_stats =
  st_host :: "string \<Rightarrow> u64"
  st_raw :: "string \<Rightarrow> u64"
  st_umac :: "string \<Rightarrow> u32"
  st_lmac :: "string \<Rightarrow> u32"
  st_phy :: "string \<Rightarrow> u32"

definition val64 :: "(string \<Rightarrow> u64) \<Rightarrow> string \<Rightarrow> int" where
  "val64 st f = uint (st f)"

definition val32 :: "(string \<Rightarrow> u32) \<Rightarrow> string \<Rightarrow> int" where
  "val32 st f = sint (st f)"

definition twt_val :: "twt_params \<Rightarrow> string \<Rightarrow> int" where
  "twt_val p f =
     (if f = ''twt_flow_id'' then uint (twt_flow_id p) else if f = ''neg_type'' then uint (neg_type p)
      else if f = ''setup_cmd'' then sint (setup_cmd p)
      else if f = ''ap_trigger_frame'' then uint (ap_trigger_frame p)
      else if f = ''is_implicit'' then uint (is_implicit p)
      else if f = ''twt_flow_type'' then uint (twt_flow_type p)
      else if f = ''twt_target_wake_interval_exponent'' then uint (twt_target_wake_interval_exponent p)
      else if f = ''twt_target_wake_interval_mantissa'' then uint (twt_target_wake_interval_mantissa p)
      else if f = ''nominal_min_twt_wake_duration'' then uint (nominal_min_twt_wake_duration p)
      else uint (target_wake_time p))"

definition puts :: "string \<Rightarrow> string" where
  "puts str = str @ [NL]"

definition nrf_wifi_wlan_fmac_dbgfs_stats_show_host :: "op_stats \<Rightarrow> string" where
  "nrf_wifi_wlan_fmac_dbgfs_stats_show_host st =
     puts ''************* HOST STATS ***********'' @ show_rows (val64 (st_host st)) host_rows
     @ puts [] @ puts ''************* RAW TX DIAGNOSTICS ***********'' @ show_rows (val64 (st_raw st)) raw_tx_rows"

definition nrf_wifi_wlan_fmac_dbgfs_stats_show_umac :: "op_stats \<Rightarrow> string" where
  "nrf_wifi_wlan_fmac_dbgfs_stats_show_umac st =
     puts ''**************** UMAC STATS ****************'' @ show_rows (val32 (st_umac st)) umac_rows"

definition nrf_wifi_wlan_fmac_dbgfs_stats_show_lmac :: "op_stats \<Rightarrow> string" where
  "nrf_wifi_wlan_fmac_dbgfs_stats_show_lmac st =
     puts ''************* LMAC STATS ***********'' @ show_rows (val32 (st_lmac st)) lmac_rows"

definition nrf_wifi_wlan_fmac_dbgfs_stats_show_phy :: "op_stats \<Rightarrow> string" where
  "nrf_wifi_wlan_fmac_dbgfs_stats_show_phy st =
     puts ''************* PHY STATS ***********'' @ show_rows (val32 (st_phy st)) phy_rows"

definition sta_status_text :: "u32 \<Rightarrow> string" where
  "sta_status_text s =
     (if s = 0 then puts ''sta_status = DISCONNECTED'' else if s = 1 then puts ''sta_status = CONNECTED'' else [])"

definition teardown_text :: "u32 \<Rightarrow> string" where
  "teardown_text r =
     (if r = 0 then puts ''twt_teardown_reason = INVALID_TSF''
      else if r = 1 then puts ''twt_teardown_reason = OUT_OF_SYNC''
      else if r = 2 then puts ''twt_teardown_reason = DELAY_IN_TWT_UMAC_SLEEP_RESPONSE''
      else if r = 3 then puts ''twt_teardown_reason  = INVALID_TWT_WAKE_INTERVAL'' else [])"

definition twt_text :: "rpu_twt \<Rightarrow> string" where
  "twt_text t =
     sta_status_text (twt_status t)
     @ puts ''************* TWT CMD INFO ***********'' @ show_rows (twt_val (twt_cmd t)) twt_rows
     @ puts [] @ puts ''************* TWT RESPONSE EVENT INFO ***********''
     @ (if twt_event_info_avail t then show_rows (twt_val (twt_event t)) twt_rows else [])
     @ puts [] @ puts ''************* TWT TEAR DOWN EVENT INFO ***********''
     @ teardown_text (teardown_reason t)
     @ show_rows (\<lambda>_. sint (teardown_event_cnt t)) [(''teardown_event_cnt = '', ''teardown_event_cnt'', [])]"

text \<open>
  \<open>got\<close> is the answer of the firmware core; \<open>live\<close> counts the statistics structures that are
  allocated. The result is the status, the text and the new count.
\<close>

definition nrf_wifi_wlan_fmac_dbgfs_stats_show ::
  "int \<Rightarrow> bool \<Rightarrow> int \<times> op_stats \<Rightarrow> rpu_twt \<Rightarrow> nat \<Rightarrow> (int \<times> string \<times> nat) outcome" where
  "nrf_wifi_wlan_fmac_dbgfs_stats_show SUCCESS alloc got t live =
     (let live = (if alloc then live + 1 else live); (status, st) = got in
      if status \<noteq> SUCCESS then Ret (status, [], live)
      else if \<not> alloc then UB NullDeref
      else Ret (status,
        nrf_wifi_wlan_fmac_dbgfs_stats_show_host st @ nrf_wifi_wlan_fmac_dbgfs_stats_show_umac st
        @ nrf_wifi_wlan_fmac_dbgfs_stats_show_lmac st @ nrf_wifi_wlan_fmac_dbgfs_stats_show_phy st
        @ twt_text t, live))"

definition table :: "(string \<Rightarrow> int) \<Rightarrow> row list \<Rightarrow> (string \<times> int) list" where
  "table val rows = map (\<lambda>(pre, fld, post). (label_of pre, val fld)) rows"

definition plain_line :: "string \<Rightarrow> bool" where
  "plain_line l \<longleftrightarrow> list_all (\<lambda>c. c \<noteq> NL) l \<and> read_line l = None"

lemma read_plain: "plain_line l \<Longrightarrow> read_text (puts l @ rest) = read_text rest"
  using read_text_line [of l rest] by (auto simp: plain_line_def puts_def list_all_iff)

lemma plain_lines:
  "plain_line ''************* HOST STATS ***********''" "plain_line []"
  "plain_line ''************* RAW TX DIAGNOSTICS ***********''"
  "plain_line ''**************** UMAC STATS ****************''"
  "plain_line ''************* LMAC STATS ***********''"
  "plain_line ''************* PHY STATS ***********''"
  "plain_line ''sta_status = DISCONNECTED''" "plain_line ''sta_status = CONNECTED''"
  "plain_line ''************* TWT CMD INFO ***********''"
  "plain_line ''************* TWT RESPONSE EVENT INFO ***********''"
  "plain_line ''************* TWT TEAR DOWN EVENT INFO ***********''"
  "plain_line ''twt_teardown_reason = INVALID_TSF''" "plain_line ''twt_teardown_reason = OUT_OF_SYNC''"
  "plain_line ''twt_teardown_reason = DELAY_IN_TWT_UMAC_SLEEP_RESPONSE''"
  "plain_line ''twt_teardown_reason  = INVALID_TWT_WAKE_INTERVAL''"
  by code_simp+

lemma good_count_row: "list_all good_row [(''teardown_event_cnt = '', ''teardown_event_cnt'', [])]"
  and count_label: "label_of ''teardown_event_cnt = '' = ''teardown_event_cnt''"
  by code_simp+

lemmas read_parts = read_plain [OF plain_lines(1)] read_plain [OF plain_lines(2)] read_plain [OF plain_lines(3)]
  read_plain [OF plain_lines(4)] read_plain [OF plain_lines(5)] read_plain [OF plain_lines(6)]
  read_plain [OF plain_lines(9)] read_plain [OF plain_lines(10)] read_plain [OF plain_lines(11)]

lemma read_status: "read_text (sta_status_text s @ rest) = read_text rest"
  using read_plain [OF plain_lines(7)] read_plain [OF plain_lines(8)] by (simp add: sta_status_text_def)

lemma read_teardown: "read_text (teardown_text r @ rest) = read_text rest"
  using read_plain [OF plain_lines(12)] read_plain [OF plain_lines(13)] read_plain [OF plain_lines(14)]
    read_plain [OF plain_lines(15)] by (simp add: teardown_text_def)

lemma read_table: "list_all good_row rows \<Longrightarrow> read_text (show_rows val rows @ rest) = table val rows @ read_text rest"
  by (simp add: read_rows table_def)

lemma read_text_Nil [simp]: "read_text [] = []"
  by (simp add: read_text_def List.map_filter_simps)

lemma read_twt_text:
  "read_text (twt_text t) = table (twt_val (twt_cmd t)) twt_rows
     @ (if twt_event_info_avail t then table (twt_val (twt_event t)) twt_rows else [])
     @ [(''teardown_event_cnt'', sint (teardown_event_cnt t))]"
proof -
  have "read_text (show_rows (\<lambda>_. n) [(''teardown_event_cnt = '', ''teardown_event_cnt'', [])]) = [(''teardown_event_cnt'', n)]" for n
    using read_rows [OF good_count_row, of "\<lambda>_. n" "[]"] by (simp add: count_label)
  then show ?thesis
    unfolding twt_text_def by (simp add: read_status read_teardown read_parts read_table [OF rows_good(5)])
qed

text \<open>
  Labels: a label is the name of its field, or the name in camel case; eight labels of the source
  differ from both.
\<close>

definition field_name :: "string \<Rightarrow> string" where
  "field_name f = rev (takeWhile (\<lambda>c. c \<noteq> CHR ''.'') (rev f))"

text \<open>Upper case letters differ from lower case ones in bit 5.\<close>

definition is_upper :: "char \<Rightarrow> bool" where
  "is_upper c = (case c of Char b0 b1 b2 b3 b4 b5 b6 b7 \<Rightarrow> \<not> b7 \<and> b6 \<and> \<not> b5 \<and> c \<noteq> CHR ''_'')"

definition lower_letter :: "char \<Rightarrow> char" where
  "lower_letter c = (case c of Char b0 b1 b2 b3 b4 b5 b6 b7 \<Rightarrow> Char b0 b1 b2 b3 b4 True b6 b7)"

fun snake :: "string \<Rightarrow> string" where
  "snake [] = []"
| "snake (c # cs) = (if is_upper c then CHR ''_'' # lower_letter c # snake cs else c # snake cs)"

definition odd_labels :: "(string \<times> string) list" where
  "odd_labels =
    [(''tx_coalesce_pkts_rcvd_from_host'', ''tx_max_coalesce_pkts_rcvd_from_host''),
     (''tx_cmds_with_non_cryptot_pkts_rcvd_from_host'', ''tx_cmds_with_non_crypto_pkts_rcvd_from_host''),
     (''rx_coalised_events'', ''rx_coalesce_events''), (''out_oforedr_mpdus'', ''out_of_order_mpdus''),
     (''reoredr_free_mpdus'', ''reorder_free_mpdus''), (''max_coalised_pkts'', ''max_coalesce_pkts''),
     (''unexpected_mgmt_pk'', ''unexpected_mgmt_pkt''),
     (''twt_nominal_min_twt_wake_duration'', ''nominal_min_twt_wake_duration'')]"

definition faithful_row :: "row \<Rightarrow> bool" where
  "faithful_row r = (case r of (pre, fld, _) \<Rightarrow>
     let l = label_of pre; f = field_name fld in
     if l = f then True else if snake l = f then True else List.member odd_labels (l, f))"

lemma faithful_rows:
  "list_all faithful_row host_rows" "list_all faithful_row raw_tx_rows" "list_all faithful_row umac_tx_rows"
  "list_all faithful_row umac_rx_rows" "list_all faithful_row umac_cmd_rows" "list_all faithful_row umac_if_rows"
  "list_all faithful_row lmac_rows" "list_all faithful_row phy_rows" "list_all faithful_row twt_rows"
  by code_simp+

lemma faithful_umac_rows: "list_all faithful_row umac_rows"
  by (simp add: umac_rows_def faithful_rows)


definition demo_stats :: op_stats where
  "demo_stats = \<lparr>st_host = (\<lambda>_. 7), st_raw = (\<lambda>_. 1), st_umac = (\<lambda>_. 0xFFFFFFFF), st_lmac = (\<lambda>_. 3), st_phy = (\<lambda>_. 4)\<rparr>"


text \<open>
  Two counters cannot be told apart in the file: the maximum of the coalesced packets is printed
  under the label of their number.
\<close>

lemma coalesce_label_twice:
  "(''tx_coalesce_pkts_rcvd_from_host = '', ''tx_dbg_params.tx_coalesce_pkts_rcvd_from_host'', []) \<in> set umac_rows
   \<and> (''tx_coalesce_pkts_rcvd_from_host = '', ''tx_dbg_params.tx_max_coalesce_pkts_rcvd_from_host'', []) \<in> set umac_rows"
  by (simp add: umac_rows_def umac_tx_rows_def)

text \<open>
  Reading the statistics: a failure of the firmware is reported and nothing is printed. Every
  read, successful or not, leaves one statistics structure allocated, so that \<open>n\<close> reads leak \<open>n\<close>
  of them; without memory a successful answer is read through a NULL pointer.
\<close>

theorem stats_read_leaks:
  "(fst got \<noteq> SUCCESS \<longrightarrow>
      nrf_wifi_wlan_fmac_dbgfs_stats_show SUCCESS alloc got t live
        = Ret (fst got, [], live + (if alloc then 1 else 0)))
   \<and> (fst got = SUCCESS \<longrightarrow> nrf_wifi_wlan_fmac_dbgfs_stats_show SUCCESS False got t live = UB NullDeref)
   \<and> (\<exists>r out. nrf_wifi_wlan_fmac_dbgfs_stats_show SUCCESS True got t live = Ret (r, out, live + 1))
   \<and> ((\<lambda>l. case nrf_wifi_wlan_fmac_dbgfs_stats_show SUCCESS True got t l of Ret (_, _, l') \<Rightarrow> l' | UB _ \<Rightarrow> l) ^^ n) live
       = live + n"
proof -
  have one: "\<exists>r out. nrf_wifi_wlan_fmac_dbgfs_stats_show SUCCESS True got t l = Ret (r, out, l + 1)" for l
    by (cases got) (simp add: nrf_wifi_wlan_fmac_dbgfs_stats_show_def Let_def)
  have "((\<lambda>l. case nrf_wifi_wlan_fmac_dbgfs_stats_show SUCCESS True got t l of Ret (_, _, l') \<Rightarrow> l' | UB _ \<Rightarrow> l) ^^ n) live
      = live + n"
  proof (induction n)
    case (Suc n)
    obtain r out where "nrf_wifi_wlan_fmac_dbgfs_stats_show SUCCESS True got t (live + n) = Ret (r, out, live + n + 1)"
      using one by blast
    with Suc show ?case by simp
  qed simp
  with one show ?thesis
    by (cases got) (auto simp: nrf_wifi_wlan_fmac_dbgfs_stats_show_def Let_def)
qed

theorem stats_read_leaks_witness:
  "nrf_wifi_wlan_fmac_dbgfs_stats_show 0 True (-1, demo_stats) sample_twt 4 = Ret (-1, [], 5)
   \<and> nrf_wifi_wlan_fmac_dbgfs_stats_show 0 False (0, demo_stats) sample_twt 4 = UB NullDeref"
  using stats_read_leaks [of "(-1, demo_stats)" 0 True sample_twt 4 0]
    stats_read_leaks [of "(0, demo_stats)" 0 True sample_twt 4 0]
  by simp

text \<open>
  The connection status and the number of tear-downs in the file are only ever written by the
  initialisation: after it, whatever is written to the TWT file and whatever events arrive, the file
  says that the station is disconnected and counts no tear-down.
\<close>

inductive twt_op :: "rpu_twt \<Rightarrow> rpu_twt \<Rightarrow> bool" where
  "nrf_wifi_wlan_twt_write kstrtoul sscanf ok event elapsed alloc copy_ok alloc_cmd input s = Some (Ret (r, t)) \<Longrightarrow>
     twt_op s t"
| "twt_op s (nrf_wifi_twt_config_callbk_fn info s)"
| "twt_op s (nrf_wifi_twt_teardown_callbk_fn flow_id reason s)"

definition stale_status :: "rpu_twt \<Rightarrow> bool" where
  "stale_status t \<longleftrightarrow> twt_status t = 0 \<and> teardown_event_cnt t = 0"

lemma twt_setup_stale: "twt_setup ok event elapsed alloc s = Some t \<Longrightarrow> stale_status t = stale_status s"
  by (auto simp: twt_setup_def twt_attempt_def send_twt_def stale_status_def Let_def
      split: if_splits option.splits bool.splits prod.splits)

lemma twt_op_stale: "twt_op s t \<Longrightarrow> stale_status s \<Longrightarrow> stale_status t"
proof (induction rule: twt_op.induct)
  case (1 kstrtoul sscanf ok event elapsed alloc copy_ok alloc_cmd input s r t)
  then show ?case
    by (auto simp: nrf_wifi_wlan_twt_write_def twt_teardown_def stale_status_def Let_def send_twt_def and_then_eq_Ret
        split: outcome.splits sum.splits if_splits option.splits dest!: twt_setup_stale [unfolded stale_status_def])
qed (simp_all add: stale_status_def nrf_wifi_twt_config_callbk_fn_def nrf_wifi_twt_teardown_callbk_fn_def)

lemma init_stale: "stale_status (nrf_wifi_wlan_fmac_twt_init s)"
  by (simp add: stale_status_def nrf_wifi_wlan_fmac_twt_init_def)

interpretation twt_file: invariant_system "\<lambda>s. \<exists>s0. s = nrf_wifi_wlan_fmac_twt_init s0" twt_op stale_status
  by unfold_locales (auto intro: init_stale twt_op_stale)

lemma stats_always_disconnected:
  assumes "reach (\<lambda>s. \<exists>s0. s = nrf_wifi_wlan_fmac_twt_init s0) twt_op t"
  shows "sta_status_text (twt_status t) = puts ''sta_status = DISCONNECTED''"
    and "last (read_text (twt_text t)) = (''teardown_event_cnt'', 0)"
  using twt_file.reach_invar [OF assms] by (simp_all add: stale_status_def sta_status_text_def read_twt_text)

end
