(* ===== verification/Debugfs_Files.thy ===== *)
theory Debugfs_Files
  imports Debugfs_Stats
begin

text \<open>
  The files themselves: what the parameter file (\<open>debugfs/main.c\<close>) and the version file
  (\<open>wlan_fmac_ver.c\<close>) show, and how the directory \<open>wifi\<close> with its four files is created and removed.
  The directory tree is the list of its live entries, the newest first; an entry has a
  number, the number of its parent and a name.
\<close>

subsection \<open>The parameter file\<close>

text \<open>
  The structure of the parameters is not part of this repository; the conversion \<open>%d\<close> shows the
  low 32 bits of a field as a signed number.
\<close>

definition show_d :: "ulong \<Rightarrow> int" where
  "show_d v = sint (ucast v :: u32)"

definition conf_head_rows :: "row list" where
  "conf_head_rows = [(''uapsd_queue = '', ''uapsd_queue'', [])]"

definition conf_tail_rows :: "row list" where
  "conf_tail_rows = [(''he_gi = '', ''he_gi'', []), (''rts_threshold = '', ''rts_threshold'', [])]"

definition conf_val :: "conf_params \<Rightarrow> string \<Rightarrow> int" where
  "conf_val p f =
     (if f = ''uapsd_queue'' then show_d (uapsd_queue p)
      else if f = ''he_gi'' then show_d (he_gi p) else show_d (rts_threshold p))"

definition nrf_wifi_wlan_fmac_conf_disp :: "conf_params \<Rightarrow> int \<times> string" where
  "nrf_wifi_wlan_fmac_conf_disp p =
     (0, puts ''************* Configured Parameters ***********'' @ show_rows (conf_val p) conf_head_rows
       @ puts (if power_save p \<noteq> 0 then ''power_save = ON'' else ''power_save = OFF'')
       @ show_rows (conf_val p) conf_tail_rows)"

text \<open>
  Opening the file stores the device of its inode in a variable of the whole driver, and the
  reader shows whichever device was opened last.
\<close>

definition nrf_wifi_wlan_fmac_conf_open :: "'dev \<Rightarrow> 'dev option \<Rightarrow> 'dev option" where
  "nrf_wifi_wlan_fmac_conf_open i_private ctx = Some i_private"

definition conf_read :: "('dev \<Rightarrow> conf_params) \<Rightarrow> 'dev option \<Rightarrow> (int \<times> string) outcome" where
  "conf_read params_of ctx =
     (case ctx of None \<Rightarrow> UB NullDeref | Some dev \<Rightarrow> Ret (nrf_wifi_wlan_fmac_conf_disp (params_of dev)))"

subsection \<open>The version file\<close>

definition NRF_WIFI_FMAC_DRV_VER :: string where
  "NRF_WIFI_FMAC_DRV_VER = ''1.0.0.0''"

record umac_ver =
  UMAC_VER :: "u32 \<Rightarrow> u32"
  UMAC_VER_MAJ :: "u32 \<Rightarrow> u32"
  UMAC_VER_MIN :: "u32 \<Rightarrow> u32"
  UMAC_VER_EXTRA :: "u32 \<Rightarrow> u32"

text \<open>
  The answer of the firmware core is a status and the version when it was written. The status
  is not looked at, and the file reports success in any case.
\<close>

definition nrf_wifi_wlan_fmac_dbgfs_ver_show ::
  "int \<Rightarrow> umac_ver \<Rightarrow> int \<times> u32 option \<Rightarrow> (int \<times> string) outcome" where
  "nrf_wifi_wlan_fmac_dbgfs_ver_show SUCCESS v got =
     (case snd got of
        None \<Rightarrow> UB Uninitialised
      | Some fw_ver \<Rightarrow> Ret (SUCCESS,
          puts (''Driver : '' @ NRF_WIFI_FMAC_DRV_VER)
          @ puts (''UMAC : '' @ show_int (sint (UMAC_VER v fw_ver)) @ ''.'' @ show_int (sint (UMAC_VER_MAJ v fw_ver))
              @ ''.'' @ show_int (sint (UMAC_VER_MIN v fw_ver)) @ ''.'' @ show_int (sint (UMAC_VER_EXTRA v fw_ver)))))"

subsection \<open>The directory tree\<close>

datatype dptr = NoDentry | ErrPtr | Dentry nat

type_synonym fs_entry = "nat \<times> nat option \<times> string"

record dbgfs =
  entries :: "fs_entry list"
  next_entry :: nat
  dbgfs_wlan_root :: dptr
  dbgfs_wlan_conf_root :: dptr
  dbgfs_nrf_wifi_twt_root :: dptr
  dbgfs_wlan_stats_root :: dptr
  dbgfs_ver_root :: dptr
  dbgfs_twt :: rpu_twt

text \<open>
  The kernel creates the entry, returns an error pointer or, in older versions, NULL. A parent that is
  an error pointer is returned as it is; no parent stands for the root of the file system.
\<close>

datatype made = Fresh | Errs | Nulls

definition debugfs_create :: "made \<Rightarrow> string \<Rightarrow> dptr \<Rightarrow> dbgfs \<Rightarrow> dptr \<times> dbgfs" where
  "debugfs_create answer name parent s =
     (if parent = ErrPtr then (ErrPtr, s) else
      case answer of
        Errs \<Rightarrow> (ErrPtr, s)
      | Nulls \<Rightarrow> (NoDentry, s)
      | Fresh \<Rightarrow> (Dentry (next_entry s),
          s\<lparr>entries := (next_entry s, (case parent of Dentry k \<Rightarrow> Some k | _ \<Rightarrow> None), name) # entries s,
            next_entry := Suc (next_entry s)\<rparr>))"

text \<open>An entry is removed with everything below it; the second result lists the numbers that are gone.\<close>

fun prune :: "nat \<Rightarrow> fs_entry list \<Rightarrow> fs_entry list \<times> nat list" where
  "prune i [] = ([], [i])"
| "prune i ((j, parent, name) # es) =
     (let (kept, dead) = prune i es in
      if j \<in> set dead \<or> (case parent of Some k \<Rightarrow> k \<in> set dead | None \<Rightarrow> False)
      then (kept, j # dead) else ((j, parent, name) # kept, dead))"

definition debugfs_remove :: "dptr \<Rightarrow> dbgfs \<Rightarrow> dbgfs outcome" where
  "debugfs_remove p s =
     (case p of
        Dentry i \<Rightarrow>
          if i \<in> fst ` set (entries s) then Ret (s\<lparr>entries := fst (prune i (entries s))\<rparr>) else UB UseAfterFree
      | _ \<Rightarrow> Ret s)"

definition nrf_wifi_wlan_fmac_dbgfs_conf_deinit :: "dbgfs \<Rightarrow> dbgfs outcome" where
  "nrf_wifi_wlan_fmac_dbgfs_conf_deinit s =
     and_then (debugfs_remove (dbgfs_wlan_conf_root s) s) (\<lambda>s. Ret (s\<lparr>dbgfs_wlan_conf_root := NoDentry\<rparr>))"

definition nrf_wifi_wlan_fmac_dbgfs_twt_deinit :: "dbgfs \<Rightarrow> dbgfs outcome" where
  "nrf_wifi_wlan_fmac_dbgfs_twt_deinit s =
     and_then (debugfs_remove (dbgfs_nrf_wifi_twt_root s) s) (\<lambda>s. Ret (s\<lparr>dbgfs_nrf_wifi_twt_root := NoDentry\<rparr>))"

definition nrf_wifi_wlan_fmac_dbgfs_stats_deinit :: "dbgfs \<Rightarrow> dbgfs outcome" where
  "nrf_wifi_wlan_fmac_dbgfs_stats_deinit s =
     and_then (debugfs_remove (dbgfs_wlan_stats_root s) s) (\<lambda>s. Ret (s\<lparr>dbgfs_wlan_stats_root := NoDentry\<rparr>))"

definition nrf_wifi_wlan_fmac_dbgfs_ver_deinit :: "dbgfs \<Rightarrow> dbgfs outcome" where
  "nrf_wifi_wlan_fmac_dbgfs_ver_deinit s =
     and_then (debugfs_remove (dbgfs_ver_root s) s) (\<lambda>s. Ret (s\<lparr>dbgfs_ver_root := NoDentry\<rparr>))"

text \<open>The state is that of a device that exists, so the check of its pointer never fails.\<close>

definition nrf_wifi_wlan_fmac_dbgfs_conf_init :: "made \<Rightarrow> dptr \<Rightarrow> dbgfs \<Rightarrow> (int \<times> dbgfs) outcome" where
  "nrf_wifi_wlan_fmac_dbgfs_conf_init answer root s =
     (if root = NoDentry then and_then (nrf_wifi_wlan_fmac_dbgfs_conf_deinit s) (\<lambda>s. Ret (-EINVAL, s)) else
      let (p, s) = debugfs_create answer ''conf'' root s; s = s\<lparr>dbgfs_wlan_conf_root := p\<rparr> in
      if p = NoDentry then and_then (nrf_wifi_wlan_fmac_dbgfs_conf_deinit s) (\<lambda>s. Ret (-ENOMEM, s))
      else Ret (0, s))"

definition nrf_wifi_wlan_fmac_dbgfs_twt_init :: "made \<Rightarrow> dptr \<Rightarrow> dbgfs \<Rightarrow> (int \<times> dbgfs) outcome" where
  "nrf_wifi_wlan_fmac_dbgfs_twt_init answer root s =
     (let s = s\<lparr>dbgfs_twt := nrf_wifi_wlan_fmac_twt_init (dbgfs_twt s)\<rparr> in
      if root = NoDentry then and_then (nrf_wifi_wlan_fmac_dbgfs_twt_deinit s) (\<lambda>s. Ret (-EINVAL, s)) else
      let (p, s) = debugfs_create answer ''twt'' root s; s = s\<lparr>dbgfs_nrf_wifi_twt_root := p\<rparr> in
      if p = NoDentry then and_then (nrf_wifi_wlan_fmac_dbgfs_twt_deinit s) (\<lambda>s. Ret (-ENOMEM, s))
      else Ret (0, s))"

definition nrf_wifi_wlan_fmac_dbgfs_stats_init :: "made \<Rightarrow> dptr \<Rightarrow> dbgfs \<Rightarrow> (int \<times> dbgfs) outcome" where
  "nrf_wifi_wlan_fmac_dbgfs_stats_init answer root s =
     (if root = NoDentry then and_then (nrf_wifi_wlan_fmac_dbgfs_stats_deinit s) (\<lambda>s. Ret (-EINVAL, s)) else
      let (p, s) = debugfs_create answer ''stats'' root s; s = s\<lparr>dbgfs_wlan_stats_root := p\<rparr> in
      if p = NoDentry then and_then (nrf_wifi_wlan_fmac_dbgfs_stats_deinit s) (\<lambda>s. Ret (-ENOMEM, s))
      else Ret (0, s))"

definition nrf_wifi_wlan_fmac_dbgfs_ver_init :: "made \<Rightarrow> dptr \<Rightarrow> dbgfs \<Rightarrow> (int \<times> dbgfs) outcome" where
  "nrf_wifi_wlan_fmac_dbgfs_ver_init answer root s =
     (if root = NoDentry then and_then (nrf_wifi_wlan_fmac_dbgfs_ver_deinit s) (\<lambda>s. Ret (-EINVAL, s)) else
      let (p, s) = debugfs_create answer ''version'' root s; s = s\<lparr>dbgfs_ver_root := p\<rparr> in
      if p = NoDentry then and_then (nrf_wifi_wlan_fmac_dbgfs_ver_deinit s) (\<lambda>s. Ret (-ENOMEM, s))
      else Ret (0, s))"

definition nrf_wifi_wlan_fmac_dbgfs_deinit :: "dbgfs \<Rightarrow> dbgfs outcome" where
  "nrf_wifi_wlan_fmac_dbgfs_deinit s =
     and_then (debugfs_remove (dbgfs_wlan_root s) s) (\<lambda>s. Ret (s\<lparr>dbgfs_wlan_root := NoDentry\<rparr>))"

text \<open>One of the four steps: the next one runs when this one succeeded, otherwise the directory is removed.\<close>

definition init_step ::
  "int \<Rightarrow> (int \<times> dbgfs) outcome \<Rightarrow> (dbgfs \<Rightarrow> (int \<times> dbgfs) outcome) \<Rightarrow> (int \<times> dbgfs) outcome" where
  "init_step SUCCESS r rest =
     and_then r (\<lambda>(status, s).
       if status = SUCCESS then rest s
       else and_then (nrf_wifi_wlan_fmac_dbgfs_deinit s) (\<lambda>s. Ret (status, s)))"

definition nrf_wifi_wlan_fmac_dbgfs_init ::
  "int \<Rightarrow> int \<Rightarrow> (string \<Rightarrow> made) \<Rightarrow> dptr \<Rightarrow> dbgfs \<Rightarrow> (int \<times> dbgfs) outcome" where
  "nrf_wifi_wlan_fmac_dbgfs_init SUCCESS FAIL answer dbgfs_root s =
     (let (root, s) = debugfs_create (answer ''wifi'') ''wifi'' dbgfs_root s; s = s\<lparr>dbgfs_wlan_root := root\<rparr> in
      if root = NoDentry then and_then (nrf_wifi_wlan_fmac_dbgfs_deinit s) (\<lambda>s. Ret (FAIL, s))
      else
        init_step SUCCESS (nrf_wifi_wlan_fmac_dbgfs_conf_init (answer ''conf'') root s) (\<lambda>s.
        init_step SUCCESS (nrf_wifi_wlan_fmac_dbgfs_twt_init (answer ''twt'') root s) (\<lambda>s.
        init_step SUCCESS (nrf_wifi_wlan_fmac_dbgfs_stats_init (answer ''stats'') root s) (\<lambda>s.
        init_step SUCCESS (nrf_wifi_wlan_fmac_dbgfs_ver_init (answer ''version'') root s) (\<lambda>s.
        Ret (SUCCESS, s))))))"

subsection \<open>The four files of a directory\<close>

text \<open>\<open>children k n names\<close> are files of directory \<open>k\<close>, created in order with the numbers from \<open>n\<close> on.\<close>

fun children :: "nat \<Rightarrow> nat \<Rightarrow> string list \<Rightarrow> fs_entry list" where
  "children k n [] = []"
| "children k n (name # names) = children k (Suc n) names @ [(n, Some k, name)]"

lemma children_append: "children k n (xs @ [x]) = (n + length xs, Some k, x) # children k n xs"
  by (induction xs arbitrary: n) auto

definition fs_wf :: "dbgfs \<Rightarrow> bool" where
  "fs_wf s \<longleftrightarrow> list_all (\<lambda>(j, parent, _). j < next_entry s \<and> (case parent of Some k \<Rightarrow> k < next_entry s | None \<Rightarrow> True)) (entries s)"

text \<open>\<open>inside up names s t\<close>: \<open>t\<close> is \<open>s\<close> with a new directory below \<open>up\<close> that holds the files \<open>names\<close>.\<close>

definition inside :: "nat option \<Rightarrow> string list \<Rightarrow> dbgfs \<Rightarrow> dbgfs \<Rightarrow> bool" where
  "inside up names s t \<longleftrightarrow>
     entries t = children (next_entry s) (Suc (next_entry s)) names @ (next_entry s, up, ''wifi'') # entries s \<and>
     next_entry t = Suc (next_entry s) + length names \<and> dbgfs_wlan_root t = Dentry (next_entry s)"

lemma prune_older:
  assumes "list_all (\<lambda>(j, parent, _). j < i \<and> (case parent of Some k \<Rightarrow> k < i | None \<Rightarrow> True)) es"
  shows "prune i es = (es, [i])"
  using assms by (induction es) (auto split: option.splits)

lemma prune_children:
  "prune i es = (kept, dead) \<Longrightarrow> i \<in> set dead \<Longrightarrow> \<exists>dead'. prune i (children i n names @ es) = (kept, dead') \<and> set dead \<subseteq> set dead'"
proof (induction names arbitrary: n es dead)
  case (Cons name names)
  from Cons.prems have "prune i ((n, Some i, name) # es) = (kept, n # dead)" by simp
  from Cons.IH [OF this] Cons.prems(2) show ?case by fastforce
qed auto

lemma deinit_inside:
  assumes "fs_wf s" and "inside up names s t"
  shows "\<exists>u. nrf_wifi_wlan_fmac_dbgfs_deinit t = Ret u \<and> entries u = entries s \<and> dbgfs_wlan_root u = NoDentry"
proof -
  let ?k = "next_entry s"
  have "prune ?k (entries s) = (entries s, [?k])"
    using assms(1) by (intro prune_older) (simp add: fs_wf_def)
  then have "prune ?k ((?k, up, ''wifi'') # entries s) = (entries s, [?k, ?k])" by simp
  from prune_children [OF this, of "Suc ?k" names]
  have "fst (prune ?k (entries t)) = entries s" using assms(2) by (auto simp: inside_def)
  then show ?thesis using assms(2)
    by (simp add: nrf_wifi_wlan_fmac_dbgfs_deinit_def debugfs_remove_def inside_def)
qed

definition wifi_files :: "string list" where
  "wifi_files = [''conf'', ''twt'', ''stats'', ''version'']"

text \<open>The result of the steps: all the files, exactly when \<open>ok\<close>, or the tree of the start and an error.\<close>

definition init_result :: "string list \<Rightarrow> nat option \<Rightarrow> dbgfs \<Rightarrow> bool \<Rightarrow> (int \<times> dbgfs) outcome \<Rightarrow> bool" where
  "init_result files up s ok r \<longleftrightarrow> (\<exists>status t. r = Ret (status, t) \<and> (status = 0 \<longleftrightarrow> ok) \<and>
     (if ok then inside up files s t else entries t = entries s \<and> dbgfs_wlan_root t = NoDentry))"

lemma init_result_removed:
  assumes "fs_wf s" and "init_result files up s ok r"
  shows "\<exists>status t u. r = Ret (status, t) \<and> (status = 0 \<longleftrightarrow> ok)
    \<and> (if status = 0 then inside up files s t else entries t = entries s)
    \<and> nrf_wifi_wlan_fmac_dbgfs_deinit t = Ret u \<and> entries u = entries s"
proof -
  from assms(2) obtain status t where t: "r = Ret (status, t)" "status = 0 \<longleftrightarrow> ok"
    and tree: "if ok then inside up files s t else entries t = entries s \<and> dbgfs_wlan_root t = NoDentry"
    by (auto simp: init_result_def)
  have "\<exists>u. nrf_wifi_wlan_fmac_dbgfs_deinit t = Ret u \<and> entries u = entries s"
  proof (cases ok)
    case True
    with tree deinit_inside [OF assms(1), of up files t] show ?thesis by auto
  next
    case False
    with tree show ?thesis by (simp add: nrf_wifi_wlan_fmac_dbgfs_deinit_def debugfs_remove_def)
  qed
  with t tree show ?thesis by auto
qed

text \<open>What the directory relies on: a file is added to it, or it stays as it was and an error is returned.\<close>

locale dbgfs_file =
  fixes name :: string and init :: "made \<Rightarrow> dptr \<Rightarrow> dbgfs \<Rightarrow> (int \<times> dbgfs) outcome"
  assumes created: "inside up names s t \<Longrightarrow>
      \<exists>u. init Fresh (Dentry (next_entry s)) t = Ret (0, u) \<and> inside up (names @ [name]) s u"
    and refused: "inside up names s t \<Longrightarrow>
      \<exists>u e. init Nulls (Dentry (next_entry s)) t = Ret (e, u) \<and> e \<noteq> 0 \<and> inside up names s u"
begin

lemma step:
  assumes "fs_wf s" and "inside up names s t" and "answer \<noteq> Errs"
    and rest: "\<And>u. inside up (names @ [name]) s u \<Longrightarrow> init_result files up s ok (rest u)"
  shows "init_result files up s (answer = Fresh \<and> ok) (init_step 0 (init answer (Dentry (next_entry s)) t) rest)"
proof (cases answer)
  case Fresh
  with created [OF assms(2)] rest show ?thesis by (auto simp: init_step_def)
next
  case Nulls
  from refused [OF assms(2)] obtain v e
    where "init Nulls (Dentry (next_entry s)) t = Ret (e, v)" "e \<noteq> 0" "inside up names s v" by blast
  with deinit_inside [OF assms(1) this(3)] Nulls show ?thesis by (auto simp: init_step_def init_result_def)
qed (use assms(3) in simp)

end

lemmas file_defs = debugfs_create_def debugfs_remove_def inside_def children_append

interpretation conf_file: dbgfs_file "''conf''" nrf_wifi_wlan_fmac_dbgfs_conf_init
  by unfold_locales
    (auto simp: nrf_wifi_wlan_fmac_dbgfs_conf_init_def nrf_wifi_wlan_fmac_dbgfs_conf_deinit_def file_defs)

interpretation twt_entry: dbgfs_file "''twt''" nrf_wifi_wlan_fmac_dbgfs_twt_init
  by unfold_locales
    (auto simp: nrf_wifi_wlan_fmac_dbgfs_twt_init_def nrf_wifi_wlan_fmac_dbgfs_twt_deinit_def file_defs)

interpretation stats_file: dbgfs_file "''stats''" nrf_wifi_wlan_fmac_dbgfs_stats_init
  by unfold_locales
    (auto simp: nrf_wifi_wlan_fmac_dbgfs_stats_init_def nrf_wifi_wlan_fmac_dbgfs_stats_deinit_def file_defs)

interpretation ver_file: dbgfs_file "''version''" nrf_wifi_wlan_fmac_dbgfs_ver_init
  by unfold_locales
    (auto simp: nrf_wifi_wlan_fmac_dbgfs_ver_init_def nrf_wifi_wlan_fmac_dbgfs_ver_deinit_def file_defs)


definition sample_fs :: dbgfs where
  "sample_fs = \<lparr>entries = [(0, None, ''nrf'')], next_entry = 1, dbgfs_wlan_root = NoDentry,
     dbgfs_wlan_conf_root = NoDentry, dbgfs_nrf_wifi_twt_root = NoDentry, dbgfs_wlan_stats_root = NoDentry,
     dbgfs_ver_root = NoDentry, dbgfs_twt = sample_twt\<rparr>"


text \<open>
  The checks look for NULL only. A kernel that reports the failure as an error pointer makes the
  creation succeed with an empty directory tree.
\<close>

lemma dbgfs_error_pointer_accepted:
  assumes "answer ''wifi'' = Errs"
  shows "\<exists>t. nrf_wifi_wlan_fmac_dbgfs_init 0 FAIL answer dbgfs_root s = Ret (0, t) \<and> entries t = entries s"
  using assms
  by (simp add: nrf_wifi_wlan_fmac_dbgfs_init_def debugfs_create_def init_step_def
      nrf_wifi_wlan_fmac_dbgfs_conf_init_def nrf_wifi_wlan_fmac_dbgfs_twt_init_def
      nrf_wifi_wlan_fmac_dbgfs_stats_init_def nrf_wifi_wlan_fmac_dbgfs_ver_init_def)

text \<open>
  Only the pointer to the directory is cleared. After the removal the pointers to the files still
  name entries that are gone: removing one of them once more would be a use after free.
\<close>

lemma file_pointers_stale:
  "\<exists>t u. nrf_wifi_wlan_fmac_dbgfs_init 0 (-1) (\<lambda>_. Fresh) (Dentry 0) sample_fs = Ret (0, t) \<and>
    nrf_wifi_wlan_fmac_dbgfs_deinit t = Ret u \<and>
    nrf_wifi_wlan_fmac_dbgfs_conf_deinit u = UB UseAfterFree \<and> nrf_wifi_wlan_fmac_dbgfs_twt_deinit u = UB UseAfterFree \<and>
    nrf_wifi_wlan_fmac_dbgfs_stats_deinit u = UB UseAfterFree \<and> nrf_wifi_wlan_fmac_dbgfs_ver_deinit u = UB UseAfterFree"
  by (simp add: sample_fs_def nrf_wifi_wlan_fmac_dbgfs_init_def debugfs_create_def init_step_def
      nrf_wifi_wlan_fmac_dbgfs_conf_init_def nrf_wifi_wlan_fmac_dbgfs_twt_init_def
      nrf_wifi_wlan_fmac_dbgfs_stats_init_def nrf_wifi_wlan_fmac_dbgfs_ver_init_def
      nrf_wifi_wlan_fmac_dbgfs_deinit_def nrf_wifi_wlan_fmac_dbgfs_conf_deinit_def
      nrf_wifi_wlan_fmac_dbgfs_twt_deinit_def nrf_wifi_wlan_fmac_dbgfs_stats_deinit_def
      nrf_wifi_wlan_fmac_dbgfs_ver_deinit_def debugfs_remove_def)

subsection \<open>Writing a parameter and reading it back\<close>

lemma conf_rows_good: "list_all good_row conf_head_rows" "list_all good_row conf_tail_rows"
  by code_simp+

lemma conf_plain_lines:
  "plain_line ''************* Configured Parameters ***********''" "plain_line ''power_save = ON''"
  "plain_line ''power_save = OFF''"
  by code_simp+

lemma conf_disp_read:
  "read_text (snd (nrf_wifi_wlan_fmac_conf_disp p)) =
     [(''uapsd_queue'', show_d (uapsd_queue p)), (''he_gi'', show_d (he_gi p)), (''rts_threshold'', show_d (rts_threshold p))]"
proof -
  have labels: "label_of ''uapsd_queue = '' = ''uapsd_queue''" "label_of ''he_gi = '' = ''he_gi''"
    "label_of ''rts_threshold = '' = ''rts_threshold''" by code_simp+
  have "read_text (puts (if b then ''power_save = ON'' else ''power_save = OFF'') @ r) = read_text r" for b r
    using read_plain [OF conf_plain_lines(2)] read_plain [OF conf_plain_lines(3)] by simp
  then show ?thesis
    using read_table [OF conf_rows_good(2), of "conf_val p" "[]"]
    by (simp add: nrf_wifi_wlan_fmac_conf_disp_def read_plain [OF conf_plain_lines(1)]
        read_table [OF conf_rows_good(1)] del: if_split)
      (simp add: table_def conf_head_rows_def conf_tail_rows_def conf_val_def labels)
qed

lemma show_d_small:
  assumes "val < 2 ^ 31"
  shows "show_d val = uint val"
proof -
  have v: "uint val < 2 ^ 31" using assms by (simp add: word_less_def)
  then have "uint (ucast val :: u32) = uint val" by (simp add: unsigned_ucast_eq take_bit_int_eq_self)
  moreover have "signed_take_bit 31 (uint val) = uint val"
    using v by (intro signed_take_bit_int_eq_self) (auto intro: order_trans [of _ 0])
  ultimately show ?thesis by (simp add: show_d_def sint_uint)
qed

definition in_range :: "string \<Rightarrow> ulong \<Rightarrow> bool" where
  "in_range name val \<longleftrightarrow>
     name = ''uapsd_queue'' \<and> val \<le> 15 \<or> name = ''he_gi'' \<and> val \<le> 2 \<or> name = ''rts_threshold'' \<and> 0 < val \<and> val < 2 ^ 31"

lemma param_suffixes:
  "\<not> suffix ''uapsd_queue'' ''he_gi''" "\<not> suffix ''power_save'' ''he_gi''"
  "\<not> suffix ''uapsd_queue'' ''rts_threshold''" "\<not> suffix ''power_save'' ''rts_threshold''"
  "\<not> suffix ''he_gi'' ''rts_threshold''"
  by (simp_all add: suffix_to_prefix)



text \<open>
  The version file succeeds whatever the firmware core answers; when that answer leaves the
  version unwritten, an uninitialised variable is shown.
\<close>

lemma ver_show_ignores_status:
  "nrf_wifi_wlan_fmac_dbgfs_ver_show SUCCESS v (status, None) = UB Uninitialised"
  "\<exists>shown. nrf_wifi_wlan_fmac_dbgfs_ver_show SUCCESS v (status, Some fw_ver) = Ret (SUCCESS, shown)"
  by (simp_all add: nrf_wifi_wlan_fmac_dbgfs_ver_show_def)

text \<open>
  With two devices the reader of one parameter file can be shown the parameters of the other: the last file
  opened decides.
\<close>

lemma conf_read_last_opened:
  "conf_read params_of (nrf_wifi_wlan_fmac_conf_open dev2 (nrf_wifi_wlan_fmac_conf_open dev1 ctx)) =
     Ret (nrf_wifi_wlan_fmac_conf_disp (params_of dev2))"
  by (simp add: conf_read_def nrf_wifi_wlan_fmac_conf_open_def)

end
