(* ===== verification/Radio_Test.thy ===== *)
theory Radio_Test
  imports Debugfs_Files "HOL-Library.Char_ord"
begin

text \<open>
  The radio test image (\<open>debugfs/radio_test.c\<close>, and the capture part of \<open>stats.c\<close>): the commands of
  its parameter file, what they do to the configuration and to the firmware, and the life of the
  capture buffer. The configuration structure and the constants of the firmware interface are
  not part of this repository: fields keep the value that is assigned to them, and constants are a
  record; the offsets into the radio parameters lie in their array. There is one device, whose file was opened last.
\<close>

subsection \<open>State\<close>

record rt_consts =
  MODE_LEGACY :: ulong
  MODE_HT :: ulong
  MODE_VHT :: ulong
  MODE_HE_SU :: ulong
  MODE_HE_ER_SU :: ulong
  MODE_HE_TB :: ulong
  MODE_MAX :: ulong
  CALIB_RXDC :: u32
  CALIB_TXDC :: u32
  CALIB_TXPOW :: u32
  CALIB_RXIQ :: u32
  CALIB_TXIQ :: u32
  DEF_PHY_CALIB :: u32
  PREAMBLE_SHORT :: ulong
  PREAMBLE_LONG :: ulong
  PREAMBLE_MIXED :: ulong
  MAX_TX_PWR_RADIO_TEST :: ulong
  MAX_TX_PWR_SYS_TEST :: ulong
  CAP_RX_ADC :: ulong
  CAP_RX_STAT_PKT :: ulong
  CAP_RX_DYN_PKT :: ulong
  CH_BW_20 :: ulong
  OP_MODE_RADIO_TEST :: ulong
  XO_FREQ_BYTE_OFFSET :: nat
  TX_PWR_CEIL_BYTE_OFFSET :: nat
  TX_PWR_CEIL_SIZE :: nat
  RF_PARAMS_SIZE :: nat
  COUNTRY_CODE_LEN :: nat

record rt_params =
  op_mode :: ulong
  rt_rf_params :: "u8 list"
  phy_calib :: u32
  he_ltf :: ulong
  rt_he_gi :: ulong
  tx_pkt_tput_mode :: ulong
  tx_pkt_sgi :: ulong
  tx_pkt_preamble :: ulong
  tx_pkt_mcs :: "64 word"
  tx_pkt_rate :: "64 word"
  tx_pkt_nss :: ulong
  tx_pkt_gap_us :: ulong
  tx_pkt_num :: "64 word"
  tx_pkt_len :: ulong
  rt_tx_power :: ulong
  tx_mode :: ulong
  ru_tone :: ulong
  ru_index :: ulong
  capture_length :: ulong
  lna_gain :: ulong
  bb_gain :: ulong
  tx_tone_freq :: ulong
  aux_adc_input_chain_id :: ulong
  primary_num :: ulong
  chan_bw :: ulong
  rt_tx :: ulong
  rt_rx :: ulong
  tx_pkt_cw :: ulong
  country_code :: string
  bypass_regulatory :: ulong

datatype rf_test = RF_DPD | RF_XO_CALIB | RF_RX_ADC_CAP | RF_TX_TONE | RF_GET_TEMPERATURE | RF_RF_RSSI | RF_XO_TUNE | RF_MAX

datatype rt_cmd =
    ProgTx rt_params | ProgRx rt_params | RtInit rt_params
  | TxTone u8 ulong ulong | Dpd ulong | SetXo u8 | RxCap ulong ulong ulong ulong
  | GetTemp | GetRssi | ComputeXo | SetReg string

text \<open>Capture buffers are blocks of a heap; \<open>rx_cap_buf\<close> is a pointer that may be NULL or stale.\<close>

record radio =
  rp :: rt_params
  rf_test_run :: bool
  rf_test :: rf_test
  rx_cap_buf :: "nat option"
  cap_heap :: "nat \<Rightarrow> u8 list option"
  rt_cmds :: "rt_cmd list"

text \<open>
  The answers of the firmware core and of the allocator: whether a command is accepted, the radio
  parameters, the address of a new buffer, and the samples of a capture.
\<close>

record rt_env =
  accepts :: "rt_cmd \<Rightarrow> bool"
  rf_params_get :: "u8 list option"
  cap_alloc :: "nat option"
  samples :: "u8 list \<Rightarrow> u8 list"

definition upd :: "(rt_params \<Rightarrow> rt_params) \<Rightarrow> radio \<Rightarrow> radio" where
  "upd f s = s\<lparr>rp := f (rp s)\<rparr>"

definition rt_tell :: "rt_cmd \<Rightarrow> radio \<Rightarrow> radio" where
  "rt_tell c s = s\<lparr>rt_cmds := rt_cmds s @ [c]\<rparr>"

definition rf_begin :: "rf_test \<Rightarrow> radio \<Rightarrow> radio" where
  "rf_begin r s = s\<lparr>rf_test_run := True, rf_test := r\<rparr>"

definition rf_end :: "radio \<Rightarrow> radio" where
  "rf_end s = s\<lparr>rf_test_run := False, rf_test := RF_MAX\<rparr>"

subsection \<open>Checks\<close>

definition check_valid_chan_2g :: "u8 \<Rightarrow> bool" where
  "check_valid_chan_2g chan_num \<longleftrightarrow> 1 \<le> chan_num \<and> chan_num \<le> 14"

definition chans_5g :: "u8 list" where
  "chans_5g = [32, 36, 40, 44, 48, 52, 56, 60, 64, 68, 96, 100, 104, 108, 112, 116, 120, 124, 128, 132, 136, 140,
     144, 149, 153, 157, 159, 161, 163, 165, 167, 169, 171, 173, 175, 177]"

definition check_valid_chan_5g :: "u8 \<Rightarrow> bool" where
  "check_valid_chan_5g chan_num \<longleftrightarrow> chan_num \<in> set chans_5g"

definition check_valid_channel :: "u8 \<Rightarrow> bool" where
  "check_valid_channel chan_num \<longleftrightarrow> check_valid_chan_2g chan_num \<or> check_valid_chan_5g chan_num"

definition check_test_in_prog :: "radio \<Rightarrow> bool" where
  "check_test_in_prog s = (if rt_rx (rp s) \<noteq> 0 then False else if rt_tx (rp s) \<noteq> 0 then False else True)"

definition legacy_rates :: "u32 list" where
  "legacy_rates = [1, 2, 55, 11, 6, 9, 12, 18, 24, 36, 48, 54]"

definition check_valid_data_rate :: "rt_consts \<Rightarrow> ulong \<Rightarrow> ulong \<Rightarrow> u32 \<Rightarrow> bool" where
  "check_valid_data_rate K tput_mode nss dr =
     (if dr = -1 then True
      else if dr AND 0x80 \<noteq> 0 then
        let dr = dr AND 0x7F in
        if tput_mode AND MODE_HT K \<noteq> 0 then nss = 2 \<and> 8 \<le> dr \<and> dr \<le> 15 \<or> nss = 1 \<and> dr \<le> 7
        else if tput_mode = MODE_VHT K then dr \<le> 9
        else if tput_mode = MODE_HE_SU K then dr \<le> 7
        else if tput_mode = MODE_HE_ER_SU K then dr \<le> 2
        else False
      else dr \<in> set legacy_rates)"

definition check_channel_settings :: "rt_consts \<Rightarrow> ulong \<Rightarrow> ulong \<Rightarrow> ulong \<Rightarrow> int" where
  "check_channel_settings K tput_mode chan bw =
     (if tput_mode = MODE_LEGACY K then (if bw \<noteq> CH_BW_20 K then -ENOEXEC else 0)
      else if tput_mode = MODE_HT K then (if bw \<noteq> CH_BW_20 K then -ENOEXEC else 0)
      else if tput_mode = MODE_VHT K then
        (if 1 \<le> chan \<and> chan \<le> 14 then -ENOEXEC else if bw \<noteq> CH_BW_20 K then -ENOEXEC else 0)
      else if tput_mode = MODE_HE_SU K \<or> tput_mode = MODE_HE_TB K \<or> tput_mode = MODE_HE_ER_SU K then
        (if bw \<noteq> CH_BW_20 K then -ENOEXEC else 0)
      else -ENOEXEC)"

text \<open>The throughput mode as the checks receive it, an \<open>unsigned char\<close>.\<close>

definition mode8 :: "rt_params \<Rightarrow> ulong" where
  "mode8 p = ucast (ucast (tx_pkt_tput_mode p) :: u8)"

subsection \<open>Defaults\<close>

definition zero_rt :: "rt_consts \<Rightarrow> rt_params" where
  "zero_rt K = \<lparr>op_mode = 0, rt_rf_params = replicate (RF_PARAMS_SIZE K) 0, phy_calib = 0, he_ltf = 0, rt_he_gi = 0,
     tx_pkt_tput_mode = 0, tx_pkt_sgi = 0, tx_pkt_preamble = 0, tx_pkt_mcs = 0, tx_pkt_rate = 0, tx_pkt_nss = 0,
     tx_pkt_gap_us = 0, tx_pkt_num = 0, tx_pkt_len = 0, rt_tx_power = 0, tx_mode = 0, ru_tone = 0, ru_index = 0,
     capture_length = 0, lna_gain = 0, bb_gain = 0, tx_tone_freq = 0, aux_adc_input_chain_id = 0, primary_num = 0,
     chan_bw = 0, rt_tx = 0, rt_rx = 0, tx_pkt_cw = 0, country_code = replicate (COUNTRY_CODE_LEN K) (CHR 0x00),
     bypass_regulatory = 0\<rparr>"

text \<open>Whether a character array holds a non-empty string.\<close>

definition nonempty_str :: "string \<Rightarrow> bool" where
  "nonempty_str a \<longleftrightarrow> cstr a \<noteq> []"

definition nrf_wifi_radio_test_conf_init :: "rt_consts \<Rightarrow> rt_env \<Rightarrow> rt_params \<Rightarrow> bool \<times> rt_params" where
  "nrf_wifi_radio_test_conf_init K e p =
     (let cc = (if nonempty_str (country_code p) then country_code p else replicate (COUNTRY_CODE_LEN K) (CHR 0x00));
          p = (zero_rt K)\<lparr>op_mode := OP_MODE_RADIO_TEST K\<rparr> in
      case rf_params_get e of
        None \<Rightarrow> (False, p)
      | Some rf \<Rightarrow>
          (True, p\<lparr>rt_rf_params := rf, tx_pkt_nss := 1, tx_pkt_gap_us := 0, rt_tx_power := MAX_TX_PWR_SYS_TEST K,
             primary_num := 1, tx_mode := 1, tx_pkt_num := -1, tx_pkt_len := 1400, tx_pkt_preamble := 1,
             tx_pkt_rate := 6, he_ltf := 2, rt_he_gi := 2, aux_adc_input_chain_id := 1, ru_tone := 26,
             ru_index := 1, tx_pkt_cw := 15, phy_calib := DEF_PHY_CALIB K,
             country_code := (if nonempty_str cc then cc else take (COUNTRY_CODE_LEN K) [CHR ''0'', CHR ''0'', CHR 0x00])\<rparr>))"

subsection \<open>Parameters\<close>

text \<open>
  Setting a parameter: the result is the error code, which the write handler drops. The common
  end of most of them is \<open>unless_running\<close>.
\<close>

definition unless_running :: "int \<Rightarrow> (rt_params \<Rightarrow> rt_params) \<Rightarrow> radio \<Rightarrow> int \<times> radio" where
  "unless_running err f s = (if \<not> check_test_in_prog s then (err, s) else (0, upd f s))"

definition set_flag :: "u32 \<Rightarrow> ulong \<Rightarrow> rt_params \<Rightarrow> rt_params" where
  "set_flag flag val p = p\<lparr>phy_calib := (if val \<noteq> 0 then phy_calib p OR flag else phy_calib p AND NOT flag)\<rparr>"

definition nrf_wifi_radio_test_set_phy_calib_rxdc :: "rt_consts \<Rightarrow> ulong \<Rightarrow> radio \<Rightarrow> int \<times> radio" where
  "nrf_wifi_radio_test_set_phy_calib_rxdc K val s =
     (if val > 1 then (-EINVAL, s) else unless_running (-EFAULT) (set_flag (CALIB_RXDC K) val) s)"

definition nrf_wifi_radio_test_set_phy_calib_txdc :: "rt_consts \<Rightarrow> ulong \<Rightarrow> radio \<Rightarrow> int \<times> radio" where
  "nrf_wifi_radio_test_set_phy_calib_txdc K val s =
     (if val > 1 then (-EINVAL, s) else unless_running (-EFAULT) (set_flag (CALIB_TXDC K) val) s)"

definition nrf_wifi_radio_test_set_phy_calib_txpow :: "rt_consts \<Rightarrow> ulong \<Rightarrow> radio \<Rightarrow> int \<times> radio" where
  "nrf_wifi_radio_test_set_phy_calib_txpow K val s =
     (if val > 1 then (-EINVAL, s) else unless_running (-EFAULT) (set_flag (CALIB_TXPOW K) val) s)"

definition nrf_wifi_radio_test_set_phy_calib_rxiq :: "rt_consts \<Rightarrow> ulong \<Rightarrow> radio \<Rightarrow> int \<times> radio" where
  "nrf_wifi_radio_test_set_phy_calib_rxiq K val s =
     (if val > 1 then (-EINVAL, s) else unless_running (-EFAULT) (set_flag (CALIB_RXIQ K) val) s)"

definition nrf_wifi_radio_test_set_phy_calib_txiq :: "rt_consts \<Rightarrow> ulong \<Rightarrow> radio \<Rightarrow> int \<times> radio" where
  "nrf_wifi_radio_test_set_phy_calib_txiq K val s =
     (if val > 1 then (-EINVAL, s) else unless_running (-EFAULT) (set_flag (CALIB_TXIQ K) val) s)"

definition nrf_wifi_radio_test_set_he_ltf :: "ulong \<Rightarrow> radio \<Rightarrow> int \<times> radio" where
  "nrf_wifi_radio_test_set_he_ltf val s =
     (if val < 0 \<or> val > 2 then (-EINVAL, s) else (0, upd (he_ltf_update (\<lambda>_. val)) s))"

definition nrf_wifi_radio_test_set_he_gi :: "ulong \<Rightarrow> radio \<Rightarrow> int \<times> radio" where
  "nrf_wifi_radio_test_set_he_gi val s =
     (if val < 0 \<or> val > 2 then (-EINVAL, s) else (0, upd (rt_he_gi_update (\<lambda>_. val)) s))"

definition nrf_wifi_radio_test_set_tx_pkt_tput_mode :: "rt_consts \<Rightarrow> ulong \<Rightarrow> radio \<Rightarrow> int \<times> radio" where
  "nrf_wifi_radio_test_set_tx_pkt_tput_mode K val s =
     (if val \<ge> MODE_MAX K then (-EINVAL, s)
      else unless_running (-EFAULT) (tx_pkt_tput_mode_update (\<lambda>_. val)) s)"

definition nrf_wifi_radio_test_set_tx_pkt_sgi :: "ulong \<Rightarrow> radio \<Rightarrow> int \<times> radio" where
  "nrf_wifi_radio_test_set_tx_pkt_sgi val s =
     (if val < 0 \<or> val > 1 then (-EINVAL, s) else (0, upd (tx_pkt_sgi_update (\<lambda>_. val)) s))"

definition nrf_wifi_radio_test_set_tx_pkt_preamble :: "rt_consts \<Rightarrow> ulong \<Rightarrow> radio \<Rightarrow> int \<times> radio" where
  "nrf_wifi_radio_test_set_tx_pkt_preamble K val s =
     (if \<not> check_test_in_prog s then (-EFAULT, s)
      else if tx_pkt_tput_mode (rp s) = 0 \<and> val \<noteq> PREAMBLE_SHORT K \<and> val \<noteq> PREAMBLE_LONG K then (-EINVAL, s)
      else if tx_pkt_tput_mode (rp s) \<noteq> 0 \<and> val \<noteq> PREAMBLE_MIXED K then (-EINVAL, s)
      else (0, upd (tx_pkt_preamble_update (\<lambda>_. val)) s))"

definition nrf_wifi_radio_test_set_tx_pkt_mcs :: "rt_consts \<Rightarrow> 64 word \<Rightarrow> radio \<Rightarrow> int \<times> radio" where
  "nrf_wifi_radio_test_set_tx_pkt_mcs K val s =
     (if \<not> check_test_in_prog s then (-EFAULT, s)
      else if tx_pkt_rate (rp s) \<noteq> -1 then (-EFAULT, s)
      else if \<not> check_valid_data_rate K (mode8 (rp s)) (tx_pkt_nss (rp s)) (ucast (val OR 0x80)) then (-EINVAL, s)
      else (0, upd (tx_pkt_mcs_update (\<lambda>_. val)) s))"

definition nrf_wifi_radio_test_set_tx_pkt_rate :: "rt_consts \<Rightarrow> 64 word \<Rightarrow> radio \<Rightarrow> int \<times> radio" where
  "nrf_wifi_radio_test_set_tx_pkt_rate K val s =
     (if \<not> check_test_in_prog s then (-EFAULT, s)
      else if \<not> check_valid_data_rate K (mode8 (rp s)) (tx_pkt_nss (rp s)) (ucast val) then (-EINVAL, s)
      else (0, upd (tx_pkt_rate_update (\<lambda>_. val)) s))"

definition nrf_wifi_radio_test_set_tx_pkt_gap :: "ulong \<Rightarrow> radio \<Rightarrow> int \<times> radio" where
  "nrf_wifi_radio_test_set_tx_pkt_gap val s =
     (if val > 200000 then (-EINVAL, s) else unless_running (-EFAULT) (tx_pkt_gap_us_update (\<lambda>_. val)) s)"

definition nrf_wifi_radio_test_set_tx_pkt_num :: "64 word \<Rightarrow> radio \<Rightarrow> int \<times> radio" where
  "nrf_wifi_radio_test_set_tx_pkt_num val s =
     (if sint val < -1 \<or> val = 0 then (-EINVAL, s)
      else unless_running (-EFAULT) (tx_pkt_num_update (\<lambda>_. val)) s)"

text \<open>The length limit of a packet in a trigger-based HE frame depends on the resource unit.\<close>

definition he_tb_limit :: "ulong \<Rightarrow> ulong option" where
  "he_tb_limit tone =
     (if tone = 26 then Some 350 else if tone = 52 then Some 800 else if tone = 106 then Some 1800
      else if tone = 242 then Some 4000 else None)"

definition nrf_wifi_radio_test_set_tx_pkt_len :: "rt_consts \<Rightarrow> ulong \<Rightarrow> radio \<Rightarrow> int \<times> radio" where
  "nrf_wifi_radio_test_set_tx_pkt_len K val s =
     (if val = 0 then (-EINVAL, s)
      else if tx_pkt_tput_mode (rp s) = MODE_MAX K then (-EINVAL, s)
      else if tx_pkt_tput_mode (rp s) = MODE_LEGACY K \<and> val > 4000 then (-ENOEXEC, s)
      else if tx_pkt_tput_mode (rp s) \<noteq> MODE_LEGACY K \<and> tx_pkt_tput_mode (rp s) = MODE_HE_TB K
        \<and> (case he_tb_limit (ru_tone (rp s)) of None \<Rightarrow> True | Some l \<Rightarrow> val \<ge> l) then (-ENOEXEC, s)
      else unless_running (-EFAULT) (tx_pkt_len_update (\<lambda>_. val)) s)"

definition nrf_wifi_radio_test_set_tx_power :: "rt_consts \<Rightarrow> ulong \<Rightarrow> radio \<Rightarrow> int \<times> radio" where
  "nrf_wifi_radio_test_set_tx_power K val s =
     (if val > MAX_TX_PWR_RADIO_TEST K \<and> val \<noteq> MAX_TX_PWR_SYS_TEST K then (-EINVAL, s)
      else unless_running (-EFAULT) (rt_tx_power_update (\<lambda>_. val)) s)"

definition nrf_wifi_radio_test_set_ru_tone :: "ulong \<Rightarrow> radio \<Rightarrow> int \<times> radio" where
  "nrf_wifi_radio_test_set_ru_tone val s =
     (if val \<noteq> 26 \<and> val \<noteq> 52 \<and> val \<noteq> 106 \<and> val \<noteq> 242 then (-EINVAL, s)
      else unless_running (-EFAULT) (ru_tone_update (\<lambda>_. val)) s)"

text \<open>The number of resource units of a size.\<close>

definition ru_count :: "ulong \<Rightarrow> ulong" where
  "ru_count tone = (if tone = 26 then 9 else if tone = 52 then 4 else if tone = 106 then 2 else if tone = 242 then 1 else 0)"

definition nrf_wifi_radio_test_set_ru_index :: "ulong \<Rightarrow> radio \<Rightarrow> int \<times> radio" where
  "nrf_wifi_radio_test_set_ru_index val s =
     (if val < 1 \<or> val > ru_count (ru_tone (rp s)) then (-EINVAL, s)
      else unless_running (-EFAULT) (ru_index_update (\<lambda>_. val)) s)"

definition nrf_wifi_radio_test_set_rx_capture_length :: "ulong \<Rightarrow> radio \<Rightarrow> int \<times> radio" where
  "nrf_wifi_radio_test_set_rx_capture_length val s =
     (if val \<ge> 16384 then (-EINVAL, s) else unless_running (-ENOEXEC) (capture_length_update (\<lambda>_. val)) s)"

definition nrf_wifi_radio_test_set_rx_lna_gain :: "ulong \<Rightarrow> radio \<Rightarrow> int \<times> radio" where
  "nrf_wifi_radio_test_set_rx_lna_gain val s =
     (if val > 4 \<or> val < 0 then (-ENOEXEC, s) else unless_running (-ENOEXEC) (lna_gain_update (\<lambda>_. val)) s)"

definition nrf_wifi_radio_test_set_rx_bb_gain :: "ulong \<Rightarrow> radio \<Rightarrow> int \<times> radio" where
  "nrf_wifi_radio_test_set_rx_bb_gain val s =
     (if val > 31 \<or> val < 0 then (-ENOEXEC, s) else unless_running (-ENOEXEC) (bb_gain_update (\<lambda>_. val)) s)"

text \<open>The value is unsigned, so that \<open>-10\<close> is converted to \<open>2\<^sup>6\<^sup>4 - 10\<close> in the comparison.\<close>

definition nrf_wifi_radio_test_set_tx_tone_freq :: "ulong \<Rightarrow> radio \<Rightarrow> int \<times> radio" where
  "nrf_wifi_radio_test_set_tx_tone_freq val s =
     (if val > 10 \<or> val < -10 then (-ENOEXEC, s)
      else unless_running (-ENOEXEC) (tx_tone_freq_update (\<lambda>_. val)) s)"

definition cw_values :: "ulong list" where
  "cw_values = [0, 3, 7, 15, 31, 63, 127, 255, 511, 1023]"

definition nrf_wifi_radio_test_set_tx_pkt_cw :: "ulong \<Rightarrow> radio \<Rightarrow> int \<times> radio" where
  "nrf_wifi_radio_test_set_tx_pkt_cw val s =
     (if val \<notin> set cw_values then (-EINVAL, s)
      else unless_running (-ENOEXEC) (tx_pkt_cw_update (\<lambda>_. val)) s)"

definition nrf_wifi_radio_test_set_bypass_reg :: "ulong \<Rightarrow> radio \<Rightarrow> int \<times> radio" where
  "nrf_wifi_radio_test_set_bypass_reg val s =
     (if val > 1 then (-ENOEXEC, s) else unless_running (-ENOEXEC) (bypass_regulatory_update (\<lambda>_. val)) s)"

subsection \<open>Tests\<close>

text \<open>
  Most tests mark themselves as running, send their command and clear the mark when it is
  accepted; \<open>run_rf_test\<close> is that pattern, with the error code for a refusal.
\<close>

definition run_rf_test :: "rt_env \<Rightarrow> rf_test \<Rightarrow> rt_cmd \<Rightarrow> int \<Rightarrow> (radio \<Rightarrow> radio) \<Rightarrow> radio \<Rightarrow> int \<times> radio" where
  "run_rf_test e r c err f s =
     (let s = rt_tell c (rf_begin r s) in if \<not> accepts e c then (err, s) else (0, rf_end (f s)))"

definition nrf_wifi_radio_set_dpd :: "rt_env \<Rightarrow> ulong \<Rightarrow> radio \<Rightarrow> int \<times> radio" where
  "nrf_wifi_radio_set_dpd e val s =
     (if val > 1 then (-EINVAL, s)
      else if val = 1 \<and> \<not> check_test_in_prog s then (-ENOEXEC, s)
      else run_rf_test e RF_DPD (Dpd val) (-ENOEXEC) id s)"

definition nrf_wifi_radio_set_xo_val :: "rt_consts \<Rightarrow> rt_env \<Rightarrow> ulong \<Rightarrow> radio \<Rightarrow> int \<times> radio" where
  "nrf_wifi_radio_set_xo_val K e val s =
     (if val > 0x7f then (-EINVAL, s)
      else if val < 0 then (-EINVAL, s)
      else if val = 1 \<and> \<not> check_test_in_prog s then (-ENOEXEC, s)
      else run_rf_test e RF_XO_CALIB (SetXo (ucast val)) (-ENOEXEC)
        (upd (\<lambda>p. p\<lparr>rt_rf_params := (rt_rf_params p)[XO_FREQ_BYTE_OFFSET K := ucast val]\<rparr>)) s)"

definition nrf_wifi_radio_get_temperature :: "rt_env \<Rightarrow> ulong \<Rightarrow> radio \<Rightarrow> int \<times> radio" where
  "nrf_wifi_radio_get_temperature e val s =
     (if val > 1 then (-EINVAL, s)
      else if val = 1 \<and> \<not> check_test_in_prog s then (-ENOEXEC, s)
      else run_rf_test e RF_GET_TEMPERATURE GetTemp (-ENOEXEC) id s)"

definition nrf_wifi_radio_get_rf_rssi :: "rt_env \<Rightarrow> ulong \<Rightarrow> radio \<Rightarrow> int \<times> radio" where
  "nrf_wifi_radio_get_rf_rssi e val s =
     (if val > 1 then (-EINVAL, s)
      else if val = 1 \<and> \<not> check_test_in_prog s then (-ENOEXEC, s)
      else run_rf_test e RF_RF_RSSI GetRssi (-EINVAL) id s)"

definition nrf_wifi_radio_comp_opt_xo_val :: "rt_env \<Rightarrow> ulong \<Rightarrow> radio \<Rightarrow> int \<times> radio" where
  "nrf_wifi_radio_comp_opt_xo_val e val s =
     (if \<not> check_test_in_prog s then (-ENOEXEC, s)
      else run_rf_test e RF_XO_TUNE ComputeXo (-EINVAL) id s)"

text \<open>The tone is the one test that stays marked, until it is switched off.\<close>

definition tone_cmd :: "u8 \<Rightarrow> radio \<Rightarrow> rt_cmd" where
  "tone_cmd on s = TxTone on (tx_tone_freq (rp s)) (rt_tx_power (rp s))"

definition nrf_wifi_radio_test_tx_tone :: "rt_env \<Rightarrow> ulong \<Rightarrow> radio \<Rightarrow> int \<times> radio" where
  "nrf_wifi_radio_test_tx_tone e val s =
     (if val > 1 then (-EINVAL, s)
      else if val = 1 \<and> \<not> check_test_in_prog s then (-ENOEXEC, s)
      else let c = tone_cmd (ucast val) s; s = rt_tell c s in
        if \<not> accepts e c then (-ENOEXEC, s)
        else if val = 1 then (0, rf_begin RF_TX_TONE s) else (0, rf_end s))"

text \<open>Freeing and using the capture buffer through its pointer.\<close>

definition free_cap :: "radio \<Rightarrow> radio outcome" where
  "free_cap s =
     (case rx_cap_buf s of
        None \<Rightarrow> Ret s
      | Some a \<Rightarrow> if cap_heap s a = None then UB InvalidFree else Ret (s\<lparr>cap_heap := (cap_heap s)(a := None)\<rparr>))"

definition cap_fail :: "int \<Rightarrow> radio \<Rightarrow> (int \<times> radio) outcome" where
  "cap_fail err s = and_then (free_cap s) (\<lambda>s. Ret (err, s))"

definition nrf_wifi_radio_test_rx_cap :: "rt_consts \<Rightarrow> rt_env \<Rightarrow> ulong \<Rightarrow> radio \<Rightarrow> (int \<times> radio) outcome" where
  "nrf_wifi_radio_test_rx_cap K e rx_cap_type s =
     (if rx_cap_type \<noteq> CAP_RX_ADC K \<and> rx_cap_type \<noteq> CAP_RX_STAT_PKT K \<and> rx_cap_type \<noteq> CAP_RX_DYN_PKT K
      then cap_fail (-EINVAL) s
      else if capture_length (rp s) = 0 then cap_fail (-EINVAL) s
      else if \<not> check_test_in_prog s then cap_fail (-ENOEXEC) s
      else and_then (free_cap s) (\<lambda>s.
        case cap_alloc e of
          None \<Rightarrow> cap_fail (-ENOEXEC) (s\<lparr>rx_cap_buf := None\<rparr>)
        | Some a \<Rightarrow>
            let buf = replicate (unat (capture_length (rp s) * 3)) 0;
                s = rf_begin RF_RX_ADC_CAP (s\<lparr>rx_cap_buf := Some a, cap_heap := (cap_heap s)(a \<mapsto> buf)\<rparr>);
                c = RxCap rx_cap_type (capture_length (rp s)) (lna_gain (rp s)) (bb_gain (rp s));
                s = rt_tell c s in
            if \<not> accepts e c then cap_fail (-ENOEXEC) s
            else Ret (0, rf_end (s\<lparr>cap_heap := (cap_heap s)(a \<mapsto> samples e buf)\<rparr>))))"

text \<open>
  Selecting a channel: reception, transmission and the tone are switched off, the configuration is
  reset and the channel programmed. Only the low eight bits of the value are checked.
\<close>

definition stop_rx :: "rt_env \<Rightarrow> radio \<Rightarrow> bool \<times> radio" where
  "stop_rx e s =
     (if rt_rx (rp s) \<noteq> 0 then
        let s = upd (rt_rx_update (\<lambda>_. 0)) s; c = ProgRx (rp s) in (accepts e c, rt_tell c s)
      else (True, s))"

definition stop_tx :: "rt_env \<Rightarrow> radio \<Rightarrow> bool \<times> radio" where
  "stop_tx e s =
     (if rt_tx (rp s) \<noteq> 0 then
        let s = upd (rt_tx_update (\<lambda>_. 0)) s; c = ProgTx (rp s) in (accepts e c, rt_tell c s)
      else (True, s))"

definition stop_tone :: "rt_env \<Rightarrow> radio \<Rightarrow> bool \<times> radio" where
  "stop_tone e s =
     (if rf_test_run s then
        if rf_test s \<noteq> RF_TX_TONE then (False, s)
        else let c = tone_cmd 0 s; s = rt_tell c s in
          if \<not> accepts e c then (False, s) else (True, rf_end s)
      else (True, s))"

definition stop_tests :: "rt_env \<Rightarrow> radio \<Rightarrow> bool \<times> radio" where
  "stop_tests e s =
     (let (ok, s) = stop_rx e s in if \<not> ok then (False, s) else
      let (ok, s) = stop_tx e s in if \<not> ok then (False, s) else stop_tone e s)"

definition program_channel :: "rt_consts \<Rightarrow> rt_env \<Rightarrow> ulong \<Rightarrow> radio \<Rightarrow> int \<times> radio" where
  "program_channel K e val s =
     (let (ok, p) = nrf_wifi_radio_test_conf_init K e (rp s) in
      if \<not> ok then (-ENOEXEC, s\<lparr>rp := p\<rparr>) else
      let p = p\<lparr>primary_num := val\<rparr>; c = RtInit p; s = rt_tell c (s\<lparr>rp := p\<rparr>) in
      if \<not> accepts e c then (-ENOEXEC, s) else (0, s))"

definition nrf_wifi_radio_test_init :: "rt_consts \<Rightarrow> rt_env \<Rightarrow> ulong \<Rightarrow> radio \<Rightarrow> int \<times> radio" where
  "nrf_wifi_radio_test_init K e val s =
     (if \<not> check_valid_channel (ucast val) then (-EINVAL, s) else
      let (ok, s) = stop_tests e s in if \<not> ok then (-ENOEXEC, s) else program_channel K e val s)"

text \<open>Writing the power ceiling into the radio parameters; the array is not left when the ceiling lies in it.\<close>

definition set_ceiling :: "rt_consts \<Rightarrow> rt_params \<Rightarrow> rt_params" where
  "set_ceiling K p =
     (if rt_tx_power p \<noteq> MAX_TX_PWR_SYS_TEST K then
        p\<lparr>rt_rf_params := take (TX_PWR_CEIL_BYTE_OFFSET K) (rt_rf_params p)
            @ replicate (TX_PWR_CEIL_SIZE K) (ucast (push_bit 2 (MAX_TX_PWR_RADIO_TEST K)))
            @ drop (TX_PWR_CEIL_BYTE_OFFSET K + TX_PWR_CEIL_SIZE K) (rt_rf_params p)\<rparr>
      else p)"

definition nrf_wifi_radio_test_set_tx :: "rt_consts \<Rightarrow> rt_env \<Rightarrow> ulong \<Rightarrow> radio \<Rightarrow> int \<times> radio" where
  "nrf_wifi_radio_test_set_tx K e val s =
     (if val > 1 then (-EINVAL, s)
      else if val = 1 \<and> \<not> check_test_in_prog s then (-ENOEXEC, s)
      else if val = 1 \<and> check_channel_settings K (mode8 (rp s)) (primary_num (rp s)) (chan_bw (rp s)) \<noteq> 0
        then (-ENOEXEC, s)
      else let s = (if val = 1 then upd (set_ceiling K) s else s);
               s = upd (rt_tx_update (\<lambda>_. val)) s; c = ProgTx (rp s); s = rt_tell c s in
        if \<not> accepts e c then (-ENOEXEC, s) else (0, s))"

definition nrf_wifi_radio_test_set_rx :: "rt_env \<Rightarrow> ulong \<Rightarrow> radio \<Rightarrow> int \<times> radio" where
  "nrf_wifi_radio_test_set_rx e val s =
     (if val > 1 then (-EINVAL, s)
      else if val = 1 \<and> \<not> check_test_in_prog s then (-ENOEXEC, s)
      else let s = upd (rt_rx_update (\<lambda>_. val)) s; c = ProgRx (rp s); s = rt_tell c s in
        if \<not> accepts e c then (-ENOEXEC, s) else (0, s))"

definition upper_ascii :: "char \<Rightarrow> bool" where
  "upper_ascii c \<longleftrightarrow> CHR ''A'' \<le> c \<and> c \<le> CHR ''Z''"

definition nrf_wifi_radio_test_set_reg_domain :: "rt_env \<Rightarrow> string \<Rightarrow> radio \<Rightarrow> int \<times> radio" where
  "nrf_wifi_radio_test_set_reg_domain e reg s =
     (if length reg \<noteq> 2 then (-ENOEXEC, s)
      else if \<not> (upper_ascii (reg ! 0) \<and> upper_ascii (reg ! 1)) \<and> (reg ! 0 \<noteq> CHR ''0'' \<or> reg ! 1 \<noteq> CHR ''0'')
        then (-ENOEXEC, s)
      else let s = upd (\<lambda>p. p\<lparr>country_code := (country_code p)[0 := reg ! 0, 1 := reg ! 1]\<rparr>) s in
        if \<not> check_test_in_prog s then (-ENOEXEC, s)
        else let c = SetReg (country_code (rp s)); s = rt_tell c s in
          if \<not> accepts e c then (-ENOEXEC, s) else (0, s))"

subsection \<open>The write handler\<close>

text \<open>
  The chain of the handler in its order: a name with the function for its unsigned or signed
  value. The error codes of these functions are not returned: the result of a write is the length
  of the input unless nothing matched.
\<close>

datatype rt_handler =
    Val "ulong \<Rightarrow> radio \<Rightarrow> (int \<times> radio) outcome"
  | Sval "64 word \<Rightarrow> radio \<Rightarrow> (int \<times> radio) outcome"

definition rt_table :: "rt_consts \<Rightarrow> rt_env \<Rightarrow> (string \<times> rt_handler) list" where
  "rt_table K e =
    [(''phy_calib_rxdc='', Val (\<lambda>v s. Ret (nrf_wifi_radio_test_set_phy_calib_rxdc K v s))),
     (''phy_calib_txdc='', Val (\<lambda>v s. Ret (nrf_wifi_radio_test_set_phy_calib_txdc K v s))),
     (''phy_calib_txpow='', Val (\<lambda>v s. Ret (nrf_wifi_radio_test_set_phy_calib_txpow K v s))),
     (''phy_calib_rxiq='', Val (\<lambda>v s. Ret (nrf_wifi_radio_test_set_phy_calib_rxiq K v s))),
     (''phy_calib_txiq='', Val (\<lambda>v s. Ret (nrf_wifi_radio_test_set_phy_calib_txiq K v s))),
     (''he_ltf='', Val (\<lambda>v s. Ret (nrf_wifi_radio_test_set_he_ltf v s))),
     (''he_gi='', Val (\<lambda>v s. Ret (nrf_wifi_radio_test_set_he_gi v s))),
     (''tx_pkt_tput_mode='', Val (\<lambda>v s. Ret (nrf_wifi_radio_test_set_tx_pkt_tput_mode K v s))),
     (''tx_pkt_sgi='', Val (\<lambda>v s. Ret (nrf_wifi_radio_test_set_tx_pkt_sgi v s))),
     (''tx_pkt_preamble='', Val (\<lambda>v s. Ret (nrf_wifi_radio_test_set_tx_pkt_preamble K v s))),
     (''tx_pkt_mcs='', Sval (\<lambda>v s. Ret (nrf_wifi_radio_test_set_tx_pkt_mcs K v s))),
     (''tx_pkt_rate='', Sval (\<lambda>v s. Ret (nrf_wifi_radio_test_set_tx_pkt_rate K v s))),
     (''tx_pkt_gap='', Val (\<lambda>v s. Ret (nrf_wifi_radio_test_set_tx_pkt_gap v s))),
     (''tx_pkt_num='', Sval (\<lambda>v s. Ret (nrf_wifi_radio_test_set_tx_pkt_num v s))),
     (''tx_pkt_len='', Val (\<lambda>v s. Ret (nrf_wifi_radio_test_set_tx_pkt_len K v s))),
     (''tx_pkt_len='', Val (\<lambda>v s. Ret (nrf_wifi_radio_test_set_tx_pkt_len K v s))),
     (''tx_power='', Val (\<lambda>v s. Ret (nrf_wifi_radio_test_set_tx_power K v s))),
     (''ru_tone='', Val (\<lambda>v s. Ret (nrf_wifi_radio_test_set_ru_tone v s))),
     (''ru_index='', Val (\<lambda>v s. Ret (nrf_wifi_radio_test_set_ru_index v s))),
     (''rx_capture_length='', Val (\<lambda>v s. Ret (nrf_wifi_radio_test_set_rx_capture_length v s))),
     (''rx_lna_gain='', Val (\<lambda>v s. Ret (nrf_wifi_radio_test_set_rx_lna_gain v s))),
     (''rx_bb_gain='', Val (\<lambda>v s. Ret (nrf_wifi_radio_test_set_rx_bb_gain v s))),
     (''tx_tone_freq='', Val (\<lambda>v s. Ret (nrf_wifi_radio_test_set_tx_tone_freq v s))),
     (''dpd='', Val (\<lambda>v s. Ret (nrf_wifi_radio_set_dpd e v s))),
     (''set_xo_val='', Val (\<lambda>v s. Ret (nrf_wifi_radio_set_xo_val K e v s))),
     (''init='', Val (\<lambda>v s. Ret (nrf_wifi_radio_test_init K e v s))),
     (''tx='', Val (\<lambda>v s. Ret (nrf_wifi_radio_test_set_tx K e v s))),
     (''rx='', Val (\<lambda>v s. Ret (nrf_wifi_radio_test_set_rx e v s))),
     (''rx_cap='', Val (\<lambda>v s. nrf_wifi_radio_test_rx_cap K e v s)),
     (''tx_tone='', Val (\<lambda>v s. Ret (nrf_wifi_radio_test_tx_tone e v s))),
     (''get_temperature='', Val (\<lambda>v s. Ret (nrf_wifi_radio_get_temperature e v s))),
     (''get_rf_rssi='', Val (\<lambda>v s. Ret (nrf_wifi_radio_get_rf_rssi e v s))),
     (''compute_optimal_xo_val='', Val (\<lambda>v s. Ret (nrf_wifi_radio_comp_opt_xo_val e v s))),
     (''tx_pkt_cw='', Val (\<lambda>v s. Ret (nrf_wifi_radio_test_set_tx_pkt_cw v s)))]"

text \<open>The end of the chain: the regulatory domain, which is matched without its value being parsed.\<close>

definition rt_reg :: "(string \<Rightarrow> ulong option) \<Rightarrow> rt_env \<Rightarrow> int \<Rightarrow> string \<Rightarrow> radio \<Rightarrow> (int \<times> radio) outcome" where
  "rt_reg kstrtoul e count line s =
     (if param_get_match line ''reg_domain='' then
        if strstr line ''bypass'' \<noteq> None then
          and_then (param_get_val kstrtoul line ''bypass_reg_domain='' 0) (\<lambda>(hit, val).
            if hit then Ret (count, snd (nrf_wifi_radio_test_set_bypass_reg val s)) else Ret (count, s))
        else (case strstr line ''='' of
                None \<Rightarrow> UB NullDeref
              | Some eq \<Rightarrow> Ret (count, snd (nrf_wifi_radio_test_set_reg_domain e (tl eq) s)))
      else Ret (-EFAULT, s))"

fun rt_chain ::
  "(string \<Rightarrow> ulong option) \<Rightarrow> (string \<Rightarrow> 64 word option) \<Rightarrow> int \<Rightarrow> string \<Rightarrow> (radio \<Rightarrow> (int \<times> radio) outcome) \<Rightarrow>
   (string \<times> rt_handler) list \<Rightarrow> radio \<Rightarrow> (int \<times> radio) outcome" where
  "rt_chain kstrtoul kstrtol count line other [] s = other s"
| "rt_chain kstrtoul kstrtol count line other ((key, Val h) # tbl) s =
     and_then (param_get_val kstrtoul line key 0) (\<lambda>(hit, val).
       if hit then and_then (h val s) (\<lambda>(_, t). Ret (count, t))
       else rt_chain kstrtoul kstrtol count line other tbl s)"
| "rt_chain kstrtoul kstrtol count line other ((key, Sval h) # tbl) s =
     and_then (param_get_sval kstrtol line key 0) (\<lambda>(hit, val).
       if hit then and_then (h val s) (\<lambda>(_, t). Ret (count, t))
       else rt_chain kstrtoul kstrtol count line other tbl s)"

definition rt_dispatch ::
  "rt_consts \<Rightarrow> (string \<Rightarrow> ulong option) \<Rightarrow> (string \<Rightarrow> 64 word option) \<Rightarrow> rt_env \<Rightarrow> int \<Rightarrow> string \<Rightarrow> radio \<Rightarrow>
   (int \<times> radio) outcome" where
  "rt_dispatch K kstrtoul kstrtol e count line s =
     (if param_get_match line ''set_defaults''
      then Ret (count, s\<lparr>rp := snd (nrf_wifi_radio_test_conf_init K e (rp s))\<rparr>)
      else rt_chain kstrtoul kstrtol count line (rt_reg kstrtoul e count line) (rt_table K e) s)"

definition nrf_wifi_wlan_fmac_radio_test_conf_write ::
  "rt_consts \<Rightarrow> (string \<Rightarrow> ulong option) \<Rightarrow> (string \<Rightarrow> 64 word option) \<Rightarrow> rt_env \<Rightarrow> bool \<Rightarrow> bool \<Rightarrow> string \<Rightarrow> radio \<Rightarrow>
   (int \<times> radio) outcome" where
  "nrf_wifi_wlan_fmac_radio_test_conf_write K kstrtoul kstrtol e alloc copy_ok input s =
     and_then (read_input alloc copy_ok input) (\<lambda>r.
       case r of
         Inl err \<Rightarrow> Ret (err, s)
       | Inr conf_buf \<Rightarrow> rt_dispatch K kstrtoul kstrtol e (int (length input)) (cstr conf_buf) s)"

subsection \<open>Reading a capture\<close>

text \<open>
  The statistics file of this image prints three bytes per sample, the highest first, for as many
  samples as the configuration says now, and frees the buffer.
\<close>

definition cap_digit :: "nat \<Rightarrow> char" where
  "cap_digit n = ''0123456789ABCDEF'' ! n"

definition hex2 :: "u8 \<Rightarrow> string" where
  "hex2 b = [cap_digit (unat b div 16), cap_digit (unat b mod 16)]"

fun show_samples :: "nat \<Rightarrow> u8 list \<Rightarrow> string outcome" where
  "show_samples 0 buf = Ret []"
| "show_samples (Suc n) (b0 # b1 # b2 # buf) =
     and_then (show_samples n buf) (\<lambda>rest. Ret (hex2 b2 @ hex2 b1 @ hex2 b0 @ NL # rest))"
| "show_samples (Suc n) _ = UB OutOfBounds"

definition stats_show_capture :: "radio \<Rightarrow> (string \<times> radio) outcome" where
  "stats_show_capture s =
     (case rx_cap_buf s of
        None \<Rightarrow> Ret ([], s)
      | Some a \<Rightarrow>
          (case cap_heap s a of
             None \<Rightarrow> UB UseAfterFree
           | Some buf \<Rightarrow>
               and_then (show_samples (unat (capture_length (rp s))) buf) (\<lambda>out.
               and_then (free_cap s) (\<lambda>s.
                 Ret (puts [] @ puts ''************* RX capture data ***********'' @ out, s\<lparr>rx_cap_buf := None\<rparr>)))))"

subsection \<open>What every write does\<close>

text \<open>
  A relation that each function of the chain obeys holds between the states before and after
  a write. The functions are collected with the relation as a parameter, so that each
  property only looks at the functions themselves.
\<close>

definition obeys :: "(radio \<Rightarrow> radio \<Rightarrow> bool) \<Rightarrow> rt_handler \<Rightarrow> bool" where
  "obeys R h =
     (case h of
        Val f \<Rightarrow> (\<forall>v s r t. f v s = Ret (r, t) \<longrightarrow> R s t)
      | Sval f \<Rightarrow> (\<forall>v s r t. f v s = Ret (r, t) \<longrightarrow> R s t))"

lemma rt_chain_obeys:
  assumes "rt_chain kstrtoul kstrtol count line other tbl s = Ret (r, t)"
    and "list_all (\<lambda>(k, h). obeys R h) tbl" and "\<And>r t. other s = Ret (r, t) \<Longrightarrow> R s t"
  shows "R s t"
  using assms
proof (induction tbl)
  case (Cons kh tbl)
  then obtain key h where kh: "kh = (key, h)" "obeys R h" "list_all (\<lambda>(k, h). obeys R h) tbl" by (cases kh) auto
  show ?case
  proof (cases h)
    case (Val f)
    with Cons.prems(1) kh Cons.IH Cons.prems(3) show ?thesis
      by (auto simp: obeys_def and_then_eq_Ret simp del: param_get_val_eq split: if_splits)
  next
    case (Sval f)
    with Cons.prems(1) kh Cons.IH Cons.prems(3) show ?thesis
      by (auto simp: obeys_def and_then_eq_Ret split: if_splits)
  qed
qed simp

definition reg_obeys :: "(radio \<Rightarrow> radio \<Rightarrow> bool) \<Rightarrow> bool" where
  "reg_obeys R \<longleftrightarrow> (\<forall>s. R s s) \<and> (\<forall>v s. R s (snd (nrf_wifi_radio_test_set_bypass_reg v s)))
     \<and> (\<forall>e reg s. R s (snd (nrf_wifi_radio_test_set_reg_domain e reg s)))"

lemma rt_reg_obeys:
  assumes "rt_reg kstrtoul e count line s = Ret (r, t)" and "reg_obeys R"
  shows "R s t"
  using assms by (auto simp: rt_reg_def reg_obeys_def split: if_splits option.splits)

lemma rt_dispatch_obeys:
  assumes "rt_dispatch K kstrtoul kstrtol e count line s = Ret (r, t)"
    and "list_all (\<lambda>(k, h). obeys R h) (rt_table K e)" and "reg_obeys R"
    and "param_get_match line ''set_defaults'' \<Longrightarrow> R s (s\<lparr>rp := snd (nrf_wifi_radio_test_conf_init K e (rp s))\<rparr>)"
  shows "R s t"
proof (cases "param_get_match line ''set_defaults''")
  case False
  then have "rt_chain kstrtoul kstrtol count line (rt_reg kstrtoul e count line) (rt_table K e) s = Ret (r, t)"
    using assms(1) by (simp add: rt_dispatch_def)
  from rt_chain_obeys [OF this assms(2)] rt_reg_obeys [OF _ assms(3)] show ?thesis by blast
qed (use assms in \<open>simp add: rt_dispatch_def\<close>)

lemma rt_write_cases:
  assumes "nrf_wifi_wlan_fmac_radio_test_conf_write K kstrtoul kstrtol e alloc copy_ok input s = Ret (r, t)"
  obtains "t = s"
  | buf where "read_input alloc copy_ok input = Ret (Inr buf)"
      "rt_dispatch K kstrtoul kstrtol e (int (length input)) (cstr buf) s = Ret (r, t)"
proof -
  from assms obtain x where x: "read_input alloc copy_ok input = Ret x" and "(case x of Inl err \<Rightarrow> Ret (err, s)
      | Inr conf_buf \<Rightarrow> rt_dispatch K kstrtoul kstrtol e (int (length input)) (cstr conf_buf) s) = Ret (r, t)"
    by (auto simp: nrf_wifi_wlan_fmac_radio_test_conf_write_def and_then_eq_Ret)
  with that show thesis by (cases x) auto
qed

lemmas setter_defs = nrf_wifi_radio_test_set_phy_calib_rxdc_def nrf_wifi_radio_test_set_phy_calib_txdc_def
  nrf_wifi_radio_test_set_phy_calib_txpow_def nrf_wifi_radio_test_set_phy_calib_rxiq_def
  nrf_wifi_radio_test_set_phy_calib_txiq_def nrf_wifi_radio_test_set_he_ltf_def nrf_wifi_radio_test_set_he_gi_def
  nrf_wifi_radio_test_set_tx_pkt_tput_mode_def nrf_wifi_radio_test_set_tx_pkt_sgi_def
  nrf_wifi_radio_test_set_tx_pkt_preamble_def nrf_wifi_radio_test_set_tx_pkt_mcs_def
  nrf_wifi_radio_test_set_tx_pkt_rate_def nrf_wifi_radio_test_set_tx_pkt_gap_def
  nrf_wifi_radio_test_set_tx_pkt_num_def nrf_wifi_radio_test_set_tx_pkt_len_def
  nrf_wifi_radio_test_set_tx_power_def nrf_wifi_radio_test_set_ru_tone_def nrf_wifi_radio_test_set_ru_index_def
  nrf_wifi_radio_test_set_rx_capture_length_def nrf_wifi_radio_test_set_rx_lna_gain_def
  nrf_wifi_radio_test_set_rx_bb_gain_def nrf_wifi_radio_test_set_tx_tone_freq_def
  nrf_wifi_radio_test_set_tx_pkt_cw_def nrf_wifi_radio_test_set_bypass_reg_def unless_running_def upd_def set_flag_def

lemmas rf_test_defs = run_rf_test_def rf_begin_def rf_end_def rt_tell_def upd_def nrf_wifi_radio_set_dpd_def
  nrf_wifi_radio_set_xo_val_def nrf_wifi_radio_get_temperature_def nrf_wifi_radio_get_rf_rssi_def
  nrf_wifi_radio_comp_opt_xo_val_def nrf_wifi_radio_test_tx_tone_def

text \<open>The tone frequency: one of the two comparisons holds for every value, so none is accepted.\<close>

lemma tone_freq_never_set: "nrf_wifi_radio_test_set_tx_tone_freq val s = (-ENOEXEC, s)"
proof -
  have "val > 10 \<or> val < -10"
  proof (cases "val > 10")
    case False
    then have "unat val \<le> 10" by (simp add: not_less word_le_nat_alt)
    then show ?thesis by (simp add: word_less_nat_alt)
  qed simp
  then show ?thesis by (simp add: nrf_wifi_radio_test_set_tx_tone_freq_def)
qed

lemma cap_keeps:
  assumes "nrf_wifi_radio_test_rx_cap K e ty s = Ret (r, t)"
  shows "rp t = rp s"
  using assms
  by (auto simp: nrf_wifi_radio_test_rx_cap_def cap_fail_def free_cap_def and_then_eq_Ret rf_begin_def rf_end_def
      rt_tell_def Let_def split: if_splits option.splits)

end
