(* ===== verification/Radio_Runs.thy ===== *)
theory Radio_Runs
  imports Radio_Test
begin

text \<open>
  What holds of the radio test image in every run of its parameter file: ranges of the
  parameters, what a running test is protected against, agreement with the firmware, and the
  life of the capture buffer.
\<close>

subsection \<open>Ranges and exclusive tests\<close>

definition ru_tones :: "ulong list" where
  "ru_tones = [0, 26, 52, 106, 242]"

definition rt_ok :: "rt_consts \<Rightarrow> rt_params \<Rightarrow> bool" where
  "rt_ok K p \<longleftrightarrow> rt_tx p \<le> 1 \<and> rt_rx p \<le> 1 \<and> (rt_tx p = 0 \<or> rt_rx p = 0)
     \<and> he_ltf p \<le> 2 \<and> rt_he_gi p \<le> 2 \<and> tx_pkt_sgi p \<le> 1 \<and> tx_pkt_tput_mode p < MODE_MAX K
     \<and> tx_pkt_gap_us p \<le> 200000
     \<and> (rt_tx_power p \<le> MAX_TX_PWR_RADIO_TEST K \<or> rt_tx_power p = MAX_TX_PWR_SYS_TEST K)
     \<and> ru_tone p \<in> set ru_tones \<and> ru_index p \<le> 9
     \<and> capture_length p < 16384 \<and> lna_gain p \<le> 4 \<and> bb_gain p \<le> 31 \<and> tx_tone_freq p = 0
     \<and> tx_pkt_cw p \<in> set cw_values \<and> bypass_regulatory p \<le> 1"

definition keeps_ok :: "rt_consts \<Rightarrow> radio \<Rightarrow> radio \<Rightarrow> bool" where
  "keeps_ok K s t \<longleftrightarrow> (rt_ok K (rp s) \<longrightarrow> rt_ok K (rp t))"

lemma conf_init_ok: "0 < MODE_MAX K \<Longrightarrow> rt_ok K (snd (nrf_wifi_radio_test_conf_init K e p))"
  by (cases "rf_params_get e") (simp_all add: nrf_wifi_radio_test_conf_init_def zero_rt_def rt_ok_def Let_def
      ru_tones_def cw_values_def)

lemma stop_params:
  "rp (snd (stop_rx e s)) = (rp s)\<lparr>rt_rx := 0\<rparr>"
  "rp (snd (stop_tx e s)) = (rp s)\<lparr>rt_tx := 0\<rparr>"
  "rp (snd (stop_tone e s)) = rp s"
  by (simp_all add: stop_rx_def stop_tx_def stop_tone_def upd_def rt_tell_def rf_end_def Let_def)

lemma stop_tests_params:
  "rp (snd (stop_tests e s)) =
     (if fst (stop_rx e s) then (rp s)\<lparr>rt_rx := 0, rt_tx := 0\<rparr> else (rp s)\<lparr>rt_rx := 0\<rparr>)"
  unfolding stop_tests_def Let_def split_def
  by (simp only: stop_params if_distrib [of snd] if_distrib [of rp] snd_conv if_cancel if_not_P) simp

lemma stop_tests_started: "fst (stop_tests e s) \<Longrightarrow> fst (stop_rx e s)"
  unfolding stop_tests_def Let_def split_def by (simp split: if_splits)

lemma program_channel_params:
  "rp (snd (program_channel K e val s)) =
     (let (ok, p) = nrf_wifi_radio_test_conf_init K e (rp s) in if ok then p\<lparr>primary_num := val\<rparr> else p)"
  by (simp add: program_channel_def rt_tell_def Let_def split_def)

text \<open>How a channel selection ends: with the parameters as they are or stopped, or with the defaults.\<close>

lemma init_params:
  "rp (snd (nrf_wifi_radio_test_init K e val s)) =
     (let c = nrf_wifi_radio_test_conf_init K e (rp (snd (stop_tests e s))) in
      if \<not> check_valid_channel (ucast val) then rp s
      else if \<not> fst (stop_tests e s) then rp (snd (stop_tests e s))
      else if fst c then (snd c)\<lparr>primary_num := val\<rparr> else snd c)"
  unfolding nrf_wifi_radio_test_init_def Let_def split_def
  by (simp only: if_distrib [of snd] if_distrib [of rp] snd_conv program_channel_params Let_def split_def)

lemma set_tx_params:
  "rp (snd (nrf_wifi_radio_test_set_tx K e val s)) =
     (if val > 1 \<or> val = 1 \<and> (\<not> check_test_in_prog s
          \<or> check_channel_settings K (mode8 (rp s)) (primary_num (rp s)) (chan_bw (rp s)) \<noteq> 0) then rp s
      else (if val = 1 then set_ceiling K (rp s) else rp s)\<lparr>rt_tx := val\<rparr>)"
  by (auto simp: nrf_wifi_radio_test_set_tx_def Let_def upd_def rt_tell_def)

lemma set_rx_params:
  "rp (snd (nrf_wifi_radio_test_set_rx e val s)) =
     (if val > 1 \<or> val = 1 \<and> \<not> check_test_in_prog s then rp s else (rp s)\<lparr>rt_rx := val\<rparr>)"
  by (auto simp: nrf_wifi_radio_test_set_rx_def Let_def upd_def rt_tell_def)

lemma set_ceiling_rf:
  "\<exists>rf. set_ceiling K p = p\<lparr>rt_rf_params := rf\<rparr>"
proof (cases "rt_tx_power p \<noteq> MAX_TX_PWR_SYS_TEST K")
  case False
  then have "set_ceiling K p = p\<lparr>rt_rf_params := rt_rf_params p\<rparr>" by (simp add: set_ceiling_def)
  then show ?thesis ..
qed (auto simp: set_ceiling_def)

lemma rt_ok_updates:
  assumes "rt_ok K p"
  shows "v \<le> 2 \<Longrightarrow> rt_ok K (p\<lparr>he_ltf := v\<rparr>)" "v \<le> 2 \<Longrightarrow> rt_ok K (p\<lparr>rt_he_gi := v\<rparr>)"
    "v \<le> 1 \<Longrightarrow> rt_ok K (p\<lparr>tx_pkt_sgi := v\<rparr>)" "v < MODE_MAX K \<Longrightarrow> rt_ok K (p\<lparr>tx_pkt_tput_mode := v\<rparr>)"
    "v \<le> 200000 \<Longrightarrow> rt_ok K (p\<lparr>tx_pkt_gap_us := v\<rparr>)"
    "v \<le> MAX_TX_PWR_RADIO_TEST K \<or> v = MAX_TX_PWR_SYS_TEST K \<Longrightarrow> rt_ok K (p\<lparr>rt_tx_power := v\<rparr>)"
    "v \<in> set ru_tones \<Longrightarrow> rt_ok K (p\<lparr>ru_tone := v\<rparr>)" "v \<le> 9 \<Longrightarrow> rt_ok K (p\<lparr>ru_index := v\<rparr>)"
    "v < 16384 \<Longrightarrow> rt_ok K (p\<lparr>capture_length := v\<rparr>)" "v \<le> 4 \<Longrightarrow> rt_ok K (p\<lparr>lna_gain := v\<rparr>)"
    "v \<le> 31 \<Longrightarrow> rt_ok K (p\<lparr>bb_gain := v\<rparr>)" "v \<in> set cw_values \<Longrightarrow> rt_ok K (p\<lparr>tx_pkt_cw := v\<rparr>)"
    "v \<le> 1 \<Longrightarrow> rt_ok K (p\<lparr>bypass_regulatory := v\<rparr>)"
    "rt_ok K (p\<lparr>phy_calib := w\<rparr>)" "rt_ok K (p\<lparr>tx_pkt_preamble := v\<rparr>)" "rt_ok K (p\<lparr>tx_pkt_mcs := v\<rparr>)"
    "rt_ok K (p\<lparr>tx_pkt_rate := v\<rparr>)" "rt_ok K (p\<lparr>tx_pkt_num := v\<rparr>)" "rt_ok K (p\<lparr>tx_pkt_len := v\<rparr>)"
    "rt_ok K (p\<lparr>rt_rf_params := rf\<rparr>)" "rt_ok K (p\<lparr>country_code := cc\<rparr>)" "rt_ok K (p\<lparr>primary_num := v\<rparr>)"
    "v \<le> 1 \<Longrightarrow> v = 0 \<or> rt_rx p = 0 \<Longrightarrow> rt_ok K (p\<lparr>rt_tx := v\<rparr>)"
    "v \<le> 1 \<Longrightarrow> rt_tx p = 0 \<or> v = 0 \<Longrightarrow> rt_ok K (p\<lparr>rt_rx := v\<rparr>)"
  using assms by (simp_all add: rt_ok_def)

lemma init_ok: "0 < MODE_MAX K \<Longrightarrow> rt_ok K (rp s) \<Longrightarrow> rt_ok K (rp (snd (nrf_wifi_radio_test_init K e val s)))"
  unfolding init_params stop_tests_params Let_def by (simp add: conf_init_ok rt_ok_updates)

lemma le_one_zero: "(v :: ulong) \<le> 1 \<Longrightarrow> v \<noteq> 1 \<Longrightarrow> v = 0"
  by (metis le_less word_less_1)

lemma tone_values: "v \<in> set ru_tones \<longleftrightarrow> v = 0 \<or> v = 26 \<or> v = 52 \<or> v = 106 \<or> v = 242"
  by (auto simp: ru_tones_def)

lemma set_tx_ok: "rt_ok K (rp s) \<Longrightarrow> rt_ok K (rp (snd (nrf_wifi_radio_test_set_tx K e val s)))"
proof -
  assume ok: "rt_ok K (rp s)"
  obtain rf where rf: "set_ceiling K (rp s) = (rp s)\<lparr>rt_rf_params := rf\<rparr>" using set_ceiling_rf by blast
  from ok show ?thesis unfolding set_tx_params rf
    by (auto simp: check_test_in_prog_def not_less le_one_zero intro!: rt_ok_updates split: if_splits)
qed

lemma set_rx_ok: "rt_ok K (rp s) \<Longrightarrow> rt_ok K (rp (snd (nrf_wifi_radio_test_set_rx e val s)))"
  unfolding set_rx_params
  by (auto simp: check_test_in_prog_def not_less le_one_zero intro!: rt_ok_updates split: if_splits)

lemma ru_count_le: "ru_count tone \<le> 9"
  by (simp add: ru_count_def)

lemma set_ru_index_ok: "rt_ok K (rp s) \<Longrightarrow> rt_ok K (rp (snd (nrf_wifi_radio_test_set_ru_index val s)))"
  using order_trans [OF _ ru_count_le [of "ru_tone (rp s)"], of val]
  by (simp add: nrf_wifi_radio_test_set_ru_index_def unless_running_def upd_def rt_ok_updates not_less)

lemma obeys_pure:
  "obeys R (Val (\<lambda>v s. Ret (f v s))) \<longleftrightarrow> (\<forall>v s. R s (snd (f v s)))"
  "obeys R (Sval (\<lambda>v s. Ret (g v s))) \<longleftrightarrow> (\<forall>v s. R s (snd (g v s)))"
  unfolding obeys_def by (simp_all, (metis prod.collapse snd_conv)+)

lemma setters_ok:
  assumes "rt_ok K (rp s)"
  shows "rt_ok K (rp (snd (nrf_wifi_radio_test_set_phy_calib_rxdc K v s)))"
    "rt_ok K (rp (snd (nrf_wifi_radio_test_set_phy_calib_txdc K v s)))"
    "rt_ok K (rp (snd (nrf_wifi_radio_test_set_phy_calib_txpow K v s)))"
    "rt_ok K (rp (snd (nrf_wifi_radio_test_set_phy_calib_rxiq K v s)))"
    "rt_ok K (rp (snd (nrf_wifi_radio_test_set_phy_calib_txiq K v s)))"
    "rt_ok K (rp (snd (nrf_wifi_radio_test_set_he_ltf v s)))" "rt_ok K (rp (snd (nrf_wifi_radio_test_set_he_gi v s)))"
    "rt_ok K (rp (snd (nrf_wifi_radio_test_set_tx_pkt_tput_mode K v s)))"
    "rt_ok K (rp (snd (nrf_wifi_radio_test_set_tx_pkt_sgi v s)))"
    "rt_ok K (rp (snd (nrf_wifi_radio_test_set_tx_pkt_preamble K v s)))"
    "rt_ok K (rp (snd (nrf_wifi_radio_test_set_tx_pkt_mcs K v s)))"
    "rt_ok K (rp (snd (nrf_wifi_radio_test_set_tx_pkt_rate K v s)))"
    "rt_ok K (rp (snd (nrf_wifi_radio_test_set_tx_pkt_gap v s)))"
    "rt_ok K (rp (snd (nrf_wifi_radio_test_set_tx_pkt_num v s)))"
    "rt_ok K (rp (snd (nrf_wifi_radio_test_set_tx_pkt_len K v s)))"
    "rt_ok K (rp (snd (nrf_wifi_radio_test_set_tx_power K v s)))"
    "rt_ok K (rp (snd (nrf_wifi_radio_test_set_ru_tone v s)))"
    "rt_ok K (rp (snd (nrf_wifi_radio_test_set_rx_capture_length v s)))"
    "rt_ok K (rp (snd (nrf_wifi_radio_test_set_rx_lna_gain v s)))"
    "rt_ok K (rp (snd (nrf_wifi_radio_test_set_rx_bb_gain v s)))"
    "rt_ok K (rp (snd (nrf_wifi_radio_test_set_tx_tone_freq v s)))"
    "rt_ok K (rp (snd (nrf_wifi_radio_test_set_tx_pkt_cw v s)))"
    "rt_ok K (rp (snd (nrf_wifi_radio_test_set_bypass_reg v s)))"
    "rt_ok K (rp (snd (nrf_wifi_radio_test_set_reg_domain e reg s)))"
  unfolding tone_freq_never_set using assms
  by (simp_all add: setter_defs rt_ok_updates not_less not_le tone_values
      nrf_wifi_radio_test_set_reg_domain_def Let_def rt_tell_def)

lemma rf_tests_ok:
  assumes "rt_ok K (rp s)"
  shows "rt_ok K (rp (snd (nrf_wifi_radio_set_dpd e v s)))" "rt_ok K (rp (snd (nrf_wifi_radio_set_xo_val K e v s)))"
    "rt_ok K (rp (snd (nrf_wifi_radio_get_temperature e v s)))" "rt_ok K (rp (snd (nrf_wifi_radio_get_rf_rssi e v s)))"
    "rt_ok K (rp (snd (nrf_wifi_radio_comp_opt_xo_val e v s)))" "rt_ok K (rp (snd (nrf_wifi_radio_test_tx_tone e v s)))"
  using assms by (simp_all add: rf_test_defs rt_ok_updates Let_def)

lemma table_ok:
  assumes "0 < MODE_MAX K"
  shows "list_all (\<lambda>(k, h). obeys (keeps_ok K) h) (rt_table K e)"
proof -
  have "obeys (keeps_ok K) (Val (\<lambda>v s. nrf_wifi_radio_test_rx_cap K e v s))"
    by (auto simp: obeys_def keeps_ok_def dest: cap_keeps)
  then show ?thesis
    unfolding rt_table_def list.pred_inject prod.case obeys_pure
    by (simp add: keeps_ok_def setters_ok rf_tests_ok set_tx_ok set_rx_ok set_ru_index_ok init_ok [OF assms])
qed

text \<open>
  Runs of the file: writes with any contents and any behaviour of kernel and firmware, and
  reads of the capture. The context starts zeroed.
\<close>

definition rt_start :: "rt_consts \<times> radio \<Rightarrow> bool" where
  "rt_start = (\<lambda>(K, s). 0 < MODE_MAX K \<and> rp s = zero_rt K \<and> \<not> rf_test_run s \<and> rx_cap_buf s = None \<and> rt_cmds s = [])"

inductive rt_step :: "rt_consts \<times> radio \<Rightarrow> rt_consts \<times> radio \<Rightarrow> bool" where
  rt_write: "nrf_wifi_wlan_fmac_radio_test_conf_write K kstrtoul kstrtol e alloc copy_ok input s = Ret (r, t)
     \<Longrightarrow> rt_step (K, s) (K, t)"
| rt_read: "stats_show_capture s = Ret (out, t) \<Longrightarrow> rt_step (K, s) (K, t)"

definition rt_invar :: "rt_consts \<times> radio \<Rightarrow> bool" where
  "rt_invar = (\<lambda>(K, s). 0 < MODE_MAX K \<and> rt_ok K (rp s))"

lemma reg_ok: "reg_obeys (keeps_ok K)"
  by (simp add: reg_obeys_def keeps_ok_def setters_ok)

lemma write_ok:
  assumes "0 < MODE_MAX K"
    and "nrf_wifi_wlan_fmac_radio_test_conf_write K kstrtoul kstrtol e alloc copy_ok input s = Ret (r, t)"
  shows "keeps_ok K s t"
  using assms(2)
proof (cases rule: rt_write_cases)
  case (2 buf)
  from rt_dispatch_obeys [OF 2(2) table_ok [OF assms(1)] reg_ok] conf_init_ok [OF assms(1)]
  show ?thesis by (simp add: keeps_ok_def)
qed (simp add: keeps_ok_def)

lemma read_keeps: "stats_show_capture s = Ret (out, t) \<Longrightarrow> rp t = rp s"
  by (auto simp: stats_show_capture_def free_cap_def and_then_eq_Ret split: option.splits if_splits)

interpretation radio_file: invariant_system rt_start rt_step rt_invar
proof unfold_locales
  show "rt_start s \<Longrightarrow> rt_invar s" for s
    by (auto simp: rt_start_def rt_invar_def zero_rt_def rt_ok_def ru_tones_def cw_values_def)
  show "rt_invar s \<Longrightarrow> rt_step s t \<Longrightarrow> rt_invar t" for s t
    by (auto simp: rt_invar_def dest: read_keeps write_ok [unfolded keeps_ok_def] elim!: rt_step.cases)
qed


definition demo_rt :: rt_consts where
  "demo_rt = \<lparr>MODE_LEGACY = 0, MODE_HT = 1, MODE_VHT = 2, MODE_HE_SU = 3, MODE_HE_ER_SU = 4, MODE_HE_TB = 5, MODE_MAX = 6,
     CALIB_RXDC = 1, CALIB_TXDC = 2, CALIB_TXPOW = 4, CALIB_RXIQ = 8, CALIB_TXIQ = 16, DEF_PHY_CALIB = 31,
     PREAMBLE_SHORT = 0, PREAMBLE_LONG = 1, PREAMBLE_MIXED = 2, MAX_TX_PWR_RADIO_TEST = 24, MAX_TX_PWR_SYS_TEST = 30,
     CAP_RX_ADC = 0, CAP_RX_STAT_PKT = 1, CAP_RX_DYN_PKT = 2, CH_BW_20 = 0, OP_MODE_RADIO_TEST = 1,
     XO_FREQ_BYTE_OFFSET = 0, TX_PWR_CEIL_BYTE_OFFSET = 4, TX_PWR_CEIL_SIZE = 8, RF_PARAMS_SIZE = 200,
     COUNTRY_CODE_LEN = 2\<rparr>"

definition demo_rt_env :: rt_env where
  "demo_rt_env = \<lparr>accepts = (\<lambda>_. True), rf_params_get = Some (replicate 200 7), cap_alloc = Some 1, samples = id\<rparr>"

definition demo_radio :: radio where
  "demo_radio = \<lparr>rp = zero_rt demo_rt, rf_test_run = False, rf_test = RF_MAX, rx_cap_buf = None,
     cap_heap = (\<lambda>_. None), rt_cmds = []\<rparr>"

lemma demo_start: "rt_start (demo_rt, demo_radio)"
  by (simp add: rt_start_def demo_rt_def demo_radio_def)

lemma write_line:
  assumes "CHR 0x00 \<notin> set line" and "length line < 499"
  shows "nrf_wifi_wlan_fmac_radio_test_conf_write K kstrtoul kstrtol e True True (line @ [nl]) s
    = rt_dispatch K kstrtoul kstrtol e (int (length line) + 1) line s"
  using read_input_line [OF assms, of nl] by (auto simp: nrf_wifi_wlan_fmac_radio_test_conf_write_def add.commute)

lemmas demo_chain = rt_dispatch_def rt_table_def param_get_match_def param_get_val_def param_get_sval_def
  check_test_in_prog_def Let_def demo_radio_def demo_rt_env_def zero_rt_def upd_def rt_tell_def

lemma kstrtoul_one: "kstrtoul_dec ''1'' = Some 1"
  by (simp add: kstrtoul_dec_def)

lemma demo_write_rx:
  "\<exists>t. nrf_wifi_wlan_fmac_radio_test_conf_write demo_rt kstrtoul_dec kstrtoul_dec demo_rt_env True True (''rx=1'' @ [NL])
      demo_radio = Ret (5, t) \<and> rt_rx (rp t) = 1 \<and> rt_tx (rp t) = 0 \<and> rt_cmds t = [ProgRx (rp t)]"
  by (subst write_line) (simp_all add: demo_chain kstrtoul_one nrf_wifi_radio_test_set_rx_def del: param_get_val_eq)


subsection \<open>A running test\<close>

text \<open>
  The parameters a running test depends on: all but the HE guard interval and training field, the short
  guard interval, the country code, the radio parameters and the two switches.
\<close>

definition frozen :: "rt_params \<Rightarrow> rt_params" where
  "frozen p = p\<lparr>he_ltf := 0, rt_he_gi := 0, tx_pkt_sgi := 0, country_code := [], rt_rf_params := [], rt_tx := 0, rt_rx := 0\<rparr>"

definition keeps_frozen :: "radio \<Rightarrow> radio \<Rightarrow> bool" where
  "keeps_frozen s t \<longleftrightarrow> (\<not> check_test_in_prog s \<longrightarrow> check_test_in_prog t \<or> frozen (rp t) = frozen (rp s))"

lemma unless_running_frozen: "\<not> check_test_in_prog s \<Longrightarrow> unless_running err f s = (err, s)"
  by (simp add: unless_running_def)

lemma frozen_updates [simp]:
  "frozen (p\<lparr>he_ltf := v\<rparr>) = frozen p" "frozen (p\<lparr>rt_he_gi := v\<rparr>) = frozen p" "frozen (p\<lparr>tx_pkt_sgi := v\<rparr>) = frozen p"
  "frozen (p\<lparr>country_code := cc\<rparr>) = frozen p" "frozen (p\<lparr>rt_rf_params := rf\<rparr>) = frozen p"
  "frozen (p\<lparr>rt_tx := v\<rparr>) = frozen p" "frozen (p\<lparr>rt_rx := v\<rparr>) = frozen p"
  by (simp_all add: frozen_def)

lemma conf_init_stopped:
  "rt_tx (snd (nrf_wifi_radio_test_conf_init K e p)) = 0 \<and> rt_rx (snd (nrf_wifi_radio_test_conf_init K e p)) = 0"
  by (cases "rf_params_get e") (simp_all add: nrf_wifi_radio_test_conf_init_def zero_rt_def Let_def)

lemma init_frozen: "keeps_frozen s (snd (nrf_wifi_radio_test_init K e val s))"
  unfolding keeps_frozen_def check_test_in_prog_def init_params stop_tests_params Let_def
  by (simp add: conf_init_stopped)

lemma set_tx_frozen: "keeps_frozen s (snd (nrf_wifi_radio_test_set_tx K e val s))"
proof -
  obtain rf where rf: "set_ceiling K (rp s) = (rp s)\<lparr>rt_rf_params := rf\<rparr>" using set_ceiling_rf by blast
  show ?thesis unfolding keeps_frozen_def set_tx_params rf by simp
qed

lemma setters_frozen:
  assumes "\<not> check_test_in_prog s"
  shows "frozen (rp (snd (nrf_wifi_radio_test_set_phy_calib_rxdc K v s))) = frozen (rp s)"
    "frozen (rp (snd (nrf_wifi_radio_test_set_phy_calib_txdc K v s))) = frozen (rp s)"
    "frozen (rp (snd (nrf_wifi_radio_test_set_phy_calib_txpow K v s))) = frozen (rp s)"
    "frozen (rp (snd (nrf_wifi_radio_test_set_phy_calib_rxiq K v s))) = frozen (rp s)"
    "frozen (rp (snd (nrf_wifi_radio_test_set_phy_calib_txiq K v s))) = frozen (rp s)"
    "frozen (rp (snd (nrf_wifi_radio_test_set_he_ltf v s))) = frozen (rp s)"
    "frozen (rp (snd (nrf_wifi_radio_test_set_he_gi v s))) = frozen (rp s)"
    "frozen (rp (snd (nrf_wifi_radio_test_set_tx_pkt_tput_mode K v s))) = frozen (rp s)"
    "frozen (rp (snd (nrf_wifi_radio_test_set_tx_pkt_sgi v s))) = frozen (rp s)"
    "frozen (rp (snd (nrf_wifi_radio_test_set_tx_pkt_preamble K v s))) = frozen (rp s)"
    "frozen (rp (snd (nrf_wifi_radio_test_set_tx_pkt_mcs K v s))) = frozen (rp s)"
    "frozen (rp (snd (nrf_wifi_radio_test_set_tx_pkt_rate K v s))) = frozen (rp s)"
    "frozen (rp (snd (nrf_wifi_radio_test_set_tx_pkt_gap v s))) = frozen (rp s)"
    "frozen (rp (snd (nrf_wifi_radio_test_set_tx_pkt_num v s))) = frozen (rp s)"
    "frozen (rp (snd (nrf_wifi_radio_test_set_tx_pkt_len K v s))) = frozen (rp s)"
    "frozen (rp (snd (nrf_wifi_radio_test_set_tx_power K v s))) = frozen (rp s)"
    "frozen (rp (snd (nrf_wifi_radio_test_set_ru_tone v s))) = frozen (rp s)"
    "frozen (rp (snd (nrf_wifi_radio_test_set_ru_index v s))) = frozen (rp s)"
    "frozen (rp (snd (nrf_wifi_radio_test_set_rx_capture_length v s))) = frozen (rp s)"
    "frozen (rp (snd (nrf_wifi_radio_test_set_rx_lna_gain v s))) = frozen (rp s)"
    "frozen (rp (snd (nrf_wifi_radio_test_set_rx_bb_gain v s))) = frozen (rp s)"
    "frozen (rp (snd (nrf_wifi_radio_test_set_tx_tone_freq v s))) = frozen (rp s)"
    "frozen (rp (snd (nrf_wifi_radio_test_set_tx_pkt_cw v s))) = frozen (rp s)"
    "frozen (rp (snd (nrf_wifi_radio_test_set_bypass_reg v s))) = frozen (rp s)"
    "frozen (rp (snd (nrf_wifi_radio_test_set_reg_domain e reg s))) = frozen (rp s)"
  using assms
  by (simp_all add: setter_defs nrf_wifi_radio_test_set_reg_domain_def Let_def rt_tell_def)


lemma rf_tests_frozen:
  "frozen (rp (snd (nrf_wifi_radio_set_dpd e v s))) = frozen (rp s)"
  "frozen (rp (snd (nrf_wifi_radio_set_xo_val K e v s))) = frozen (rp s)"
  "frozen (rp (snd (nrf_wifi_radio_get_temperature e v s))) = frozen (rp s)"
  "frozen (rp (snd (nrf_wifi_radio_get_rf_rssi e v s))) = frozen (rp s)"
  "frozen (rp (snd (nrf_wifi_radio_comp_opt_xo_val e v s))) = frozen (rp s)"
  "frozen (rp (snd (nrf_wifi_radio_test_tx_tone e v s))) = frozen (rp s)"
  "frozen (rp (snd (nrf_wifi_radio_test_set_rx e v s))) = frozen (rp s)"
  by (simp_all add: rf_test_defs Let_def set_rx_params)

lemma table_frozen: "list_all (\<lambda>(k, h). obeys keeps_frozen h) (rt_table K e)"
proof -
  have "obeys keeps_frozen (Val (\<lambda>v s. nrf_wifi_radio_test_rx_cap K e v s))"
    by (auto simp: obeys_def keeps_frozen_def dest: cap_keeps)
  then show ?thesis
    unfolding rt_table_def list.pred_inject prod.case obeys_pure
    by (simp add: init_frozen set_tx_frozen) (simp add: keeps_frozen_def setters_frozen rf_tests_frozen)
qed

lemma reg_frozen: "reg_obeys keeps_frozen"
  by (simp add: reg_obeys_def keeps_frozen_def setters_frozen)

lemma write_frozen:
  assumes "nrf_wifi_wlan_fmac_radio_test_conf_write K kstrtoul kstrtol e alloc copy_ok input s = Ret (r, t)"
  shows "keeps_frozen s t"
  using assms
proof (cases rule: rt_write_cases)
  case (2 buf)
  have "check_test_in_prog (s\<lparr>rp := snd (nrf_wifi_radio_test_conf_init K e (rp s))\<rparr>)"
    using conf_init_stopped [of K e "rp s"] by (simp add: check_test_in_prog_def)
  with rt_dispatch_obeys [OF 2(2) table_frozen reg_frozen] show ?thesis by (simp add: keeps_frozen_def)
qed (simp add: keeps_frozen_def)


subsection \<open>Agreement with the firmware\<close>

text \<open>What the firmware was told last about transmission and reception.\<close>

definition heard :: "rt_cmd \<Rightarrow> ulong \<times> ulong \<Rightarrow> ulong \<times> ulong" where
  "heard c = (\<lambda>(tx, rx). case c of ProgTx p \<Rightarrow> (rt_tx p, rx) | ProgRx p \<Rightarrow> (tx, rt_rx p) | _ \<Rightarrow> (tx, rx))"

definition told :: "rt_cmd list \<Rightarrow> ulong \<times> ulong" where
  "told cs = fold heard cs (0, 0)"

definition switches :: "rt_params \<Rightarrow> ulong \<times> ulong" where
  "switches p = (rt_tx p, rt_rx p)"

definition keeps_sync :: "radio \<Rightarrow> radio \<Rightarrow> bool" where
  "keeps_sync s t \<longleftrightarrow> (told (rt_cmds s) = switches (rp s) \<longrightarrow> told (rt_cmds t) = switches (rp t))"

lemma told_snoc: "told (cs @ [c]) = heard c (told cs)"
  by (simp add: told_def)

lemma switches_eq: "x = switches p \<longleftrightarrow> fst x = rt_tx p \<and> snd x = rt_rx p"
  by (cases x) (simp add: switches_def)

text \<open>A function that leaves the switches alone and tells the firmware nothing about them.\<close>

definition quiet :: "radio \<Rightarrow> radio \<Rightarrow> bool" where
  "quiet s t \<longleftrightarrow> rt_tx (rp t) = rt_tx (rp s) \<and> rt_rx (rp t) = rt_rx (rp s) \<and> told (rt_cmds t) = told (rt_cmds s)"

lemma quiet_sync: "quiet s t \<Longrightarrow> keeps_sync s t"
  by (simp add: quiet_def keeps_sync_def switches_eq)

lemma setters_quiet:
  "quiet s (snd (nrf_wifi_radio_test_set_phy_calib_rxdc K v s))"
  "quiet s (snd (nrf_wifi_radio_test_set_phy_calib_txdc K v s))"
  "quiet s (snd (nrf_wifi_radio_test_set_phy_calib_txpow K v s))"
  "quiet s (snd (nrf_wifi_radio_test_set_phy_calib_rxiq K v s))"
  "quiet s (snd (nrf_wifi_radio_test_set_phy_calib_txiq K v s))"
  "quiet s (snd (nrf_wifi_radio_test_set_he_ltf v s))" "quiet s (snd (nrf_wifi_radio_test_set_he_gi v s))"
  "quiet s (snd (nrf_wifi_radio_test_set_tx_pkt_tput_mode K v s))" "quiet s (snd (nrf_wifi_radio_test_set_tx_pkt_sgi v s))"
  "quiet s (snd (nrf_wifi_radio_test_set_tx_pkt_preamble K v s))" "quiet s (snd (nrf_wifi_radio_test_set_tx_pkt_mcs K w s))"
  "quiet s (snd (nrf_wifi_radio_test_set_tx_pkt_rate K w s))" "quiet s (snd (nrf_wifi_radio_test_set_tx_pkt_gap v s))"
  "quiet s (snd (nrf_wifi_radio_test_set_tx_pkt_num w s))" "quiet s (snd (nrf_wifi_radio_test_set_tx_pkt_len K v s))"
  "quiet s (snd (nrf_wifi_radio_test_set_tx_power K v s))" "quiet s (snd (nrf_wifi_radio_test_set_ru_tone v s))"
  "quiet s (snd (nrf_wifi_radio_test_set_ru_index v s))" "quiet s (snd (nrf_wifi_radio_test_set_rx_capture_length v s))"
  "quiet s (snd (nrf_wifi_radio_test_set_rx_lna_gain v s))" "quiet s (snd (nrf_wifi_radio_test_set_rx_bb_gain v s))"
  "quiet s (snd (nrf_wifi_radio_test_set_tx_tone_freq v s))" "quiet s (snd (nrf_wifi_radio_test_set_tx_pkt_cw v s))"
  "quiet s (snd (nrf_wifi_radio_test_set_bypass_reg v s))" "quiet s (snd (nrf_wifi_radio_test_set_reg_domain e reg s))"
  unfolding tone_freq_never_set
  by (simp_all add: setter_defs nrf_wifi_radio_test_set_reg_domain_def Let_def rt_tell_def quiet_def told_snoc heard_def
      split_def)

lemma rf_tests_quiet:
  "quiet s (snd (nrf_wifi_radio_set_dpd e v s))" "quiet s (snd (nrf_wifi_radio_set_xo_val K e v s))"
  "quiet s (snd (nrf_wifi_radio_get_temperature e v s))" "quiet s (snd (nrf_wifi_radio_get_rf_rssi e v s))"
  "quiet s (snd (nrf_wifi_radio_comp_opt_xo_val e v s))" "quiet s (snd (nrf_wifi_radio_test_tx_tone e v s))"
  by (simp_all add: rf_test_defs Let_def quiet_def told_snoc heard_def split_def tone_cmd_def)

lemma cap_quiet: "nrf_wifi_radio_test_rx_cap K e ty s = Ret (r, t) \<Longrightarrow> quiet s t"
  by (auto simp: nrf_wifi_radio_test_rx_cap_def cap_fail_def free_cap_def and_then_eq_Ret rf_begin_def rf_end_def
      rt_tell_def Let_def quiet_def told_snoc heard_def split: if_splits option.splits)

lemma set_rx_sync: "keeps_sync s (snd (nrf_wifi_radio_test_set_rx e v s))"
  by (simp add: nrf_wifi_radio_test_set_rx_def upd_def rt_tell_def Let_def keeps_sync_def told_snoc heard_def split_def
      switches_def)

lemma set_tx_sync: "keeps_sync s (snd (nrf_wifi_radio_test_set_tx K e v s))"
proof -
  obtain rf where rf: "set_ceiling K (rp s) = (rp s)\<lparr>rt_rf_params := rf\<rparr>" using set_ceiling_rf by blast
  show ?thesis
    by (simp add: nrf_wifi_radio_test_set_tx_def upd_def rf rt_tell_def Let_def keeps_sync_def told_snoc heard_def
        split_def switches_def)
qed

lemma stop_sync:
  "keeps_sync s (snd (stop_rx e s))" "keeps_sync s (snd (stop_tx e s))" "keeps_sync s (snd (stop_tone e s))"
  by (simp_all add: stop_rx_def stop_tx_def stop_tone_def upd_def rt_tell_def rf_end_def Let_def keeps_sync_def told_snoc
      heard_def split_def switches_def tone_cmd_def)

lemma stop_tests_sync: "keeps_sync s (snd (stop_tests e s))"
  unfolding stop_tests_def Let_def split_def
  using stop_sync(1) [of s e] stop_sync(2) [of "snd (stop_rx e s)" e] stop_sync(3) [of "snd (stop_tx e (snd (stop_rx e s)))" e]
  by (auto simp: keeps_sync_def)

lemma stop_tests_stopped: "fst (stop_tests e s) \<Longrightarrow> switches (rp (snd (stop_tests e s))) = (0, 0)"
  using stop_tests_started [of e s] by (simp add: stop_tests_params switches_def)

lemma program_channel_told: "told (rt_cmds (snd (program_channel K e val s))) = told (rt_cmds s)"
  by (simp add: program_channel_def rt_tell_def Let_def split_def told_snoc heard_def)

lemma program_channel_stopped: "switches (rp (snd (program_channel K e val s))) = (0, 0)"
  unfolding program_channel_params Let_def split_def using conf_init_stopped [of K e "rp s"]
  by (simp add: switches_def)

lemma init_sync: "keeps_sync s (snd (nrf_wifi_radio_test_init K e v s))"
  unfolding nrf_wifi_radio_test_init_def Let_def split_def
  using stop_tests_sync [of s e] stop_tests_stopped [of e s]
  by (auto simp: keeps_sync_def program_channel_told program_channel_stopped)

lemma table_sync: "list_all (\<lambda>(k, h). obeys keeps_sync h) (rt_table K e)"
proof -
  have "obeys keeps_sync (Val (\<lambda>v s. nrf_wifi_radio_test_rx_cap K e v s))"
    by (auto simp: obeys_def dest: cap_quiet quiet_sync)
  then show ?thesis
    unfolding rt_table_def list.pred_inject prod.case obeys_pure
    by (simp add: init_sync set_tx_sync set_rx_sync setters_quiet rf_tests_quiet quiet_sync)
qed

lemma reg_sync: "reg_obeys keeps_sync"
  unfolding reg_obeys_def by (simp add: setters_quiet quiet_sync) (simp add: keeps_sync_def)


lemma dispatch_sync:
  assumes "nrf_wifi_wlan_fmac_radio_test_conf_write K kstrtoul kstrtol e alloc copy_ok input s = Ret (r, t)"
    and "\<not> (\<exists>buf. read_input alloc copy_ok input = Ret (Inr buf) \<and> param_get_match (cstr buf) ''set_defaults'')"
  shows "keeps_sync s t"
  using assms(1)
proof (cases rule: rt_write_cases)
  case (2 buf)
  with assms(2) have "\<not> param_get_match (cstr buf) ''set_defaults''" by auto
  with rt_dispatch_obeys [OF 2(2) table_sync reg_sync] show ?thesis by blast
qed (simp add: keeps_sync_def)

text \<open>
  C19. What the driver shows as running is what it told the firmware last. Every write keeps the two
  switches for transmission and reception in step with the commands, with one exception:
  restoring the defaults clears the switches without a command, so that a test that is running goes on in
  the firmware.
\<close>

theorem radio_firmware_in_sync:
  assumes "nrf_wifi_wlan_fmac_radio_test_conf_write K kstrtoul kstrtol e alloc copy_ok input s = Ret (r, t)"
    and "told (rt_cmds s) = switches (rp s)"
  shows "told (rt_cmds t) = switches (rp t)
    \<or> (\<exists>buf. read_input alloc copy_ok input = Ret (Inr buf) \<and> param_get_match (cstr buf) ''set_defaults'')
      \<and> rt_cmds t = rt_cmds s \<and> switches (rp t) = (0, 0)"
proof (cases "\<exists>buf. read_input alloc copy_ok input = Ret (Inr buf) \<and> param_get_match (cstr buf) ''set_defaults''")
  case True
  with assms(1) conf_init_stopped [of K e "rp s"] show ?thesis
    by (auto simp: nrf_wifi_wlan_fmac_radio_test_conf_write_def rt_dispatch_def switches_def)
next
  case False
  from dispatch_sync [OF assms(1) False] assms(2) show ?thesis by (simp add: keeps_sync_def)
qed

lemma demo_write_defaults:
  "\<exists>t. nrf_wifi_wlan_fmac_radio_test_conf_write K kstrtoul_dec kstrtoul_dec e True True (''set_defaults'' @ [nl]) s
      = Ret (13, t) \<and> rt_cmds t = rt_cmds s"
  by (subst write_line) (simp_all add: rt_dispatch_def param_get_match_def)

theorem radio_firmware_in_sync_witness:
  "\<exists>s t. nrf_wifi_wlan_fmac_radio_test_conf_write demo_rt kstrtoul_dec kstrtoul_dec demo_rt_env True True
      (''set_defaults'' @ [NL]) s = Ret (13, t) \<and> told (rt_cmds s) = (0, 1) \<and> switches (rp s) = (0, 1)
      \<and> told (rt_cmds t) = (0, 1) \<and> switches (rp t) = (0, 0)"
proof -
  from demo_write_rx obtain s
    where "nrf_wifi_wlan_fmac_radio_test_conf_write demo_rt kstrtoul_dec kstrtoul_dec demo_rt_env True True
        (''rx=1'' @ [NL]) demo_radio = Ret (5, s)" and rx: "rt_rx (rp s) = 1" "rt_tx (rp s) = 0"
      and told: "rt_cmds s = [ProgRx (rp s)]" by blast
  then have s: "told (rt_cmds s) = (0, 1)" "switches (rp s) = (0, 1)" by (simp_all add: told_def heard_def switches_def)
  from demo_write_defaults obtain t
    where t: "nrf_wifi_wlan_fmac_radio_test_conf_write demo_rt kstrtoul_dec kstrtoul_dec demo_rt_env True True
        (''set_defaults'' @ [NL]) s = Ret (13, t)" "rt_cmds t = rt_cmds s" by blast
  have "switches (rp t) = (0, 0)"
    using t(1) by (subst (asm) write_line) (use conf_init_stopped in \<open>auto simp: rt_dispatch_def param_get_match_def switches_def\<close>)
  with radio_firmware_in_sync [OF t(1)] s t show ?thesis by metis
qed

subsection \<open>One test at a time\<close>

definition keeps_tests :: "radio \<Rightarrow> radio \<Rightarrow> bool" where
  "keeps_tests s t \<longleftrightarrow> (\<not> check_test_in_prog s \<longrightarrow>
     (rt_tx (rp t) = 0 \<or> rt_tx (rp t) = rt_tx (rp s)) \<and> (rt_rx (rp t) = 0 \<or> rt_rx (rp t) = rt_rx (rp s)))"

lemma quiet_tests: "quiet s t \<Longrightarrow> keeps_tests s t"
  by (simp add: quiet_def keeps_tests_def)

lemma tests_switched:
  "keeps_tests s (snd (nrf_wifi_radio_test_set_rx e v s))" "keeps_tests s (snd (nrf_wifi_radio_test_set_tx K e v s))"
  "keeps_tests s (snd (nrf_wifi_radio_test_init K e v s))"
proof -
  have le: "v \<noteq> 1 \<Longrightarrow> \<not> v > 1 \<Longrightarrow> v = 0" by (rule le_one_zero) (simp_all add: not_less)
  show "keeps_tests s (snd (nrf_wifi_radio_test_set_rx e v s))" "keeps_tests s (snd (nrf_wifi_radio_test_set_tx K e v s))"
    using le by (auto simp: keeps_tests_def set_rx_params set_tx_params)
  show "keeps_tests s (snd (nrf_wifi_radio_test_init K e v s))"
    using conf_init_stopped [of K e] by (auto simp: keeps_tests_def init_params stop_tests_params Let_def)
qed

lemma table_tests: "list_all (\<lambda>(k, h). obeys keeps_tests h) (rt_table K e)"
proof -
  have "obeys keeps_tests (Val (\<lambda>v s. nrf_wifi_radio_test_rx_cap K e v s))"
    by (auto simp: obeys_def dest: cap_quiet quiet_tests)
  then show ?thesis
    unfolding rt_table_def list.pred_inject prod.case obeys_pure
    by (simp add: tests_switched setters_quiet rf_tests_quiet quiet_tests)
qed

lemma reg_tests: "reg_obeys keeps_tests"
  unfolding reg_obeys_def by (simp add: setters_quiet quiet_tests) (simp add: keeps_tests_def)

lemma write_tests:
  assumes "nrf_wifi_wlan_fmac_radio_test_conf_write K kstrtoul kstrtol e alloc copy_ok input s = Ret (r, t)"
  shows "keeps_tests s t"
  using assms
proof (cases rule: rt_write_cases)
  case (2 buf)
  with rt_dispatch_obeys [OF 2(2) table_tests reg_tests] conf_init_stopped [of K e "rp s"]
  show ?thesis by (simp add: keeps_tests_def)
qed (simp add: keeps_tests_def)



lemma zero_switches: "rt_tx (zero_rt K) = 0" "rt_rx (zero_rt K) = 0"
  by (simp_all add: zero_rt_def)



subsection \<open>Tests that fail\<close>

text \<open>
  A measurement that the firmware refuses stays marked as running, and then no channel can be
  selected, whatever the firmware answers.
\<close>

lemma refused_stays_marked:
  assumes "\<not> accepts e c"
  shows "run_rf_test e r c err f s = (err, (rt_tell c (rf_begin r s)))"
  using assms by (simp add: run_rf_test_def Let_def)

lemma marked_blocks_init:
  assumes "rf_test_run s" and "rf_test s \<noteq> RF_TX_TONE"
  shows "fst (nrf_wifi_radio_test_init K e val s) \<noteq> 0 \<and> rf_test_run (snd (nrf_wifi_radio_test_init K e val s))"
proof -
  have keep: "rf_test_run (snd (stop_rx e s)) = rf_test_run s" "rf_test (snd (stop_rx e s)) = rf_test s"
    "rf_test_run (snd (stop_tx e s)) = rf_test_run s" "rf_test (snd (stop_tx e s)) = rf_test s" for s
    by (simp_all add: stop_rx_def stop_tx_def upd_def rt_tell_def Let_def)
  then have "\<not> fst (stop_tests e s) \<and> rf_test_run (snd (stop_tests e s))"
    using assms by (simp add: stop_tests_def stop_tone_def split_def Let_def)
  with assms(1) show ?thesis by (simp add: nrf_wifi_radio_test_init_def split_def Let_def)
qed

lemma refused_temperature_blocks_init:
  assumes "\<not> accepts e GetTemp"
  shows "fst (nrf_wifi_radio_test_init K e' val (snd (nrf_wifi_radio_get_temperature e 0 s))) \<noteq> 0"
  using marked_blocks_init [of "snd (nrf_wifi_radio_get_temperature e 0 s)" K e' val] refused_stays_marked [OF assms]
  by (simp add: nrf_wifi_radio_get_temperature_def rt_tell_def rf_begin_def)

text \<open>A failed selection with unreadable radio parameters loses the country code.\<close>

lemma init_loses_country_code:
  "rf_params_get e = None \<Longrightarrow>
   country_code (snd (nrf_wifi_radio_test_conf_init K e p)) = replicate (COUNTRY_CODE_LEN K) (CHR 0x00)"
  by (simp add: nrf_wifi_radio_test_conf_init_def zero_rt_def Let_def)

text \<open>Channel 257 passes the check, which sees channel 1.\<close>

lemma init_checks_low_bits: "check_valid_channel (ucast (257 :: ulong))"
  by (simp add: check_valid_channel_def check_valid_chan_2g_def)

subsection \<open>The capture buffer\<close>

text \<open>One line per sample: its three bytes in hexadecimal, the highest first.\<close>

definition sample_line :: "u8 list \<Rightarrow> nat \<Rightarrow> string" where
  "sample_line buf i = hex2 (buf ! (3 * i + 2)) @ hex2 (buf ! (3 * i + 1)) @ hex2 (buf ! (3 * i)) @ [NL]"

lemma sample_line_Suc: "sample_line (b0 # b1 # b2 # buf) (Suc i) = sample_line buf i"
  by (simp add: sample_line_def)

lemma concat_upt_Suc: "concat (map f [0..<Suc n]) = f 0 @ concat (map (\<lambda>i. f (Suc i)) [0..<n])"
  by (simp add: upt_conv_Cons map_Suc_upt [symmetric] comp_def del: upt_Suc)

lemma show_samples_eq:
  "show_samples n buf =
     (if 3 * n \<le> length buf then Ret (concat (map (sample_line buf) [0..<n])) else UB OutOfBounds)"
proof (induction n buf rule: show_samples.induct)
  case (2 n b0 b1 b2 buf)
  then show ?case
    by (simp add: concat_upt_Suc sample_line_Suc del: upt_Suc) (simp add: sample_line_def)
qed simp_all

lemma cap_digit_inj: "m < 16 \<Longrightarrow> n < 16 \<Longrightarrow> cap_digit m = cap_digit n \<Longrightarrow> m = n"
  unfolding cap_digit_def by (subst (asm) nth_eq_iff_index_eq) auto

lemma hex2_inj: "hex2 b = hex2 c \<longleftrightarrow> b = c"
proof
  assume h: "hex2 b = hex2 c"
  have lim: "unat x div 16 < 16" for x :: u8
    by (rule less_mult_imp_div_less) (use unsigned_less [of x, where 'a = nat] in simp)
  with h have "unat b div 16 = unat c div 16" "unat b mod 16 = unat c mod 16"
    by (auto simp: hex2_def intro!: cap_digit_inj lim)
  then have "unat b = unat c" by (metis div_mult_mod_eq)
  then show "b = c" by (rule unsigned_word_eqI)
qed simp


lemma capture_size: "(n :: ulong) < 16384 \<Longrightarrow> unat (n * 3) = 3 * unat n"
proof -
  assume "n < 16384"
  then have "unat n < 16384" by (simp add: word_less_nat_alt)
  then show "unat (n * 3) = 3 * unat n" by (simp add: unat_word_ariths)
qed

lemma capture_taken:
  assumes "nrf_wifi_radio_test_rx_cap K e ty s = Ret (0, t)"
  obtains a where "rx_cap_buf t = Some a" and "capture_length (rp t) = capture_length (rp s)"
    and "cap_heap t a = Some (samples e (replicate (unat (capture_length (rp s) * 3)) 0))"
  using assms cap_keeps [OF assms]
  by (auto simp: nrf_wifi_radio_test_rx_cap_def cap_fail_def free_cap_def and_then_eq_Ret rf_begin_def rf_end_def
      rt_tell_def Let_def split: if_splits option.splits)

lemma freed_capture:
  assumes "free_cap s = Ret t" and "rx_cap_buf t = Some a"
  shows "cap_heap t a = None"
  using assms by (auto simp: free_cap_def split: option.splits if_splits)

lemma cap_fail_freed:
  assumes "cap_fail err s = Ret (r, t)" and "rx_cap_buf t = Some a"
  shows "cap_heap t a = None"
  using assms freed_capture by (auto simp: cap_fail_def and_then_eq_Ret)

lemma refused_capture_freed:
  assumes "nrf_wifi_radio_test_rx_cap K e ty s = Ret (r, t)" and "r \<noteq> 0" and "rx_cap_buf t = Some a"
  shows "cap_heap t a = None"
  using assms cap_fail_freed
  by (auto simp: nrf_wifi_radio_test_rx_cap_def and_then_eq_Ret Let_def split: if_splits option.splits)

lemma stale_capture_unsafe:
  assumes "rx_cap_buf s = Some a" and "cap_heap s a = None"
  shows "nrf_wifi_radio_test_rx_cap K e ty s = UB InvalidFree \<and> stats_show_capture s = UB UseAfterFree"
proof -
  have "free_cap s = UB InvalidFree" using assms by (simp add: free_cap_def)
  with assms show ?thesis by (simp add: nrf_wifi_radio_test_rx_cap_def cap_fail_def stats_show_capture_def)
qed

text \<open>Raising the capture length between the capture and the read leaves the buffer.\<close>

lemma longer_capture_overruns:
  assumes "rx_cap_buf s = Some a" and "cap_heap s a = Some buf" and "length buf < 3 * unat (capture_length (rp s))"
  shows "stats_show_capture s = UB OutOfBounds"
  using assms by (simp add: stats_show_capture_def show_samples_eq)

text \<open>
  C22. A successful capture is what the statistics file shows next: all its samples, one per line with the
  highest byte first. The read frees the buffer, and a second read shows nothing. After a capture
  that failed, for whatever reason, a buffer that was there is freed but still referenced: the next capture
  frees it again, and the next read uses it.
\<close>

theorem capture_shown_once:
  assumes "nrf_wifi_radio_test_rx_cap K e ty s = Ret (r, t)"
    and "capture_length (rp s) < 16384" and "\<And>b. length (samples e b) = length b"
  shows "if r = 0 then
      (let n = unat (capture_length (rp s)); got = samples e (replicate (3 * n) 0) in
       \<exists>a u. rx_cap_buf t = Some a
         \<and> stats_show_capture t =
            Ret (puts [] @ puts ''************* RX capture data ***********'' @ concat (map (sample_line got) [0..<n]), u)
         \<and> cap_heap u a = None \<and> stats_show_capture u = Ret ([], u))
    else rx_cap_buf t = None
      \<or> (\<forall>K e ty. nrf_wifi_radio_test_rx_cap K e ty t = UB InvalidFree) \<and> stats_show_capture t = UB UseAfterFree"
proof (cases "r = 0")
  case True
  from capture_taken [OF assms(1) [unfolded True]] obtain a
    where a: "rx_cap_buf t = Some a" "capture_length (rp t) = capture_length (rp s)"
      "cap_heap t a = Some (samples e (replicate (unat (capture_length (rp s) * 3)) 0))" .
  then have "\<exists>u. stats_show_capture t = Ret (puts [] @ puts ''************* RX capture data ***********'' @
      concat (map (sample_line (samples e (replicate (3 * unat (capture_length (rp s))) 0))) [0..<unat (capture_length (rp s))]), u)
      \<and> cap_heap u a = None \<and> rx_cap_buf u = None"
    by (simp add: stats_show_capture_def free_cap_def show_samples_eq capture_size [OF assms(2)] assms(3))
  with a(1) True show ?thesis by (auto simp: Let_def stats_show_capture_def [of u for u])
next
  case False
  with refused_capture_freed [OF assms(1)] stale_capture_unsafe [of t] show ?thesis by (cases "rx_cap_buf t") auto
qed


theorem capture_shown_once_witness:
  "\<exists>t u. nrf_wifi_radio_test_rx_cap demo_rt (demo_rt_env\<lparr>samples := map (\<lambda>_. 0xAB)\<rparr>) 0
      (demo_radio\<lparr>rp := (zero_rt demo_rt)\<lparr>capture_length := 1\<rparr>\<rparr>) = Ret (0, t)
    \<and> stats_show_capture t = Ret (puts [] @ puts ''************* RX capture data ***********'' @ puts ''ABABAB'', u)
    \<and> stats_show_capture u = Ret ([], u)"
proof -
  let ?e = "demo_rt_env\<lparr>samples := map (\<lambda>_. 0xAB)\<rparr>"
  let ?s = "demo_radio\<lparr>rp := (zero_rt demo_rt)\<lparr>capture_length := 1\<rparr>\<rparr>"
  have "\<exists>t. nrf_wifi_radio_test_rx_cap demo_rt ?e 0 ?s = Ret (0, t)"
    by (simp add: nrf_wifi_radio_test_rx_cap_def demo_rt_def demo_rt_env_def demo_radio_def zero_rt_def
        check_test_in_prog_def free_cap_def Let_def)
  then obtain t where t: "nrf_wifi_radio_test_rx_cap demo_rt ?e 0 ?s = Ret (0, t)" ..
  have row: "sample_line (replicate 3 0xAB) 0 = puts ''ABABAB''"
    by (simp add: sample_line_def hex2_def cap_digit_def puts_def numeral_3_eq_3)
  from capture_shown_once [OF t] show ?thesis
    using t by (auto simp: Let_def row)
qed

end
