(* ===== verification/Radio_Files.thy ===== *)
theory Radio_Files
  imports Radio_Runs
begin

text \<open>
  The files of the radio test image: what its parameter file shows, how a written line finds its
  function and is shown afterwards, and the directory with its two files.
\<close>

subsection \<open>Showing the parameters\<close>

text \<open>
  The offset of the crystal value and the two letters of the country code have to lie in
  their arrays.
\<close>

definition show_field :: "string \<times> int \<Rightarrow> string" where
  "show_field r = (case r of (name, v) \<Rightarrow> name @ '' = '' @ show_int v @ [NL])"

definition calib_bit :: "u32 \<Rightarrow> rt_params \<Rightarrow> int" where
  "calib_bit flag p = (if phy_calib p AND flag \<noteq> 0 then 1 else 0)"

definition rt_head :: "rt_consts \<Rightarrow> rt_params \<Rightarrow> (string \<times> int) list" where
  "rt_head K p =
    [(''phy_calib_rxdc'', calib_bit (CALIB_RXDC K) p), (''phy_calib_txdc'', calib_bit (CALIB_TXDC K) p),
     (''phy_calib_txpow'', calib_bit (CALIB_TXPOW K) p), (''phy_calib_rxiq'', calib_bit (CALIB_RXIQ K) p),
     (''phy_calib_txiq'', calib_bit (CALIB_TXIQ K) p),
     (''he_ltf'', show_d (he_ltf p)), (''he_gi'', show_d (rt_he_gi p)),
     (''tx_pkt_tput_mode'', show_d (tx_pkt_tput_mode p)), (''tx_pkt_sgi'', show_d (tx_pkt_sgi p)),
     (''tx_pkt_preamble'', show_d (tx_pkt_preamble p)), (''tx_pkt_mcs'', show_d (tx_pkt_mcs p))]"

definition rt_tail :: "rt_consts \<Rightarrow> rt_params \<Rightarrow> (string \<times> int) list" where
  "rt_tail K p =
    [(''tx_pkt_gap'', show_d (tx_pkt_gap_us p)), (''tx_pkt_num'', show_d (tx_pkt_num p)),
     (''tx_pkt_len'', show_d (tx_pkt_len p)), (''tx_power'', show_d (rt_tx_power p)),
     (''ru_tone'', show_d (ru_tone p)), (''ru_index'', show_d (ru_index p)),
     (''rx_capture_length'', show_d (capture_length p)), (''rx_lna_gain'', show_d (lna_gain p)),
     (''rx_bb_gain'', show_d (bb_gain p)), (''tx_tone_freq'', show_d (tx_tone_freq p)),
     (''xo_val'', uint (rt_rf_params p ! XO_FREQ_BYTE_OFFSET K)), (''init'', show_d (primary_num p)),
     (''tx'', show_d (rt_tx p)), (''rx'', show_d (rt_rx p)), (''tx_pkt_cw'', show_d (tx_pkt_cw p))]"

definition rate_line :: "rt_params \<Rightarrow> string" where
  "rate_line p =
     (if tx_pkt_rate p = 5 then puts ''tx_pkt_rate = 5.5'' else show_field (''tx_pkt_rate'', show_d (tx_pkt_rate p)))"

definition reg_lines :: "rt_params \<Rightarrow> string" where
  "reg_lines p = puts (''reg_domain = '' @ [country_code p ! 0, country_code p ! 1])
     @ show_field (''bypass_reg_domain'', show_d (bypass_regulatory p))"

definition nrf_wifi_wlan_fmac_radio_test_conf_disp :: "rt_consts \<Rightarrow> rt_params \<Rightarrow> (int \<times> string) outcome" where
  "nrf_wifi_wlan_fmac_radio_test_conf_disp K p =
     (if XO_FREQ_BYTE_OFFSET K \<ge> length (rt_rf_params p) \<or> length (country_code p) < 2 then UB OutOfBounds
      else Ret (0, puts ''************* Configured Parameters ***********''
        @ concat (map show_field (rt_head K p)) @ rate_line p @ concat (map show_field (rt_tail K p)) @ reg_lines p))"

text \<open>
  Opening the file makes its device the one that is shown, and the one whose running test the checks of
  the write handler look at; the model has one device, so that it is also the one written to.
\<close>

definition nrf_wifi_wlan_fmac_radio_test_conf_open :: "'dev \<Rightarrow> 'dev option \<Rightarrow> 'dev option" where
  "nrf_wifi_wlan_fmac_radio_test_conf_open i_private ctx = Some i_private"

definition radio_conf_read :: "rt_consts \<Rightarrow> ('dev \<Rightarrow> rt_params) \<Rightarrow> 'dev option \<Rightarrow> (int \<times> string) outcome" where
  "radio_conf_read K params_of ctx =
     (case ctx of None \<Rightarrow> UB NullDeref | Some dev \<Rightarrow> nrf_wifi_wlan_fmac_radio_test_conf_disp K (params_of dev))"

lemma radio_read_last_opened:
  "radio_conf_read K params_of (nrf_wifi_wlan_fmac_radio_test_conf_open dev2
     (nrf_wifi_wlan_fmac_radio_test_conf_open dev1 ctx)) = nrf_wifi_wlan_fmac_radio_test_conf_disp K (params_of dev2)"
  by (simp add: radio_conf_read_def nrf_wifi_wlan_fmac_radio_test_conf_open_def)

text \<open>Reading the text gives the values under their names; the last two lines are kept as they are.\<close>

definition shown :: "rt_consts \<Rightarrow> rt_params \<Rightarrow> (string \<times> int) list" where
  "shown K p = rt_head K p @ (''tx_pkt_rate'', show_d (tx_pkt_rate p)) # rt_tail K p @ read_text (reg_lines p)"

definition good_name :: "string \<Rightarrow> bool" where
  "good_name name \<longleftrightarrow> good_row (name @ '' = '', name, []) \<and> label_of (name @ '' = '') = name"

lemma read_field: "good_name name \<Longrightarrow> read_text (show_field (name, v) @ rest) = (name, v) # read_text rest"
  using read_row [of "name @ '' = ''" name "[]" "\<lambda>_. v" rest]
  by (simp add: show_field_def show_row_def good_name_def)

lemma read_fields:
  "list_all (\<lambda>(name, v). good_name name) fs \<Longrightarrow> read_text (concat (map show_field fs) @ rest) = fs @ read_text rest"
  by (induction fs) (auto simp: read_field)

lemma rt_names:
  "list_all good_name [''phy_calib_rxdc'', ''phy_calib_txdc'', ''phy_calib_txpow'', ''phy_calib_rxiq'', ''phy_calib_txiq'',
     ''he_ltf'', ''he_gi'', ''tx_pkt_tput_mode'', ''tx_pkt_sgi'', ''tx_pkt_preamble'', ''tx_pkt_mcs'']"
  "list_all good_name [''tx_pkt_gap'', ''tx_pkt_num'', ''tx_pkt_len'', ''tx_power'', ''ru_tone'', ''ru_index'',
     ''rx_capture_length'', ''rx_lna_gain'', ''rx_bb_gain'', ''tx_tone_freq'', ''xo_val'', ''init'', ''tx'', ''rx'', ''tx_pkt_cw'']"
  "good_name ''tx_pkt_rate''" "plain_line ''************* Configured Parameters ***********''"
  by code_simp+

lemma rt_fields_good:
  "list_all (\<lambda>(name, v). good_name name) (rt_head K p)" "list_all (\<lambda>(name, v). good_name name) (rt_tail K p)"
  using rt_names(1,2) by (simp_all add: rt_head_def rt_tail_def)

lemma read_rate: "read_text (rate_line p @ rest) = (''tx_pkt_rate'', show_d (tx_pkt_rate p)) # read_text rest"
proof (cases "tx_pkt_rate p = 5")
  case True
  have "good_row (''tx_pkt_rate = '', ''tx_pkt_rate'', ''.5'')" "label_of ''tx_pkt_rate = '' = ''tx_pkt_rate''" by code_simp+
  with read_row [of "''tx_pkt_rate = ''" "''tx_pkt_rate''" "''.5''" "\<lambda>_. 5" rest]
  have "read_text (show_row (\<lambda>_. 5) (''tx_pkt_rate = '', ''tx_pkt_rate'', ''.5'') @ rest) = (''tx_pkt_rate'', 5) # read_text rest"
    by simp
  moreover have "show_row (\<lambda>_. 5) (''tx_pkt_rate = '', ''tx_pkt_rate'', ''.5'') = puts ''tx_pkt_rate = 5.5''" by code_simp
  moreover have "show_d 5 = 5" by (simp add: show_d_small)
  ultimately show ?thesis using True by (simp add: rate_line_def)
qed (simp add: rate_line_def read_field rt_names(3))

lemma disp_read:
  assumes "nrf_wifi_wlan_fmac_radio_test_conf_disp K p = Ret (r, out)"
  shows "read_text out = shown K p"
  using assms unfolding nrf_wifi_wlan_fmac_radio_test_conf_disp_def
  by (auto simp: read_plain [OF rt_names(4)] read_fields [OF rt_fields_good(1)] read_fields [OF rt_fields_good(2)]
      read_rate shown_def split: if_splits)


subsection \<open>From a line to its function\<close>

lemma sval_same: "param_get_sval kstrtol buf str sval = param_get_val kstrtol buf str sval"
  by (simp add: param_get_sval_def param_get_val_def)

definition entry_for :: "string \<Rightarrow> string \<times> rt_handler \<Rightarrow> bool" where
  "entry_for name kh \<longleftrightarrow> suffix (butlast (fst kh)) name"

definition run_handler :: "rt_handler \<Rightarrow> ulong \<Rightarrow> radio \<Rightarrow> (int \<times> radio) outcome" where
  "run_handler h v s = (case h of Val f \<Rightarrow> f v s | Sval f \<Rightarrow> f v s)"

definition good_key :: "string \<Rightarrow> bool" where
  "good_key k \<longleftrightarrow> k = butlast k @ [CHR ''=''] \<and> CHR ''='' \<notin> set (butlast k)"

lemma good_keys: "list_all (\<lambda>(k, h). good_key k) (rt_table K e)"
  by (simp add: rt_table_def good_key_def)

lemma chain_line:
  assumes "CHR ''='' \<notin> set name" and "CHR ''='' \<notin> set v" and "kstrtoul v = Some val" and "kstrtol v = Some val"
    and "list_all (\<lambda>(k, h). good_key k) tbl"
  shows "rt_chain kstrtoul kstrtol count (name @ CHR ''='' # v) other tbl s =
    (case find (entry_for name) tbl of
       None \<Rightarrow> other s
     | Some (k, h) \<Rightarrow> and_then (run_handler h val s) (\<lambda>(_, t). Ret (count, t)))"
  using assms(5)
proof (induction tbl)
  case (Cons kh tbl)
  obtain k h where kh: "kh = (k, h)" by (cases kh)
  with Cons.prems have k: "k = butlast k @ [CHR ''='']" "CHR ''='' \<notin> set (butlast k)" and tbl: "list_all (\<lambda>(k, h). good_key k) tbl"
    by (auto simp: good_key_def)
  have eq: "CHR ''='' \<in> set k" by (subst k(1)) simp
  have parse: "param_parse f (name @ CHR ''='' # v) k = (if entry_for name kh then f v else None)" for f
    using param_parse_line [OF k(2) assms(1,2), of f] by (simp add: k(1) [symmetric] entry_for_def kh)
  show ?case
    using Cons.IH [OF tbl] assms(3,4)
    by (cases h) (simp_all add: kh sval_same parse eq run_handler_def parse [unfolded kh])
qed simp

text \<open>Parameters with a function that only stores them.\<close>

definition plain_setters :: "rt_consts \<Rightarrow> (string \<times> (ulong \<Rightarrow> radio \<Rightarrow> int \<times> radio)) list" where
  "plain_setters K =
    [(''he_ltf'', nrf_wifi_radio_test_set_he_ltf), (''he_gi'', nrf_wifi_radio_test_set_he_gi),
     (''tx_pkt_tput_mode'', nrf_wifi_radio_test_set_tx_pkt_tput_mode K), (''tx_pkt_sgi'', nrf_wifi_radio_test_set_tx_pkt_sgi),
     (''tx_pkt_preamble'', nrf_wifi_radio_test_set_tx_pkt_preamble K), (''tx_pkt_mcs'', nrf_wifi_radio_test_set_tx_pkt_mcs K),
     (''tx_pkt_rate'', nrf_wifi_radio_test_set_tx_pkt_rate K), (''tx_pkt_gap'', nrf_wifi_radio_test_set_tx_pkt_gap),
     (''tx_pkt_num'', nrf_wifi_radio_test_set_tx_pkt_num), (''tx_pkt_len'', nrf_wifi_radio_test_set_tx_pkt_len K),
     (''tx_power'', nrf_wifi_radio_test_set_tx_power K), (''ru_tone'', nrf_wifi_radio_test_set_ru_tone),
     (''ru_index'', nrf_wifi_radio_test_set_ru_index), (''rx_capture_length'', nrf_wifi_radio_test_set_rx_capture_length),
     (''rx_lna_gain'', nrf_wifi_radio_test_set_rx_lna_gain), (''rx_bb_gain'', nrf_wifi_radio_test_set_rx_bb_gain),
     (''tx_pkt_cw'', nrf_wifi_radio_test_set_tx_pkt_cw)]"

definition rt_keys :: "string list" where
  "rt_keys =
    [''phy_calib_rxdc='', ''phy_calib_txdc='', ''phy_calib_txpow='', ''phy_calib_rxiq='',
     ''phy_calib_txiq='', ''he_ltf='', ''he_gi='', ''tx_pkt_tput_mode='', ''tx_pkt_sgi='',
     ''tx_pkt_preamble='', ''tx_pkt_mcs='', ''tx_pkt_rate='', ''tx_pkt_gap='', ''tx_pkt_num='',
     ''tx_pkt_len='', ''tx_pkt_len='', ''tx_power='', ''ru_tone='', ''ru_index='',
     ''rx_capture_length='', ''rx_lna_gain='', ''rx_bb_gain='', ''tx_tone_freq='', ''dpd='',
     ''set_xo_val='', ''init='', ''tx='', ''rx='', ''rx_cap='', ''tx_tone='', ''get_temperature='',
     ''get_rf_rssi='', ''compute_optimal_xo_val='', ''tx_pkt_cw='']"

definition plain_index :: "(string \<times> nat) list" where
  "plain_index =
    [(''he_ltf'', 5), (''he_gi'', 6), (''tx_pkt_tput_mode'', 7), (''tx_pkt_sgi'', 8),
     (''tx_pkt_preamble'', 9), (''tx_pkt_mcs'', 10), (''tx_pkt_rate'', 11), (''tx_pkt_gap'', 12),
     (''tx_pkt_num'', 13), (''tx_pkt_len'', 14), (''tx_power'', 16), (''ru_tone'', 17), (''ru_index'',
     18), (''rx_capture_length'', 19), (''rx_lna_gain'', 20), (''rx_bb_gain'', 21), (''tx_pkt_cw'', 33)]"

lemma table_keys: "map fst (rt_table K e) = rt_keys"
  by (simp add: rt_table_def rt_keys_def)

text \<open>The first name of the chain that a parameter ends with is its own.\<close>

definition own_key :: "string \<times> nat \<Rightarrow> bool" where
  "own_key r = (case r of (name, i) \<Rightarrow> i < length rt_keys \<and> suffix (butlast (rt_keys ! i)) name
     \<and> list_all (\<lambda>k. \<not> suffix (butlast k) name) (take i rt_keys))"

lemma own_keys: "list_all own_key plain_index"
  by code_simp

lemma own_key_find:
  assumes "own_key (name, i)"
  shows "find (entry_for name) (rt_table K e) = Some (rt_table K e ! i)"
proof -
  have key: "fst (rt_table K e ! j) = rt_keys ! j" if "j < length (rt_table K e)" for j
    using that by (simp add: table_keys [of K e, symmetric])
  have len: "length (rt_table K e) = length rt_keys" by (simp add: table_keys [of K e, symmetric])
  have "\<not> suffix (butlast (rt_keys ! j)) name" if "j < i" for j
    using assms that by (auto simp: own_key_def list_all_length)
  with assms key len show ?thesis unfolding find_Some_iff
    by (intro exI [of _ i]) (auto simp: own_key_def entry_for_def)
qed

lemma plain_entries:
  "list_all2 (\<lambda>(n, h) (m, i). n = m \<and> (\<forall>v s. run_handler (snd (rt_table K e ! i)) v s = Ret (h v s)))
     (plain_setters K) plain_index"
  by (simp add: plain_setters_def plain_index_def rt_table_def run_handler_def)

lemma list_all2_partner: "list_all2 P xs ys \<Longrightarrow> x \<in> set xs \<Longrightarrow> \<exists>y \<in> set ys. P x y"
  by (induction rule: list_all2_induct) auto

lemma plain_routes:
  assumes "(name, h) \<in> set (plain_setters K)"
  shows "\<exists>k g. find (entry_for name) (rt_table K e) = Some (k, g) \<and> (\<forall>v s. run_handler g v s = Ret (h v s))"
proof -
  from list_all2_partner [OF plain_entries [of K e] assms] obtain i
    where i: "(name, i) \<in> set plain_index" "\<forall>v s. run_handler (snd (rt_table K e ! i)) v s = Ret (h v s)"
    by auto
  then have "own_key (name, i)" using own_keys by (auto simp: list_all_iff)
  from own_key_find [OF this, of K e] i(2) show ?thesis by (metis prod.collapse)
qed

lemma plain_names:
  assumes "(name, h) \<in> set (plain_setters K)"
  shows "name \<in> fst ` set plain_index"
proof -
  have "map fst (plain_setters K) = map fst plain_index" by (simp add: plain_setters_def plain_index_def)
  then have "fst ` set (plain_setters K) = fst ` set plain_index" by (metis set_map)
  with assms show ?thesis by force
qed

definition name_ok :: "string \<Rightarrow> bool" where
  "name_ok name \<longleftrightarrow> CHR ''='' \<notin> set name \<and> CHR 0x00 \<notin> set name \<and> length name < 20 \<and> \<not> sublist ''set_defaults'' name"

lemma names_ok: "list_all (\<lambda>(name, i). name_ok name) plain_index"
  by code_simp

definition param_lines :: "rt_consts \<Rightarrow> rt_params \<Rightarrow> (string \<times> int) list" where
  "param_lines K p = rt_head K p @ (''tx_pkt_rate'', show_d (tx_pkt_rate p)) # rt_tail K p"

definition stored :: "rt_consts \<Rightarrow> string \<Rightarrow> ulong \<Rightarrow> rt_params \<Rightarrow> rt_params \<Rightarrow> bool" where
  "stored K name v p q \<longleftrightarrow> rt_rf_params q = rt_rf_params p \<and> country_code q = country_code p
     \<and> reg_lines q = reg_lines p \<and> name \<in> set (map fst (param_lines K p))
     \<and> param_lines K q = map (\<lambda>(n, w). (n, if n = name then show_d v else w)) (param_lines K p)"

lemma stored_fields:
  shows "stored K ''he_ltf'' v p (p\<lparr>he_ltf := v\<rparr>)"
    "stored K ''he_gi'' v p (p\<lparr>rt_he_gi := v\<rparr>)"
    "stored K ''tx_pkt_tput_mode'' v p (p\<lparr>tx_pkt_tput_mode := v\<rparr>)"
    "stored K ''tx_pkt_sgi'' v p (p\<lparr>tx_pkt_sgi := v\<rparr>)"
    "stored K ''tx_pkt_preamble'' v p (p\<lparr>tx_pkt_preamble := v\<rparr>)"
    "stored K ''tx_pkt_mcs'' v p (p\<lparr>tx_pkt_mcs := v\<rparr>)"
    "stored K ''tx_pkt_rate'' v p (p\<lparr>tx_pkt_rate := v\<rparr>)"
    "stored K ''tx_pkt_gap'' v p (p\<lparr>tx_pkt_gap_us := v\<rparr>)"
    "stored K ''tx_pkt_num'' v p (p\<lparr>tx_pkt_num := v\<rparr>)"
    "stored K ''tx_pkt_len'' v p (p\<lparr>tx_pkt_len := v\<rparr>)"
    "stored K ''tx_power'' v p (p\<lparr>rt_tx_power := v\<rparr>)"
    "stored K ''ru_tone'' v p (p\<lparr>ru_tone := v\<rparr>)"
    "stored K ''ru_index'' v p (p\<lparr>ru_index := v\<rparr>)"
    "stored K ''rx_capture_length'' v p (p\<lparr>capture_length := v\<rparr>)"
    "stored K ''rx_lna_gain'' v p (p\<lparr>lna_gain := v\<rparr>)"
    "stored K ''rx_bb_gain'' v p (p\<lparr>bb_gain := v\<rparr>)"
    "stored K ''tx_pkt_cw'' v p (p\<lparr>tx_pkt_cw := v\<rparr>)"
  by (simp_all add: stored_def param_lines_def rt_head_def rt_tail_def reg_lines_def calib_bit_def)

lemma plain_effects:
  shows "nrf_wifi_radio_test_set_he_ltf v s = (0, t) \<Longrightarrow> rp t = (rp s)\<lparr>he_ltf := v\<rparr>"
    "nrf_wifi_radio_test_set_he_gi v s = (0, t) \<Longrightarrow> rp t = (rp s)\<lparr>rt_he_gi := v\<rparr>"
    "nrf_wifi_radio_test_set_tx_pkt_tput_mode K v s = (0, t) \<Longrightarrow> rp t = (rp s)\<lparr>tx_pkt_tput_mode := v\<rparr>"
    "nrf_wifi_radio_test_set_tx_pkt_sgi v s = (0, t) \<Longrightarrow> rp t = (rp s)\<lparr>tx_pkt_sgi := v\<rparr>"
    "nrf_wifi_radio_test_set_tx_pkt_preamble K v s = (0, t) \<Longrightarrow> rp t = (rp s)\<lparr>tx_pkt_preamble := v\<rparr>"
    "nrf_wifi_radio_test_set_tx_pkt_mcs K v s = (0, t) \<Longrightarrow> rp t = (rp s)\<lparr>tx_pkt_mcs := v\<rparr>"
    "nrf_wifi_radio_test_set_tx_pkt_rate K v s = (0, t) \<Longrightarrow> rp t = (rp s)\<lparr>tx_pkt_rate := v\<rparr>"
    "nrf_wifi_radio_test_set_tx_pkt_gap v s = (0, t) \<Longrightarrow> rp t = (rp s)\<lparr>tx_pkt_gap_us := v\<rparr>"
    "nrf_wifi_radio_test_set_tx_pkt_num v s = (0, t) \<Longrightarrow> rp t = (rp s)\<lparr>tx_pkt_num := v\<rparr>"
    "nrf_wifi_radio_test_set_tx_pkt_len K v s = (0, t) \<Longrightarrow> rp t = (rp s)\<lparr>tx_pkt_len := v\<rparr>"
    "nrf_wifi_radio_test_set_tx_power K v s = (0, t) \<Longrightarrow> rp t = (rp s)\<lparr>rt_tx_power := v\<rparr>"
    "nrf_wifi_radio_test_set_ru_tone v s = (0, t) \<Longrightarrow> rp t = (rp s)\<lparr>ru_tone := v\<rparr>"
    "nrf_wifi_radio_test_set_ru_index v s = (0, t) \<Longrightarrow> rp t = (rp s)\<lparr>ru_index := v\<rparr>"
    "nrf_wifi_radio_test_set_rx_capture_length v s = (0, t) \<Longrightarrow> rp t = (rp s)\<lparr>capture_length := v\<rparr>"
    "nrf_wifi_radio_test_set_rx_lna_gain v s = (0, t) \<Longrightarrow> rp t = (rp s)\<lparr>lna_gain := v\<rparr>"
    "nrf_wifi_radio_test_set_rx_bb_gain v s = (0, t) \<Longrightarrow> rp t = (rp s)\<lparr>bb_gain := v\<rparr>"
    "nrf_wifi_radio_test_set_tx_pkt_cw v s = (0, t) \<Longrightarrow> rp t = (rp s)\<lparr>tx_pkt_cw := v\<rparr>"
  by (auto simp: setter_defs split: if_splits)


lemma plain_stored:
  assumes "(name, h) \<in> set (plain_setters K)" and "h v s = (0, t)"
  shows "stored K name v (rp s) (rp t)"
proof -
  have "list_all (\<lambda>(n, h). h v s = (0, t) \<longrightarrow> stored K n v (rp s) (rp t)) (plain_setters K)"
    unfolding plain_setters_def list.pred_inject prod.case
    by (intro conjI impI TrueI) (simp_all add: plain_effects stored_fields)
  with assms show ?thesis by (auto simp: list_all_iff)
qed

lemma map_of_replace:
  "k \<in> set (map fst xs) \<Longrightarrow> map_of (map (\<lambda>(n, w). (n, if n = k then v else w)) xs) = (map_of xs)(k \<mapsto> v)"
proof -
  have "map_of (map (\<lambda>(n, w). (n, if n = k then v else w)) xs) x =
      (if x = k then (if k \<in> set (map fst xs) then Some v else None) else map_of xs x)" for x
    by (induction xs) (auto simp del: set_map simp: set_map [symmetric])
  then show "k \<in> set (map fst xs) \<Longrightarrow> ?thesis" by (simp add: fun_eq_iff)
qed

lemma no_defaults:
  assumes "\<not> sublist ''set_defaults'' name" and "list_all is_digit v"
  shows "\<not> param_get_match (name @ CHR ''='' # v) ''set_defaults''"
proof -
  have "\<not> sublist ''set_defaults'' v"
  proof
    assume "sublist ''set_defaults'' v"
    from set_sublistD [OF this, of "CHR ''s''"] assms(2) show False by (auto simp: list_all_iff is_digit_def)
  qed
  moreover have "\<not> (suffix xs name \<and> prefix ys (CHR ''='' # v) \<and> ''set_defaults'' = xs @ ys)" for xs ys
  proof (cases ys)
    case Nil
    with assms(1) show ?thesis by (auto dest: suffix_imp_sublist)
  next
    case (Cons y ys')
    have "CHR ''='' \<notin> set ''set_defaults''" by simp
    with Cons show ?thesis by (metis in_set_conv_decomp prefix_Cons list.distinct(1) list.sel(1))
  qed
  ultimately show ?thesis using assms(1)
    by (simp add: param_get_match_def strstr_None_iff sublist_append sublist_Cons_right) blast
qed


lemma write_plain:
  assumes "(name, h) \<in> set (plain_setters K)" and "list_all is_digit v" and "length v < 400"
    and "kstrtoul v = Some val" and "kstrtol v = Some val"
  shows "nrf_wifi_wlan_fmac_radio_test_conf_write K kstrtoul kstrtol e True True ((name @ CHR ''='' # v) @ [nl]) s =
    Ret (int (length name + length v) + 2, snd (h val s))"
proof -
  from plain_names [OF assms(1)] names_ok have name: "name_ok name" by (auto simp: list_all_iff)
  have v: "CHR ''='' \<notin> set v" "CHR 0x00 \<notin> set v"
    using assms(2) by (auto simp: list_all_iff is_digit_def)
  from plain_routes [OF assms(1), of e] obtain k g
    where g: "find (entry_for name) (rt_table K e) = Some (k, g)" "run_handler g val s = Ret (h val s)" by blast
  have "\<not> param_get_match (name @ CHR ''='' # v) ''set_defaults''"
    using name assms(2) by (intro no_defaults) (simp_all add: name_ok_def)
  with g chain_line [of name v kstrtoul val kstrtol, OF _ _ assms(4,5) good_keys] v name
  have "rt_dispatch K kstrtoul kstrtol e count (name @ CHR ''='' # v) s = Ret (count, snd (h val s))" for count
    by (simp add: rt_dispatch_def name_ok_def split_def)
  then show ?thesis using name v assms(3) by (subst write_line) (auto simp: name_ok_def)
qed

lemma disp_stored:
  assumes "stored K name val p q" and "nrf_wifi_wlan_fmac_radio_test_conf_disp K p = Ret (0, out)"
  shows "\<exists>out'. nrf_wifi_wlan_fmac_radio_test_conf_disp K q = Ret (0, out')
    \<and> map_of (read_text out') = (map_of (read_text out))(name \<mapsto> show_d val)"
proof -
  from assms obtain out' where out': "nrf_wifi_wlan_fmac_radio_test_conf_disp K q = Ret (0, out')"
    by (auto simp: nrf_wifi_wlan_fmac_radio_test_conf_disp_def stored_def split: if_splits)
  have eq: "shown K p = param_lines K p @ read_text (reg_lines p)" for p
    by (simp add: shown_def param_lines_def)
  have "map_of (shown K q) = (map_of (shown K p))(name \<mapsto> show_d val)"
    using assms(1) map_of_replace [of name "param_lines K p" "show_d val"] unfolding eq stored_def map_of_append
    by simp
  with out' disp_read [OF assms(2)] disp_read [OF out'] show ?thesis by simp
qed



text \<open>A rate of 5 is never accepted, so that its special line is never shown; the rate 5.5 is written and shown as 55.\<close>

lemma rate_5_refused: "\<not> check_valid_data_rate K mode nss 5" and rate_55_accepted: "check_valid_data_rate K mode nss 55"
  by (simp_all add: check_valid_data_rate_def legacy_rates_def)


subsection \<open>The directory of the radio test image\<close>

definition nrf_wifi_wlan_fmac_dbgfs_radio_test_conf_deinit :: "dbgfs \<Rightarrow> dbgfs outcome" where
  "nrf_wifi_wlan_fmac_dbgfs_radio_test_conf_deinit s =
     (if dbgfs_wlan_conf_root s \<noteq> NoDentry then debugfs_remove (dbgfs_wlan_conf_root s) s else Ret s)"

definition nrf_wifi_wlan_fmac_dbgfs_radio_test_conf_init :: "made \<Rightarrow> dptr \<Rightarrow> dbgfs \<Rightarrow> (int \<times> dbgfs) outcome" where
  "nrf_wifi_wlan_fmac_dbgfs_radio_test_conf_init answer root s =
     (if root = NoDentry then and_then (nrf_wifi_wlan_fmac_dbgfs_radio_test_conf_deinit s) (\<lambda>s. Ret (-EINVAL, s)) else
      let (p, s) = debugfs_create answer ''conf'' root s; s = s\<lparr>dbgfs_wlan_conf_root := p\<rparr> in
      if p = NoDentry then and_then (nrf_wifi_wlan_fmac_dbgfs_radio_test_conf_deinit s) (\<lambda>s. Ret (-ENOMEM, s))
      else Ret (0, s))"

definition nrf_wifi_wlan_fmac_dbgfs_radio_test_deinit :: "dbgfs \<Rightarrow> dbgfs outcome" where
  "nrf_wifi_wlan_fmac_dbgfs_radio_test_deinit s =
     and_then (if dbgfs_wlan_root s \<noteq> NoDentry then debugfs_remove (dbgfs_wlan_root s) s else Ret s)
       (\<lambda>s. Ret (s\<lparr>dbgfs_wlan_root := NoDentry\<rparr>))"

text \<open>The end of the creation: with an error everything is removed.\<close>

definition radio_test_out :: "int \<Rightarrow> int \<Rightarrow> dbgfs \<Rightarrow> (int \<times> dbgfs) outcome" where
  "radio_test_out SUCCESS status s =
     (if status \<noteq> SUCCESS then and_then (nrf_wifi_wlan_fmac_dbgfs_radio_test_deinit s) (\<lambda>s. Ret (status, s))
      else Ret (status, s))"

definition nrf_wifi_wlan_fmac_dbgfs_radio_test_init ::
  "int \<Rightarrow> int \<Rightarrow> (string \<Rightarrow> made) \<Rightarrow> dptr \<Rightarrow> dbgfs \<Rightarrow> (int \<times> dbgfs) outcome" where
  "nrf_wifi_wlan_fmac_dbgfs_radio_test_init SUCCESS FAIL answer dbgfs_root s =
     (let (root, s) = debugfs_create (answer ''wifi'') ''wifi'' dbgfs_root s; s = s\<lparr>dbgfs_wlan_root := root\<rparr> in
      if root = NoDentry then radio_test_out SUCCESS FAIL s
      else
        and_then (nrf_wifi_wlan_fmac_dbgfs_radio_test_conf_init (answer ''conf'') root s) (\<lambda>(status, s).
        if status \<noteq> SUCCESS then radio_test_out SUCCESS status s
        else
          and_then (nrf_wifi_wlan_fmac_dbgfs_stats_init (answer ''stats'') root s) (\<lambda>(status, s).
          radio_test_out SUCCESS status s)))"

text \<open>Both directories are removed in the same way, so that the contract of a file carries over.\<close>

lemma radio_deinit_same: "nrf_wifi_wlan_fmac_dbgfs_radio_test_deinit s = nrf_wifi_wlan_fmac_dbgfs_deinit s"
  by (simp add: nrf_wifi_wlan_fmac_dbgfs_radio_test_deinit_def nrf_wifi_wlan_fmac_dbgfs_deinit_def debugfs_remove_def)

interpretation radio_conf_file: dbgfs_file "''conf''" nrf_wifi_wlan_fmac_dbgfs_radio_test_conf_init
  by unfold_locales
    (auto simp: nrf_wifi_wlan_fmac_dbgfs_radio_test_conf_init_def nrf_wifi_wlan_fmac_dbgfs_radio_test_conf_deinit_def file_defs)

lemma radio_init_steps:
  "nrf_wifi_wlan_fmac_dbgfs_radio_test_init 0 FAIL answer dbgfs_root s =
     (let (root, s) = debugfs_create (answer ''wifi'') ''wifi'' dbgfs_root s; s = s\<lparr>dbgfs_wlan_root := root\<rparr> in
      if root = NoDentry then radio_test_out 0 FAIL s
      else
        init_step 0 (nrf_wifi_wlan_fmac_dbgfs_radio_test_conf_init (answer ''conf'') root s) (\<lambda>s.
        init_step 0 (nrf_wifi_wlan_fmac_dbgfs_stats_init (answer ''stats'') root s) (\<lambda>s. Ret (0, s))))"
proof -
  have out: "radio_test_out 0 status s =
      (if status = 0 then Ret (0, s) else and_then (nrf_wifi_wlan_fmac_dbgfs_deinit s) (\<lambda>s. Ret (status, s)))" for status s
    by (simp add: radio_test_out_def radio_deinit_same)
  have last: "and_then r (\<lambda>(status, s). radio_test_out 0 status s) = init_step 0 r (\<lambda>s. Ret (0, s))" for r
    by (cases r) (auto simp: init_step_def out)
  have first: "and_then r (\<lambda>(status, s). if status \<noteq> 0 then radio_test_out 0 status s else rest s) = init_step 0 r rest" for r rest
    by (cases r) (auto simp: init_step_def out)
  show ?thesis by (simp only: nrf_wifi_wlan_fmac_dbgfs_radio_test_init_def last first)
qed

definition radio_files :: "string list" where
  "radio_files = [''conf'', ''stats'']"

text \<open>
  The directory of the radio test image is created with exactly its two files, or not at all, and
  removing it restores the tree.
\<close>

lemma radio_init_all_or_nothing:
  assumes "fs_wf s" and "\<forall>f. answer f \<noteq> Errs" and "dbgfs_root = Dentry d" and "FAIL \<noteq> 0"
  shows "\<exists>status t u. nrf_wifi_wlan_fmac_dbgfs_radio_test_init 0 FAIL answer dbgfs_root s = Ret (status, t)
    \<and> (status = 0 \<longleftrightarrow> list_all (\<lambda>f. answer f = Fresh) (''wifi'' # radio_files))
    \<and> (if status = 0 then inside (Some d) radio_files s t else entries t = entries s)
    \<and> nrf_wifi_wlan_fmac_dbgfs_radio_test_deinit t = Ret u \<and> entries u = entries s"
proof (cases "answer ''wifi''")
  case Nulls
  with assms(3,4) show ?thesis
    by (simp add: radio_init_steps radio_test_out_def nrf_wifi_wlan_fmac_dbgfs_radio_test_deinit_def debugfs_create_def)
next
  case Errs
  with assms(2) show ?thesis by blast
next
  case Fresh
  let ?k = "next_entry s"
  let ?t = "s\<lparr>entries := (?k, Some d, ''wifi'') # entries s, next_entry := Suc ?k, dbgfs_wlan_root := Dentry ?k\<rparr>"
  have start: "inside (Some d) [] s ?t" by (simp add: inside_def)
  have last: "init_result radio_files (Some d) s (answer ''stats'' = Fresh) (init_step 0
      (nrf_wifi_wlan_fmac_dbgfs_stats_init (answer ''stats'') (Dentry ?k) u) (\<lambda>s. Ret (0, s)))"
    if "inside (Some d) [''conf''] s u" for u
    using stats_file.step [OF assms(1) that, where ok = True and files = radio_files and answer = "answer ''stats''"
        and rest = "\<lambda>s. Ret (0, s)"] assms(2)
    by (simp add: init_result_def radio_files_def)
  have steps: "init_result radio_files (Some d) s (answer ''conf'' = Fresh \<and> answer ''stats'' = Fresh)
      (nrf_wifi_wlan_fmac_dbgfs_radio_test_init 0 FAIL answer dbgfs_root s)"
    unfolding radio_init_steps debugfs_create_def Fresh assms(3)
    using start last assms(2) by (auto intro!: radio_conf_file.step [OF assms(1)])
  have all_fresh: "(answer ''conf'' = Fresh \<and> answer ''stats'' = Fresh)
      = list_all (\<lambda>f. answer f = Fresh) (''wifi'' # radio_files)"
    using Fresh by (simp add: radio_files_def)
  from init_result_removed [OF assms(1) steps [unfolded all_fresh]] show ?thesis unfolding radio_deinit_same .
qed

text \<open>The pointer to the parameter file is not cleared when its removal is asked for, so that a second removal uses a freed entry.\<close>

lemma radio_conf_pointer_stale:
  "\<exists>t u. nrf_wifi_wlan_fmac_dbgfs_radio_test_conf_init Fresh (Dentry 0) sample_fs = Ret (0, t)
    \<and> nrf_wifi_wlan_fmac_dbgfs_radio_test_conf_deinit t = Ret u
    \<and> nrf_wifi_wlan_fmac_dbgfs_radio_test_conf_deinit u = UB UseAfterFree"
  by (simp add: sample_fs_def nrf_wifi_wlan_fmac_dbgfs_radio_test_conf_init_def debugfs_create_def
      nrf_wifi_wlan_fmac_dbgfs_radio_test_conf_deinit_def debugfs_remove_def)

end
